(* ===== verification/Prelude.thy ===== *)
theory Prelude
  imports Main "HOL-Library.Word" "HOL-Library.Char_ord" "HOL-Library.List_Lexorder"
    "HOL-Library.Code_Target_Nat"
begin

text \<open>
  Shared vocabulary of the development: identifiers and instants, the Python string
  operations the code calls, the exceptions its functions raise, the table operations that
  stand for the SQL statements it emits, and the lemma collections the component theories
  extend.
\<close>

section \<open>Identifiers, instants and results\<close>

text \<open>
  \<^verbatim>\<open>uuid.UUID\<close> is a 128-bit value, compared as an unsigned number both by Python and by
  PostgreSQL. A timezone-aware \<^verbatim>\<open>datetime\<close> is the number of microseconds since the epoch
  (its resolution); \<^verbatim>\<open>timedelta\<close> values are differences of such numbers.
\<close>

type_synonym uuid = "128 word"
type_synonym instant = int

definition seconds :: "int \<Rightarrow> int" where
  "seconds n = n * 1000000"

definition minutes :: "int \<Rightarrow> int" where
  "minutes n = seconds (n * 60)"

definition hours :: "int \<Rightarrow> int" where
  "hours n = minutes (n * 60)"

definition days :: "int \<Rightarrow> int" where
  "days n = hours (n * 24)"

text \<open>
  The exceptions of the program. A message is kept where the code forwards it to a caller
  (\<^verbatim>\<open>detail=str(exc)\<close>); it is written in ASCII, without accents. \<open>HTTPException\<close> carries the
  status code and the detail.
\<close>

datatype exn =
    TenantContextError
  | ValueError string
  | AttributeError
  | KeyError string
  | TypeError
  | TransportError string
  | ProvisioningError string
  | DirectoryError string
  | AuthError string
  | HTTPException nat string
  | IntegrityError
  | NoResultFound
  | CryptoError
  | OAuthLoginError string
  | GatewayError string
  | ProviderUnavailable string
  | PolicyError string
  | ConnectorError string
  | InvalidGrantError string
  | MissingRefreshTokenError string
  | ProviderResponseError nat "int option"
  | ThrottleUnavailable string
  | HTTPError string
  | ConnectorCallError string
  | ConnectorOAuthError string
  | CapabilityError string
  | UnsupportedCapabilityError string
  | UnknownProviderError string
  | ModuleRegistryError string
  | ModuleError string
  | SampleDigestError string
  | KVResponseError

type_synonym 'a result = "exn + 'a"

definition is_ok :: "'a result \<Rightarrow> bool" where
  "is_ok r = (case r of Inl _ \<Rightarrow> False | Inr _ \<Rightarrow> True)"

lemma is_ok_simps [simp]: "is_ok (Inr x)" "\<not> is_ok (Inl e)"
  by (simp_all add: is_ok_def)

lemma is_ok_iff: "is_ok r \<longleftrightarrow> (\<exists>x. r = Inr x)"
  by (cases r) auto

named_theorems handler_simps \<open>unfolding rules of the request handlers\<close>
named_theorems table_simps \<open>lookups after inserts, updates and deletes\<close>

section \<open>Python strings\<close>

text \<open>
  Strings are lists of 8-bit characters. The code compares, splits and lower-cases ASCII
  material (host names, slugs, permission names, email addresses).
\<close>

definition is_lower :: "char \<Rightarrow> bool" where
  "is_lower c = (CHR ''a'' \<le> c \<and> c \<le> CHR ''z'')"

definition is_upper :: "char \<Rightarrow> bool" where
  "is_upper c = (CHR ''A'' \<le> c \<and> c \<le> CHR ''Z'')"

definition is_digit :: "char \<Rightarrow> bool" where
  "is_digit c = (CHR ''0'' \<le> c \<and> c \<le> CHR ''9'')"

definition lower_char :: "char \<Rightarrow> char" where
  "lower_char c = (if is_upper c then char_of (of_char c + 32 :: nat) else c)"

definition py_lower :: "string \<Rightarrow> string" where
  "py_lower s = map lower_char s"

definition is_space :: "char \<Rightarrow> bool" where
  "is_space c = (c = CHR '' '' \<or> (CHR 0x09 \<le> c \<and> c \<le> CHR 0x0D) \<or> (CHR 0x1C \<le> c \<and> c \<le> CHR 0x1F))"

definition py_strip :: "string \<Rightarrow> string" where
  "py_strip s = rev (dropWhile is_space (rev (dropWhile is_space s)))"

definition before_first :: "char \<Rightarrow> string \<Rightarrow> string" where
  \<comment> \<open>\<^verbatim>\<open>s.split(c, 1)[0]\<close>\<close>
  "before_first c s = takeWhile (\<lambda>x. x \<noteq> c) s"

fun py_split :: "char \<Rightarrow> string \<Rightarrow> string list" where
  "py_split c [] = [[]]"
| "py_split c (x # xs) =
     (if x = c then [] # py_split c xs
      else (case py_split c xs of [] \<Rightarrow> [[x]] | w # ws \<Rightarrow> (x # w) # ws))"

definition startswith :: "string \<Rightarrow> string \<Rightarrow> bool" where
  \<comment> \<open>\<^verbatim>\<open>s.startswith(p)\<close>\<close>
  "startswith s p = (take (length p) s = p)"

definition endswith :: "string \<Rightarrow> string \<Rightarrow> bool" where
  \<comment> \<open>\<^verbatim>\<open>s.endswith(p)\<close>\<close>
  "endswith s p = startswith (rev s) (rev p)"

lemma startswith_iff: "startswith s p \<longleftrightarrow> (\<exists>r. s = p @ r)"
  by (metis append_eq_conv_conj append_take_drop_id startswith_def)

lemma endswith_iff: "endswith s p \<longleftrightarrow> (\<exists>r. s = r @ p)"
proof -
  have "endswith s p \<longleftrightarrow> (\<exists>r. rev s = rev p @ r)"
    by (simp add: endswith_def startswith_iff)
  also have "\<dots> \<longleftrightarrow> (\<exists>r. s = r @ p)"
    by (metis rev_append rev_rev_ident)
  finally show ?thesis .
qed

lemma py_split_nonempty [simp]: "py_split c s \<noteq> []"
  by (induction s) (auto split: list.splits)

lemma hd_py_split: "hd (py_split c s) = before_first c s"
  by (induction s) (auto simp: before_first_def split: list.splits)

lemma length_py_split: "length (py_split c s) = Suc (count_list s c)"
proof (induction s)
  case (Cons x xs)
  then show ?case by (cases "py_split c xs") auto
qed simp

lemma before_first_notin [simp]: "c \<notin> set (before_first c s)"
  by (auto simp: before_first_def dest: set_takeWhileD)

lemma before_first_append [simp]: "before_first c (s @ c # r) = before_first c s"
  by (induction s) (auto simp: before_first_def)

lemma before_first_id [simp]: "c \<notin> set s \<Longrightarrow> before_first c s = s"
  by (auto simp: before_first_def takeWhile_eq_all_conv)

lemma before_first_split: "c \<in> set s \<Longrightarrow> \<exists>r. s = before_first c s @ c # r"
  by (induction s) (auto simp: before_first_def)

lemma lower_char_idem [simp]: "lower_char (lower_char c) = lower_char c"
proof (cases "is_upper c")
  case True
  then have b: "65 \<le> (of_char c :: nat)" "(of_char c :: nat) \<le> 90"
    by (auto simp: is_upper_def less_eq_char_def)
  then have "(of_char (lower_char c) :: nat) = of_char c + 32"
    using True by (simp add: lower_char_def)
  with b have "\<not> is_upper (lower_char c)"
    by (auto simp: is_upper_def less_eq_char_def)
  then show ?thesis by (simp add: lower_char_def)
qed (simp add: lower_char_def)

lemma py_lower_idem [simp]: "py_lower (py_lower s) = py_lower s"
  by (simp add: py_lower_def)

section \<open>JSON values and printed identifiers\<close>

text \<open>
  A JSON document (\<^verbatim>\<open>dict[str, Any]\<close> payloads). Objects keep the order of their keys, as
  Python dictionaries do.
\<close>

datatype json =
    JNull
  | JBool bool
  | JInt int
  | JStr string
  | JList "json list"
  | JObj "(string \<times> json) list"

definition json_get :: "(string \<times> json) list \<Rightarrow> string \<Rightarrow> json option" where
  "json_get kvs k = map_of kvs k"

definition json_opt_str :: "string option \<Rightarrow> json" where
  "json_opt_str v = (case v of None \<Rightarrow> JNull | Some x \<Rightarrow> JStr x)"

text \<open>\<^verbatim>\<open>str(uuid)\<close>: 32 hexadecimal digits in five groups.\<close>

definition hex_char :: "nat \<Rightarrow> char" where
  "hex_char n = ''0123456789abcdef'' ! (n mod 16)"

fun hex_digits :: "nat \<Rightarrow> nat \<Rightarrow> string" where
  "hex_digits 0 n = []"
| "hex_digits (Suc k) n = hex_digits k (n div 16) @ [hex_char n]"

definition str_uuid :: "uuid \<Rightarrow> string" where
  "str_uuid u =
     (let h = hex_digits 32 (unat u)
      in take 8 h @ ''-'' @ take 4 (drop 8 h) @ ''-'' @ take 4 (drop 12 h) @ ''-''
         @ take 4 (drop 16 h) @ ''-'' @ drop 20 h)"

lemma length_hex_digits [simp]: "length (hex_digits k n) = k"
  by (induction k arbitrary: n) auto

lemma hex_char_inj: "hex_char m = hex_char n \<Longrightarrow> m mod 16 = n mod 16"
proof -
  assume eq: "hex_char m = hex_char n"
  have "distinct ''0123456789abcdef''" by simp
  moreover have "m mod 16 < length ''0123456789abcdef''" "n mod 16 < length ''0123456789abcdef''"
    by simp_all
  ultimately show ?thesis
    using eq nth_eq_iff_index_eq unfolding hex_char_def by blast
qed

lemma hex_digits_inj:
  "hex_digits k m = hex_digits k n \<Longrightarrow> m < 16 ^ k \<Longrightarrow> n < 16 ^ k \<Longrightarrow> m = n"
proof (induction k arbitrary: m n)
  case (Suc k)
  from Suc.prems(2,3) have "m div 16 < 16 ^ k" "n div 16 < 16 ^ k"
    by (simp_all add: less_mult_imp_div_less mult.commute)
  moreover from Suc.prems(1) have "hex_digits k (m div 16) = hex_digits k (n div 16)" by simp
  ultimately have "m div 16 = n div 16" by (rule Suc.IH [rotated 1])
  moreover from Suc.prems(1) have "hex_char m = hex_char n" by simp
  then have "m mod 16 = n mod 16" by (rule hex_char_inj)
  ultimately show ?case by (metis div_mult_mod_eq)
qed simp

lemma split_8_4_4_4:
  "take 8 h @ take 4 (drop 8 h) @ take 4 (drop 12 h) @ take 4 (drop 16 h) @ drop 20 h = h"
proof -
  have "take 4 (drop 16 h) @ drop 20 h = drop 16 h"
    using append_take_drop_id [of 4 "drop 16 h"] by simp
  moreover have "take 4 (drop 12 h) @ drop 16 h = drop 12 h"
    using append_take_drop_id [of 4 "drop 12 h"] by simp
  moreover have "take 4 (drop 8 h) @ drop 12 h = drop 8 h"
    using append_take_drop_id [of 4 "drop 8 h"] by simp
  ultimately show ?thesis by simp
qed

lemma str_uuid_inj: "str_uuid u = str_uuid v \<Longrightarrow> u = v"
proof -
  assume eq: "str_uuid u = str_uuid v"
  define h where "h = hex_digits 32 (unat u)"
  define k where "k = hex_digits 32 (unat v)"
  have len: "length h = 32" "length k = 32"
    unfolding h_def k_def by (rule length_hex_digits)+
  from eq have "take 8 h = take 8 k \<and> take 4 (drop 8 h) = take 4 (drop 8 k)
      \<and> take 4 (drop 12 h) = take 4 (drop 12 k) \<and> take 4 (drop 16 h) = take 4 (drop 16 k)
      \<and> drop 20 h = drop 20 k"
    unfolding str_uuid_def Let_def h_def [symmetric] k_def [symmetric] using len by simp
  then have "h = k"
    using split_8_4_4_4 [of h] split_8_4_4_4 [of k] by argo
  moreover have "unat w < 16 ^ 32" for w :: uuid
    using unsigned_less [of w, where ?'a = nat] by simp
  ultimately have "unat u = unat v"
    unfolding h_def k_def by (blast intro: hex_digits_inj)
  then show ?thesis by (rule unsigned_word_eqI)
qed

section \<open>Tables\<close>

text \<open>
  A table is the list of its rows in insertion order. \<^verbatim>\<open>session.scalar(select(...).where(p))\<close>
  is the library's \<^const>\<open>List.find\<close>, \<^verbatim>\<open>session.scalars(...).all()\<close> is \<^const>\<open>filter\<close>, and the
  two statements that write are the following.
\<close>

definition update_where :: "('r \<Rightarrow> bool) \<Rightarrow> ('r \<Rightarrow> 'r) \<Rightarrow> 'r list \<Rightarrow> 'r list" where
  "update_where p f rs = map (\<lambda>r. if p r then f r else r) rs"

definition delete_where :: "('r \<Rightarrow> bool) \<Rightarrow> 'r list \<Rightarrow> 'r list" where
  "delete_where p rs = filter (\<lambda>r. \<not> p r) rs"

definition insert_row :: "'r \<Rightarrow> 'r list \<Rightarrow> 'r list" where
  "insert_row r rs = rs @ [r]"

lemma set_insert_row [simp]: "set (insert_row r rs) = insert r (set rs)"
  by (simp add: insert_row_def)

lemma set_delete_where [simp]: "set (delete_where p rs) = {r \<in> set rs. \<not> p r}"
  by (auto simp: delete_where_def)

lemma set_update_where: "set (update_where p f rs) = (\<lambda>r. if p r then f r else r) ` set rs"
  by (simp add: update_where_def)

lemma length_update_where [simp]: "length (update_where p f rs) = length rs"
  by (simp add: update_where_def)

lemma filter_insert_row [table_simps]:
  "filter q (insert_row r rs) = filter q rs @ (if q r then [r] else [])"
  by (simp add: insert_row_def)

lemma filter_delete_where_same [table_simps]:
  "(\<And>r. q r \<Longrightarrow> \<not> p r) \<Longrightarrow> filter q (delete_where p rs) = filter q rs"
  by (induction rs) (auto simp: delete_where_def)

lemma filter_delete_where_commute:
  "filter q (delete_where p rs) = delete_where p (filter q rs)"
  by (induction rs) (auto simp: delete_where_def)

lemma filter_update_where_same [table_simps]:
  "(\<And>r. p r \<Longrightarrow> \<not> q r) \<Longrightarrow> (\<And>r. p r \<Longrightarrow> \<not> q (f r)) \<Longrightarrow>
   filter q (update_where p f rs) = filter q rs"
  by (induction rs) (auto simp: update_where_def)

lemma filter_update_where_commute:
  "(\<And>r. q (f r) = q r) \<Longrightarrow> filter q (update_where p f rs) = update_where p f (filter q rs)"
  by (induction rs) (auto simp: update_where_def)

lemma map_update_where_key:
  "(\<And>r. k (f r) = k r) \<Longrightarrow> map k (update_where p f rs) = map k rs"
  by (induction rs) (auto simp: update_where_def)

lemma distinct_map_delete_where:
  "distinct (map k rs) \<Longrightarrow> distinct (map k (delete_where p rs))"
  by (simp add: delete_where_def distinct_map_filter)

lemma find_insert_row [table_simps]:
  "List.find q (insert_row r rs) =
     (case List.find q rs of Some x \<Rightarrow> Some x | None \<Rightarrow> if q r then Some r else None)"
  by (induction rs) (auto simp: insert_row_def)

lemma find_eq_Some_D: "List.find p xs = Some x \<Longrightarrow> x \<in> set xs \<and> p x"
  by (auto simp: find_Some_iff in_set_conv_nth)

lemma find_eq_None_iff: "List.find p xs = None \<longleftrightarrow> (\<forall>x\<in>set xs. \<not> p x)"
  by (auto simp: find_None_iff)

lemma find_cong_filter: "List.find p xs = (case filter p xs of [] \<Rightarrow> None | x # _ \<Rightarrow> Some x)"
  by (induction xs) auto

lemma notin_image_key: "k \<notin> f ` A \<Longrightarrow> \<forall>x\<in>A. f x \<noteq> k"
  by (metis imageI)

lemma find_filter: "List.find p (filter q xs) = List.find (\<lambda>x. q x \<and> p x) xs"
  by (induction xs) auto

lemma find_delete_where_same [table_simps]:
  "(\<And>r. q r \<Longrightarrow> \<not> p r) \<Longrightarrow> List.find q (delete_where p rs) = List.find q rs"
  by (induction rs) (auto simp: delete_where_def)

lemma filter_key_unique:
  assumes "distinct (map k xs)" and "x \<in> set xs" and "p x"
    and "\<And>y. y \<in> set xs \<Longrightarrow> p y \<Longrightarrow> k y = k x"
  shows "filter p xs = [x]"
proof -
  have inj: "inj_on k (set xs)" and dist: "distinct xs"
    using assms(1) by (simp_all add: distinct_map)
  have "\<And>y. y \<in> set xs \<Longrightarrow> p y \<longleftrightarrow> y = x"
    using assms inj by (meson inj_onD)
  then have "filter p xs = filter (\<lambda>y. y = x) xs"
    by (simp cong: filter_cong)
  also have "\<dots> = [x]"
    using dist assms(2) by (induction xs) (auto simp: filter_empty_conv)
  finally show ?thesis .
qed

lemma find_unique:
  assumes "distinct (map k xs)" and "x \<in> set xs" and "p x"
    and "\<And>y. y \<in> set xs \<Longrightarrow> p y \<Longrightarrow> k y = k x"
  shows "List.find p xs = Some x"
  using filter_key_unique [of k xs x p, OF assms] by (simp add: find_cong_filter)

lemma find_update_where [table_simps]:
  "(\<And>r. q (f r) = q r) \<Longrightarrow>
   List.find q (update_where p f rs) = map_option (\<lambda>r. if p r then f r else r) (List.find q rs)"
  by (induction rs) (auto simp: update_where_def)

lemma length_filter_map_le:
  "(\<And>x. x \<in> set xs \<Longrightarrow> p x \<Longrightarrow> p (f x)) \<Longrightarrow> length (filter p xs) \<le> length (filter p (map f xs))"
proof (induction xs)
  case (Cons x xs)
  then have "length (filter p xs) \<le> length (filter p (map f xs))" by simp
  then show ?case using Cons.prems [of x] by (cases "p x") auto
qed simp

lemma two_in_filter:
  assumes "distinct xs" "1 < length (filter p xs)"
  shows "\<exists>x\<in>set xs. p x \<and> x \<noteq> y"
proof (rule ccontr)
  assume "\<not> ?thesis"
  then have "set (filter p xs) \<subseteq> {y}" by auto
  then have "card (set (filter p xs)) \<le> 1" using card_mono [of "{y}"] by fastforce
  with assms distinct_card [of "filter p xs"] show False by simp
qed

lemma filter_length_pos: "x \<in> set xs \<Longrightarrow> p x \<Longrightarrow> 1 \<le> length (filter p xs)"
  by (induction xs) auto

section \<open>Runs of operations\<close>

text \<open>
  Several components promise that a state, once reached, cannot be left whatever operations
  follow (a revoked session, a consumed challenge, a used recovery code). The promise is one
  law per operation; that it holds along every sequence is proved here once.
\<close>

locale absorbing =
  fixes step :: "'op \<Rightarrow> 's \<Rightarrow> 's" and admissible :: "'op \<Rightarrow> bool" and dead :: "'s \<Rightarrow> bool"
  assumes step_dead: "dead s \<Longrightarrow> admissible op \<Longrightarrow> dead (step op s)"
begin

lemma run_dead: "dead s \<Longrightarrow> list_all admissible ops \<Longrightarrow> dead (fold step ops s)"
  by (induction ops arbitrary: s) (auto intro: step_dead)

end

text \<open>
  A component refines an abstract one when every concrete step, from related states, is matched by
  the abstract step of the same operation; then so is every sequence of steps.
\<close>

locale simulation =
  fixes cstep :: "'op \<Rightarrow> 'c \<Rightarrow> 'c" and astep :: "'op \<Rightarrow> 'a \<Rightarrow> 'a"
    and admissible :: "'op \<Rightarrow> bool" and related :: "'a \<Rightarrow> 'c \<Rightarrow> bool"
  assumes step_related: "related a c \<Longrightarrow> admissible op \<Longrightarrow> related (astep op a) (cstep op c)"
begin

lemma run_related:
  "related a c \<Longrightarrow> list_all admissible ops \<Longrightarrow> related (fold astep ops a) (fold cstep ops c)"
  by (induction ops arbitrary: a c) (auto intro: step_related)

end

end
