(* ===== verification/Schema.thy ===== *)
theory Schema
  imports Prelude
begin

text \<open>
  The rows of the single PostgreSQL database and the constraints its tables declare
  (\<^verbatim>\<open>models.py\<close>, \<^verbatim>\<open>tenant_models.py\<close> and the baseline migration). A row is a record with
  the columns the code reads or writes; \<^verbatim>\<open>created_at\<close> is kept where a query orders by it,
  \<^verbatim>\<open>updated_at\<close> (never read) is left out.
\<close>

text \<open>A Python \<^verbatim>\<open>bytes\<close> value: the list of its octets, a \<^typ>\<open>char\<close> each.\<close>

type_synonym bytes = string

section \<open>Catalogue, identities and credentials (tables without a tenant scope)\<close>

datatype tenant_state = T_ACTIVE | T_SUSPENDED

record tenant =
  t_id :: uuid
  t_slug :: string
  t_name :: string
  t_state :: tenant_state
  t_plan :: string
  t_deleted_at :: "instant option"

record user =
  u_id :: uuid
  u_email :: string
  u_display_name :: "string option"

record membership =
  m_id :: uuid
  m_user_id :: uuid
  m_tenant_id :: uuid
  m_role :: string

record user_credentials =
  uc_user_id :: uuid
  uc_password_hash :: "string option"
  uc_totp_secret_encrypted :: "bytes option"
  uc_totp_enabled :: bool
  uc_totp_last_counter :: "int option"

record recovery_code =
  rc_id :: uuid
  rc_user_id :: uuid
  rc_code_hash :: string
  rc_used_at :: "instant option"

record auth_session =
  s_id :: uuid
  s_user_id :: uuid
  s_token_hash :: string
  s_expires_at :: instant
  s_last_seen_at :: instant
  s_revoked_at :: "instant option"

record login_challenge =
  lc_id :: uuid
  lc_user_id :: uuid
  lc_token_hash :: string
  lc_expires_at :: instant
  lc_consumed_at :: "instant option"

datatype oauth_provider = O_GOOGLE | O_MICROSOFT

record oauth_identity =
  oi_id :: uuid
  oi_provider :: oauth_provider
  oi_subject :: string
  oi_user_id :: uuid

record invitation =
  inv_id :: uuid
  inv_email :: string
  inv_tenant_id :: uuid
  inv_role :: string
  inv_token_hash :: string
  inv_expires_at :: instant
  inv_accepted_at :: "instant option"
  inv_invited_by_user_id :: "uuid option"
  inv_created_at :: instant

section \<open>Tenant-scoped tables\<close>

record team =
  tm_id :: uuid
  tm_tenant_id :: uuid
  tm_name :: string
  tm_description :: "string option"

record team_member =
  tmm_id :: uuid
  tmm_tenant_id :: uuid
  tmm_team_id :: uuid
  tmm_user_id :: uuid

record audit_event =
  ae_id :: uuid
  ae_tenant_id :: uuid
  ae_occurred_at :: instant
  ae_actor_user_id :: "uuid option"
  ae_actor_label :: string
  ae_action :: string
  ae_resource_type :: string
  ae_resource_id :: string
  ae_payload :: "(string \<times> json) list"

section \<open>The database\<close>

record db =
  tenants :: "tenant list"
  users :: "user list"
  memberships :: "membership list"
  credentials :: "user_credentials list"
  recovery_codes :: "recovery_code list"
  sessions :: "auth_session list"
  login_challenges :: "login_challenge list"
  oauth_identities :: "oauth_identity list"
  invitations :: "invitation list"
  teams :: "team list"
  team_members :: "team_member list"
  audit_events :: "audit_event list"

definition empty_db :: db where
  "empty_db =
     \<lparr>tenants = [], users = [], memberships = [], credentials = [], recovery_codes = [],
      sessions = [], login_challenges = [], oauth_identities = [], invitations = [],
      teams = [], team_members = [], audit_events = []\<rparr>"

section \<open>Constraints declared by the migration\<close>

definition tenants_constraints :: "db \<Rightarrow> bool" where
  "tenants_constraints d \<longleftrightarrow> distinct (map t_id (tenants d)) \<and> distinct (map t_slug (tenants d))"

definition users_constraints :: "db \<Rightarrow> bool" where
  "users_constraints d \<longleftrightarrow>
     distinct (map u_id (users d)) \<and> distinct (map (\<lambda>u. py_lower (u_email u)) (users d))"

definition memberships_constraints :: "db \<Rightarrow> bool" where
  "memberships_constraints d \<longleftrightarrow>
     distinct (map m_id (memberships d)) \<and>
     distinct (map (\<lambda>m. (m_user_id m, m_tenant_id m)) (memberships d)) \<and>
     m_user_id ` set (memberships d) \<subseteq> u_id ` set (users d)"

definition credentials_constraints :: "db \<Rightarrow> bool" where
  "credentials_constraints d \<longleftrightarrow> distinct (map uc_user_id (credentials d))"

definition sessions_constraints :: "db \<Rightarrow> bool" where
  "sessions_constraints d \<longleftrightarrow>
     distinct (map s_id (sessions d)) \<and> distinct (map s_token_hash (sessions d))"

definition login_challenges_constraints :: "db \<Rightarrow> bool" where
  "login_challenges_constraints d \<longleftrightarrow>
     distinct (map lc_id (login_challenges d)) \<and> distinct (map lc_token_hash (login_challenges d))"

definition oauth_identities_constraints :: "db \<Rightarrow> bool" where
  "oauth_identities_constraints d \<longleftrightarrow>
     distinct (map (\<lambda>i. (oi_provider i, oi_subject i)) (oauth_identities d)) \<and>
     distinct (map (\<lambda>i. (oi_provider i, oi_user_id i)) (oauth_identities d))"

definition invitations_constraints :: "db \<Rightarrow> bool" where
  "invitations_constraints d \<longleftrightarrow>
     distinct (map inv_id (invitations d)) \<and> distinct (map inv_token_hash (invitations d))"

definition teams_constraints :: "db \<Rightarrow> bool" where
  "teams_constraints d \<longleftrightarrow>
     distinct (map tm_id (teams d)) \<and>
     distinct (map (\<lambda>t. (tm_tenant_id t, tm_name t)) (teams d))"

definition team_members_constraints :: "db \<Rightarrow> bool" where
  "team_members_constraints d \<longleftrightarrow>
     distinct (map (\<lambda>x. (tmm_team_id x, tmm_user_id x)) (team_members d))"

section \<open>The row store of one table\<close>

text \<open>
  What every component relies on of a table: reading it back after a write through the
  session, and that the write does not touch another table. The laws are those of a lens;
  the facts on lookups and keys are proved once here and instantiated per table.
\<close>

locale row_store =
  fixes rows :: "'s \<Rightarrow> 'r list"
    and modify :: "('r list \<Rightarrow> 'r list) \<Rightarrow> 's \<Rightarrow> 's"
    and key :: "'r \<Rightarrow> 'k"
  assumes rows_modify: "rows (modify f s) = f (rows s)"
    and modify_modify: "modify f (modify g s) = modify (f \<circ> g) s"
    and modify_id: "modify (\<lambda>rs. rs) s = s"
    and modify_cong: "f (rows s) = g (rows s) \<Longrightarrow> modify f s = modify g s"
begin

lemma lookup_after_insert:
  assumes "key r \<notin> key ` set (rows s)"
  shows "List.find (\<lambda>x. key x = key r) (rows (modify (insert_row r) s)) = Some r"
proof -
  have "List.find (\<lambda>x. key x = key r) (rows s) = None"
    using notin_image_key [OF assms] by (simp add: find_eq_None_iff)
  then show ?thesis by (simp add: rows_modify find_insert_row)
qed

lemma lookup_other_after_insert:
  assumes "key r \<noteq> k"
  shows "List.find (\<lambda>x. key x = k) (rows (modify (insert_row r) s)) =
         List.find (\<lambda>x. key x = k) (rows s)"
  using assms by (simp add: rows_modify find_insert_row split: option.split)

lemma lookup_after_delete:
  "List.find (\<lambda>x. key x = k) (rows (modify (delete_where (\<lambda>x. key x = k)) s)) = None"
  by (simp add: rows_modify find_eq_None_iff)

lemma distinct_after_insert:
  assumes "distinct (map key (rows s))" and "key r \<notin> key ` set (rows s)"
  shows "distinct (map key (rows (modify (insert_row r) s)))"
  using assms by (auto simp: rows_modify insert_row_def)

lemma distinct_after_delete:
  assumes "distinct (map key (rows s))"
  shows "distinct (map key (rows (modify (delete_where p) s)))"
  using assms by (simp add: rows_modify distinct_map_delete_where)

lemma distinct_after_update:
  assumes "distinct (map key (rows s))" and "\<And>r. key (f r) = key r"
  shows "distinct (map key (rows (modify (update_where p f) s)))"
  using assms by (simp add: rows_modify map_update_where_key)

lemma insert_then_delete:
  assumes "key r \<notin> key ` set (rows s)"
  shows "modify (delete_where (\<lambda>x. key x = key r)) (modify (insert_row r) s) = s"
proof -
  have "delete_where (\<lambda>x. key x = key r) (insert_row r (rows s)) = rows s"
    using notin_image_key [OF assms] by (simp add: delete_where_def insert_row_def filter_id_conv)
  then have "modify (delete_where (\<lambda>x. key x = key r) \<circ> insert_row r) s = modify (\<lambda>rs. rs) s"
    by (intro modify_cong) simp
  then show ?thesis by (simp add: modify_modify modify_id)
qed

end

interpretation tenants_tbl: row_store tenants tenants_update t_slug
  by unfold_locales (auto simp: comp_def)

interpretation users_tbl: row_store users users_update u_id
  by unfold_locales (auto simp: comp_def)

interpretation memberships_tbl:
  row_store memberships memberships_update "\<lambda>m. (m_user_id m, m_tenant_id m)"
  by unfold_locales (auto simp: comp_def)

interpretation sessions_tbl: row_store sessions sessions_update s_token_hash
  by unfold_locales (auto simp: comp_def)

interpretation challenges_tbl: row_store login_challenges login_challenges_update lc_token_hash
  by unfold_locales (auto simp: comp_def)

interpretation invitations_tbl: row_store invitations invitations_update inv_token_hash
  by unfold_locales (auto simp: comp_def)

interpretation teams_tbl: row_store teams teams_update tm_id
  by unfold_locales (auto simp: comp_def)

end
