(* ===== verification/Tenancy.thy ===== *)
theory Tenancy
  imports Schema
begin

text \<open>
  Tenant slugs (\<^verbatim>\<open>tenancy/models.py\<close>, \<^verbatim>\<open>tenancy/deps.py:extract_slug\<close>), the tenant context
  variable (\<^verbatim>\<open>tenancy/context.py\<close>) and the two session guards that scope every ORM statement
  to the tenant of that context (\<^verbatim>\<open>tenancy/tenant_base.py\<close>).
\<close>

section \<open>Slugs\<close>

definition slug_tail_char :: "char \<Rightarrow> bool" where
  "slug_tail_char c = (is_lower c \<or> is_digit c \<or> c = CHR ''-'')"

definition slug_fullmatch :: "string \<Rightarrow> bool" where
  \<comment> \<open>\<^verbatim>\<open>SLUG_RE.fullmatch(s)\<close>\<close>
  "slug_fullmatch s =
     (case s of [] \<Rightarrow> False
      | c # cs \<Rightarrow> is_lower c \<and> list_all slug_tail_char cs \<and> 1 \<le> length cs \<and> length cs \<le> 38)"

definition RESERVED_SLUGS :: "string list" where
  "RESERVED_SLUGS = [''www'', ''api'', ''admin'', ''app'', ''staging'', ''status'', ''grafana'']"

definition validate_slug :: "string \<Rightarrow> string result" where
  "validate_slug slug =
     (if \<not> slug_fullmatch slug then Inl (ValueError ''Slug invalide'')
      else if slug \<in> set RESERVED_SLUGS then Inl (ValueError ''Slug reserve par la plateforme'')
      else Inr slug)"

definition extract_slug :: "string \<Rightarrow> string option" where
  "extract_slug host_header =
     (let host = py_lower (py_strip (before_first (CHR '':'') host_header));
          labels = py_split (CHR ''.'') host
      in if length labels < 2 then None
         else let candidate = hd labels
              in if slug_fullmatch candidate then Some candidate else None)"

section \<open>The tenant context\<close>

record tenant_context =
  tc_tenant_id :: uuid
  tc_slug :: string
  tc_role :: "string option"

text \<open>
  The value of the \<^verbatim>\<open>ContextVar\<close> is passed explicitly. \<^verbatim>\<open>push_tenant\<close> returns the token that
  remembers the value it replaced, and \<^verbatim>\<open>pop_tenant\<close> restores it.
\<close>

type_synonym context_var = "tenant_context option"

definition current_tenant :: "context_var \<Rightarrow> tenant_context result" where
  "current_tenant cv = (case cv of None \<Rightarrow> Inl TenantContextError | Some ctx \<Rightarrow> Inr ctx)"

definition push_tenant :: "tenant_context \<Rightarrow> context_var \<Rightarrow> context_var \<times> context_var" where
  "push_tenant ctx cv = (cv, Some ctx)"

definition pop_tenant :: "context_var \<Rightarrow> context_var \<Rightarrow> context_var" where
  "pop_tenant token cv = token"

definition tenant_context_block ::
  "tenant_context \<Rightarrow> (context_var \<Rightarrow> 's \<Rightarrow> 'a result \<times> context_var \<times> 's) \<Rightarrow>
   context_var \<Rightarrow> 's \<Rightarrow> 'a result \<times> context_var \<times> 's" where
  \<comment> \<open>\<^verbatim>\<open>with tenant_context(ctx): body\<close>, the \<^verbatim>\<open>finally\<close> clause included\<close>
  "tenant_context_block ctx body cv s =
     (let (token, cv1) = push_tenant ctx cv;
          (r, cv2, s') = body cv1 s
      in (r, pop_tenant token cv2, s'))"

section \<open>The statement guard\<close>

text \<open>
  What \<^verbatim>\<open>_guard_orm_execute\<close> reads of the SQLAlchemy execution state: the kind of statement,
  whether it is an internal load, the mappers it selects from and the tables
  \<^verbatim>\<open>find_tables\<close> finds in it; \<open>criteria\<close> is the tenant of the \<^verbatim>\<open>with_loader_criteria\<close> option
  the guard adds.
\<close>

record mapper =
  mp_table :: string
  mp_scoped :: bool

record orm_state =
  is_select :: bool
  is_update :: bool
  is_delete :: bool
  is_column_load :: bool
  is_relationship_load :: bool
  is_clause_element :: bool
  all_mappers :: "mapper list"
  found_tables :: "string list"
  criteria :: "uuid option"

definition registry_mappers :: "mapper list" where
  \<comment> \<open>the mapped classes of \<^verbatim>\<open>Base.registry\<close>\<close>
  "registry_mappers =
     map (\<lambda>n. \<lparr>mp_table = n, mp_scoped = False\<rparr>)
       [''tenants'', ''users'', ''memberships'', ''user_credentials'', ''auth_recovery_codes'',
        ''sessions'', ''login_challenges'', ''oauth_identities'', ''invitations'',
        ''webhook_routes'', ''tenant_modules'', ''tenant_ai_policies'', ''ai_usage_events'',
        ''ai_usage_daily'']
     @ map (\<lambda>n. \<lparr>mp_table = n, mp_scoped = True\<rparr>)
       [''teams'', ''team_members'', ''audit_events'', ''connector_connections'',
        ''connector_subscriptions'', ''sample_digest_digests'']"

definition touches_scoped_mapper :: "orm_state \<Rightarrow> bool" where
  "touches_scoped_mapper st = list_ex mp_scoped (all_mappers st)"

definition scoped_tables :: "string list" where
  "scoped_tables = map mp_table (filter mp_scoped registry_mappers)"

definition refuse_unscoped_table_access :: "orm_state \<Rightarrow> unit result" where
  "refuse_unscoped_table_access st =
     (if \<not> is_clause_element st then Inr ()
      else if list_ex (\<lambda>t. t \<in> set scoped_tables) (found_tables st) then Inl TenantContextError
      else Inr ())"

definition guard_orm_execute :: "context_var \<Rightarrow> orm_state \<Rightarrow> orm_state result" where
  "guard_orm_execute cv st =
     (if \<not> (is_select st \<or> is_update st \<or> is_delete st) then Inr st
      else if is_column_load st \<or> is_relationship_load st then Inr st
      else if \<not> touches_scoped_mapper st
      then (case refuse_unscoped_table_access st of Inl e \<Rightarrow> Inl e | Inr _ \<Rightarrow> Inr st)
      else (case current_tenant cv of Inl e \<Rightarrow> Inl e
            | Inr ctx \<Rightarrow> Inr (st\<lparr>criteria := Some (tc_tenant_id ctx)\<rparr>)))"

section \<open>The flush guard\<close>

text \<open>
  What \<^verbatim>\<open>_guard_flush\<close> reads of a pending object: whether it is an instance of
  \<^verbatim>\<open>TenantScoped\<close> and its \<^verbatim>\<open>tenant_id\<close>.
\<close>

record orm_obj =
  ob_scoped :: bool
  ob_tenant_id :: "uuid option"

fun stamp_new :: "uuid \<Rightarrow> orm_obj list \<Rightarrow> orm_obj list result" where
  "stamp_new t [] = Inr []"
| "stamp_new t (ob # obs) =
     (if \<not> ob_scoped ob
      then (case stamp_new t obs of Inl e \<Rightarrow> Inl e | Inr obs' \<Rightarrow> Inr (ob # obs'))
      else (case ob_tenant_id ob of
              None \<Rightarrow>
                (case stamp_new t obs of Inl e \<Rightarrow> Inl e
                 | Inr obs' \<Rightarrow> Inr (ob\<lparr>ob_tenant_id := Some t\<rparr> # obs'))
            | Some t' \<Rightarrow>
                if t' \<noteq> t then Inl TenantContextError
                else (case stamp_new t obs of Inl e \<Rightarrow> Inl e | Inr obs' \<Rightarrow> Inr (ob # obs'))))"

definition guard_flush ::
  "context_var \<Rightarrow> orm_obj list \<Rightarrow> orm_obj list \<Rightarrow> orm_obj list \<Rightarrow> orm_obj list result" where
  "guard_flush cv new_objs dirty_objs deleted_objs =
     (let new_scoped = filter ob_scoped new_objs;
          touched_scoped = filter ob_scoped (dirty_objs @ deleted_objs)
      in if new_scoped = [] \<and> touched_scoped = [] then Inr new_objs
         else (case current_tenant cv of Inl e \<Rightarrow> Inl e
               | Inr ctx \<Rightarrow>
                   (case stamp_new (tc_tenant_id ctx) new_objs of Inl e \<Rightarrow> Inl e
                    | Inr new' \<Rightarrow>
                        if list_ex (\<lambda>ob. ob_tenant_id ob \<noteq> Some (tc_tenant_id ctx)) touched_scoped
                        then Inl TenantContextError
                        else Inr new')))"

section \<open>Statements on scoped tables, as the handlers issue them\<close>

text \<open>
  \<^verbatim>\<open>select(Model)\<close>, \<^verbatim>\<open>session.get(Model, id)\<close> and \<^verbatim>\<open>delete(Model)\<close> name the mapped class, so
  the guard adds its criterion; the database then returns or deletes only the rows that
  satisfy it. A flush inserts an object with the tenant the guard stamped on it.
\<close>

definition entity_statement :: "string \<Rightarrow> orm_state" where
  "entity_statement table =
     \<lparr>is_select = True, is_update = False, is_delete = False, is_column_load = False,
      is_relationship_load = False, is_clause_element = True,
      all_mappers = filter (\<lambda>m. mp_table m = table) registry_mappers,
      found_tables = [table], criteria = None\<rparr>"

definition apply_criteria :: "uuid option \<Rightarrow> ('r \<Rightarrow> uuid) \<Rightarrow> 'r list \<Rightarrow> 'r list" where
  "apply_criteria c tid rs = (case c of None \<Rightarrow> rs | Some t \<Rightarrow> filter (\<lambda>r. tid r = t) rs)"

definition scoped_select ::
  "context_var \<Rightarrow> string \<Rightarrow> ('r \<Rightarrow> uuid) \<Rightarrow> 'r list \<Rightarrow> 'r list result" where
  "scoped_select cv table tid rs =
     (case guard_orm_execute cv (entity_statement table) of Inl e \<Rightarrow> Inl e
      | Inr st \<Rightarrow> Inr (apply_criteria (criteria st) tid rs))"

definition scoped_delete ::
  "context_var \<Rightarrow> string \<Rightarrow> ('r \<Rightarrow> uuid) \<Rightarrow> ('r \<Rightarrow> bool) \<Rightarrow> 'r list \<Rightarrow> 'r list result" where
  \<comment> \<open>\<^verbatim>\<open>session.execute(delete(Model).where(p))\<close>\<close>
  "scoped_delete cv table tid p rs =
     (case guard_orm_execute cv ((entity_statement table)\<lparr>is_select := False, is_delete := True\<rparr>)
      of Inl e \<Rightarrow> Inl e
      | Inr st \<Rightarrow>
          Inr (delete_where
                 (\<lambda>r. p r \<and> (case criteria st of None \<Rightarrow> True | Some t \<Rightarrow> tid r = t)) rs))"

definition flush_insert :: "context_var \<Rightarrow> uuid result" where
  \<comment> \<open>the tenant stamped on a new scoped object that has none\<close>
  "flush_insert cv =
     (case guard_flush cv [\<lparr>ob_scoped = True, ob_tenant_id = None\<rparr>] [] [] of
        Inl e \<Rightarrow> Inl e
      | Inr obs \<Rightarrow> (case obs of
            ob # _ \<Rightarrow> (case ob_tenant_id ob of Some t \<Rightarrow> Inr t | None \<Rightarrow> Inl TenantContextError)
          | [] \<Rightarrow> Inl TenantContextError))"

definition flush_touch :: "context_var \<Rightarrow> uuid \<Rightarrow> unit result" where
  \<comment> \<open>flush of one modified or deleted scoped object of tenant \<open>t\<close>\<close>
  "flush_touch cv t =
     (case guard_flush cv [] [\<lparr>ob_scoped = True, ob_tenant_id = Some t\<rparr>] [] of
        Inl e \<Rightarrow> Inl e | Inr _ \<Rightarrow> Inr ())"

section \<open>Lemmas\<close>

lemma slug_fullmatch_length: "slug_fullmatch s \<Longrightarrow> 2 \<le> length s \<and> length s \<le> 39"
  by (auto simp: slug_fullmatch_def split: list.splits)

lemma slug_char_no_dot: "slug_tail_char c \<Longrightarrow> c \<noteq> CHR ''.'' \<and> c \<noteq> CHR '':'' \<and> \<not> is_upper c \<and> \<not> is_space c"
  by (auto simp: slug_tail_char_def is_lower_def is_digit_def is_upper_def is_space_def
      less_eq_char_def)

lemma slug_fullmatch_chars: "slug_fullmatch s \<Longrightarrow> list_all slug_tail_char s"
  by (auto simp: slug_fullmatch_def slug_tail_char_def split: list.splits)

lemma py_lower_slug: "list_all slug_tail_char s \<Longrightarrow> py_lower s = s"
  by (induction s) (auto simp: py_lower_def lower_char_def dest: slug_char_no_dot)

lemma current_tenant_simps [simp]:
  "current_tenant None = Inl TenantContextError" "current_tenant (Some c) = Inr c"
  by (simp_all add: current_tenant_def)

lemma entity_statement_scoped:
  "table \<in> set scoped_tables \<Longrightarrow> touches_scoped_mapper (entity_statement table)"
  by (auto simp: touches_scoped_mapper_def entity_statement_def scoped_tables_def list_ex_iff)

lemma scoped_select_eq [handler_simps]:
  assumes "table \<in> set scoped_tables"
  shows "scoped_select cv table tid rs =
    (case cv of None \<Rightarrow> Inl TenantContextError
     | Some c \<Rightarrow> Inr (filter (\<lambda>r. tid r = tc_tenant_id c) rs))"
proof -
  have "touches_scoped_mapper (entity_statement table)"
    by (rule entity_statement_scoped [OF assms])
  then have "guard_orm_execute cv (entity_statement table) =
      (case cv of None \<Rightarrow> Inl TenantContextError
       | Some c \<Rightarrow> Inr ((entity_statement table)\<lparr>criteria := Some (tc_tenant_id c)\<rparr>))"
    by (simp add: guard_orm_execute_def entity_statement_def split: option.split)
  then show ?thesis
    by (simp add: scoped_select_def apply_criteria_def split: option.split)
qed

lemma scoped_delete_eq [handler_simps]:
  assumes "table \<in> set scoped_tables"
  shows "scoped_delete cv table tid p rs =
    (case cv of None \<Rightarrow> Inl TenantContextError
     | Some c \<Rightarrow> Inr (delete_where (\<lambda>r. p r \<and> tid r = tc_tenant_id c) rs))"
proof -
  let ?st = "(entity_statement table)\<lparr>is_select := False, is_delete := True\<rparr>"
  have "touches_scoped_mapper ?st"
    using entity_statement_scoped [OF assms] by (simp add: touches_scoped_mapper_def)
  then have "guard_orm_execute cv ?st =
      (case cv of None \<Rightarrow> Inl TenantContextError
       | Some c \<Rightarrow> Inr (?st\<lparr>criteria := Some (tc_tenant_id c)\<rparr>))"
    by (simp add: guard_orm_execute_def entity_statement_def split: option.split)
  then show ?thesis
    by (simp add: scoped_delete_def split: option.split)
qed

lemma flush_insert_eq [handler_simps]:
  "flush_insert cv = (case cv of None \<Rightarrow> Inl TenantContextError | Some c \<Rightarrow> Inr (tc_tenant_id c))"
  by (simp add: flush_insert_def guard_flush_def split: option.split)

lemma flush_touch_eq [handler_simps]:
  "flush_touch cv t =
     (case cv of None \<Rightarrow> Inl TenantContextError
      | Some c \<Rightarrow> if t = tc_tenant_id c then Inr () else Inl TenantContextError)"
  by (auto simp: flush_touch_def guard_flush_def split: option.split)

lemma scoped_table_names [simp]:
  "''teams'' \<in> set scoped_tables" "''team_members'' \<in> set scoped_tables"
  "''audit_events'' \<in> set scoped_tables" "''connector_connections'' \<in> set scoped_tables"
  "''connector_subscriptions'' \<in> set scoped_tables"
  "''sample_digest_digests'' \<in> set scoped_tables"
  by (simp_all add: scoped_tables_def registry_mappers_def)

lemma stamp_new_sound:
  "stamp_new t obs = Inr obs' \<Longrightarrow>
   length obs' = length obs \<and> map ob_scoped obs' = map ob_scoped obs
   \<and> (\<forall>ob\<in>set obs'. ob_scoped ob \<longrightarrow> ob_tenant_id ob = Some t)"
  by (induction obs arbitrary: obs')
    (auto split: if_splits option.splits sum.splits)

lemma stamp_new_unscoped:
  "stamp_new t obs = Inr obs' \<Longrightarrow> filter (\<lambda>ob. \<not> ob_scoped ob) obs' = filter (\<lambda>ob. \<not> ob_scoped ob) obs"
  by (induction obs arbitrary: obs')
    (auto split: if_splits option.splits sum.splits)

section \<open>Properties\<close>

text \<open>
  The slug of a request is exactly the first label of its host name (port
  removed, blanks stripped, lower-cased), provided the host has a second label and the first
  one matches the slug format; nothing else is ever returned.
\<close>

theorem extract_slug_spec:
  "extract_slug h = Some s \<longleftrightarrow>
     slug_fullmatch s \<and>
     (\<exists>rest. py_lower (py_strip (before_first (CHR '':'') h)) = s @ CHR ''.'' # rest)"
proof -
  define host where "host = py_lower (py_strip (before_first (CHR '':'') h))"
  have two: "2 \<le> length (py_split (CHR ''.'') host) \<longleftrightarrow> CHR ''.'' \<in> set host"
    using count_list_0_iff [of host "CHR ''.''"] by (simp add: length_py_split Suc_le_eq flip: neq0_conv)
  have "extract_slug h = Some s \<longleftrightarrow>
      CHR ''.'' \<in> set host \<and> before_first (CHR ''.'') host = s \<and> slug_fullmatch s"
    unfolding extract_slug_def host_def [symmetric] Let_def hd_py_split
    using two by (auto simp: not_less)
  also have "\<dots> \<longleftrightarrow> slug_fullmatch s \<and> (\<exists>rest. host = s @ CHR ''.'' # rest)"
  proof (intro iffI conjI; (elim conjE exE)?)
    assume "CHR ''.'' \<in> set host" "before_first (CHR ''.'') host = s"
    then show "\<exists>rest. host = s @ CHR ''.'' # rest" using before_first_split by metis
  next
    fix rest
    assume "slug_fullmatch s" "host = s @ CHR ''.'' # rest"
    moreover have "CHR ''.'' \<notin> set s"
      using slug_fullmatch_chars [OF \<open>slug_fullmatch s\<close>] slug_char_no_dot
      by (auto simp: list_all_iff)
    ultimately show "before_first (CHR ''.'') host = s" by simp
  qed auto
  finally show ?thesis by (simp only: host_def)
qed

text \<open>
  C16 (safety). A flush that the guard lets through writes only rows of the current tenant.
  New scoped objects leave it stamped with that tenant, objects without a scope are
  unchanged, and every scoped object it modifies or deletes already belonged to it. Without
  a tenant context no scoped object is flushed at all.
\<close>

theorem guard_flush_sound:
  assumes "guard_flush cv new_objs dirty_objs deleted_objs = Inr new'"
  shows "map ob_scoped new' = map ob_scoped new_objs
    \<and> filter (\<lambda>ob. \<not> ob_scoped ob) new' = filter (\<lambda>ob. \<not> ob_scoped ob) new_objs
    \<and> (\<forall>ob \<in> set new' \<union> set dirty_objs \<union> set deleted_objs. ob_scoped ob \<longrightarrow>
         (\<exists>ctx. cv = Some ctx \<and> ob_tenant_id ob = Some (tc_tenant_id ctx)))"
proof (cases "filter ob_scoped new_objs = [] \<and> filter ob_scoped (dirty_objs @ deleted_objs) = []")
  case True
  with assms show ?thesis by (auto simp: guard_flush_def filter_empty_conv)
next
  case False
  with assms obtain ctx where cv: "cv = Some ctx"
      and st: "stamp_new (tc_tenant_id ctx) new_objs = Inr new'"
      and touched: "\<forall>ob\<in>set dirty_objs \<union> set deleted_objs.
           ob_scoped ob \<longrightarrow> ob_tenant_id ob = Some (tc_tenant_id ctx)"
    by (cases cv)
      (auto simp: guard_flush_def Let_def list_ex_iff split: sum.splits if_splits)
  show ?thesis
    using stamp_new_sound [OF st] stamp_new_unscoped [OF st] cv touched by auto
qed

theorem guard_flush_sound_witness:
  "\<exists>ctx. Some \<lparr>tc_tenant_id = 7, tc_slug = ''acme'', tc_role = None\<rparr> = Some ctx \<and>
     ob_tenant_id \<lparr>ob_scoped = True, ob_tenant_id = Some 7\<rparr> = Some (tc_tenant_id ctx)"
proof -
  let ?cv = "Some \<lparr>tc_tenant_id = 7, tc_slug = ''acme'', tc_role = None\<rparr>"
  let ?new = "[\<lparr>ob_scoped = True, ob_tenant_id = None\<rparr>, \<lparr>ob_scoped = False, ob_tenant_id = None\<rparr>]"
  let ?dirty = "[\<lparr>ob_scoped = True, ob_tenant_id = Some 7\<rparr>]"
  have "guard_flush ?cv ?new ?dirty [] =
      Inr [\<lparr>ob_scoped = True, ob_tenant_id = Some 7\<rparr>, \<lparr>ob_scoped = False, ob_tenant_id = None\<rparr>]"
    by (simp add: guard_flush_def)
  from guard_flush_sound [OF this] show ?thesis by simp
qed



text \<open>
  A \<^verbatim>\<open>with tenant_context(ctx)\<close> block runs its body under exactly \<open>ctx\<close> and
  restores the enclosing context, also when the body raises or itself leaves another
  context set; blocks therefore nest.
\<close>

theorem tenant_context_restored:
  "tenant_context_block ctx body cv s =
     (fst (body (Some ctx) s), cv, snd (snd (body (Some ctx) s)))"
  by (simp add: tenant_context_block_def push_tenant_def pop_tenant_def split: prod.split)

end
