(* ===== verification/Codec.thy ===== *)
theory Codec
  imports Prelude
begin

text \<open>
  The printed forms the API exchanges with its clients: \<^verbatim>\<open>uuid.UUID(text)\<close>, the ISO 8601 form
  of a UTC \<^verbatim>\<open>datetime\<close> and URL-safe base64, as the pagination cursor of the audit log uses
  them (\<^verbatim>\<open>audit/router.py\<close>). Printing follows the Python library on every value; parsing
  accepts the canonical spelling (dashes and either letter case for an identifier, the
  extended UTC form for an instant) and, for base64, follows the lenient decoder of
  \<^verbatim>\<open>binascii\<close>.
\<close>

section \<open>Hexadecimal and decimal numbers\<close>

definition hex_value :: "char \<Rightarrow> nat option" where
  "hex_value c =
     (if is_digit c then Some (of_char c - 48)
      else if CHR ''a'' \<le> c \<and> c \<le> CHR ''f'' then Some (of_char c - 87)
      else if CHR ''A'' \<le> c \<and> c \<le> CHR ''F'' then Some (of_char c - 55)
      else None)"

fun parse_hex :: "nat \<Rightarrow> string \<Rightarrow> nat option" where
  "parse_hex acc [] = Some acc"
| "parse_hex acc (c # cs) =
     (case hex_value c of None \<Rightarrow> None | Some v \<Rightarrow> parse_hex (16 * acc + v) cs)"

definition parse_uuid :: "string \<Rightarrow> uuid option" where
  \<comment> \<open>\<^verbatim>\<open>uuid.UUID(s)\<close>; \<open>None\<close> is \<^verbatim>\<open>ValueError\<close>\<close>
  "parse_uuid s =
     (let h = filter (\<lambda>c. c \<noteq> CHR ''-'') s
      in if length h \<noteq> 32 then None else map_option of_nat (parse_hex 0 h))"

fun dec_digits :: "nat \<Rightarrow> nat \<Rightarrow> string" where
  \<comment> \<open>\<^verbatim>\<open>f"{n:0kd}"\<close> for \<open>n < 10 ^ k\<close>\<close>
  "dec_digits 0 n = []"
| "dec_digits (Suc k) n = dec_digits k (n div 10) @ [char_of (48 + n mod 10)]"

fun parse_dec :: "nat \<Rightarrow> string \<Rightarrow> nat option" where
  "parse_dec acc [] = Some acc"
| "parse_dec acc (c # cs) =
     (if is_digit c then parse_dec (10 * acc + (of_char c - 48)) cs else None)"

lemma hex_value_hex_char [simp]: "hex_value (hex_char n) = Some (n mod 16)"
proof -
  have "map hex_value ''0123456789abcdef'' = map Some [0..<16]"
    by (simp add: hex_value_def is_digit_def less_eq_char_def upt_conv_Cons)
  from arg_cong [OF this, of "\<lambda>xs. xs ! (n mod 16)"] show ?thesis
    by (subst (asm) (1 2) nth_map) (simp_all add: hex_char_def del: list.map)
qed

lemma hex_char_no_dash [simp]: "hex_char n \<noteq> CHR ''-''" "CHR ''-'' \<noteq> hex_char n"
proof -
  have "hex_value (CHR ''-'') = None"
    by (simp add: hex_value_def is_digit_def less_eq_char_def)
  then show "hex_char n \<noteq> CHR ''-''" "CHR ''-'' \<noteq> hex_char n"
    using hex_value_hex_char [of n] by (metis option.distinct(1))+
qed

lemma hex_char_no_bar [simp]: "hex_char n \<noteq> CHR ''|''" "CHR ''|'' \<noteq> hex_char n"
proof -
  have "hex_value (CHR ''|'') = None"
    by (simp add: hex_value_def is_digit_def less_eq_char_def)
  then show "hex_char n \<noteq> CHR ''|''" "CHR ''|'' \<noteq> hex_char n"
    using hex_value_hex_char [of n] by (metis option.distinct(1))+
qed

lemma hex_digits_no_dash: "CHR ''-'' \<notin> set (hex_digits k n)"
  by (induction k arbitrary: n) auto

lemma hex_digits_no_bar: "CHR ''|'' \<notin> set (hex_digits k n)"
  by (induction k arbitrary: n) auto

lemma parse_hex_append:
  "parse_hex acc (xs @ [c]) =
     (case parse_hex acc xs of None \<Rightarrow> None
      | Some a \<Rightarrow> map_option (\<lambda>v. 16 * a + v) (hex_value c))"
  by (induction xs arbitrary: acc) (auto split: option.splits)

lemma parse_hex_digits: "n < 16 ^ k \<Longrightarrow> parse_hex 0 (hex_digits k n) = Some n"
proof (induction k arbitrary: n)
  case (Suc k)
  then have "n div 16 < 16 ^ k" by (simp add: less_mult_imp_div_less mult.commute)
  with Suc.IH have "parse_hex 0 (hex_digits k (n div 16)) = Some (n div 16)" by blast
  then show ?case by (simp add: parse_hex_append)
qed simp

lemma parse_dec_append:
  "parse_dec acc (xs @ [c]) =
     (case parse_dec acc xs of None \<Rightarrow> None
      | Some a \<Rightarrow> if is_digit c then Some (10 * a + (of_char c - 48)) else None)"
  by (induction xs arbitrary: acc) auto

lemma dec_char: "is_digit (char_of (48 + n mod 10 :: nat)) \<and> of_char (char_of (48 + n mod 10 :: nat)) = 48 + n mod 10"
proof -
  have "48 + n mod 10 < 256" using mod_less_divisor [of 10 n] by linarith
  then have "of_char (char_of (48 + n mod 10 :: nat)) = 48 + n mod 10" by simp
  moreover have "n mod 10 \<le> 9" using mod_less_divisor [of 10 n] by linarith
  ultimately show ?thesis by (simp add: is_digit_def less_eq_char_def)
qed

lemma parse_dec_digits: "n < 10 ^ k \<Longrightarrow> parse_dec 0 (dec_digits k n) = Some n"
proof (induction k arbitrary: n)
  case (Suc k)
  then have "n div 10 < 10 ^ k" by (simp add: less_mult_imp_div_less mult.commute)
  with Suc.IH have "parse_dec 0 (dec_digits k (n div 10)) = Some (n div 10)" by blast
  then show ?case using dec_char [of n] by (simp add: parse_dec_append)
qed simp

lemma length_dec_digits [simp]: "length (dec_digits k n) = k"
  by (induction k arbitrary: n) auto

lemma dec_digits_chars: "list_all is_digit (dec_digits k n)"
  using dec_char by (induction k arbitrary: n) auto

lemma parse_uuid_str_uuid: "parse_uuid (str_uuid u) = Some u"
proof -
  define h where "h = hex_digits 32 (unat u)"
  have nd: "CHR ''-'' \<notin> set h" unfolding h_def by (rule hex_digits_no_dash)
  then have all: "filter (\<lambda>c. c \<noteq> CHR ''-'') s = s" if "set s \<subseteq> set h" for s
    using that by (auto simp: filter_id_conv)
  have "filter (\<lambda>c. c \<noteq> CHR ''-'') (str_uuid u) = h"
    unfolding str_uuid_def Let_def h_def [symmetric]
    using split_8_4_4_4 [of h]
    by (simp add: all set_take_subset set_drop_subset order_trans [OF set_take_subset])
  moreover have "unat u < 16 ^ 32"
    using unsigned_less [of u, where ?'a = nat] by simp
  ultimately show ?thesis
    unfolding parse_uuid_def Let_def using parse_hex_digits [of "unat u" 32]
    by (simp add: h_def del: hex_digits.simps)
qed

lemma str_uuid_no_bar: "CHR ''|'' \<notin> set (str_uuid u)"
  using hex_digits_no_bar [of 32 "unat u"]
  by (auto simp: str_uuid_def Let_def simp del: hex_digits.simps dest: in_set_takeD in_set_dropD)

section \<open>Instants in ISO 8601\<close>

text \<open>
  The proleptic Gregorian calendar of \<^verbatim>\<open>datetime\<close>, from year 1 on: a date is found by walking
  over the years and then over the months of the year.
\<close>

definition is_leap :: "nat \<Rightarrow> bool" where
  "is_leap y = (y mod 4 = 0 \<and> (y mod 100 \<noteq> 0 \<or> y mod 400 = 0))"

definition year_length :: "nat \<Rightarrow> nat" where
  "year_length y = (if is_leap y then 366 else 365)"

definition month_lengths :: "nat \<Rightarrow> nat list" where
  "month_lengths y = [31, if is_leap y then 29 else 28, 31, 30, 31, 30, 31, 31, 30, 31, 30, 31]"

function find_year :: "nat \<Rightarrow> nat \<Rightarrow> nat \<times> nat" where
  "find_year y n = (if n < year_length y then (y, n) else find_year (Suc y) (n - year_length y))"
  by auto
termination
  by (relation "measure snd") (auto simp: year_length_def split: if_splits)

declare find_year.simps [simp del]

fun find_month :: "nat \<Rightarrow> nat list \<Rightarrow> nat \<Rightarrow> nat \<times> nat" where
  "find_month m [] n = (m, n)"
| "find_month m (l # ls) n = (if n < l then (m, n) else find_month (Suc m) ls (n - l))"

definition days_before_year :: "nat \<Rightarrow> nat" where
  "days_before_year y = sum_list (map year_length [1..<y])"

definition days_before_month :: "nat \<Rightarrow> nat \<Rightarrow> nat" where
  "days_before_month y m = sum_list (take (m - 1) (month_lengths y))"

definition epoch_ordinal :: int where
  \<comment> \<open>days from 0001-01-01 to 1970-01-01\<close>
  "epoch_ordinal = 719162"

definition isoformat :: "instant \<Rightarrow> string" where
  "isoformat t =
     (let us = nat (t mod days 1);
          (y, doy) = find_year 1 (nat (t div days 1 + epoch_ordinal));
          (m, d) = find_month 1 (month_lengths y) doy;
          secs = us div 1000000;
          frac = us mod 1000000
      in dec_digits 4 y @ ''-'' @ dec_digits 2 m @ ''-'' @ dec_digits 2 (Suc d) @ ''T''
         @ dec_digits 2 (secs div 3600) @ '':'' @ dec_digits 2 (secs div 60 mod 60) @ '':''
         @ dec_digits 2 (secs mod 60) @ (if frac = 0 then [] else ''.'' @ dec_digits 6 frac)
         @ ''+00:00'')"

definition datetime_range :: "instant \<Rightarrow> bool" where
  \<comment> \<open>years 1 to 9999\<close>
  "datetime_range t \<longleftrightarrow>
     0 \<le> t div days 1 + epoch_ordinal \<and>
     fst (find_year 1 (nat (t div days 1 + epoch_ordinal))) \<le> 9999"

definition field :: "nat \<Rightarrow> nat \<Rightarrow> string \<Rightarrow> nat option" where
  "field i k s = (if i + k \<le> length s then parse_dec 0 (take k (drop i s)) else None)"

definition of_fields ::
  "nat \<Rightarrow> nat \<Rightarrow> nat \<Rightarrow> nat \<Rightarrow> nat \<Rightarrow> nat \<Rightarrow> nat \<Rightarrow> instant option" where
  "of_fields y m d hh mm ss frac =
     (if y < 1 \<or> m < 1 \<or> 12 < m \<or> d < 1 \<or> month_lengths y ! (m - 1) < d
         \<or> 23 < hh \<or> 59 < mm \<or> 59 < ss then None
      else Some (days (int (days_before_year y + days_before_month y m + (d - 1)) - epoch_ordinal)
                 + int (((hh * 60 + mm) * 60 + ss) * 1000000 + frac)))"

definition fromisoformat :: "string \<Rightarrow> instant option" where
  \<comment> \<open>\<open>None\<close> is \<^verbatim>\<open>ValueError\<close>\<close>
  "fromisoformat s =
     (let tail = drop 19 s;
          frac = (if tail = ''+00:00'' then Some 0
                  else if length tail = 13 \<and> take 1 tail = ''.'' \<and> drop 7 tail = ''+00:00''
                  then field 1 6 tail else None)
      in case (field 0 4 s, field 5 2 s, field 8 2 s, field 11 2 s, field 14 2 s, field 17 2 s, frac) of
           (Some y, Some m, Some d, Some hh, Some mm, Some ss, Some f) \<Rightarrow>
             if s ! 4 = CHR ''-'' \<and> s ! 7 = CHR ''-'' \<and> s ! 10 = CHR ''T''
                \<and> s ! 13 = CHR '':'' \<and> s ! 16 = CHR '':''
             then of_fields y m d hh mm ss f else None
         | _ \<Rightarrow> None)"

lemma find_year_inv:
  "find_year y n = (y', d) \<Longrightarrow> 1 \<le> y \<Longrightarrow>
   y \<le> y' \<and> d < year_length y' \<and> days_before_year y + n = days_before_year y' + d"
proof (induction y n rule: find_year.induct)
  case (1 y n)
  show ?case
  proof (cases "n < year_length y")
    case True
    with 1(2) show ?thesis by (auto simp: find_year.simps [of y n])
  next
    case False
    with 1(2) have "find_year (Suc y) (n - year_length y) = (y', d)"
      by (simp add: find_year.simps [of y n])
    with 1 False have "Suc y \<le> y' \<and> d < year_length y'
        \<and> days_before_year (Suc y) + (n - year_length y) = days_before_year y' + d" by auto
    moreover have "days_before_year (Suc y) = days_before_year y + year_length y"
      using 1(3) by (simp add: days_before_year_def)
    ultimately show ?thesis using False by auto
  qed
qed

lemma find_month_inv:
  "find_month m ls n = (m', d) \<Longrightarrow> n < sum_list ls \<Longrightarrow>
   m \<le> m' \<and> m' - m < length ls \<and> d < ls ! (m' - m) \<and> n = sum_list (take (m' - m) ls) + d"
proof (induction m ls n rule: find_month.induct)
  case (2 m l ls n)
  show ?case
  proof (cases "n < l")
    case False
    with 2 have "Suc m \<le> m' \<and> m' - Suc m < length ls \<and> d < ls ! (m' - Suc m)
        \<and> n - l = sum_list (take (m' - Suc m) ls) + d" by auto
    moreover from this have "m' - m = Suc (m' - Suc m)" by auto
    ultimately show ?thesis using False by auto
  qed (use 2 in auto)
qed simp

lemma sum_month_lengths: "sum_list (month_lengths y) = year_length y"
  by (simp add: month_lengths_def year_length_def)

lemma length_month_lengths [simp]: "length (month_lengths y) = 12"
  by (simp add: month_lengths_def)

lemma month_lengths_le: "i < 12 \<Longrightarrow> month_lengths y ! i \<le> 31"
proof -
  assume "i < 12"
  then have "month_lengths y ! i \<in> set (month_lengths y)" by (intro nth_mem) simp
  then show ?thesis by (auto simp: month_lengths_def split: if_splits)
qed

lemma fromisoformat_layout:
  assumes "length Y = 4" "length M = 2" "length D = 2" "length H = 2" "length N = 2" "length S = 2"
    and "F = [] \<and> frac = Some 0 \<or> (\<exists>G. F = CHR ''.'' # G \<and> length G = 6 \<and> frac = parse_dec 0 G)"
  shows "fromisoformat (Y @ ''-'' @ M @ ''-'' @ D @ ''T'' @ H @ '':'' @ N @ '':'' @ S @ F @ ''+00:00'') =
    (case (parse_dec 0 Y, parse_dec 0 M, parse_dec 0 D, parse_dec 0 H, parse_dec 0 N,
           parse_dec 0 S, frac) of
       (Some y, Some m, Some d, Some hh, Some mm, Some ss, Some f) \<Rightarrow> of_fields y m d hh mm ss f
     | _ \<Rightarrow> None)"
  using assms unfolding fromisoformat_def Let_def field_def
  by (elim disjE conjE exE) (simp_all add: nth_append split: option.split)

lemma of_fields_find:
  assumes "find_year 1 n = (y, doy)" "find_month 1 (month_lengths y) doy = (m, d)"
    and "int n = t div days 1 + epoch_ordinal" "us = nat (t mod days 1)"
    and "hh = us div 1000000 div 3600" "mm = us div 1000000 div 60 mod 60"
    and "ss = us div 1000000 mod 60" "f = us mod 1000000"
  shows "of_fields y m (Suc d) hh mm ss f = Some t"
proof -
  have y: "1 \<le> y" "doy < year_length y" "n = days_before_year y + doy"
    using find_year_inv [OF assms(1)] by (auto simp: days_before_year_def)
  have m: "1 \<le> m" "m - 1 < 12" "d < month_lengths y ! (m - 1)"
      "doy = days_before_month y m + d"
    using find_month_inv [OF assms(2)] y(2) by (auto simp: sum_month_lengths days_before_month_def)
  have us: "int us = t mod days 1" "us < 86400 * 1000000"
    using assms(4) by (simp_all add: days_def hours_def minutes_def seconds_def nat_less_iff)
  have secs: "us div 1000000 < 86400" using us(2) by (simp add: less_mult_imp_div_less)
  have "hh < 24" using secs assms(5) by (simp add: less_mult_imp_div_less)
  moreover have "mm < 60" "ss < 60" using assms by simp_all
  moreover have "((hh * 60 + mm) * 60 + ss) * 1000000 + f = us"
  proof -
    have "hh = us div 1000000 div 60 div 60" using assms(5) by (simp add: div_mult2_eq)
    then have "hh * 60 + mm = us div 1000000 div 60" using assms(6) by simp
    then have "(hh * 60 + mm) * 60 + ss = us div 1000000" using assms(7) by simp
    then show ?thesis using assms(8) by simp
  qed
  moreover have "int (days_before_year y + days_before_month y m + (Suc d - 1)) - epoch_ordinal
      = t div days 1"
    using y m assms(3) by simp
  moreover have "days (t div days 1) = t div days 1 * days 1"
    by (simp add: days_def hours_def minutes_def seconds_def)
  ultimately show ?thesis
    using y m us unfolding of_fields_def by auto
qed

lemma fromisoformat_isoformat:
  assumes "datetime_range t"
  shows "fromisoformat (isoformat t) = Some t"
proof -
  define n where "n = nat (t div days 1 + epoch_ordinal)"
  define us where "us = nat (t mod days 1)"
  obtain y doy where fy: "find_year 1 n = (y, doy)" by fastforce
  obtain m d where fm: "find_month 1 (month_lengths y) doy = (m, d)" by fastforce
  have n: "int n = t div days 1 + epoch_ordinal" and y: "y \<le> 9999"
    using assms fy by (simp_all add: datetime_range_def n_def)
  have "doy < year_length y" using find_year_inv [OF fy] by auto
  then have m: "1 \<le> m" "m - 1 < 12" "d < month_lengths y ! (m - 1)"
    using find_month_inv [OF fm] by (auto simp: sum_month_lengths)
  then have d: "Suc d \<le> 31" using month_lengths_le [of "m - 1" y] by linarith
  have us: "us < 86400 * 1000000"
    by (simp add: us_def days_def hours_def minutes_def seconds_def nat_less_iff)
  have hh: "us div 1000000 div 3600 < 24"
    using us by (simp add: less_mult_imp_div_less)
  let ?F = "if us mod 1000000 = 0 then [] else ''.'' @ dec_digits 6 (us mod 1000000)"
  have F: "?F = [] \<and> Some (us mod 1000000) = Some 0 \<or>
      (\<exists>G. ?F = CHR ''.'' # G \<and> length G = 6 \<and> Some (us mod 1000000) = parse_dec 0 G)"
    using parse_dec_digits [of "us mod 1000000" 6] by (auto simp del: dec_digits.simps)
  define S where "S = dec_digits 4 y @ ''-'' @ dec_digits 2 m @ ''-'' @ dec_digits 2 (Suc d) @ ''T''
      @ dec_digits 2 (us div 1000000 div 3600) @ '':''
      @ dec_digits 2 (us div 1000000 div 60 mod 60) @ '':''
      @ dec_digits 2 (us div 1000000 mod 60) @ ?F @ ''+00:00''"
  have iso: "isoformat t = S"
    unfolding S_def isoformat_def Let_def us_def [symmetric] n_def [symmetric] fy fm prod.case
    by (rule refl)
  have "fromisoformat S = of_fields y m (Suc d) (us div 1000000 div 3600)
      (us div 1000000 div 60 mod 60) (us div 1000000 mod 60) (us mod 1000000)"
    unfolding S_def using y m d hh
    by (subst fromisoformat_layout [OF _ _ _ _ _ _ F])
      (simp_all add: parse_dec_digits del: dec_digits.simps)
  moreover have "of_fields y m (Suc d) (us div 1000000 div 3600)
      (us div 1000000 div 60 mod 60) (us div 1000000 mod 60) (us mod 1000000) = Some t"
    by (rule of_fields_find [OF fy fm n us_def refl refl refl refl])
  ultimately show ?thesis by (simp only: iso)
qed

section \<open>URL-safe base64\<close>

definition b64_char :: "nat \<Rightarrow> char" where
  "b64_char v = ''ABCDEFGHIJKLMNOPQRSTUVWXYZabcdefghijklmnopqrstuvwxyz0123456789-_'' ! (v mod 64)"

definition b64_value :: "char \<Rightarrow> nat option" where
  \<comment> \<open>\<^verbatim>\<open>urlsafe_b64decode\<close> maps \<^verbatim>\<open>-\<close> and \<^verbatim>\<open>_\<close> to \<^verbatim>\<open>+\<close> and \<^verbatim>\<open>/\<close>, which stay accepted\<close>
  "b64_value c =
     (if is_upper c then Some (of_char c - 65)
      else if is_lower c then Some (of_char c - 71)
      else if is_digit c then Some (of_char c + 4)
      else if c = CHR ''-'' \<or> c = CHR ''+'' then Some 62
      else if c = CHR ''_'' \<or> c = CHR ''/'' then Some 63
      else None)"

fun urlsafe_b64encode :: "string \<Rightarrow> string" where
  "urlsafe_b64encode [] = []"
| "urlsafe_b64encode [a] =
     [b64_char (of_char a div 4), b64_char (of_char a mod 4 * 16), CHR ''='', CHR ''='']"
| "urlsafe_b64encode [a, b] =
     [b64_char (of_char a div 4), b64_char (of_char a mod 4 * 16 + of_char b div 16),
      b64_char (of_char b mod 16 * 4), CHR ''='']"
| "urlsafe_b64encode (a # b # c # rest) =
     [b64_char (of_char a div 4), b64_char (of_char a mod 4 * 16 + of_char b div 16),
      b64_char (of_char b mod 16 * 4 + of_char c div 64), b64_char (of_char c mod 64)]
     @ urlsafe_b64encode rest"

text \<open>
  The loop of \<^verbatim>\<open>binascii.a2b_base64\<close> in its non-strict mode: \<open>q\<close> is the position in the group of
  four, \<open>left\<close> the bits not yet output, \<open>pads\<close> the padding characters seen. Characters outside
  the alphabet are skipped; a complete padding ends the input.
\<close>

fun a2b_loop :: "nat \<Rightarrow> nat \<Rightarrow> nat \<Rightarrow> string \<Rightarrow> string option" where
  "a2b_loop q left pads [] = (if q = 0 then Some [] else None)"
| "a2b_loop q left pads (c # cs) =
     (if c = CHR ''='' then
        (if 2 \<le> q \<and> 4 \<le> q + Suc pads then Some []
         else a2b_loop q left (if 2 \<le> q then Suc pads else pads) cs)
      else case b64_value c of
        None \<Rightarrow> a2b_loop q left pads cs
      | Some v \<Rightarrow>
          if q = 0 then a2b_loop 1 v 0 cs
          else if q = 1 then map_option ((#) (char_of (left * 4 + v div 16))) (a2b_loop 2 (v mod 16) 0 cs)
          else if q = 2 then map_option ((#) (char_of (left * 16 + v div 4))) (a2b_loop 3 (v mod 4) 0 cs)
          else map_option ((#) (char_of (left * 64 + v))) (a2b_loop 0 0 0 cs))"

definition urlsafe_b64decode :: "string \<Rightarrow> string option" where
  "urlsafe_b64decode s = a2b_loop 0 0 0 s"

lemma b64_value_b64_char [simp]: "b64_value (b64_char v) = Some (v mod 64)"
proof -
  have "map b64_value ''ABCDEFGHIJKLMNOPQRSTUVWXYZabcdefghijklmnopqrstuvwxyz0123456789-_'' = map Some [0..<64]"
    by (simp add: b64_value_def is_upper_def is_lower_def is_digit_def less_eq_char_def upt_conv_Cons)
  from arg_cong [OF this, of "\<lambda>xs. xs ! (v mod 64)"] show ?thesis
    by (subst (asm) (1 2) nth_map) (simp_all add: b64_char_def del: list.map)
qed

lemma b64_char_no_pad [simp]: "b64_char v \<noteq> CHR ''=''"
proof
  assume "b64_char v = CHR ''=''"
  moreover have "b64_value (CHR ''='') = None"
    by (simp add: b64_value_def is_upper_def is_lower_def is_digit_def less_eq_char_def)
  ultimately show False using b64_value_b64_char [of v] by simp
qed

lemma byte_quarter: "(of_char c :: nat) div 4 < 64" "(of_char c :: nat) div 16 < 16" "(of_char c :: nat) div 64 < 4"
  using nat_of_char_less_256 [of c] by (simp_all add: less_mult_imp_div_less)

lemma a2b_encode: "a2b_loop 0 0 0 (urlsafe_b64encode s) = Some s"
proof (induction s rule: urlsafe_b64encode.induct)
  case (2 a)
  have "(of_char a :: nat) mod 4 * 16 < 64" by (simp add: mult.commute)
  then show ?case using byte_quarter [of a] by simp
next
  case (3 a b)
  have "(of_char a :: nat) mod 4 * 16 + of_char b div 16 < 64"
    "(of_char b :: nat) mod 16 * 4 < 64"
    using byte_quarter [of b] mod_less_divisor [of 4 "of_char a :: nat"]
      mod_less_divisor [of 16 "of_char b :: nat"] by linarith+
  then show ?case using byte_quarter by simp
next
  case (4 a b c rest)
  have "(of_char a :: nat) mod 4 * 16 + of_char b div 16 < 64"
    "(of_char b :: nat) mod 16 * 4 + of_char c div 64 < 64"
    using byte_quarter [of b] byte_quarter [of c] mod_less_divisor [of 4 "of_char a :: nat"]
      mod_less_divisor [of 16 "of_char b :: nat"] by linarith+
  then show ?case using 4 byte_quarter by simp
qed simp

lemma urlsafe_b64_roundtrip: "urlsafe_b64decode (urlsafe_b64encode s) = Some s"
  by (simp add: urlsafe_b64decode_def a2b_encode)

end
