(* ===== verification/Crypto.thy ===== *)
theory Crypto
  imports Schema Codec
begin

text \<open>
  Settings (\<^verbatim>\<open>core/config.py\<close>), the envelope encryption of secrets (\<^verbatim>\<open>core/crypto.py\<close>) and
  the opaque and signed tokens (\<^verbatim>\<open>auth/tokens.py\<close>). The primitives the code takes from
  elsewhere (SHA-256, HMAC, AES-GCM, argon2, pyotp, the JSON text format) are the fields of a
  \<open>primitives\<close> record that the definitions take as an argument; what the code relies on of
  them is stated as \<open>aead_law\<close> and \<open>json_law\<close>.
\<close>

section \<open>Settings\<close>

record settings =
  app_env :: string
  app_version :: string
  log_level :: string
  auth_master_key :: string
  session_ttl_hours :: int
  session_cookie_name :: string
  session_cookie_domain :: string
  public_base_url :: string
  invitation_ttl_hours :: int
  login_challenge_ttl_minutes :: int
  google_client_id :: string
  google_client_secret :: string
  microsoft_client_id :: string
  microsoft_client_secret :: string
  google_connector_client_id :: string
  google_connector_client_secret :: string
  microsoft_connector_client_id :: string
  microsoft_connector_client_secret :: string
  connector_refresh_lead_minutes :: int
  connector_webhook_base_url :: string
  smtp_host :: string
  smtp_port :: int
  smtp_user :: string
  smtp_password :: string
  smtp_sender :: string
  auth_rate_limit_attempts :: int
  auth_rate_limit_window_seconds :: int
  anthropic_api_key :: string
  openai_api_key :: string
  mistral_api_key :: string
  ai_default_provider :: string
  ai_default_model :: string
  ai_request_timeout_seconds :: int
  ai_quota_default_monthly_tokens :: int
  ai_usage_raw_retention_days :: int

definition APP_VERSION :: string where "APP_VERSION = ''0.1.0''"

definition default_settings :: settings where
  "default_settings =
     \<lparr>app_env = ''dev'', app_version = APP_VERSION, log_level = ''INFO'', auth_master_key = [], session_ttl_hours = 168,
      session_cookie_name = ''saas_session'', session_cookie_domain = [],
      public_base_url = ''http://localhost:8000'', invitation_ttl_hours = 168,
      login_challenge_ttl_minutes = 5, google_client_id = [], google_client_secret = [],
      microsoft_client_id = [], microsoft_client_secret = [], google_connector_client_id = [],
      google_connector_client_secret = [], microsoft_connector_client_id = [],
      microsoft_connector_client_secret = [], connector_refresh_lead_minutes = 10,
      connector_webhook_base_url = [], smtp_host = [], smtp_port = 587, smtp_user = [],
      smtp_password = [], smtp_sender = [], auth_rate_limit_attempts = 10,
      auth_rate_limit_window_seconds = 300, anthropic_api_key = [], openai_api_key = [],
      mistral_api_key = [], ai_default_provider = ''mistral'',
      ai_default_model = ''mistral-small-latest'', ai_request_timeout_seconds = 120,
      ai_quota_default_monthly_tokens = 5000000,
      ai_usage_raw_retention_days = 90\<rparr>"

definition session_cookie_secure :: "settings \<Rightarrow> bool" where
  "session_cookie_secure cfg = (app_env cfg \<noteq> ''dev'')"

definition connector_webhook_base :: "settings \<Rightarrow> string" where
  "connector_webhook_base cfg =
     (if connector_webhook_base_url cfg = [] then public_base_url cfg else connector_webhook_base_url cfg)"

section \<open>Primitives the code calls\<close>

record primitives =
  sha256 :: "bytes \<Rightarrow> bytes"
  hmac_sha256 :: "bytes \<Rightarrow> bytes \<Rightarrow> bytes"
  aes_seal :: "bytes \<Rightarrow> bytes \<Rightarrow> bytes \<Rightarrow> bytes"
  aes_open :: "bytes \<Rightarrow> bytes \<Rightarrow> bytes \<Rightarrow> bytes option"
  argon2_hash :: "string \<Rightarrow> string \<Rightarrow> string"
  argon2_verify :: "string \<Rightarrow> string \<Rightarrow> bool"
  argon2_needs_rehash :: "string \<Rightarrow> bool"
  totp_at :: "string \<Rightarrow> int \<Rightarrow> string"
  totp_uri :: "string \<Rightarrow> string \<Rightarrow> string \<Rightarrow> string"
  json_dumps :: "(string \<times> json) list \<Rightarrow> string"
  json_loads :: "string \<Rightarrow> (string \<times> json) list option"

definition aead_law :: "primitives \<Rightarrow> bool" where
  \<comment> \<open>opening what was sealed under the same key and nonce; the ciphertext carries a tag\<close>
  "aead_law P \<longleftrightarrow>
     (\<forall>key nonce p. aes_open P key nonce (aes_seal P key nonce p) = Some p
        \<and> length (aes_seal P key nonce p) = length p + 16)"

definition json_law :: "primitives \<Rightarrow> (string \<times> json) list \<Rightarrow> bool" where
  \<comment> \<open>\<^verbatim>\<open>json.loads(json.dumps(d)) == d\<close>, and the text of an object is not empty\<close>
  "json_law P d \<longleftrightarrow> json_loads P (json_dumps P d) = Some d \<and> json_dumps P d \<noteq> []"

definition argon2_law :: "primitives \<Rightarrow> bool" where
  "argon2_law P \<longleftrightarrow> (\<forall>salt pw pw'. argon2_verify P (argon2_hash P salt pw) pw' \<longleftrightarrow> pw' = pw)"

section \<open>The master key and the key provider\<close>

definition b64decode :: "string \<Rightarrow> bytes option" where
  \<comment> \<open>\<^verbatim>\<open>base64.b64decode\<close>: the standard alphabet, other characters skipped\<close>
  "b64decode s = a2b_loop 0 0 0 (filter (\<lambda>c. c \<noteq> CHR ''-'' \<and> c \<noteq> CHR ''_'') s)"

definition master_key_bytes :: "primitives \<Rightarrow> settings \<Rightarrow> bytes result" where
  "master_key_bytes P cfg =
     (if auth_master_key cfg \<noteq> [] then
        (case b64decode (auth_master_key cfg) of
           None \<Rightarrow> Inl (ValueError ''base64'')
         | Some key \<Rightarrow>
             if length key \<noteq> 32
             then Inl (ValueError ''AUTH_MASTER_KEY doit decoder exactement 32 octets (AES-256).'')
             else Inr key)
      else if app_env cfg = ''dev'' then Inr (sha256 P ''saas-dev-master-key-not-a-secret'')
      else Inl (ValueError ''AUTH_MASTER_KEY est obligatoire hors environnement dev.''))"

definition NONCE_SIZE :: nat where "NONCE_SIZE = 12"

record env_key_provider =
  ekp_key :: bytes

definition env_key_provider_init :: "bytes \<Rightarrow> env_key_provider result" where
  "env_key_provider_init master_key =
     (if length master_key \<noteq> 32 then Inl CryptoError else Inr \<lparr>ekp_key = master_key\<rparr>)"

definition kp_encrypt :: "primitives \<Rightarrow> env_key_provider \<Rightarrow> bytes \<Rightarrow> bytes \<Rightarrow> bytes" where
  \<comment> \<open>\<open>nonce\<close> is the result of \<^verbatim>\<open>os.urandom(_NONCE_SIZE)\<close>\<close>
  "kp_encrypt P kp nonce plaintext = nonce @ aes_seal P (ekp_key kp) nonce plaintext"

definition kp_decrypt :: "primitives \<Rightarrow> env_key_provider \<Rightarrow> bytes \<Rightarrow> bytes result" where
  "kp_decrypt P kp ciphertext =
     (if length ciphertext \<le> NONCE_SIZE then Inl CryptoError
      else (case aes_open P (ekp_key kp) (take NONCE_SIZE ciphertext) (drop NONCE_SIZE ciphertext) of
              None \<Rightarrow> Inl CryptoError | Some p \<Rightarrow> Inr p))"

definition get_key_provider :: "primitives \<Rightarrow> settings \<Rightarrow> env_key_provider result" where
  "get_key_provider P cfg =
     (case master_key_bytes P cfg of Inl e \<Rightarrow> Inl e | Inr key \<Rightarrow> env_key_provider_init key)"

section \<open>Tokens\<close>

definition hexdigest :: "bytes \<Rightarrow> string" where
  "hexdigest bs = concat (map (\<lambda>c. hex_digits 2 (of_char c)) bs)"

definition hash_token :: "primitives \<Rightarrow> string \<Rightarrow> string" where
  "hash_token P token = hexdigest (sha256 P token)"

definition tok_b64encode :: "bytes \<Rightarrow> string" where
  \<comment> \<open>\<^verbatim>\<open>_b64encode\<close>: trailing padding removed\<close>
  "tok_b64encode data = rev (dropWhile (\<lambda>c. c = CHR ''='') (rev (urlsafe_b64encode data)))"

definition tok_b64decode :: "string \<Rightarrow> bytes option" where
  "tok_b64decode data =
     urlsafe_b64decode (data @ replicate (nat (- int (length data) mod 4)) (CHR ''=''))"

definition payload_signature :: "primitives \<Rightarrow> settings \<Rightarrow> string \<Rightarrow> string result" where
  "payload_signature P cfg payload =
     (case master_key_bytes P cfg of Inl e \<Rightarrow> Inl e
      | Inr key \<Rightarrow> Inr (tok_b64encode (hmac_sha256 P key payload)))"

definition sign_payload ::
  "primitives \<Rightarrow> settings \<Rightarrow> instant \<Rightarrow> (string \<times> json) list \<Rightarrow> int \<Rightarrow> string result" where
  "sign_payload P cfg now data ttl_seconds =
     (let body = filter (\<lambda>(k, v). k \<noteq> ''exp'') data
                 @ [(''exp'', JInt (now div seconds 1 + ttl_seconds))];
          payload = tok_b64encode (json_dumps P body)
      in case payload_signature P cfg payload of Inl e \<Rightarrow> Inl e
         | Inr sig \<Rightarrow> Inr (payload @ ''.'' @ sig))"

definition verify_payload ::
  "primitives \<Rightarrow> settings \<Rightarrow> instant \<Rightarrow> string \<Rightarrow> (string \<times> json) list result" where
  "verify_payload P cfg now text_in =
     (let payload = before_first (CHR ''.'') text_in;
          signature = drop (Suc (length payload)) text_in
      in if payload = [] \<or> signature = [] then Inl (ValueError ''Payload signe malforme.'')
         else case payload_signature P cfg payload of Inl e \<Rightarrow> Inl e
         | Inr sig \<Rightarrow>
             if signature \<noteq> sig then Inl (ValueError ''Signature invalide.'')
             else case tok_b64decode payload of None \<Rightarrow> Inl (ValueError ''Payload signe illisible.'')
             | Some raw \<Rightarrow>
                 (case json_loads P raw of None \<Rightarrow> Inl (ValueError ''Payload signe illisible.'')
                  | Some body \<Rightarrow>
                      (case json_get body ''exp'' of
                         Some (JInt expires_at) \<Rightarrow>
                           if seconds expires_at < now then Inl (ValueError ''Payload signe expire.'')
                           else Inr (filter (\<lambda>(k, v). k \<noteq> ''exp'') body)
                       | _ \<Rightarrow> Inl (ValueError ''Payload signe expire.''))))"

section \<open>Lemmas\<close>

lemma kp_decrypt_encrypt:
  assumes "aead_law P" "length nonce = NONCE_SIZE"
  shows "kp_decrypt P kp (kp_encrypt P kp nonce plaintext) = Inr plaintext"
  using assms by (simp add: kp_decrypt_def kp_encrypt_def aead_law_def)

lemma b64_char_dot [simp]: "b64_char v \<noteq> CHR ''.''"
proof
  assume "b64_char v = CHR ''.''"
  moreover have "b64_value (CHR ''.'') = None"
    by (simp add: b64_value_def is_upper_def is_lower_def is_digit_def less_eq_char_def)
  ultimately show False using b64_value_b64_char [of v] by simp
qed

lemma urlsafe_b64encode_no_dot: "CHR ''.'' \<notin> set (urlsafe_b64encode s)"
  by (induction s rule: urlsafe_b64encode.induct) (auto simp: eq_commute [of "CHR ''.''"])

lemma rstrip_pads:
  assumes "w \<noteq> []" "last w \<noteq> CHR ''=''"
  shows "rev (dropWhile (\<lambda>c. c = CHR ''='') (rev (u @ w @ replicate k (CHR ''='')))) = u @ w"
proof -
  obtain v l where w: "w = v @ [l]" using assms(1) append_butlast_last_id by metis
  have "dropWhile (\<lambda>c. c = CHR ''='') (replicate k (CHR ''='') @ l # rev v @ rev u) = l # rev v @ rev u"
    using assms(2) w by (induction k) auto
  then show ?thesis by (simp add: w)
qed

text \<open>An encoding is data characters followed by the padding that completes the last group.\<close>

lemma b64encode_shape:
  "\<exists>w k. urlsafe_b64encode s = w @ replicate k (CHR ''='') \<and> k \<le> 2
     \<and> (length w + k) mod 4 = 0 \<and> (s \<noteq> [] \<longrightarrow> w \<noteq> [] \<and> last w \<noteq> CHR ''='') \<and> (s = [] \<longrightarrow> w = [] \<and> k = 0)"
proof (induction s rule: urlsafe_b64encode.induct)
  case (2 a)
  show ?case
    by (rule exI [of _ "[b64_char (of_char a div 4), b64_char (of_char a mod 4 * 16)]"], rule exI [of _ 2])
      (simp add: numeral_2_eq_2)
next
  case (3 a b)
  show ?case
    by (rule exI [of _ "[b64_char (of_char a div 4), b64_char (of_char a mod 4 * 16 + of_char b div 16),
          b64_char (of_char b mod 16 * 4)]"], rule exI [of _ 1]) simp
next
  case (4 a b c rest)
  let ?q = "[b64_char (of_char a div 4), b64_char (of_char a mod 4 * 16 + of_char b div 16),
      b64_char (of_char b mod 16 * 4 + of_char c div 64), b64_char (of_char c mod 64)]"
  from 4 obtain w k where "urlsafe_b64encode rest = w @ replicate k (CHR ''='') \<and> k \<le> 2
      \<and> (length w + k) mod 4 = 0 \<and> (rest \<noteq> [] \<longrightarrow> w \<noteq> [] \<and> last w \<noteq> CHR ''='')
      \<and> (rest = [] \<longrightarrow> w = [] \<and> k = 0)"
    by (elim exE)
  moreover from this have "(length (?q @ w) + k) mod 4 = 0" by simp
  ultimately show ?case
    by (intro exI [of _ "?q @ w"] exI [of _ k]) (cases "rest = []", auto)
qed simp

lemma tok_b64_roundtrip: "tok_b64decode (tok_b64encode s) = Some s"
proof -
  from b64encode_shape [of s] obtain w k where
      enc: "urlsafe_b64encode s = w @ replicate k (CHR ''='')" and k: "k \<le> 2" "(length w + k) mod 4 = 0"
      and w: "s \<noteq> [] \<longrightarrow> w \<noteq> [] \<and> last w \<noteq> CHR ''=''" "s = [] \<longrightarrow> w = [] \<and> k = 0"
    by (elim exE conjE)
  have "tok_b64encode s = w"
    using w rstrip_pads [of w "[]" k] by (cases "s = []") (simp_all add: tok_b64encode_def enc)
  moreover have "nat (- int (length w) mod 4) = k"
  proof -
    obtain q where "length w + k = 4 * q" using k(2) by (metis mod_0_imp_dvd dvdE)
    then have "- int (length w) = int k + (- int q) * 4" by linarith
    then have "- int (length w) mod 4 = int k mod 4" by (simp only: mod_mult_self1)
    then show ?thesis using k(1) by simp
  qed
  ultimately show ?thesis
    using urlsafe_b64_roundtrip [of s] by (simp add: tok_b64decode_def enc)
qed

lemma tok_b64encode_no_dot: "CHR ''.'' \<notin> set (tok_b64encode s)"
  using urlsafe_b64encode_no_dot [of s]
  by (auto simp: tok_b64encode_def dest: set_dropWhileD)

lemma verify_payload_layout:
  assumes "CHR ''.'' \<notin> set payload" "payload \<noteq> []" "sig \<noteq> []" "payload_signature P cfg payload = Inr sig"
    and "tok_b64decode payload = Some raw" "json_loads P raw = Some body"
    and "json_get body ''exp'' = Some (JInt e)" "now \<le> seconds e"
  shows "verify_payload P cfg now (payload @ ''.'' @ sig) = Inr (filter (\<lambda>(k, v). k \<noteq> ''exp'') body)"
  using assms by (simp add: verify_payload_def Let_def)

section \<open>A concrete instance of the primitives\<close>

text \<open>
  Used by the examples: an authenticated cipher that appends a 16-octet tag, a digest that
  keeps the first 32 octets, one JSON text.
\<close>

definition sample_body :: "(string \<times> json) list" where
  "sample_body = [(''p'', JStr ''google''), (''n'', JStr ''abc''), (''exp'', JInt 600)]"

definition sample_primitives :: primitives where
  "sample_primitives =
     \<lparr>sha256 = (\<lambda>bs. take 32 (bs @ replicate 32 (CHR ''0''))),
      hmac_sha256 = (\<lambda>k m. take 32 (k @ m @ replicate 32 (CHR ''0''))),
      aes_seal = (\<lambda>key nonce p. p @ replicate 16 (CHR ''t'')),
      aes_open = (\<lambda>key nonce c. if drop (length c - 16) c = replicate 16 (CHR ''t'')
                                then Some (take (length c - 16) c) else None),
      argon2_hash = (\<lambda>salt pw. ''$argon2id$'' @ pw),
      argon2_verify = (\<lambda>h pw. h = ''$argon2id$'' @ pw),
      argon2_needs_rehash = (\<lambda>h. False),
      totp_at = (\<lambda>secret t. if t = 0 then ''000000'' else if t = 30 then ''111111'' else ''999999''),
      totp_uri = (\<lambda>secret name issuer. ''otpauth://totp/'' @ issuer @ '':'' @ name @ ''?secret='' @ secret),
      json_dumps = (\<lambda>d. if d = sample_body then ''{\"p\":\"google\",\"n\":\"abc\",\"exp\":600}'' else ''{}''),
      json_loads = (\<lambda>s. if s = ''{\"p\":\"google\",\"n\":\"abc\",\"exp\":600}'' then Some sample_body
                          else if s = ''{}'' then Some [] else None)\<rparr>"

lemma sample_aead: "aead_law sample_primitives"
  by (simp add: aead_law_def sample_primitives_def)

section \<open>Properties\<close>

text \<open>
  A secret sealed by the key provider is recovered by the same provider, for
  any 12-byte nonce.
\<close>

theorem key_provider_roundtrip:
  assumes "aead_law P" "length nonce = NONCE_SIZE" "get_key_provider P cfg = Inr kp"
  shows "kp_decrypt P kp (kp_encrypt P kp nonce plaintext) = Inr plaintext \<and> length (ekp_key kp) = 32"
proof
  show "length (ekp_key kp) = 32"
    using assms(3) by (auto simp: get_key_provider_def env_key_provider_init_def split: sum.splits if_splits)
qed (rule kp_decrypt_encrypt [OF assms(1,2)])

theorem key_provider_roundtrip_witness:
  "\<exists>kp. kp_decrypt sample_primitives kp (kp_encrypt sample_primitives kp (replicate 12 (CHR ''n'')) ''secret'')
     = Inr ''secret''"
proof -
  obtain kp where "get_key_provider sample_primitives default_settings = Inr kp"
    by (simp add: get_key_provider_def master_key_bytes_def env_key_provider_init_def
        default_settings_def sample_primitives_def)
  from key_provider_roundtrip [OF sample_aead _ this, of "replicate 12 (CHR ''n'')" "''secret''"]
  show ?thesis by (auto simp: NONCE_SIZE_def)
qed

text \<open>
  A signed payload verifies, until it expires, to exactly the data that was
  signed.
\<close>

theorem signed_payload_roundtrip:
  assumes "json_law P (data @ [(''exp'', JInt (t0 div seconds 1 + ttl))])"
    and "''exp'' \<notin> fst ` set data" "\<forall>k m. hmac_sha256 P k m \<noteq> []"
    and "sign_payload P cfg t0 data ttl = Inr text_out"
    and "now \<le> seconds (t0 div seconds 1 + ttl)"
  shows "verify_payload P cfg now text_out = Inr data"
proof -
  define body where "body = data @ [(''exp'', JInt (t0 div seconds 1 + ttl))]"
  have data: "filter (\<lambda>(k, v). k \<noteq> ''exp'') data = data"
    using assms(2) by (auto simp: filter_id_conv image_iff)
  obtain sig where sig: "payload_signature P cfg (tok_b64encode (json_dumps P body)) = Inr sig"
      and layout: "text_out = tok_b64encode (json_dumps P body) @ ''.'' @ sig"
    using assms(4) by (auto simp: sign_payload_def Let_def data body_def split: sum.splits)
  have tok: "s \<noteq> [] \<Longrightarrow> tok_b64encode s \<noteq> []" for s
    using tok_b64_roundtrip [of s] by (auto simp: tok_b64decode_def urlsafe_b64decode_def)
  have "sig \<noteq> []"
    using sig tok assms(3) by (auto simp: payload_signature_def split: sum.splits)
  moreover have "json_loads P (json_dumps P body) = Some body" "json_dumps P body \<noteq> []"
    using assms(1) by (auto simp: json_law_def body_def)
  moreover have "json_get body ''exp'' = Some (JInt (t0 div seconds 1 + ttl))"
    using assms(2) map_of_eq_None_iff [of data "''exp''"]
    by (simp add: json_get_def body_def map_add_def)
  ultimately have "verify_payload P cfg now text_out = Inr (filter (\<lambda>(k, v). k \<noteq> ''exp'') body)"
    unfolding layout using sig tok assms(5)
    by (intro verify_payload_layout) (auto simp: tok_b64encode_no_dot tok_b64_roundtrip body_def)
  then show ?thesis by (simp add: body_def data)
qed

theorem signed_payload_roundtrip_witness:
  "\<exists>t. sign_payload sample_primitives default_settings 0 [(''p'', JStr ''google''), (''n'', JStr ''abc'')] 600 = Inr t
     \<and> verify_payload sample_primitives default_settings 5 t = Inr [(''p'', JStr ''google''), (''n'', JStr ''abc'')]"
proof -
  let ?data = "[(''p'', JStr ''google''), (''n'', JStr ''abc'')]"
  have key: "master_key_bytes sample_primitives default_settings \<noteq> Inl e" for e
    by (simp add: master_key_bytes_def default_settings_def)
  then obtain t where t: "sign_payload sample_primitives default_settings 0 ?data 600 = Inr t"
    by (cases "master_key_bytes sample_primitives default_settings")
      (auto simp: sign_payload_def Let_def payload_signature_def)
  have "json_law sample_primitives (?data @ [(''exp'', JInt (0 div seconds 1 + 600))])"
    by (simp add: json_law_def sample_primitives_def sample_body_def)
  moreover have "\<forall>k m. hmac_sha256 sample_primitives k m \<noteq> []"
    by (simp add: sample_primitives_def)
  ultimately have "verify_payload sample_primitives default_settings 5 t = Inr ?data"
    using signed_payload_roundtrip [of sample_primitives ?data 0 600 default_settings t 5] t
    by (simp add: seconds_def)
  with t show ?thesis by blast
qed

text \<open>
  Nothing but an unexpired text signed under the server's key verifies. A payload
  is accepted only when the part after the first dot is the signature of the part before it,
  and the expiry inside it is not in the past.
\<close>

theorem verify_payload_sound:
  assumes "verify_payload P cfg now text_in = Inr data"
  shows "\<exists>payload sig raw body e. text_in = payload @ ''.'' @ sig
     \<and> payload_signature P cfg payload = Inr sig
     \<and> tok_b64decode payload = Some raw \<and> json_loads P raw = Some body
     \<and> json_get body ''exp'' = Some (JInt e) \<and> now \<le> seconds e
     \<and> data = filter (\<lambda>(k, v). k \<noteq> ''exp'') body"
proof -
  define payload where "payload = before_first (CHR ''.'') text_in"
  define sig where "sig = drop (Suc (length payload)) text_in"
  from assms obtain raw body e where facts:
      "sig \<noteq> []" "payload_signature P cfg payload = Inr sig"
      "tok_b64decode payload = Some raw" "json_loads P raw = Some body"
      "json_get body ''exp'' = Some (JInt e)" "now \<le> seconds e"
      "data = filter (\<lambda>(k, v). k \<noteq> ''exp'') body"
    unfolding verify_payload_def Let_def payload_def [symmetric] sig_def [symmetric]
    by (auto split: if_splits sum.splits option.splits json.splits)
  have "length payload < length text_in" using facts(1) by (simp add: sig_def)
  then have "CHR ''.'' \<in> set text_in"
    by (metis before_first_id less_irrefl payload_def)
  then have "text_in = payload @ ''.'' @ sig"
    using before_first_split unfolding sig_def payload_def
    by (metis append_Cons append_Nil append_eq_conv_conj drop_Suc drop_append tl_drop list.sel(3) append_same_eq)
  with facts show ?thesis by blast
qed

theorem verify_payload_sound_witness:
  "\<exists>t payload sig. t = payload @ ''.'' @ sig \<and> payload_signature sample_primitives default_settings payload = Inr sig"
proof -
  define payload where "payload = tok_b64encode (json_dumps sample_primitives sample_body)"
  obtain sig where sig: "payload_signature sample_primitives default_settings payload = Inr sig"
    by (simp add: payload_signature_def master_key_bytes_def default_settings_def)
  have "sig \<noteq> []" "payload \<noteq> []"
    using sig by (auto simp: payload_signature_def master_key_bytes_def default_settings_def payload_def
        sample_primitives_def tok_b64encode_def b64_char_def split: if_splits)
  then have "verify_payload sample_primitives default_settings 5 (payload @ ''.'' @ sig) =
      Inr (filter (\<lambda>(k, v). k \<noteq> ''exp'') sample_body)"
    using sig
    by (intro verify_payload_layout [where e = 600])
      (auto simp: payload_def tok_b64encode_no_dot tok_b64_roundtrip sample_primitives_def sample_body_def
        json_get_def seconds_def)
  from verify_payload_sound [OF this] show ?thesis by blast
qed

end
