(* ===== verification/AuthService.thy ===== *)
theory AuthService
  imports Crypto
begin

text \<open>
  \<^verbatim>\<open>auth/service.py\<close> (passwords, server sessions, login challenges, TOTP with recovery codes)
  and the purge of \<^verbatim>\<open>auth/tasks.py\<close>. A function that only reads or changes rows of the
  caller's session returns the new database; one that can raise returns a result. Random
  values (tokens, identifiers, nonces, salts, recovery codes) are arguments, and \<open>now\<close> is the
  value of \<^verbatim>\<open>_now()\<close> during the call.
\<close>

section \<open>Passwords\<close>

definition hash_password :: "primitives \<Rightarrow> string \<Rightarrow> string \<Rightarrow> string" where
  "hash_password P salt password = argon2_hash P salt password"

definition verify_password :: "primitives \<Rightarrow> string \<Rightarrow> string \<Rightarrow> bool \<times> bool" where
  "verify_password P password_hash password =
     (if argon2_verify P password_hash password then (True, argon2_needs_rehash P password_hash)
      else (False, False))"

definition get_user :: "uuid \<Rightarrow> db \<Rightarrow> user option" where
  "get_user uid d = List.find (\<lambda>u. u_id u = uid) (users d)"

definition get_user_by_email :: "string \<Rightarrow> db \<Rightarrow> user option" where
  "get_user_by_email email d = List.find (\<lambda>u. py_lower (u_email u) = py_lower email) (users d)"

definition get_credentials :: "uuid \<Rightarrow> db \<Rightarrow> user_credentials option" where
  "get_credentials uid d = List.find (\<lambda>c. uc_user_id c = uid) (credentials d)"

definition new_credentials :: "uuid \<Rightarrow> user_credentials" where
  "new_credentials uid =
     \<lparr>uc_user_id = uid, uc_password_hash = None, uc_totp_secret_encrypted = None,
      uc_totp_enabled = False, uc_totp_last_counter = None\<rparr>"

definition put_credentials :: "user_credentials \<Rightarrow> db \<Rightarrow> db" where
  \<comment> \<open>flush of a loaded or newly added \<^verbatim>\<open>UserCredentials\<close> object\<close>
  "put_credentials c d =
     (if get_credentials (uc_user_id c) d = None
      then credentials_update (insert_row c) d
      else credentials_update (update_where (\<lambda>x. uc_user_id x = uc_user_id c) (\<lambda>_. c)) d)"

definition set_password :: "primitives \<Rightarrow> string \<Rightarrow> uuid \<Rightarrow> string \<Rightarrow> db \<Rightarrow> db" where
  "set_password P salt user_id password d =
     (let c = (case get_credentials user_id d of None \<Rightarrow> new_credentials user_id | Some c \<Rightarrow> c)
      in put_credentials (c\<lparr>uc_password_hash := Some (hash_password P salt password)\<rparr>) d)"

definition authenticate ::
  "primitives \<Rightarrow> string \<Rightarrow> string \<Rightarrow> string \<Rightarrow> db \<Rightarrow> (user \<times> user_credentials) option \<times> db" where
  "authenticate P salt email password d =
     (case get_user_by_email email d of None \<Rightarrow> (None, d)
      | Some user \<Rightarrow>
          (case get_credentials (u_id user) d of None \<Rightarrow> (None, d)
           | Some c \<Rightarrow>
               (case uc_password_hash c of None \<Rightarrow> (None, d)
                | Some h \<Rightarrow>
                    let (valid, needs_rehash) = verify_password P h password
                    in if \<not> valid then (None, d)
                       else if needs_rehash
                       then let c' = c\<lparr>uc_password_hash := Some (hash_password P salt password)\<rparr>
                            in (Some (user, c'), put_credentials c' d)
                       else (Some (user, c), d))))"

section \<open>Server sessions\<close>

definition create_session ::
  "primitives \<Rightarrow> settings \<Rightarrow> instant \<Rightarrow> uuid \<Rightarrow> string \<Rightarrow> uuid \<Rightarrow> db \<Rightarrow> string \<times> db" where
  "create_session P cfg now sid token user_id d =
     (token,
      sessions_update
        (insert_row \<lparr>s_id = sid, s_user_id = user_id, s_token_hash = hash_token P token,
                     s_expires_at = now + hours (session_ttl_hours cfg), s_last_seen_at = now,
                     s_revoked_at = None\<rparr>) d)"

definition session_by_token :: "primitives \<Rightarrow> string \<Rightarrow> db \<Rightarrow> auth_session option" where
  "session_by_token P token d = List.find (\<lambda>s. s_token_hash s = hash_token P token) (sessions d)"

definition resolve_session ::
  "primitives \<Rightarrow> instant \<Rightarrow> string \<Rightarrow> db \<Rightarrow> (auth_session \<times> user) option \<times> db" where
  "resolve_session P now token d =
     (case session_by_token P token d of None \<Rightarrow> (None, d)
      | Some s \<Rightarrow>
          if s_revoked_at s \<noteq> None then (None, d)
          else if s_expires_at s < now then (None, d)
          else (case get_user (s_user_id s) d of None \<Rightarrow> (None, d)
                | Some user \<Rightarrow>
                    (Some (s\<lparr>s_last_seen_at := now\<rparr>, user),
                     sessions_update
                       (update_where (\<lambda>x. s_id x = s_id s) (\<lambda>x. x\<lparr>s_last_seen_at := now\<rparr>)) d)))"

definition revoke_session :: "instant \<Rightarrow> auth_session \<Rightarrow> db \<Rightarrow> db" where
  "revoke_session now s d =
     sessions_update (update_where (\<lambda>x. s_id x = s_id s) (\<lambda>x. x\<lparr>s_revoked_at := Some now\<rparr>)) d"

definition revoke_all_sessions :: "instant \<Rightarrow> uuid \<Rightarrow> db \<Rightarrow> db" where
  "revoke_all_sessions now user_id d =
     sessions_update
       (update_where (\<lambda>x. s_user_id x = user_id \<and> s_revoked_at x = None)
          (\<lambda>x. x\<lparr>s_revoked_at := Some now\<rparr>)) d"

section \<open>Login challenges\<close>

definition create_login_challenge ::
  "primitives \<Rightarrow> settings \<Rightarrow> instant \<Rightarrow> uuid \<Rightarrow> string \<Rightarrow> uuid \<Rightarrow> db \<Rightarrow> string \<times> db" where
  "create_login_challenge P cfg now cid token user_id d =
     (token,
      login_challenges_update
        (insert_row \<lparr>lc_id = cid, lc_user_id = user_id, lc_token_hash = hash_token P token,
                     lc_expires_at = now + minutes (login_challenge_ttl_minutes cfg),
                     lc_consumed_at = None\<rparr>) d)"

definition challenge_by_token :: "primitives \<Rightarrow> string \<Rightarrow> db \<Rightarrow> login_challenge option" where
  "challenge_by_token P token d =
     List.find (\<lambda>c. lc_token_hash c = hash_token P token) (login_challenges d)"

definition consume_login_challenge ::
  "primitives \<Rightarrow> instant \<Rightarrow> string \<Rightarrow> db \<Rightarrow> uuid option \<times> db" where
  "consume_login_challenge P now token d =
     (case challenge_by_token P token d of None \<Rightarrow> (None, d)
      | Some c \<Rightarrow>
          if lc_consumed_at c \<noteq> None \<or> lc_expires_at c < now then (None, d)
          else (Some (lc_user_id c),
                login_challenges_update
                  (update_where (\<lambda>x. lc_id x = lc_id c) (\<lambda>x. x\<lparr>lc_consumed_at := Some now\<rparr>)) d))"

section \<open>TOTP and recovery codes\<close>

definition TOTP_ISSUER :: string where "TOTP_ISSUER = ''Socle SaaS''"
definition RECOVERY_CODE_COUNT :: nat where "RECOVERY_CODE_COUNT = 8"
definition TOTP_INTERVAL :: int where "TOTP_INTERVAL = 30"

definition decrypt_totp_secret :: "primitives \<Rightarrow> settings \<Rightarrow> user_credentials \<Rightarrow> string result" where
  "decrypt_totp_secret P cfg c =
     (case uc_totp_secret_encrypted c of
        None \<Rightarrow> Inl (AuthError ''Aucun secret TOTP enregistre.'')
      | Some enc \<Rightarrow>
          (case get_key_provider P cfg of Inl e \<Rightarrow> Inl e | Inr kp \<Rightarrow> kp_decrypt P kp enc))"

definition setup_totp ::
  "primitives \<Rightarrow> settings \<Rightarrow> string \<Rightarrow> bytes \<Rightarrow> user \<Rightarrow> db \<Rightarrow> ((string \<times> string) \<times> db) result" where
  "setup_totp P cfg secret nonce user d =
     (let c = (case get_credentials (u_id user) d of None \<Rightarrow> new_credentials (u_id user) | Some c \<Rightarrow> c)
      in if uc_totp_enabled c then Inl (AuthError ''Le TOTP est deja active.'')
         else (case get_key_provider P cfg of Inl e \<Rightarrow> Inl e
               | Inr kp \<Rightarrow>
                   Inr ((secret, totp_uri P secret (u_email user) TOTP_ISSUER),
                        put_credentials
                          (c\<lparr>uc_totp_secret_encrypted := Some (kp_encrypt P kp nonce secret),
                             uc_totp_last_counter := None\<rparr>) d)))"

fun totp_loop ::
  "primitives \<Rightarrow> string \<Rightarrow> int \<Rightarrow> string \<Rightarrow> user_credentials \<Rightarrow> int list \<Rightarrow> bool \<times> user_credentials" where
  \<comment> \<open>the \<^verbatim>\<open>for offset in (0, -1, 1)\<close> loop of \<^verbatim>\<open>_verify_totp_code\<close>\<close>
  "totp_loop P secret timestamp code c [] = (False, c)"
| "totp_loop P secret timestamp code c (offset # offsets) =
     (let counter = timestamp div TOTP_INTERVAL + offset
      in if totp_at P secret (counter * TOTP_INTERVAL) \<noteq> code
         then totp_loop P secret timestamp code c offsets
         else if (case uc_totp_last_counter c of None \<Rightarrow> False | Some l \<Rightarrow> counter \<le> l)
         then (False, c)
         else (True, c\<lparr>uc_totp_last_counter := Some counter\<rparr>))"

definition verify_totp_code ::
  "primitives \<Rightarrow> settings \<Rightarrow> instant \<Rightarrow> user_credentials \<Rightarrow> string \<Rightarrow> (bool \<times> user_credentials) result" where
  "verify_totp_code P cfg now c code =
     (case decrypt_totp_secret P cfg c of Inl e \<Rightarrow> Inl e
      | Inr secret \<Rightarrow> Inr (totp_loop P secret (now div seconds 1) code c [0, -1, 1]))"

definition activate_totp ::
  "primitives \<Rightarrow> settings \<Rightarrow> instant \<Rightarrow> (uuid \<times> string) list \<Rightarrow> uuid \<Rightarrow> string \<Rightarrow> db \<Rightarrow>
   (string list \<times> db) result" where
  \<comment> \<open>\<open>fresh\<close>: the identifiers and \<^verbatim>\<open>token_hex\<close> values of the new recovery codes\<close>
  "activate_totp P cfg now fresh user_id code d =
     (case get_credentials user_id d of
        None \<Rightarrow> Inl (AuthError ''Aucun enrolement TOTP en cours.'')
      | Some c \<Rightarrow>
          if uc_totp_secret_encrypted c = None then Inl (AuthError ''Aucun enrolement TOTP en cours.'')
          else if uc_totp_enabled c then Inl (AuthError ''Le TOTP est deja active.'')
          else (case verify_totp_code P cfg now c code of Inl e \<Rightarrow> Inl e
                | Inr (ok, c') \<Rightarrow>
                    if \<not> ok then Inl (AuthError ''Code TOTP invalide.'')
                    else let codes = take RECOVERY_CODE_COUNT fresh
                         in Inr (map snd codes,
                                 recovery_codes_update
                                   (\<lambda>rs. rs @ map (\<lambda>(i, rc). \<lparr>rc_id = i, rc_user_id = user_id,
                                                 rc_code_hash = hash_token P rc, rc_used_at = None\<rparr>) codes)
                                   (put_credentials (c'\<lparr>uc_totp_enabled := True\<rparr>) d))))"

definition disable_totp :: "primitives \<Rightarrow> uuid \<Rightarrow> string \<Rightarrow> db \<Rightarrow> db result" where
  "disable_totp P user_id password d =
     (case get_credentials user_id d of None \<Rightarrow> Inl (AuthError ''Le TOTP n'est pas active.'')
      | Some c \<Rightarrow>
          if \<not> uc_totp_enabled c then Inl (AuthError ''Le TOTP n'est pas active.'')
          else if (case uc_password_hash c of None \<Rightarrow> True
                   | Some h \<Rightarrow> \<not> fst (verify_password P h password))
          then Inl (AuthError ''Mot de passe invalide.'')
          else Inr (recovery_codes_update (delete_where (\<lambda>r. rc_user_id r = user_id))
                      (put_credentials
                         (c\<lparr>uc_totp_enabled := False, uc_totp_secret_encrypted := None,
                            uc_totp_last_counter := None\<rparr>) d)))"

definition verify_second_factor ::
  "primitives \<Rightarrow> settings \<Rightarrow> instant \<Rightarrow> uuid \<Rightarrow> string \<Rightarrow> db \<Rightarrow> (bool \<times> db) result" where
  "verify_second_factor P cfg now user_id code d =
     (case get_credentials user_id d of None \<Rightarrow> Inr (False, d)
      | Some c \<Rightarrow>
          if \<not> uc_totp_enabled c then Inr (False, d)
          else (case verify_totp_code P cfg now c code of Inl e \<Rightarrow> Inl e
                | Inr (ok, c') \<Rightarrow>
                    if ok then Inr (True, put_credentials c' d)
                    else (case List.find (\<lambda>r. rc_user_id r = user_id \<and> rc_code_hash r = hash_token P code
                                              \<and> rc_used_at r = None) (recovery_codes d) of
                            None \<Rightarrow> Inr (False, d)
                          | Some r \<Rightarrow>
                              Inr (True, recovery_codes_update
                                     (update_where (\<lambda>x. rc_id x = rc_id r)
                                        (\<lambda>x. x\<lparr>rc_used_at := Some now\<rparr>)) d))))"

section \<open>Purge\<close>

definition purge_expired_auth_rows :: "instant \<Rightarrow> db \<Rightarrow> (nat \<times> nat \<times> nat) \<times> db" where
  "purge_expired_auth_rows now d =
     (let dead_s = (\<lambda>s. s_expires_at s < now \<or> s_revoked_at s \<noteq> None);
          dead_c = (\<lambda>c. lc_expires_at c < now);
          dead_i = (\<lambda>i. inv_expires_at i < now \<and> inv_accepted_at i = None)
      in ((length (filter dead_s (sessions d)), length (filter dead_c (login_challenges d)),
           length (filter dead_i (invitations d))),
          invitations_update (delete_where dead_i)
            (login_challenges_update (delete_where dead_c)
              (sessions_update (delete_where dead_s) d))))"

section \<open>Sequences of operations\<close>

text \<open>
  The writes of the component as data, so that properties can speak of any interleaving of
  them. An operation that raises leaves the database unchanged (its transaction is rolled
  back).
\<close>

datatype auth_op =
    CreateSession instant uuid string uuid
  | ResolveSession instant string
  | RevokeSession instant auth_session
  | RevokeAllSessions instant uuid
  | CreateLoginChallenge instant uuid string uuid
  | ConsumeLoginChallenge instant string
  | SetPassword string uuid string
  | Authenticate string string string
  | SetupTotp string bytes user
  | ActivateTotp instant "(uuid \<times> string) list" uuid string
  | DisableTotp uuid string
  | VerifySecondFactor instant uuid string
  | PurgeExpired instant

definition or_rollback :: "('a \<times> db) result \<Rightarrow> db \<Rightarrow> db" where
  "or_rollback r d = (case r of Inl _ \<Rightarrow> d | Inr (_, d') \<Rightarrow> d')"

fun auth_step :: "primitives \<Rightarrow> settings \<Rightarrow> auth_op \<Rightarrow> db \<Rightarrow> db" where
  "auth_step P cfg (CreateSession now sid token uid) d = snd (create_session P cfg now sid token uid d)"
| "auth_step P cfg (ResolveSession now token) d = snd (resolve_session P now token d)"
| "auth_step P cfg (RevokeSession now s) d = revoke_session now s d"
| "auth_step P cfg (RevokeAllSessions now uid) d = revoke_all_sessions now uid d"
| "auth_step P cfg (CreateLoginChallenge now cid token uid) d =
     snd (create_login_challenge P cfg now cid token uid d)"
| "auth_step P cfg (ConsumeLoginChallenge now token) d = snd (consume_login_challenge P now token d)"
| "auth_step P cfg (SetPassword salt uid pw) d = set_password P salt uid pw d"
| "auth_step P cfg (Authenticate salt email pw) d = snd (authenticate P salt email pw d)"
| "auth_step P cfg (SetupTotp secret nonce user) d = or_rollback (setup_totp P cfg secret nonce user d) d"
| "auth_step P cfg (ActivateTotp now fresh uid code) d =
     or_rollback (activate_totp P cfg now fresh uid code d) d"
| "auth_step P cfg (DisableTotp uid pw) d =
     (case disable_totp P uid pw d of Inl _ \<Rightarrow> d | Inr d' \<Rightarrow> d')"
| "auth_step P cfg (VerifySecondFactor now uid code) d =
     or_rollback (verify_second_factor P cfg now uid code d) d"
| "auth_step P cfg (PurgeExpired now) d = snd (purge_expired_auth_rows now d)"

definition session_dead :: "primitives \<Rightarrow> string \<Rightarrow> db \<Rightarrow> bool" where
  "session_dead P token d =
     list_all (\<lambda>s. s_token_hash s = hash_token P token \<longrightarrow> s_revoked_at s \<noteq> None) (sessions d)"

definition challenge_dead :: "primitives \<Rightarrow> string \<Rightarrow> db \<Rightarrow> bool" where
  "challenge_dead P token d =
     list_all (\<lambda>c. lc_token_hash c = hash_token P token \<longrightarrow> lc_consumed_at c \<noteq> None) (login_challenges d)"

definition recovery_dead :: "primitives \<Rightarrow> string \<Rightarrow> db \<Rightarrow> bool" where
  "recovery_dead P code d =
     list_all (\<lambda>r. rc_code_hash r = hash_token P code \<longrightarrow> rc_used_at r \<noteq> None) (recovery_codes d)"

fun no_new_session :: "primitives \<Rightarrow> string \<Rightarrow> auth_op \<Rightarrow> bool" where
  "no_new_session P token (CreateSession _ _ token' _) = (hash_token P token' \<noteq> hash_token P token)"
| "no_new_session P token _ = True"

fun no_new_challenge :: "primitives \<Rightarrow> string \<Rightarrow> auth_op \<Rightarrow> bool" where
  "no_new_challenge P token (CreateLoginChallenge _ _ token' _) = (hash_token P token' \<noteq> hash_token P token)"
| "no_new_challenge P token _ = True"

fun no_new_recovery :: "primitives \<Rightarrow> string \<Rightarrow> auth_op \<Rightarrow> bool" where
  "no_new_recovery P code (ActivateTotp _ fresh _ _) =
     list_all (\<lambda>(i, rc). hash_token P rc \<noteq> hash_token P code) fresh"
| "no_new_recovery P code _ = True"

section \<open>Lemmas\<close>

text \<open>Which tables an operation writes.\<close>

lemma put_credentials_tables [simp]:
  "sessions (put_credentials c d) = sessions d" "login_challenges (put_credentials c d) = login_challenges d"
  "recovery_codes (put_credentials c d) = recovery_codes d" "users (put_credentials c d) = users d"
  "invitations (put_credentials c d) = invitations d" "memberships (put_credentials c d) = memberships d"
  "tenants (put_credentials c d) = tenants d"
  by (simp_all add: put_credentials_def)

lemma authenticate_tables [simp]:
  "sessions (snd (authenticate P salt e pw d)) = sessions d"
  "login_challenges (snd (authenticate P salt e pw d)) = login_challenges d"
  "recovery_codes (snd (authenticate P salt e pw d)) = recovery_codes d"
  "users (snd (authenticate P salt e pw d)) = users d"
  by (simp_all add: authenticate_def Let_def split: option.split prod.split)

lemma or_rollback_simps [simp]:
  "or_rollback (Inl e) d = d" "or_rollback (Inr (x, d')) d = d'"
  by (simp_all add: or_rollback_def)

lemmas auth_tables = create_session_def resolve_session_def revoke_session_def revoke_all_sessions_def
  create_login_challenge_def consume_login_challenge_def set_password_def setup_totp_def
  activate_totp_def disable_totp_def verify_second_factor_def purge_expired_auth_rows_def Let_def

lemma session_dead_step:
  assumes "session_dead P token d" "no_new_session P token op"
  shows "session_dead P token (auth_step P cfg op d)"
  using assms
  by (cases op)
    (auto simp: session_dead_def auth_tables list_all_iff set_update_where
      split: option.splits sum.splits if_splits prod.splits)

lemma challenge_dead_step:
  assumes "challenge_dead P token d" "no_new_challenge P token op"
  shows "challenge_dead P token (auth_step P cfg op d)"
  using assms
  by (cases op)
    (auto simp: challenge_dead_def auth_tables list_all_iff set_update_where
      split: option.splits sum.splits if_splits prod.splits)

lemma recovery_dead_step:
  assumes "recovery_dead P code d" "no_new_recovery P code op"
  shows "recovery_dead P code (auth_step P cfg op d)"
  using assms
  by (cases op)
    (auto simp: recovery_dead_def auth_tables list_all_iff set_update_where
      split: option.splits sum.splits if_splits prod.splits dest: in_set_takeD)

interpretation session_run: absorbing "auth_step P cfg" "no_new_session P token" "session_dead P token"
  for P cfg token
  by unfold_locales (rule session_dead_step)

interpretation challenge_run: absorbing "auth_step P cfg" "no_new_challenge P token" "challenge_dead P token"
  for P cfg token
  by unfold_locales (rule challenge_dead_step)

interpretation recovery_run: absorbing "auth_step P cfg" "no_new_recovery P code" "recovery_dead P code"
  for P cfg code
  by unfold_locales (rule recovery_dead_step)

lemma session_dead_resolve: "session_dead P token d \<Longrightarrow> resolve_session P now token d = (None, d)"
  by (auto simp: session_dead_def resolve_session_def session_by_token_def list_all_iff
      split: option.split dest!: find_eq_Some_D)

lemma challenge_dead_consume: "challenge_dead P token d \<Longrightarrow> consume_login_challenge P now token d = (None, d)"
  by (auto simp: challenge_dead_def consume_login_challenge_def challenge_by_token_def list_all_iff
      split: option.split dest!: find_eq_Some_D)

text \<open>Unique keys: the row a lookup returns is the only one with its key.\<close>

lemma revoke_makes_dead:
  assumes "sessions_constraints d" "session_by_token P token d = Some s"
  shows "session_dead P token (revoke_session now s d)"
proof -
  have s: "s \<in> set (sessions d)" "s_token_hash s = hash_token P token"
    using assms(2) by (auto simp: session_by_token_def dest: find_eq_Some_D)
  have "x = s" if "x \<in> set (sessions d)" "s_token_hash x = hash_token P token" for x
    using assms(1) s that by (auto simp: sessions_constraints_def distinct_map inj_on_def)
  then show ?thesis
    by (auto simp: session_dead_def revoke_session_def list_all_iff set_update_where)
qed

lemma consume_makes_dead:
  assumes "login_challenges_constraints d" "consume_login_challenge P now token d = (Some uid, d')"
  shows "challenge_dead P token d'"
proof -
  from assms(2) obtain c where c: "challenge_by_token P token d = Some c"
      and d': "d' = login_challenges_update
        (update_where (\<lambda>x. lc_id x = lc_id c) (\<lambda>x. x\<lparr>lc_consumed_at := Some now\<rparr>)) d"
    by (auto simp: consume_login_challenge_def split: option.splits if_splits)
  have "x = c" if "x \<in> set (login_challenges d)" "lc_token_hash x = hash_token P token" for x
    using assms(1) c that
    by (auto simp: login_challenges_constraints_def distinct_map inj_on_def challenge_by_token_def
        dest!: find_eq_Some_D)
  then show ?thesis by (auto simp: d' challenge_dead_def list_all_iff set_update_where)
qed

text \<open>The TOTP loop accepts at the first matching step, and only beyond the last accepted one.\<close>

lemma totp_loop_accept:
  assumes "totp_loop P secret ts code c offsets = (ok, c')"
  shows "if ok then \<exists>k. c' = c\<lparr>uc_totp_last_counter := Some k\<rparr> \<and> k - ts div TOTP_INTERVAL \<in> set offsets
           \<and> totp_at P secret (k * TOTP_INTERVAL) = code
           \<and> (case uc_totp_last_counter c of None \<Rightarrow> True | Some l \<Rightarrow> l < k)
         else c' = c"
  using assms
  by (induction offsets) (auto simp: Let_def split: if_splits option.splits)

text \<open>A run of TOTP verifications on one credential: the steps accepted, in order.\<close>

fun totp_attempts ::
  "primitives \<Rightarrow> settings \<Rightarrow> (instant \<times> string) list \<Rightarrow> user_credentials \<Rightarrow> int list" where
  "totp_attempts P cfg [] c = []"
| "totp_attempts P cfg ((now, code) # rest) c =
     (case verify_totp_code P cfg now c code of
        Inl _ \<Rightarrow> totp_attempts P cfg rest c
      | Inr (ok, c') \<Rightarrow>
          (if ok then [the (uc_totp_last_counter c')] else []) @ totp_attempts P cfg rest c')"

lemma totp_attempts_increase:
  "sorted_wrt (<) (totp_attempts P cfg as c)
   \<and> (\<forall>k\<in>set (totp_attempts P cfg as c). case uc_totp_last_counter c of None \<Rightarrow> True | Some l \<Rightarrow> l < k)"
proof (induction as arbitrary: c)
  case (Cons a rest)
  obtain now code where a: "a = (now, code)" by fastforce
  show ?case
  proof (cases "verify_totp_code P cfg now c code")
    case (Inl e)
    then show ?thesis using Cons by (simp add: a)
  next
    case (Inr r)
    obtain ok c' where r: "r = (ok, c')" by fastforce
    from Inr r obtain secret where "totp_loop P secret (now div seconds 1) code c [0, -1, 1] = (ok, c')"
      by (auto simp: verify_totp_code_def split: sum.splits)
    from totp_loop_accept [OF this] Cons.IH [of c'] show ?thesis
      using Inr r by (auto simp: a split: if_splits option.splits)
  qed
qed simp

section \<open>A concrete database\<close>

definition sample_session :: auth_session where
  "sample_session =
     \<lparr>s_id = 11, s_user_id = 1, s_token_hash = hash_token sample_primitives ''tok'',
      s_expires_at = 100, s_last_seen_at = 0, s_revoked_at = None\<rparr>"

definition sample_credentials :: user_credentials where
  "sample_credentials =
     \<lparr>uc_user_id = 1, uc_password_hash = Some ''$argon2id$pw'',
      uc_totp_secret_encrypted = Some (replicate 12 (CHR ''n'') @ ''SECRET'' @ replicate 16 (CHR ''t'')),
      uc_totp_enabled = True, uc_totp_last_counter = None\<rparr>"

definition sample_auth_db :: db where
  "sample_auth_db = empty_db
     \<lparr>users := [\<lparr>u_id = 1, u_email = ''Ann@Acme.io'', u_display_name = None\<rparr>],
      credentials := [sample_credentials], sessions := [sample_session],
      login_challenges := [\<lparr>lc_id = 21, lc_user_id = 1,
        lc_token_hash = hash_token sample_primitives ''chal'', lc_expires_at = 50, lc_consumed_at = None\<rparr>],
      recovery_codes := [\<lparr>rc_id = 31, rc_user_id = 1,
        rc_code_hash = hash_token sample_primitives ''recov'', rc_used_at = None\<rparr>]\<rparr>"

lemma sample_hash:
  "hash_token sample_primitives ''other'' \<noteq> hash_token sample_primitives ''tok''"
  by (simp add: hash_token_def hexdigest_def sample_primitives_def numeral_2_eq_2 hex_char_def)

lemma sample_totp_at:
  "totp_at sample_primitives secret t =
     (if t = 0 then ''000000'' else if t = 30 then ''111111'' else ''999999'')"
  by (simp add: sample_primitives_def)

lemma sample_decrypt:
  "uc_totp_secret_encrypted c = uc_totp_secret_encrypted sample_credentials \<Longrightarrow>
   decrypt_totp_secret sample_primitives default_settings c = Inr ''SECRET''"
  by (simp add: decrypt_totp_secret_def sample_credentials_def get_key_provider_def master_key_bytes_def
      env_key_provider_init_def default_settings_def kp_decrypt_def sample_primitives_def NONCE_SIZE_def)

lemma sample_auth_constraints:
  "sessions_constraints sample_auth_db" "login_challenges_constraints sample_auth_db"
  by (simp_all add: sessions_constraints_def login_challenges_constraints_def sample_auth_db_def)

lemma sample_session_found:
  "session_by_token sample_primitives ''tok'' sample_auth_db = Some sample_session"
  by (simp add: session_by_token_def sample_auth_db_def sample_session_def)

section \<open>Properties\<close>

text \<open>
  C14 (safety). Logging out is final. Once a session has been revoked, no sequence of
  authentication operations (other logins, challenges, password and TOTP changes, purges)
  makes its token resolve again, at any time, as long as no later session is created with a
  token of the same digest.
\<close>

theorem revoked_session_never_resolves:
  assumes "sessions_constraints d" "session_by_token P token d = Some s"
    and "list_all (no_new_session P token) ops"
  shows "fst (resolve_session P later token (fold (auth_step P cfg) ops (revoke_session now s d))) = None"
  using session_run.run_dead [OF revoke_makes_dead [OF assms(1,2)] assms(3)]
  by (simp add: session_dead_resolve)

theorem revoked_session_never_resolves_witness:
  "fst (resolve_session sample_primitives 9 ''tok''
     (fold (auth_step sample_primitives default_settings)
        [CreateSession 5 12 ''other'' 1, ResolveSession 6 ''tok'', PurgeExpired 7]
        (revoke_session 4 sample_session sample_auth_db))) = None"
  using revoked_session_never_resolves
    [of sample_auth_db sample_primitives "''tok''" sample_session
        "[CreateSession 5 12 ''other'' 1, ResolveSession 6 ''tok'', PurgeExpired 7]" 9 default_settings 4]
  by (simp add: sample_session_found sample_auth_constraints sample_hash del: auth_step.simps)

text \<open>
  A login challenge is accepted once. After it has been consumed, whatever
  operations follow, presenting its token again is refused and changes nothing.
\<close>

theorem challenge_single_use:
  assumes "login_challenges_constraints d" "consume_login_challenge P now token d = (Some uid, d')"
    and "list_all (no_new_challenge P token) ops"
  shows "consume_login_challenge P later token (fold (auth_step P cfg) ops d') =
     (None, fold (auth_step P cfg) ops d')"
  using challenge_run.run_dead [OF consume_makes_dead [OF assms(1,2)] assms(3)]
  by (rule challenge_dead_consume)

theorem challenge_single_use_witness:
  "\<exists>d'. consume_login_challenge sample_primitives 3 ''chal'' sample_auth_db = (Some 1, d')
     \<and> consume_login_challenge sample_primitives 4 ''chal'' d' = (None, d')"
proof -
  obtain d' where d': "consume_login_challenge sample_primitives 3 ''chal'' sample_auth_db = (Some 1, d')"
    by (simp add: consume_login_challenge_def challenge_by_token_def sample_auth_db_def sample_hash)
  from challenge_single_use [OF sample_auth_constraints(2) d', of "[]" 4 default_settings] d'
  show ?thesis by simp
qed

text \<open>
  A recovery code replaces the TOTP code at most once. When a code was accepted
  although it is not a valid TOTP code, then after any further operations (short of an
  activation that happens to draw a code of the same digest) the same code is accepted again
  only if it is by then a valid TOTP code.
\<close>

theorem recovery_code_single_use:
  assumes "distinct (map rc_id (recovery_codes d))" "distinct (map rc_code_hash (recovery_codes d))"
    and "get_credentials uid d = Some c" "verify_totp_code P cfg now c code = Inr (False, c1)"
    and "verify_second_factor P cfg now uid code d = Inr (True, d1)"
    and "list_all (no_new_recovery P code) ops"
    and "d2 = fold (auth_step P cfg) ops d1"
    and "verify_second_factor P cfg later uid' code d2 = Inr (True, d3)"
  shows "\<exists>c2 c3. get_credentials uid' d2 = Some c2 \<and> verify_totp_code P cfg later c2 code = Inr (True, c3)"
proof -
  from assms(3-5) obtain r where
      r: "List.find (\<lambda>r. rc_user_id r = uid \<and> rc_code_hash r = hash_token P code
            \<and> rc_used_at r = None) (recovery_codes d) = Some r"
      and d1: "d1 = recovery_codes_update
        (update_where (\<lambda>x. rc_id x = rc_id r) (\<lambda>x. x\<lparr>rc_used_at := Some now\<rparr>)) d"
    by (auto simp: verify_second_factor_def split: if_splits option.splits)
  have "x = r" if "x \<in> set (recovery_codes d)" "rc_code_hash x = hash_token P code" for x
    using assms(2) find_eq_Some_D [OF r] that by (auto simp: distinct_map inj_on_def)
  then have "recovery_dead P code d1"
    by (auto simp: d1 recovery_dead_def list_all_iff set_update_where)
  then have "recovery_dead P code d2"
    unfolding assms(7) by (rule recovery_run.run_dead) (rule assms(6))
  then show ?thesis
    using assms(8)
    by (auto simp: verify_second_factor_def recovery_dead_def list_all_iff
        split: option.splits if_splits sum.splits dest!: find_eq_Some_D)
qed

theorem recovery_code_single_use_witness:
  "\<exists>d1. verify_second_factor sample_primitives default_settings 3 1 ''recov'' sample_auth_db = Inr (True, d1)
     \<and> verify_second_factor sample_primitives default_settings 4 1 ''recov'' d1 \<noteq> Inr (True, d1)"
proof -
  have c: "get_credentials 1 sample_auth_db = Some sample_credentials"
    by (simp add: get_credentials_def sample_auth_db_def sample_credentials_def)
  have totp: "verify_totp_code sample_primitives default_settings t sample_credentials ''recov''
      = Inr (False, sample_credentials)" if "t \<in> {3, 4}" for t
    using that
    by (auto simp: verify_totp_code_def sample_decrypt sample_totp_at TOTP_INTERVAL_def seconds_def)
  obtain d1 where d1: "verify_second_factor sample_primitives default_settings 3 1 ''recov'' sample_auth_db
      = Inr (True, d1)" and cr: "credentials d1 = credentials sample_auth_db"
    using c totp by (simp add: verify_second_factor_def sample_credentials_def sample_auth_db_def)
  have "get_credentials 1 d1 = Some sample_credentials"
    using c cr by (simp add: get_credentials_def)
  then have "verify_second_factor sample_primitives default_settings 4 1 ''recov'' d1 \<noteq> Inr (True, d3)" for d3
    using recovery_code_single_use [OF _ _ c totp d1, of "[]" d1 4 1 d3] totp
    by (auto simp: sample_auth_db_def)
  with d1 show ?thesis by blast
qed

text \<open>
  C23 (safety). TOTP codes are not replayed. Along any sequence of verifications on one
  enrolment, whatever the clock does, the time steps at which codes are accepted strictly
  increase, and stay beyond the step recorded at the start; a code is therefore accepted at
  most once per time step.
\<close>

theorem totp_steps_strictly_increase:
  "sorted_wrt (<) (totp_attempts P cfg attempts c)
   \<and> (\<forall>l k. uc_totp_last_counter c = Some l \<and> k \<in> set (totp_attempts P cfg attempts c) \<longrightarrow> l < k)"
  using totp_attempts_increase [of P cfg attempts c] by fastforce

theorem totp_steps_strictly_increase_witness:
  "totp_attempts sample_primitives default_settings
     [(0, ''000000''), (0, ''000000''), (30000000, ''111111''), (30000000, ''000000'')] sample_credentials = [0, 1]
   \<and> sorted_wrt (<) [0, 1::int]"
proof -
  have secret: "uc_totp_secret_encrypted (sample_credentials\<lparr>uc_totp_last_counter := k\<rparr>)
      = uc_totp_secret_encrypted sample_credentials" for k by simp
  have start: "uc_totp_last_counter sample_credentials = None" by (simp add: sample_credentials_def)
  have "totp_attempts sample_primitives default_settings
     [(0, ''000000''), (0, ''000000''), (30000000, ''111111''), (30000000, ''000000'')] sample_credentials = [0, 1]"
    by (simp add: verify_totp_code_def sample_decrypt [OF secret] sample_decrypt [OF refl] sample_totp_at
        TOTP_INTERVAL_def seconds_def start)
  with totp_steps_strictly_increase [of sample_primitives default_settings
     "[(0, ''000000''), (0, ''000000''), (30000000, ''111111''), (30000000, ''000000'')]" sample_credentials]
  show ?thesis by metis
qed

text \<open>
  A session lives exactly as long as its TTL says. The token handed out at
  login resolves to its user, and refreshes \<^verbatim>\<open>last_seen_at\<close>, up to the expiry instant included,
  and to nothing after it.
\<close>

theorem session_lifetime:
  assumes "hash_token P token \<notin> s_token_hash ` set (sessions d)" "get_user uid d = Some u"
  shows "fst (resolve_session P now token (snd (create_session P cfg t0 sid token uid d))) =
    (if now \<le> t0 + hours (session_ttl_hours cfg)
     then Some (\<lparr>s_id = sid, s_user_id = uid, s_token_hash = hash_token P token,
                 s_expires_at = t0 + hours (session_ttl_hours cfg), s_last_seen_at = now,
                 s_revoked_at = None\<rparr>, u)
     else None)"
proof -
  let ?s = "\<lparr>s_id = sid, s_user_id = uid, s_token_hash = hash_token P token,
      s_expires_at = t0 + hours (session_ttl_hours cfg), s_last_seen_at = t0, s_revoked_at = None\<rparr>"
  have "session_by_token P token (sessions_update (insert_row ?s) d) = Some ?s"
    using sessions_tbl.lookup_after_insert [of ?s d] assms(1) by (simp add: session_by_token_def)
  then show ?thesis
    using assms(2) by (simp add: resolve_session_def create_session_def get_user_def)
qed

theorem session_lifetime_witness:
  "map_option snd (fst (resolve_session sample_primitives 7 ''other''
     (snd (create_session sample_primitives default_settings 5 12 ''other'' 1 sample_auth_db)))) =
   Some \<lparr>u_id = 1, u_email = ''Ann@Acme.io'', u_display_name = None\<rparr>"
proof -
  have "hash_token sample_primitives ''other'' \<notin> s_token_hash ` set (sessions sample_auth_db)"
    using sample_hash by (simp add: sample_auth_db_def sample_session_def)
  moreover have "get_user 1 sample_auth_db = Some \<lparr>u_id = 1, u_email = ''Ann@Acme.io'', u_display_name = None\<rparr>"
    by (simp add: get_user_def sample_auth_db_def)
  ultimately show ?thesis
    by (subst session_lifetime) (simp_all add: default_settings_def hours_def minutes_def seconds_def)
qed

lemma get_credentials_put: "get_credentials (uc_user_id c) (put_credentials c d) = Some c"
proof (cases "get_credentials (uc_user_id c) d")
  case None
  then show ?thesis by (simp add: get_credentials_def put_credentials_def find_insert_row)
next
  case (Some c0)
  have "List.find (\<lambda>x. uc_user_id x = uc_user_id c)
      (update_where (\<lambda>x. uc_user_id x = uc_user_id c) (\<lambda>_. c) cs) =
      map_option (\<lambda>_. c) (List.find (\<lambda>x. uc_user_id x = uc_user_id c) cs)" for cs
    by (induction cs) (auto simp: update_where_def)
  with Some show ?thesis by (simp add: get_credentials_def put_credentials_def)
qed

text \<open>
  After a password is set, logging in with the account's email (in any letter
  case) succeeds with that password and fails with every other.
\<close>

theorem password_roundtrip:
  assumes "argon2_law P" "users_constraints d" "u \<in> set (users d)" "py_lower email = py_lower (u_email u)"
  shows "map_option fst (fst (authenticate P salt' email pw' (set_password P salt (u_id u) pw d))) =
    (if pw' = pw then Some u else None)"
proof -
  define c where "c = (case get_credentials (u_id u) d of None \<Rightarrow> new_credentials (u_id u) | Some c \<Rightarrow> c)
      \<lparr>uc_password_hash := Some (hash_password P salt pw)\<rparr>"
  have uid: "uc_user_id c = u_id u"
    by (auto simp: c_def new_credentials_def get_credentials_def split: option.splits dest: find_eq_Some_D)
  have d': "set_password P salt (u_id u) pw d = put_credentials c d"
    by (simp add: set_password_def c_def Let_def)
  have "get_user_by_email email d = Some u"
    using assms(2-4) unfolding get_user_by_email_def
    by (intro find_unique [where k = "\<lambda>u. py_lower (u_email u)"]) (auto simp: users_constraints_def)
  then have "get_user_by_email email (put_credentials c d) = Some u"
    by (simp add: get_user_by_email_def)
  moreover have "get_credentials (u_id u) (put_credentials c d) = Some c"
    using get_credentials_put [of c d] by (simp add: uid)
  moreover have "argon2_verify P (hash_password P salt pw) pw' \<longleftrightarrow> pw' = pw"
    using assms(1) by (simp add: argon2_law_def hash_password_def)
  ultimately show ?thesis
    by (simp add: d' authenticate_def verify_password_def Let_def c_def)
qed

theorem password_roundtrip_witness:
  "map_option fst (fst (authenticate sample_primitives [] ''ann@acme.io'' ''s3cret''
      (set_password sample_primitives [] 1 ''s3cret'' sample_auth_db))) =
    Some \<lparr>u_id = 1, u_email = ''Ann@Acme.io'', u_display_name = None\<rparr>"
proof -
  have "argon2_law sample_primitives" by (auto simp: argon2_law_def sample_primitives_def)
  moreover have "py_lower ''ann@acme.io'' = py_lower ''Ann@Acme.io''" by code_simp
  ultimately show ?thesis
    using password_roundtrip [of sample_primitives sample_auth_db
        "\<lparr>u_id = 1, u_email = ''Ann@Acme.io'', u_display_name = None\<rparr>" "''ann@acme.io''" "[]" "''s3cret''" "[]" "''s3cret''"]
    by (simp add: sample_auth_db_def users_constraints_def)
qed

end
