(* ===== verification/Access.thy ===== *)
theory Access
  imports Tenancy AuthService
begin

text \<open>
  From a request to a tenant context: the session cookie (\<^verbatim>\<open>auth/deps.py\<close>), the resolution of
  sub-domain, session and membership (\<^verbatim>\<open>tenancy/deps.py\<close>) and the permission check
  (\<^verbatim>\<open>auth/permissions.py\<close>).
\<close>

section \<open>Roles and permissions\<close>

definition ROLE_OWNER :: string where "ROLE_OWNER = ''owner''"
definition ROLE_ADMIN :: string where "ROLE_ADMIN = ''admin''"
definition ROLE_MEMBER :: string where "ROLE_MEMBER = ''member''"

definition PERMISSIONS :: "string list" where
  "PERMISSIONS =
     [''core.members.read'', ''core.members.manage'', ''core.teams.read'', ''core.teams.manage'',
      ''core.tenant.settings'', ''core.audit.read'', ''core.connectors.read'',
      ''core.connectors.manage'', ''core.ai.use'']"

definition MEMBER_PERMISSIONS :: "string list" where
  "MEMBER_PERMISSIONS = [''core.members.read'', ''core.teams.read'', ''core.connectors.read'']"

definition ADMIN_PERMISSIONS :: "string list" where
  "ADMIN_PERMISSIONS =
     MEMBER_PERMISSIONS @
     [''core.members.manage'', ''core.teams.manage'', ''core.tenant.settings'', ''core.audit.read'',
      ''core.connectors.manage'', ''core.ai.use'']"

definition ROLE_PERMISSIONS :: "(string \<times> string list) list" where
  "ROLE_PERMISSIONS =
     [(ROLE_MEMBER, MEMBER_PERMISSIONS), (ROLE_ADMIN, ADMIN_PERMISSIONS), (ROLE_OWNER, ADMIN_PERMISSIONS)]"

definition ROLES :: "string list" where
  "ROLES = map fst ROLE_PERMISSIONS"

text \<open>The module-level registries: permissions and grants contributed by business modules.\<close>

record permission_registry =
  module_permissions :: "string list"
  module_role_grants :: "(string \<times> string list) list"

definition empty_registry :: permission_registry where
  "empty_registry = \<lparr>module_permissions = [], module_role_grants = map (\<lambda>r. (r, [])) ROLES\<rparr>"

definition name_char :: "char \<Rightarrow> bool" where
  "name_char c = (is_lower c \<or> is_digit c \<or> c = CHR ''_'')"

definition module_permission_fullmatch :: "string \<Rightarrow> bool" where
  \<comment> \<open>\<^verbatim>\<open>_MODULE_PERMISSION_RE\<close>: the module part contains no dot, so it ends at the first one\<close>
  "module_permission_fullmatch s =
     (let m = before_first (CHR ''.'') s; rest = drop (Suc (length m)) s
      in \<not> startswith s ''core.'' \<and> CHR ''.'' \<in> set s
         \<and> (case m of [] \<Rightarrow> False
            | c # cs \<Rightarrow> is_lower c \<and> list_all name_char cs \<and> 1 \<le> length cs \<and> length cs \<le> 30)
         \<and> (case rest of [] \<Rightarrow> False
            | c # cs \<Rightarrow> is_lower c \<and> cs \<noteq> [] \<and> list_all (\<lambda>x. name_char x \<or> x = CHR ''.'') cs))"

fun grant_roles ::
  "string \<Rightarrow> string list \<Rightarrow> permission_registry \<Rightarrow> unit result \<times> permission_registry" where
  "grant_roles name [] st = (Inr (), st)"
| "grant_roles name (role # roles) st =
     (case map_of (module_role_grants st) role of
        None \<Rightarrow> (Inl (ValueError ''Role inconnu pour la permission''), st)
      | Some gs \<Rightarrow>
          grant_roles name roles
            (module_role_grants_update
               (map (\<lambda>(r, g). if r = role then (r, List.insert name g) else (r, g))) st))"

definition register_module_permission ::
  "string \<Rightarrow> string list \<Rightarrow> permission_registry \<Rightarrow> unit result \<times> permission_registry" where
  "register_module_permission name roles st =
     (if \<not> module_permission_fullmatch name
      then (Inl (ValueError ''Permission de module invalide''), st)
      else grant_roles name roles (module_permissions_update (List.insert name) st))"

definition reset_module_permissions :: "permission_registry \<Rightarrow> permission_registry" where
  "reset_module_permissions st =
     \<lparr>module_permissions = [], module_role_grants = map (\<lambda>(r, g). (r, [])) (module_role_grants st)\<rparr>"

definition is_known_permission :: "permission_registry \<Rightarrow> string \<Rightarrow> bool" where
  "is_known_permission st p \<longleftrightarrow> p \<in> set PERMISSIONS \<or> p \<in> set (module_permissions st)"

definition validate_role :: "string \<Rightarrow> string result" where
  "validate_role role = (if role \<notin> set ROLES then Inl (ValueError ''Role inconnu'') else Inr role)"

definition role_has_permission :: "permission_registry \<Rightarrow> string \<Rightarrow> string \<Rightarrow> bool" where
  "role_has_permission st role permission \<longleftrightarrow>
     permission \<in> set (case map_of ROLE_PERMISSIONS role of None \<Rightarrow> [] | Some ps \<Rightarrow> ps) \<or>
     permission \<in> set (case map_of (module_role_grants st) role of None \<Rightarrow> [] | Some ps \<Rightarrow> ps)"

definition require_permission :: "string \<Rightarrow> unit result" where
  \<comment> \<open>the check the factory does when a route is declared\<close>
  "require_permission permission =
     (if startswith permission ''core.''
      then (if permission \<notin> set PERMISSIONS then Inl (ValueError ''Permission inconnue du registre'')
            else Inr ())
      else if \<not> module_permission_fullmatch permission
      then Inl (ValueError ''Permission de module invalide'')
      else Inr ())"

definition permission_dependency ::
  "permission_registry \<Rightarrow> string \<Rightarrow> tenant_context \<Rightarrow> tenant_context result" where
  "permission_dependency st permission ctx =
     (if (case tc_role ctx of None \<Rightarrow> True | Some r \<Rightarrow> \<not> role_has_permission st r permission)
      then Inl (HTTPException 403 ''Permission refusee'')
      else Inr ctx)"

section \<open>Authentication of a request\<close>

record current_auth =
  ca_user :: user
  ca_session :: auth_session

definition current_auth_or_none ::
  "primitives \<Rightarrow> instant \<Rightarrow> string option \<Rightarrow> db \<Rightarrow> current_auth option \<times> db" where
  \<comment> \<open>\<open>cookie\<close>: the value of the session cookie, if any; the second component is committed\<close>
  "current_auth_or_none P now cookie d =
     (case cookie of None \<Rightarrow> (None, d)
      | Some token \<Rightarrow>
          if token = [] then (None, d)
          else (case resolve_session P now token d of
                  (None, _) \<Rightarrow> (None, d)
                | (Some (s, user), d') \<Rightarrow> (Some \<lparr>ca_user = user, ca_session = s\<rparr>, d')))"

definition current_auth_dep :: "current_auth option \<Rightarrow> current_auth result" where
  "current_auth_dep auth =
     (case auth of None \<Rightarrow> Inl (HTTPException 401 ''Authentification requise'') | Some a \<Rightarrow> Inr a)"

section \<open>Resolution of the tenant\<close>

definition membership_of :: "uuid \<Rightarrow> uuid \<Rightarrow> db \<Rightarrow> membership option" where
  "membership_of user_id tenant_id d =
     List.find (\<lambda>m. m_user_id m = user_id \<and> m_tenant_id m = tenant_id) (memberships d)"

definition tenant_by_slug :: "string \<Rightarrow> db \<Rightarrow> tenant option" where
  "tenant_by_slug slug d = List.find (\<lambda>t. t_slug t = slug) (tenants d)"

definition resolve_tenant ::
  "string \<Rightarrow> current_auth option \<Rightarrow> db \<Rightarrow> tenant_context result" where
  "resolve_tenant host auth d =
     (case extract_slug host of None \<Rightarrow> Inl (HTTPException 404 ''Tenant introuvable'')
      | Some slug \<Rightarrow>
          (case tenant_by_slug slug d of None \<Rightarrow> Inl (HTTPException 404 ''Tenant introuvable'')
           | Some tenant \<Rightarrow>
               if t_deleted_at tenant \<noteq> None then Inl (HTTPException 404 ''Tenant introuvable'')
               else if t_state tenant = T_SUSPENDED then Inl (HTTPException 403 ''Tenant suspendu'')
               else (case auth of None \<Rightarrow> Inl (HTTPException 401 ''Authentification requise'')
                     | Some a \<Rightarrow>
                         (case membership_of (u_id (ca_user a)) (t_id tenant) d of
                            None \<Rightarrow> Inl (HTTPException 403 ''Acces refuse a ce tenant'')
                          | Some m \<Rightarrow>
                              Inr \<lparr>tc_tenant_id = t_id tenant, tc_slug = t_slug tenant,
                                   tc_role = Some (m_role m)\<rparr>))))"

text \<open>
  A route that depends on \<^verbatim>\<open>require_permission(permission)\<close>: its handler runs inside the tenant
  context, on the database as the dependencies left it.
\<close>

record request =
  rq_now :: instant
  rq_host :: string
  rq_cookie :: "string option"
  rq_client :: "string option"

definition permission_route ::
  "primitives \<Rightarrow> permission_registry \<Rightarrow> string \<Rightarrow> request \<Rightarrow>
   (current_auth \<Rightarrow> tenant_context \<Rightarrow> db \<Rightarrow> 'a result \<times> db) \<Rightarrow> db \<Rightarrow> 'a result \<times> db" where
  "permission_route P st permission rq handler d =
     (let (auth, d1) = current_auth_or_none P (rq_now rq) (rq_cookie rq) d
      in case resolve_tenant (rq_host rq) auth d1 of Inl e \<Rightarrow> (Inl e, d1)
         | Inr ctx \<Rightarrow>
             (case permission_dependency st permission ctx of Inl e \<Rightarrow> (Inl e, d1)
              | Inr ctx' \<Rightarrow>
                  (case current_auth_dep auth of Inl e \<Rightarrow> (Inl e, d1)
                   | Inr a \<Rightarrow> handler a ctx' d1)))"

definition authenticated_route ::
  "primitives \<Rightarrow> request \<Rightarrow> (current_auth \<Rightarrow> db \<Rightarrow> 'a result \<times> db) \<Rightarrow> db \<Rightarrow> 'a result \<times> db" where
  \<comment> \<open>a route that depends on \<^verbatim>\<open>current_auth\<close> only\<close>
  "authenticated_route P rq handler d =
     (let (auth, d1) = current_auth_or_none P (rq_now rq) (rq_cookie rq) d
      in case current_auth_dep auth of Inl e \<Rightarrow> (Inl e, d1) | Inr a \<Rightarrow> handler a d1)"

section \<open>Histories of the permission registry\<close>

inductive registry_reachable :: "permission_registry \<Rightarrow> bool" where
  start: "registry_reachable empty_registry"
| register: "registry_reachable st \<Longrightarrow> registry_reachable (snd (register_module_permission name roles st))"
| reset: "registry_reachable st \<Longrightarrow> registry_reachable (reset_module_permissions st)"

definition grants_namespaced :: "permission_registry \<Rightarrow> bool" where
  "grants_namespaced st \<longleftrightarrow>
     list_all module_permission_fullmatch (module_permissions st) \<and>
     list_all (\<lambda>(r, g). list_all module_permission_fullmatch g) (module_role_grants st) \<and>
     map fst (module_role_grants st) = ROLES"

section \<open>Lemmas\<close>

lemma grant_roles_namespaced:
  "module_permission_fullmatch name \<Longrightarrow> grants_namespaced st \<Longrightarrow> grants_namespaced (snd (grant_roles name roles st))"
proof (induction roles arbitrary: st)
  case (Cons role roles)
  let ?st = "module_role_grants_update (map (\<lambda>(r, g). if r = role then (r, List.insert name g) else (r, g))) st"
  have keys: "map fst (map (\<lambda>(r, g). if r = role then (r, List.insert name g) else (r, g)) gs) = map fst gs" for gs
    by auto
  have "grants_namespaced ?st"
    using Cons.prems keys [of "module_role_grants st"]
    by (simp add: grants_namespaced_def del: map_map) (fastforce simp: list_all_iff split: if_splits)
  with Cons show ?case by (simp split: option.split)
qed simp

lemma registry_namespaced: "registry_reachable st \<Longrightarrow> grants_namespaced st"
proof (induction rule: registry_reachable.induct)
  case start
  show ?case by (auto simp: grants_namespaced_def empty_registry_def list_all_iff comp_def)
next
  case (register st name roles)
  then have "grants_namespaced (module_permissions_update (List.insert name) st)"
    if "module_permission_fullmatch name"
    using that by (auto simp: grants_namespaced_def list_all_iff)
  with register show ?case by (auto simp: register_module_permission_def grant_roles_namespaced)
next
  case (reset st)
  then show ?case
    by (auto simp: grants_namespaced_def reset_module_permissions_def list_all_iff case_prod_unfold comp_def)
qed

lemma module_permission_not_core: "module_permission_fullmatch p \<Longrightarrow> \<not> startswith p ''core.''"
  by (simp add: module_permission_fullmatch_def Let_def)

lemma current_auth_or_none_cases:
  "current_auth_or_none P now cookie d = (None, d) \<or>
   (\<exists>token s u. cookie = Some token \<and> token \<noteq> [] \<and> session_by_token P token d = Some s
      \<and> s_revoked_at s = None \<and> now \<le> s_expires_at s \<and> get_user (s_user_id s) d = Some u
      \<and> current_auth_or_none P now cookie d =
          (Some \<lparr>ca_user = u, ca_session = s\<lparr>s_last_seen_at := now\<rparr>\<rparr>,
           sessions_update (update_where (\<lambda>x. s_id x = s_id s) (\<lambda>x. x\<lparr>s_last_seen_at := now\<rparr>)) d))"
  by (auto simp: current_auth_or_none_def resolve_session_def split: option.splits if_splits)

lemma current_auth_or_none_other_tables [simp]:
  "memberships (snd (current_auth_or_none P now cookie d)) = memberships d"
  "tenants (snd (current_auth_or_none P now cookie d)) = tenants d"
  "users (snd (current_auth_or_none P now cookie d)) = users d"
  using current_auth_or_none_cases [of P now cookie d] by auto

lemma resolve_tenant_cong:
  assumes "tenants d' = tenants d" "memberships d' = memberships d"
  shows "resolve_tenant host auth d' = resolve_tenant host auth d"
proof -
  have "tenant_by_slug slug d' = tenant_by_slug slug d" for slug
    using assms by (simp add: tenant_by_slug_def)
  moreover have "membership_of u t d' = membership_of u t d" for u t
    using assms by (simp add: membership_of_def)
  ultimately show ?thesis by (simp only: resolve_tenant_def)
qed

lemma resolve_tenant_after_auth [simp]:
  "resolve_tenant host auth (snd (current_auth_or_none P now cookie d)) = resolve_tenant host auth d"
  by (rule resolve_tenant_cong) simp_all

text \<open>A database that differs from another one only in when sessions were last seen.\<close>

definition same_but_last_seen :: "db \<Rightarrow> db \<Rightarrow> bool" where
  "same_but_last_seen d d' \<longleftrightarrow>
     d' = d\<lparr>sessions := sessions d'\<rparr> \<and>
     map (s_last_seen_at_update (\<lambda>_. 0)) (sessions d') = map (s_last_seen_at_update (\<lambda>_. 0)) (sessions d)"

lemma current_auth_same_but_last_seen:
  "same_but_last_seen d (snd (current_auth_or_none P now cookie d))"
  using current_auth_or_none_cases [of P now cookie d]
  by (auto simp: same_but_last_seen_def update_where_def)

section \<open>Properties\<close>

text \<open>
  C5 (safety). The tenant context is sub-domain, session and membership, together. A route
  guarded by a permission reaches its handler exactly when the cookie holds the token of a
  session that is neither revoked nor expired and whose user exists, the first label of the
  host is the slug of a tenant that is neither deleted nor suspended, that user is a member
  of that tenant, and the member's role carries the permission; the handler then receives
  that user, that tenant and that role.
\<close>

theorem permission_route_opens_iff:
  "fst (permission_route P st permission rq (\<lambda>a ctx d1. (Inr (ca_user a, ctx), d1)) d) = Inr (u, ctx) \<longleftrightarrow>
   (\<exists>token s t m.
      rq_cookie rq = Some token \<and> token \<noteq> [] \<and> session_by_token P token d = Some s
      \<and> s_revoked_at s = None \<and> rq_now rq \<le> s_expires_at s \<and> get_user (s_user_id s) d = Some u
      \<and> (\<exists>slug. extract_slug (rq_host rq) = Some slug \<and> tenant_by_slug slug d = Some t)
      \<and> t_deleted_at t = None \<and> t_state t = T_ACTIVE
      \<and> membership_of (u_id u) (t_id t) d = Some m \<and> role_has_permission st (m_role m) permission
      \<and> ctx = \<lparr>tc_tenant_id = t_id t, tc_slug = t_slug t, tc_role = Some (m_role m)\<rparr>)"
proof -
  obtain auth d1 where ca: "current_auth_or_none P (rq_now rq) (rq_cookie rq) d = (auth, d1)" by fastforce
  have res: "resolve_tenant (rq_host rq) auth d1 = resolve_tenant (rq_host rq) auth d"
    using resolve_tenant_after_auth [of "rq_host rq" auth P "rq_now rq" "rq_cookie rq" d] ca by simp
  have state: "t_state t \<noteq> T_SUSPENDED \<longleftrightarrow> t_state t = T_ACTIVE" for t by (cases "t_state t") auto
  have auth: "(\<exists>a. auth = Some a \<and> ca_user a = u) \<longleftrightarrow> (\<exists>token s. rq_cookie rq = Some token \<and> token \<noteq> []
      \<and> session_by_token P token d = Some s \<and> s_revoked_at s = None \<and> rq_now rq \<le> s_expires_at s
      \<and> get_user (s_user_id s) d = Some u)"
    using ca by (auto simp: current_auth_or_none_def resolve_session_def split: option.splits if_splits)
  have "fst (permission_route P st permission rq (\<lambda>a ctx d1. (Inr (ca_user a, ctx), d1)) d) = Inr (u, ctx) \<longleftrightarrow>
      (\<exists>a. auth = Some a \<and> ca_user a = u \<and> resolve_tenant (rq_host rq) auth d = Inr ctx
        \<and> permission_dependency st permission ctx = Inr ctx)"
    by (auto simp: permission_route_def ca res current_auth_dep_def permission_dependency_def
        split: sum.splits option.splits if_splits)
  also have "\<dots> \<longleftrightarrow> (\<exists>a. auth = Some a \<and> ca_user a = u) \<and> (\<exists>t m slug.
      extract_slug (rq_host rq) = Some slug \<and> tenant_by_slug slug d = Some t
      \<and> t_deleted_at t = None \<and> t_state t = T_ACTIVE
      \<and> membership_of (u_id u) (t_id t) d = Some m \<and> role_has_permission st (m_role m) permission
      \<and> ctx = \<lparr>tc_tenant_id = t_id t, tc_slug = t_slug t, tc_role = Some (m_role m)\<rparr>)"
    by (auto simp: resolve_tenant_def permission_dependency_def state split: option.splits if_splits)
  finally show ?thesis
    unfolding auth by blast
qed

text \<open>
  A refused request is inert. When the guard does not open, the answer is a 401,
  403 or 404 whatever the handler is, and the database differs at most in the
  \<^verbatim>\<open>last_seen_at\<close> of a session.
\<close>

theorem permission_route_refusal_inert:
  assumes "\<forall>x. fst (permission_route P st permission rq (\<lambda>a ctx d1. (Inr (ca_user a, ctx), d1)) d) \<noteq> Inr x"
  shows "\<exists>code detail. fst (permission_route P st permission rq handler d) = Inl (HTTPException code detail)
      \<and> code \<in> {401, 403, 404}
      \<and> same_but_last_seen d (snd (permission_route P st permission rq handler d))"
proof -
  obtain auth d1 where ca: "current_auth_or_none P (rq_now rq) (rq_cookie rq) d = (auth, d1)" by fastforce
  then have "same_but_last_seen d d1" using current_auth_same_but_last_seen by (metis snd_conv)
  then show ?thesis
    using assms
    by (auto simp: permission_route_def ca current_auth_dep_def permission_dependency_def resolve_tenant_def
        split: sum.splits option.splits if_splits)
qed

theorem permission_route_refusal_inert_witness:
  "\<exists>code detail. fst (permission_route sample_primitives empty_registry ''core.audit.read''
       \<lparr>rq_now = 5, rq_host = ''acme.example.com'', rq_cookie = Some ''tok'', rq_client = None\<rparr>
       (\<lambda>a ctx d. (Inr (), empty_db)) sample_auth_db) = Inl (HTTPException code detail)
     \<and> code \<in> {401, 403, 404}"
proof -
  let ?rq = "\<lparr>rq_now = 5, rq_host = ''acme.example.com'', rq_cookie = Some ''tok'', rq_client = None\<rparr>"
  obtain auth d1 where ca: "current_auth_or_none sample_primitives 5 (Some ''tok'') sample_auth_db = (auth, d1)"
    by fastforce
  have "tenants sample_auth_db = []" by (simp add: sample_auth_db_def empty_db_def)
  then have "tenants d1 = []"
    using current_auth_or_none_other_tables(2) [of sample_primitives 5 "Some ''tok''" sample_auth_db] ca by simp
  then have "resolve_tenant ''acme.example.com'' auth d1 = Inl (HTTPException 404 ''Tenant introuvable'')"
    by (simp add: resolve_tenant_def tenant_by_slug_def split: option.split)
  then have "\<forall>x. fst (permission_route sample_primitives empty_registry ''core.audit.read'' ?rq
      (\<lambda>a ctx d1. (Inr (ca_user a, ctx), d1)) sample_auth_db) \<noteq> Inr x"
    by (simp add: permission_route_def ca)
  from permission_route_refusal_inert [OF this, of "\<lambda>a ctx d. (Inr (), empty_db)"] show ?thesis by blast
qed

text \<open>
  Business modules cannot touch the core permissions. Whatever sequence of
  registrations (accepted or refused) and resets the registry has been through, a role holds
  a \<^verbatim>\<open>core.*\<close> permission exactly when the built-in table says so.
\<close>

theorem core_permissions_fixed:
  assumes "registry_reachable st" "startswith p ''core.''"
  shows "role_has_permission st role p \<longleftrightarrow> (\<exists>ps. map_of ROLE_PERMISSIONS role = Some ps \<and> p \<in> set ps)"
proof -
  have "p \<notin> set gs" if "map_of (module_role_grants st) role = Some gs" for gs
    using registry_namespaced [OF assms(1)] map_of_SomeD [OF that] assms(2) module_permission_not_core
    by (auto simp: grants_namespaced_def list_all_iff)
  then show ?thesis
    by (cases "map_of ROLE_PERMISSIONS role"; cases "map_of (module_role_grants st) role")
      (simp_all add: role_has_permission_def)
qed

theorem core_permissions_fixed_witness:
  "\<not> role_has_permission (snd (register_module_permission ''crm.read'' [''member''] empty_registry))
     ''member'' ''core.members.manage''"
proof -
  have "registry_reachable (snd (register_module_permission ''crm.read'' [''member''] empty_registry))"
    by (intro registry_reachable.intros)
  from core_permissions_fixed [OF this, of "''core.members.manage''" "''member''"] show ?thesis
    by (simp add: startswith_def ROLE_PERMISSIONS_def ROLE_MEMBER_def MEMBER_PERMISSIONS_def)
qed

end
