(* ===== verification/AuditLog.thy ===== *)
theory AuditLog
  imports Tenancy Codec "HOL-Library.Product_Lexorder"
begin

text \<open>
  The audit log: \<^verbatim>\<open>audit/service.py\<close> (emission inside the caller's transaction, and the variant
  that opens its own) and \<^verbatim>\<open>audit/router.py\<close> (read-only listing with a composite cursor).
\<close>

section \<open>Emission\<close>

definition SYSTEM_ACTOR_LABEL :: string where
  "SYSTEM_ACTOR_LABEL = ''system''"

definition CLI_ACTOR_LABEL :: string where
  "CLI_ACTOR_LABEL = ''cli''"

text \<open>
  The arguments of one event. A function that runs inside the caller's transaction returns
  the new database or raises; the caller commits.
\<close>

record audit_args =
  aa_action :: string
  aa_resource_type :: string
  aa_resource_id :: string
  aa_payload :: "(string \<times> json) list"
  aa_actor_user_id :: "uuid option"
  aa_actor_label :: string

definition record_audit_event ::
  "context_var \<Rightarrow> uuid \<Rightarrow> instant \<Rightarrow> audit_args \<Rightarrow> db \<Rightarrow> (audit_event \<times> db) result" where
  \<comment> \<open>\<open>eid\<close> is the \<^verbatim>\<open>uuid4\<close> of the row, \<open>now\<close> the database's \<^verbatim>\<open>now()\<close>\<close>
  "record_audit_event cv eid now a d =
     (case flush_insert cv of Inl e \<Rightarrow> Inl e
      | Inr t \<Rightarrow>
          let ev = \<lparr>ae_id = eid, ae_tenant_id = t, ae_occurred_at = now,
                    ae_actor_user_id = aa_actor_user_id a, ae_actor_label = aa_actor_label a,
                    ae_action = aa_action a, ae_resource_type = aa_resource_type a,
                    ae_resource_id = aa_resource_id a, ae_payload = aa_payload a\<rparr>
          in Inr (ev, audit_events_update (insert_row ev) d))"

definition record_audit_event_for_tenant ::
  "tenant \<Rightarrow> uuid \<Rightarrow> instant \<Rightarrow> audit_args \<Rightarrow> context_var \<Rightarrow> db \<Rightarrow> unit result \<times> context_var \<times> db" where
  "record_audit_event_for_tenant t eid now a cv d =
     tenant_context_block \<lparr>tc_tenant_id = t_id t, tc_slug = t_slug t, tc_role = None\<rparr>
       (\<lambda>cv' d'. case record_audit_event cv' eid now a d' of
            Inl e \<Rightarrow> (Inl e, cv', d')
          | Inr (_, d'') \<Rightarrow> (Inr (), cv', d''))
       cv d"

section \<open>The pagination cursor\<close>

definition encode_cursor :: "instant \<Rightarrow> uuid \<Rightarrow> string" where
  "encode_cursor occurred_at event_id =
     urlsafe_b64encode (isoformat occurred_at @ ''|'' @ str_uuid event_id)"

definition rsplit_bar :: "string \<Rightarrow> (string \<times> string) option" where
  \<comment> \<open>\<^verbatim>\<open>a, b = s.rsplit("|", 1)\<close>; \<open>None\<close> when there is nothing to unpack\<close>
  "rsplit_bar s =
     (if CHR ''|'' \<in> set s
      then Some (rev (tl (dropWhile (\<lambda>c. c \<noteq> CHR ''|'') (rev s))),
                 rev (takeWhile (\<lambda>c. c \<noteq> CHR ''|'') (rev s)))
      else None)"

definition decode_cursor :: "string \<Rightarrow> (instant \<times> uuid) result" where
  "decode_cursor cursor =
     (let invalid = Inl (HTTPException 400 ''Curseur de pagination invalide'')
      in case urlsafe_b64decode cursor of None \<Rightarrow> invalid
         | Some raw \<Rightarrow>
             (case rsplit_bar raw of None \<Rightarrow> invalid
              | Some (occurred_at_raw, id_raw) \<Rightarrow>
                  (case (fromisoformat occurred_at_raw, parse_uuid id_raw) of
                     (Some t, Some i) \<Rightarrow> Inr (t, i)
                   | _ \<Rightarrow> invalid)))"

section \<open>Listing\<close>

record audit_event_out =
  ao_id :: uuid
  ao_occurred_at :: instant
  ao_actor_user_id :: "uuid option"
  ao_actor_label :: string
  ao_action :: string
  ao_resource_type :: string
  ao_resource_id :: string
  ao_payload :: "(string \<times> json) list"

record audit_event_page =
  pg_items :: "audit_event_out list"
  pg_next_cursor :: "string option"

definition DEFAULT_PAGE_SIZE :: nat where "DEFAULT_PAGE_SIZE = 50"
definition MAX_PAGE_SIZE :: nat where "MAX_PAGE_SIZE = 200"

definition event_out :: "audit_event \<Rightarrow> audit_event_out" where
  "event_out e =
     \<lparr>ao_id = ae_id e, ao_occurred_at = ae_occurred_at e, ao_actor_user_id = ae_actor_user_id e,
      ao_actor_label = ae_actor_label e, ao_action = ae_action e,
      ao_resource_type = ae_resource_type e, ao_resource_id = ae_resource_id e,
      ao_payload = ae_payload e\<rparr>"

definition event_key :: "audit_event \<Rightarrow> instant \<times> uuid" where
  "event_key e = (ae_occurred_at e, ae_id e)"

record audit_query =
  aq_action :: "string option"
  aq_actor_user_id :: "uuid option"
  aq_occurred_from :: "instant option"
  aq_occurred_to :: "instant option"

definition query_matches :: "audit_query \<Rightarrow> audit_event \<Rightarrow> bool" where
  "query_matches q e \<longleftrightarrow>
     (case aq_action q of None \<Rightarrow> True | Some a \<Rightarrow> ae_action e = a) \<and>
     (case aq_actor_user_id q of None \<Rightarrow> True | Some u \<Rightarrow> ae_actor_user_id e = Some u) \<and>
     (case aq_occurred_from q of None \<Rightarrow> True | Some t \<Rightarrow> t \<le> ae_occurred_at e) \<and>
     (case aq_occurred_to q of None \<Rightarrow> True | Some t \<Rightarrow> ae_occurred_at e \<le> t)"

definition before_cursor :: "(instant \<times> uuid) option \<Rightarrow> audit_event \<Rightarrow> bool" where
  "before_cursor cur e =
     (case cur of None \<Rightarrow> True
      | Some (t, i) \<Rightarrow> ae_occurred_at e < t \<or> (ae_occurred_at e = t \<and> ae_id e < i))"

definition audit_events_list ::
  "context_var \<Rightarrow> nat \<Rightarrow> string option \<Rightarrow> audit_query \<Rightarrow> db \<Rightarrow> audit_event_page result" where
  "audit_events_list cv limit cursor q d =
     (if limit < 1 \<or> MAX_PAGE_SIZE < limit then Inl (HTTPException 422 ''limit'')
      else case scoped_select cv ''audit_events'' ae_tenant_id (audit_events d) of Inl e \<Rightarrow> Inl e
      | Inr visible \<Rightarrow>
          (case (case cursor of None \<Rightarrow> Inr None
                 | Some c \<Rightarrow> (case decode_cursor c of Inl e \<Rightarrow> Inl e | Inr k \<Rightarrow> Inr (Some k)))
           of Inl e \<Rightarrow> Inl e
           | Inr cur \<Rightarrow>
               let ordered = rev (sort_key event_key visible);
                   fetched = take (limit + 1)
                     (filter (query_matches q) (filter (before_cursor cur) ordered));
                   has_more = limit < length fetched;
                   rows = take limit fetched
               in Inr \<lparr>pg_items = map event_out rows,
                       pg_next_cursor =
                         (if has_more \<and> rows \<noteq> []
                          then Some (encode_cursor (ae_occurred_at (last rows)) (ae_id (last rows)))
                          else None)\<rparr>))"

text \<open>
  A client that follows the cursors: one request per database snapshot, until a page has
  no next cursor or the snapshots are used up. The flag says whether the last page was
  reached.
\<close>

fun follow_pages ::
  "context_var \<Rightarrow> nat \<Rightarrow> audit_query \<Rightarrow> db list \<Rightarrow> string option \<Rightarrow> (audit_event_out list \<times> bool) result"
where
  "follow_pages cv limit q [] cursor = Inr ([], False)"
| "follow_pages cv limit q (d # ds) cursor =
     (case audit_events_list cv limit cursor q d of Inl e \<Rightarrow> Inl e
      | Inr pg \<Rightarrow>
          (case pg_next_cursor pg of
             None \<Rightarrow> Inr (pg_items pg, True)
           | Some c \<Rightarrow>
               (case follow_pages cv limit q ds (Some c) of Inl e \<Rightarrow> Inl e
                | Inr (items, done) \<Rightarrow> Inr (pg_items pg @ items, done))))"

section \<open>Lemmas\<close>

lemma record_audit_event_eq [handler_simps]:
  "record_audit_event (Some c) eid now a d =
     (let ev = \<lparr>ae_id = eid, ae_tenant_id = tc_tenant_id c, ae_occurred_at = now,
                ae_actor_user_id = aa_actor_user_id a, ae_actor_label = aa_actor_label a,
                ae_action = aa_action a, ae_resource_type = aa_resource_type a,
                ae_resource_id = aa_resource_id a, ae_payload = aa_payload a\<rparr>
      in Inr (ev, audit_events_update (insert_row ev) d))"
  by (simp add: record_audit_event_def handler_simps Let_def)

lemma record_audit_event_ok:
  obtains ev where "record_audit_event (Some c) eid now a d = Inr (ev, audit_events_update (insert_row ev) d)"
    "ae_tenant_id ev = tc_tenant_id c" "ae_id ev = eid" "ae_occurred_at ev = now" "ae_action ev = aa_action a"
  by (simp add: record_audit_event_eq Let_def)

lemma rsplit_bar_append: "CHR ''|'' \<notin> set b \<Longrightarrow> rsplit_bar (a @ CHR ''|'' # b) = Some (a, b)"
proof -
  assume "CHR ''|'' \<notin> set b"
  then have "takeWhile (\<lambda>c. c \<noteq> CHR ''|'') (rev b @ CHR ''|'' # rev a) = rev b"
    and "dropWhile (\<lambda>c. c \<noteq> CHR ''|'') (rev b @ CHR ''|'' # rev a) = CHR ''|'' # rev a"
    by (subst takeWhile_append2 dropWhile_append2; force)+
  then show ?thesis by (simp add: rsplit_bar_def)
qed

lemma decode_encode_cursor:
  assumes "datetime_range t"
  shows "decode_cursor (encode_cursor t i) = Inr (t, i)"
  using assms
  by (simp add: decode_cursor_def encode_cursor_def urlsafe_b64_roundtrip rsplit_bar_append
      str_uuid_no_bar fromisoformat_isoformat parse_uuid_str_uuid)

lemma before_cursor_key: "before_cursor (Some k) e \<longleftrightarrow> event_key e < k"
  by (cases k) (auto simp: before_cursor_def event_key_def less_prod_def)

definition visible_events :: "uuid \<Rightarrow> audit_query \<Rightarrow> db \<Rightarrow> audit_event list" where
  \<comment> \<open>what a complete listing should show, newest first\<close>
  "visible_events t q d =
     filter (query_matches q) (rev (sort_key event_key (filter (\<lambda>e. ae_tenant_id e = t) (audit_events d))))"

definition below :: "(instant \<times> uuid) option \<Rightarrow> audit_event list \<Rightarrow> audit_event list" where
  "below cur es = filter (before_cursor cur) es"

definition strictly_descending :: "audit_event list \<Rightarrow> bool" where
  "strictly_descending es = sorted_wrt (\<lambda>a b. event_key b < event_key a) es"

definition events_in_range :: "db \<Rightarrow> bool" where
  "events_in_range d = list_all (\<lambda>e. datetime_range (ae_occurred_at e)) (audit_events d)"

definition audit_events_constraints :: "db \<Rightarrow> bool" where
  "audit_events_constraints d \<longleftrightarrow> distinct (map ae_id (audit_events d))"

lemma set_visible_events:
  "set (visible_events t q d) = {e \<in> set (audit_events d). ae_tenant_id e = t \<and> query_matches q e}"
  by (auto simp: visible_events_def)

lemma visible_events_descending:
  assumes "audit_events_constraints d"
  shows "strictly_descending (visible_events t q d)"
proof -
  let ?es = "filter (\<lambda>e. ae_tenant_id e = t) (audit_events d)"
  have "distinct (map ae_id ?es)"
    using assms by (simp add: audit_events_constraints_def distinct_map_filter)
  then have "distinct (map event_key ?es)"
    by (auto simp: distinct_map event_key_def inj_on_def)
  then have "distinct (map event_key (sort_key event_key ?es))"
    by (simp add: distinct_map)
  then have "sorted_wrt (<) (map event_key (sort_key event_key ?es))"
    by (simp add: strict_sorted_iff)
  then have "sorted_wrt (\<lambda>a b. event_key b < event_key a) (rev (sort_key event_key ?es))"
    by (simp add: sorted_wrt_map sorted_wrt_rev)
  then show ?thesis
    unfolding strictly_descending_def visible_events_def by (rule sorted_wrt_filter)
qed

text \<open>One page: the next \<open>limit\<close> events below the cursor, and a cursor exactly when more follow.\<close>

lemma audit_events_list_page:
  assumes "1 \<le> limit" "limit \<le> MAX_PAGE_SIZE"
    and cur: "case cursor of None \<Rightarrow> cur = None | Some c \<Rightarrow> decode_cursor c = Inr k \<and> cur = Some k"
  shows "audit_events_list (Some ctx) limit cursor q d =
    (let es = below cur (visible_events (tc_tenant_id ctx) q d)
     in Inr \<lparr>pg_items = map event_out (take limit es),
             pg_next_cursor =
               (if limit < length es
                then Some (encode_cursor (ae_occurred_at (last (take limit es)))
                             (ae_id (last (take limit es))))
                else None)\<rparr>)"
proof -
  let ?V = "sort_key event_key (filter (\<lambda>e. ae_tenant_id e = tc_tenant_id ctx) (audit_events d))"
  define es where "es = below cur (visible_events (tc_tenant_id ctx) q d)"
  have es: "filter (query_matches q) (filter (before_cursor cur) (rev ?V)) = es"
    unfolding es_def below_def visible_events_def by (simp add: filter_filter conj_commute)
  have tk: "take limit (take (limit + 1) es) = take limit es" by (simp add: min_def)
  have more: "limit < length (take (limit + 1) es) \<and> take limit es \<noteq> [] \<longleftrightarrow> limit < length es"
    using assms(1) by auto
  have dec: "(case cursor of None \<Rightarrow> Inr None
      | Some c \<Rightarrow> (case decode_cursor c of Inl e \<Rightarrow> Inl e | Inr k \<Rightarrow> Inr (Some k))) = Inr cur"
    using cur by (cases cursor) auto
  have lim: "\<not> (limit < 1 \<or> MAX_PAGE_SIZE < limit)" using assms by simp
  have sel: "scoped_select (Some ctx) ''audit_events'' ae_tenant_id (audit_events d) =
      Inr (filter (\<lambda>e. ae_tenant_id e = tc_tenant_id ctx) (audit_events d))"
    by (simp add: scoped_select_eq)
  show ?thesis
    unfolding audit_events_list_def Let_def es_def [symmetric]
    by (simp only: lim if_False sel dec sum.case es tk more cong: if_cong)
qed

lemma descending_below_last:
  assumes "strictly_descending es" "limit < length es" "1 \<le> limit"
  shows "below (Some (event_key (last (take limit es)))) es = drop limit es"
proof -
  have "es = take limit es @ drop limit es" by simp
  let ?k = "event_key (last (take limit es))"
  have ne: "take limit es \<noteq> []" using assms by auto
  have s: "sorted_wrt (\<lambda>a b. event_key b < event_key a) (take limit es @ drop limit es)"
    using assms(1) by (simp add: strictly_descending_def)
  have "\<forall>e\<in>set (drop limit es). event_key e < ?k"
    using s ne unfolding sorted_wrt_append by (meson last_in_set)
  moreover have "\<forall>e\<in>set (take limit es). ?k \<le> event_key e"
  proof
    fix e assume e: "e \<in> set (take limit es)"
    define l where "l = last (take limit es)"
    obtain xs where xs: "take limit es = xs @ [l]"
      using ne append_butlast_last_id unfolding l_def by metis
    have "sorted_wrt (\<lambda>a b. event_key b < event_key a) (xs @ [l])"
      using s xs by (simp add: sorted_wrt_append)
    moreover have "e \<in> set xs \<or> e = l" using e xs by auto
    ultimately show "event_key (last (take limit es)) \<le> event_key e"
      unfolding l_def [symmetric] by (auto simp: sorted_wrt_append)
  qed
  ultimately have "filter (before_cursor (Some ?k)) (take limit es @ drop limit es) = drop limit es"
    by (subst filter_append) (auto simp: before_cursor_key filter_empty_conv filter_id_conv)
  then show ?thesis by (simp add: below_def)
qed

definition cursor_denotes :: "string option \<Rightarrow> (instant \<times> uuid) option \<Rightarrow> bool" where
  "cursor_denotes cursor cur \<longleftrightarrow>
     (case cursor of None \<Rightarrow> cur = None
      | Some c \<Rightarrow> (case cur of None \<Rightarrow> False | Some k \<Rightarrow> decode_cursor c = Inr k))"

definition growing :: "db list \<Rightarrow> bool" where
  \<comment> \<open>between two requests events may be added, none is removed\<close>
  "growing ds = sorted_wrt (\<lambda>d d'. set (audit_events d) \<subseteq> set (audit_events d')) ds"

lemma page_of_cursor:
  assumes "1 \<le> limit" "limit \<le> MAX_PAGE_SIZE" "cursor_denotes cursor cur"
  shows "audit_events_list (Some ctx) limit cursor q d =
    (let es = below cur (visible_events (tc_tenant_id ctx) q d)
     in Inr \<lparr>pg_items = map event_out (take limit es),
             pg_next_cursor =
               (if limit < length es
                then Some (encode_cursor (ae_occurred_at (last (take limit es)))
                             (ae_id (last (take limit es))))
                else None)\<rparr>)"
  using assms(3)
  by (intro audit_events_list_page [OF assms(1,2), where k = "the cur"])
    (auto simp: cursor_denotes_def split: option.splits)

lemma next_cursor_denotes:
  assumes "events_in_range d" "e \<in> set (audit_events d)"
  shows "cursor_denotes (Some (encode_cursor (ae_occurred_at e) (ae_id e))) (Some (event_key e))"
  using assms
  by (simp add: cursor_denotes_def events_in_range_def list_all_iff decode_encode_cursor event_key_def)

lemma below_descending: "strictly_descending es \<Longrightarrow> strictly_descending (below cur es)"
  by (simp add: strictly_descending_def below_def sorted_wrt_filter)

lemma before_cursor_trans: "before_cursor cur e \<Longrightarrow> event_key e' < event_key e \<Longrightarrow> before_cursor cur e'"
  by (cases cur) (auto simp: before_cursor_key [symmetric] before_cursor_def event_key_def less_prod_def
      split: prod.splits)

lemma descending_append:
  assumes "strictly_descending es" "es \<noteq> []" "strictly_descending fs"
    and "\<forall>f\<in>set fs. before_cursor (Some (event_key (last es))) f"
  shows "strictly_descending (es @ fs)"
proof -
  have "event_key f < event_key e" if "e \<in> set es" "f \<in> set fs" for e f
  proof -
    define l where "l = last es"
    obtain xs where xs: "es = xs @ [l]"
      using assms(2) append_butlast_last_id unfolding l_def by metis
    have "event_key l \<le> event_key e"
      using that(1) assms(1) xs by (auto simp: strictly_descending_def sorted_wrt_append)
    moreover have "event_key f < event_key l"
      using assms(4) that(2) unfolding l_def by (simp add: before_cursor_key)
    ultimately show ?thesis by order
  qed
  then show ?thesis using assms(1,3) by (auto simp: strictly_descending_def sorted_wrt_append)
qed

lemma follow_pages_inv:
  assumes lim: "1 \<le> limit" "limit \<le> MAX_PAGE_SIZE"
  shows "follow_pages (Some ctx) limit q ds cursor = Inr (items, done) \<Longrightarrow>
    cursor_denotes cursor cur \<Longrightarrow> growing ds \<Longrightarrow>
    \<forall>d\<in>set ds. audit_events_constraints d \<and> events_in_range d \<Longrightarrow>
    \<exists>es. items = map event_out es \<and> strictly_descending es \<and> (\<forall>e\<in>set es. before_cursor cur e)
      \<and> set es \<subseteq> (\<Union>d\<in>set ds. set (visible_events (tc_tenant_id ctx) q d))
      \<and> (done \<longrightarrow> set (below cur (visible_events (tc_tenant_id ctx) q (hd ds))) \<subseteq> set es)"
proof (induction ds arbitrary: cursor cur items)
  case Nil
  then show ?case by (auto simp: strictly_descending_def)
next
  case (Cons d ds)
  let ?V = "visible_events (tc_tenant_id ctx) q"
  define es where "es = below cur (?V d)"
  have desc: "strictly_descending es"
    unfolding es_def using Cons.prems(4) by (intro below_descending visible_events_descending) simp
  have in_d: "e \<in> set es \<Longrightarrow> e \<in> set (?V d) \<and> before_cursor cur e" for e
    by (simp add: es_def below_def)
  note page = page_of_cursor [OF lim Cons.prems(2), of ctx q d, unfolded es_def [symmetric]]
  show ?case
  proof (cases "limit < length es")
    case False
    with Cons.prems(1) page have "items = map event_out es" "done" by (simp_all add: Let_def)
    with desc in_d show ?thesis by (intro exI [of _ es]) (auto simp: es_def)
  next
    case True
    define l where "l = last (take limit es)"
    have ne: "take limit es \<noteq> []" using True lim by auto
    then have l: "l \<in> set es" unfolding l_def by (meson in_set_takeD last_in_set)
    obtain items' where rec: "follow_pages (Some ctx) limit q ds
          (Some (encode_cursor (ae_occurred_at l) (ae_id l))) = Inr (items', done)"
        and items: "items = map event_out (take limit es) @ items'"
      using Cons.prems(1) page True by (auto simp: Let_def l_def split: sum.splits)
    have gr: "growing ds" using Cons.prems(3) by (simp add: growing_def)
    have cs: "\<forall>d\<in>set ds. audit_events_constraints d \<and> events_in_range d" using Cons.prems(4) by simp
    have den: "cursor_denotes (Some (encode_cursor (ae_occurred_at l) (ae_id l))) (Some (event_key l))"
      using l in_d Cons.prems(4) by (intro next_cursor_denotes [of d]) (auto simp: set_visible_events)
    from Cons.IH [OF rec den gr cs] obtain fs where
        fs: "items' = map event_out fs" "strictly_descending fs"
          "\<forall>f\<in>set fs. before_cursor (Some (event_key l)) f"
          "set fs \<subseteq> (\<Union>d\<in>set ds. set (?V d))"
          "done \<longrightarrow> set (below (Some (event_key l)) (?V (hd ds))) \<subseteq> set fs"
      by blast
    have "strictly_descending (take limit es @ fs)"
      using desc fs(2,3) ne by (intro descending_append)
        (auto simp: l_def strictly_descending_def sorted_wrt_take)
    moreover have "\<forall>f\<in>set fs. before_cursor cur f"
      using fs(3) before_cursor_trans [OF conjunct2 [OF in_d [OF l]]] by (auto simp: before_cursor_key)
    moreover have "e \<in> set (take limit es @ fs)" if "done" "e \<in> set es" for e
    proof (cases "e \<in> set (take limit es)")
      case False
      then have "e \<in> set (drop limit es)"
        using that(2) append_take_drop_id [of limit es] by (metis Un_iff set_append)
      then have "e \<in> set (below (Some (event_key l)) es)"
        using descending_below_last [OF desc True lim(1)] by (simp add: l_def)
      then have "before_cursor (Some (event_key l)) e" by (simp add: below_def)
      moreover have "ds \<noteq> []" using rec that(1) by (cases ds) auto
      then have "e \<in> set (?V (hd ds))"
        using Cons.prems(3) in_d [OF that(2)] by (cases ds) (auto simp: growing_def set_visible_events)
      ultimately show ?thesis using fs(5) that(1) by (auto simp: below_def)
    qed simp
    ultimately show ?thesis
      using items fs(1,4) in_d
      by (intro exI [of _ "take limit es @ fs"]) (auto simp: es_def [symmetric] dest: in_set_takeD)
  qed
qed

lemma follow_pages_constant:
  assumes lim: "1 \<le> limit" "limit \<le> MAX_PAGE_SIZE"
    and d: "audit_events_constraints d" "events_in_range d"
  shows "cursor_denotes cursor cur \<Longrightarrow>
    length (below cur (visible_events (tc_tenant_id ctx) q d)) \<le> Suc n * limit \<Longrightarrow>
    follow_pages (Some ctx) limit q (replicate (Suc n) d) cursor =
      Inr (map event_out (below cur (visible_events (tc_tenant_id ctx) q d)), True)"
proof (induction n arbitrary: cursor cur)
  case 0
  then show ?case by (simp add: page_of_cursor [OF lim 0(1)] Let_def)
next
  case (Suc n)
  let ?V = "visible_events (tc_tenant_id ctx) q d"
  define es where "es = below cur ?V"
  have desc: "strictly_descending es"
    unfolding es_def using d by (intro below_descending visible_events_descending)
  note page = page_of_cursor [OF lim Suc.prems(1), of ctx q d, unfolded es_def [symmetric]]
  show ?case
  proof (cases "limit < length es")
    case False
    then show ?thesis by (simp add: page Let_def es_def [symmetric])
  next
    case True
    define l where "l = last (take limit es)"
    have "take limit es \<noteq> []" using True lim by auto
    then have l: "l \<in> set es" unfolding l_def by (meson in_set_takeD last_in_set)
    then have "l \<in> set (audit_events d)" "before_cursor cur l"
      by (auto simp: es_def below_def set_visible_events)
    then have den: "cursor_denotes (Some (encode_cursor (ae_occurred_at l) (ae_id l))) (Some (event_key l))"
      using next_cursor_denotes d(2) by blast
    have "below (Some (event_key l)) ?V = below (Some (event_key l)) es"
      using before_cursor_trans [OF \<open>before_cursor cur l\<close>]
      by (auto simp: es_def below_def filter_filter before_cursor_key intro!: filter_cong)
    then have rest: "below (Some (event_key l)) ?V = drop limit es"
      using descending_below_last [OF desc True lim(1)] by (simp add: l_def)
    moreover have "length (drop limit es) \<le> Suc n * limit"
      using Suc.prems(2) by (simp add: es_def [symmetric])
    ultimately have "follow_pages (Some ctx) limit q (replicate (Suc n) d)
        (Some (encode_cursor (ae_occurred_at l) (ae_id l))) = Inr (map event_out (drop limit es), True)"
      using Suc.IH [OF den] by simp
    then show ?thesis
      using True by (simp add: page Let_def l_def es_def [symmetric] map_append [symmetric] del: map_append)
  qed
qed

section \<open>A concrete log\<close>

definition sample_event :: "int \<Rightarrow> uuid \<Rightarrow> uuid \<Rightarrow> audit_event" where
  "sample_event t i tenant =
     \<lparr>ae_id = i, ae_tenant_id = tenant, ae_occurred_at = t - 62135596800000000, ae_actor_user_id = None,
      ae_actor_label = ''cli'', ae_action = ''core.x'', ae_resource_type = ''r'', ae_resource_id = ''1'',
      ae_payload = []\<rparr>"

definition sample_log :: db where
  "sample_log = empty_db\<lparr>audit_events := [sample_event 5 1 7, sample_event 5 3 7, sample_event 9 4 8, sample_event 6 2 7]\<rparr>"

definition sample_query :: audit_query where
  "sample_query = \<lparr>aq_action = None, aq_actor_user_id = None, aq_occurred_from = None, aq_occurred_to = None\<rparr>"

definition sample_ctx :: tenant_context where
  "sample_ctx = \<lparr>tc_tenant_id = 7, tc_slug = ''acme'', tc_role = None\<rparr>"

lemma sample_log_ok:
  "audit_events_constraints sample_log" "events_in_range sample_log"
  "audit_events_constraints (sample_log\<lparr>audit_events := audit_events sample_log @ [sample_event 8 9 7]\<rparr>)"
  "events_in_range (sample_log\<lparr>audit_events := audit_events sample_log @ [sample_event 8 9 7]\<rparr>)"
  "1 \<le> MAX_PAGE_SIZE" "2 \<le> MAX_PAGE_SIZE"
  by code_simp+

lemma sample_length: "length (visible_events (tc_tenant_id sample_ctx) sample_query sample_log) = 3"
  by code_simp

lemma sample_page_walk:
  "follow_pages (Some sample_ctx) 2 sample_query
     [sample_log, sample_log\<lparr>audit_events := audit_events sample_log @ [sample_event 8 9 7]\<rparr>] None =
   Inr (map event_out [sample_event 6 2 7, sample_event 5 3 7, sample_event 5 1 7], True)"
  by code_simp

section \<open>Properties\<close>

text \<open>
  Reading the log while it grows. A client of one tenant follows the cursors
  over a sequence of database snapshots in which other requests add events (never remove
  one). When it reaches the last page, what it collected is strictly descending in
  \<^verbatim>\<open>(occurred_at, id)\<close>, hence without duplicates; it contains every matching event that existed
  at the first request; and everything in it is a matching event of that tenant.
\<close>

theorem audit_pagination_stable:
  assumes "1 \<le> limit" "limit \<le> MAX_PAGE_SIZE" "growing (d # ds)"
    and "\<forall>d'\<in>set (d # ds). audit_events_constraints d' \<and> events_in_range d'"
    and "follow_pages (Some ctx) limit q (d # ds) None = Inr (items, True)"
  shows "\<exists>es. items = map event_out es \<and> strictly_descending es
    \<and> set (visible_events (tc_tenant_id ctx) q d) \<subseteq> set es
    \<and> (\<forall>e\<in>set es. ae_tenant_id e = tc_tenant_id ctx \<and> query_matches q e)"
proof -
  have "cursor_denotes None None" by (simp add: cursor_denotes_def)
  from follow_pages_inv [OF assms(1,2,5) this assms(3,4)] obtain es where
      "items = map event_out es" "strictly_descending es"
      "set (below None (visible_events (tc_tenant_id ctx) q d)) \<subseteq> set es"
      "set es \<subseteq> (\<Union>d\<in>set (d # ds). set (visible_events (tc_tenant_id ctx) q d))"
    by auto
  then show ?thesis
    by (intro exI [of _ es]) (auto simp: below_def before_cursor_def set_visible_events)
qed

theorem audit_pagination_stable_witness:
  "\<exists>es. map event_out [sample_event 6 2 7, sample_event 5 3 7, sample_event 5 1 7] = map event_out es
     \<and> strictly_descending es \<and> set (visible_events 7 sample_query sample_log) \<subseteq> set es
     \<and> (\<forall>e\<in>set es. ae_tenant_id e = 7 \<and> query_matches sample_query e)"
proof -
  have "growing [sample_log, sample_log\<lparr>audit_events := audit_events sample_log @ [sample_event 8 9 7]\<rparr>]"
    by (auto simp: growing_def)
  from audit_pagination_stable [OF _ sample_log_ok(6) this _ sample_page_walk] show ?thesis
    unfolding sample_ctx_def using sample_log_ok by (simp del: list.map)
qed

text \<open>
  C22 (liveness). On an unchanging log the cursors always lead to the last page, and the pages
  concatenated are the whole listing: every matching event of the tenant once, newest first.
  \<open>n + 1\<close> requests are enough as soon as \<open>(n + 1) * limit\<close> covers the listing.
\<close>

theorem audit_pagination_complete:
  assumes "1 \<le> limit" "limit \<le> MAX_PAGE_SIZE" "audit_events_constraints d" "events_in_range d"
    and "length (visible_events (tc_tenant_id ctx) q d) \<le> Suc n * limit"
  shows "follow_pages (Some ctx) limit q (replicate (Suc n) d) None =
     Inr (map event_out (visible_events (tc_tenant_id ctx) q d), True)"
proof -
  have "below None (visible_events (tc_tenant_id ctx) q d) = visible_events (tc_tenant_id ctx) q d"
    by (simp add: below_def before_cursor_def)
  moreover have "cursor_denotes None None" by (simp add: cursor_denotes_def)
  ultimately show ?thesis using follow_pages_constant [OF assms(1-4)] assms(5) by metis
qed

theorem audit_pagination_complete_witness:
  "follow_pages (Some sample_ctx) 2 sample_query (replicate 2 sample_log) None =
     Inr (map event_out (visible_events 7 sample_query sample_log), True)"
proof -
  have t: "tc_tenant_id sample_ctx = 7" by (simp add: sample_ctx_def)
  have "length (visible_events (tc_tenant_id sample_ctx) sample_query sample_log) \<le> Suc 1 * 2"
    by (simp add: sample_length)
  from audit_pagination_complete [OF _ sample_log_ok(6,1,2) this] show ?thesis
    unfolding t by (simp add: numeral_2_eq_2 del: follow_pages.simps)
qed

text \<open>
  The cursor a page hands out decodes to the position it encodes, for every
  instant a \<^verbatim>\<open>datetime\<close> can hold.
\<close>

theorem cursor_roundtrip:
  "datetime_range t \<Longrightarrow> decode_cursor (encode_cursor t i) = Inr (t, i)"
  by (rule decode_encode_cursor)

theorem cursor_roundtrip_witness:
  "decode_cursor (encode_cursor (-62135596799999999) 5) = Inr (-62135596799999999, 5)"
proof -
  have "datetime_range (-62135596799999999)" by code_simp
  then show ?thesis by (rule cursor_roundtrip)
qed

end
