(* ===== verification/Directory.thy ===== *)
theory Directory
  imports Access AuditLog
begin

text \<open>
  The directory: invitations, members, role rules (\<^verbatim>\<open>directory/service.py\<close>) and the routes on
  members, invitations and teams (\<^verbatim>\<open>directory/router.py\<close>). A handler receives the
  authenticated user and the tenant context its permission dependency produced, and returns
  its answer with the committed database. Identifiers, tokens and salts are arguments.
\<close>

section \<open>Service\<close>

definition accept_url_for :: "settings \<Rightarrow> string \<Rightarrow> string" where
  "accept_url_for cfg token = public_base_url cfg @ ''/accept-invitation?token='' @ token"

definition count_owners :: "uuid \<Rightarrow> db \<Rightarrow> nat" where
  "count_owners tenant_id d =
     length (filter (\<lambda>m. m_tenant_id m = tenant_id \<and> m_role m = ROLE_OWNER) (memberships d))"

definition pending_invitation :: "instant \<Rightarrow> uuid \<Rightarrow> string \<Rightarrow> invitation \<Rightarrow> bool" where
  "pending_invitation now tenant_id email i \<longleftrightarrow>
     py_lower (inv_email i) = py_lower email \<and> inv_tenant_id i = tenant_id
     \<and> inv_accepted_at i = None \<and> now < inv_expires_at i"

definition create_invitation ::
  "primitives \<Rightarrow> settings \<Rightarrow> instant \<Rightarrow> uuid \<Rightarrow> string \<Rightarrow> uuid \<Rightarrow> string \<Rightarrow> string \<Rightarrow> string option \<Rightarrow>
   uuid option \<Rightarrow> db \<Rightarrow> ((invitation \<times> string) \<times> db) result" where
  "create_invitation P cfg now iid token tenant_id email role actor_role invited_by d =
     (case validate_role role of Inl e \<Rightarrow> Inl e
      | Inr _ \<Rightarrow>
          if role = ROLE_OWNER \<and> actor_role \<noteq> None \<and> actor_role \<noteq> Some ROLE_OWNER
          then Inl (DirectoryError ''Seul un owner peut inviter un owner.'')
          else if (case get_user_by_email email d of None \<Rightarrow> False
                   | Some u \<Rightarrow> membership_of (u_id u) tenant_id d \<noteq> None)
          then Inl (DirectoryError ''Cet email est deja membre du tenant.'')
          else if List.find (pending_invitation now tenant_id email) (invitations d) \<noteq> None
          then Inl (DirectoryError ''Une invitation est deja en cours pour cet email - revoquez-la d'abord.'')
          else let i = \<lparr>inv_id = iid, inv_email = email, inv_tenant_id = tenant_id, inv_role = role,
                        inv_token_hash = hash_token P token,
                        inv_expires_at = now + hours (invitation_ttl_hours cfg),
                        inv_accepted_at = None, inv_invited_by_user_id = invited_by,
                        inv_created_at = now\<rparr>
               in Inr ((i, token), invitations_update (insert_row i) d))"

definition list_pending_invitations :: "uuid \<Rightarrow> db \<Rightarrow> invitation list" where
  "list_pending_invitations tenant_id d =
     rev (sort_key inv_created_at
       (filter (\<lambda>i. inv_tenant_id i = tenant_id \<and> inv_accepted_at i = None) (invitations d)))"

definition revoke_invitation :: "uuid \<Rightarrow> uuid \<Rightarrow> db \<Rightarrow> (invitation \<times> db) result" where
  "revoke_invitation tenant_id invitation_id d =
     (case List.find (\<lambda>i. inv_id i = invitation_id) (invitations d) of
        None \<Rightarrow> Inl (DirectoryError ''Invitation introuvable.'')
      | Some i \<Rightarrow>
          if inv_tenant_id i \<noteq> tenant_id then Inl (DirectoryError ''Invitation introuvable.'')
          else if inv_accepted_at i \<noteq> None
          then Inl (DirectoryError ''Invitation deja acceptee - retirez plutot le membre.'')
          else Inr (i, invitations_update (delete_where (\<lambda>x. inv_id x = inv_id i)) d))"

definition invitation_by_token :: "primitives \<Rightarrow> string \<Rightarrow> db \<Rightarrow> invitation option" where
  "invitation_by_token P token d =
     List.find (\<lambda>i. inv_token_hash i = hash_token P token) (invitations d)"

definition accept_invitation ::
  "primitives \<Rightarrow> instant \<Rightarrow> uuid \<Rightarrow> uuid \<Rightarrow> string \<Rightarrow> string \<Rightarrow> string option \<Rightarrow> string option \<Rightarrow> db \<Rightarrow>
   ((user \<times> invitation) \<times> db) result" where
  \<comment> \<open>\<open>uid\<close> and \<open>mid\<close> identify the user and the membership, if they are created\<close>
  "accept_invitation P now uid mid salt token password display_name d =
     (case invitation_by_token P token d of
        None \<Rightarrow> Inl (DirectoryError ''Invitation invalide ou expiree.'')
      | Some i \<Rightarrow>
          if inv_accepted_at i \<noteq> None \<or> inv_expires_at i < now
          then Inl (DirectoryError ''Invitation invalide ou expiree.'')
          else
            (case (case get_user_by_email (inv_email i) d of
                     None \<Rightarrow>
                       let u = \<lparr>u_id = uid, u_email = inv_email i, u_display_name = display_name\<rparr>;
                           d1 = users_update (insert_row u) d
                       in Inr (u, case password of None \<Rightarrow> d1 | Some pw \<Rightarrow> set_password P salt uid pw d1)
                   | Some u \<Rightarrow>
                       let u' = (if display_name \<noteq> None \<and> u_display_name u = None
                                 then u\<lparr>u_display_name := display_name\<rparr> else u);
                           d1 = users_update (update_where (\<lambda>x. u_id x = u_id u) (\<lambda>_. u')) d
                       in if password \<noteq> None
                          then Inl (DirectoryError
                                 ''Ce compte existe deja - connectez-vous avec ses identifiants.'')
                          else Inr (u', d1))
             of Inl e \<Rightarrow> Inl e
             | Inr (u, d1) \<Rightarrow>
                 if membership_of (u_id u) (inv_tenant_id i) d1 \<noteq> None
                 then Inl (DirectoryError ''Deja membre de ce tenant.'')
                 else
                   let i' = i\<lparr>inv_accepted_at := Some now\<rparr>
                   in Inr ((u, i'),
                       invitations_update (update_where (\<lambda>x. inv_id x = inv_id i) (\<lambda>_. i'))
                         (memberships_update
                           (insert_row \<lparr>m_id = mid, m_user_id = u_id u, m_tenant_id = inv_tenant_id i,
                                        m_role = inv_role i\<rparr>) d1))))"

definition list_members :: "uuid \<Rightarrow> db \<Rightarrow> (user \<times> membership) list" where
  "list_members tenant_id d =
     sort_key (\<lambda>(u, m). py_lower (u_email u))
       (concat (map (\<lambda>u. map (\<lambda>m. (u, m))
          (filter (\<lambda>m. m_user_id m = u_id u \<and> m_tenant_id m = tenant_id) (memberships d))) (users d)))"

definition change_member_role ::
  "uuid \<Rightarrow> uuid \<Rightarrow> string \<Rightarrow> string \<Rightarrow> db \<Rightarrow> (membership \<times> db) result" where
  "change_member_role tenant_id user_id new_role actor_role d =
     (case validate_role new_role of Inl e \<Rightarrow> Inl e
      | Inr _ \<Rightarrow>
          (case membership_of user_id tenant_id d of
             None \<Rightarrow> Inl (DirectoryError ''Membre introuvable.'')
           | Some m \<Rightarrow>
               if ROLE_OWNER \<in> {new_role, m_role m} \<and> actor_role \<noteq> ROLE_OWNER
               then Inl (DirectoryError ''Seul un owner peut promouvoir ou retrograder un owner.'')
               else if m_role m = ROLE_OWNER \<and> new_role \<noteq> ROLE_OWNER \<and> count_owners tenant_id d \<le> 1
               then Inl (DirectoryError ''Impossible de retrograder le dernier owner du tenant.'')
               else Inr (m\<lparr>m_role := new_role\<rparr>,
                         memberships_update
                           (update_where (\<lambda>x. m_id x = m_id m) (\<lambda>x. x\<lparr>m_role := new_role\<rparr>)) d)))"

definition remove_member :: "uuid \<Rightarrow> uuid \<Rightarrow> string \<Rightarrow> db \<Rightarrow> db result" where
  "remove_member tenant_id user_id actor_role d =
     (case membership_of user_id tenant_id d of
        None \<Rightarrow> Inl (DirectoryError ''Membre introuvable.'')
      | Some m \<Rightarrow>
          if m_role m = ROLE_OWNER \<and> actor_role \<noteq> ROLE_OWNER
          then Inl (DirectoryError ''Seul un owner peut retirer un owner.'')
          else if m_role m = ROLE_OWNER \<and> count_owners tenant_id d \<le> 1
          then Inl (DirectoryError ''Impossible de retirer le dernier owner du tenant.'')
          else Inr (memberships_update (delete_where (\<lambda>x. m_id x = m_id m)) d))"

section \<open>Routes: members\<close>

definition actor_label :: "user \<Rightarrow> string" where
  \<comment> \<open>\<^verbatim>\<open>user.display_name or user.email\<close>\<close>
  "actor_label u =
     (case u_display_name u of None \<Rightarrow> u_email u
      | Some n \<Rightarrow> if n = [] then u_email u else n)"

record member_out =
  mo_user_id :: uuid
  mo_email :: string
  mo_display_name :: "string option"
  mo_role :: string

definition to_member_out :: "user \<Rightarrow> string \<Rightarrow> member_out" where
  "to_member_out u role =
     \<lparr>mo_user_id = u_id u, mo_email = u_email u, mo_display_name = u_display_name u, mo_role = role\<rparr>"

definition error_detail :: "exn \<Rightarrow> string" where
  \<comment> \<open>\<^verbatim>\<open>str(exc)\<close>\<close>
  "error_detail e =
     (case e of ValueError s \<Rightarrow> s | ProvisioningError s \<Rightarrow> s | DirectoryError s \<Rightarrow> s | AuthError s \<Rightarrow> s
      | HTTPException _ s \<Rightarrow> s | _ \<Rightarrow> [])"

definition audit_by :: "current_auth \<Rightarrow> string \<Rightarrow> string \<Rightarrow> string \<Rightarrow> (string \<times> json) list \<Rightarrow> audit_args" where
  "audit_by a action rtype rid payload =
     \<lparr>aa_action = action, aa_resource_type = rtype, aa_resource_id = rid, aa_payload = payload,
      aa_actor_user_id = Some (u_id (ca_user a)), aa_actor_label = actor_label (ca_user a)\<rparr>"

definition members_list :: "current_auth \<Rightarrow> tenant_context \<Rightarrow> db \<Rightarrow> member_out list result \<times> db" where
  "members_list a ctx d =
     (Inr (map (\<lambda>(u, m). to_member_out u (m_role m)) (list_members (tc_tenant_id ctx) d)), d)"

definition member_change_role ::
  "uuid \<Rightarrow> instant \<Rightarrow> uuid \<Rightarrow> string \<Rightarrow> current_auth \<Rightarrow> tenant_context \<Rightarrow> db \<Rightarrow> member_out result \<times> db" where
  "member_change_role eid now user_id role a ctx d =
     (case tc_role ctx of None \<Rightarrow> (Inl (HTTPException 500 ''AssertionError''), d)
      | Some actor_role \<Rightarrow>
          let old_role = map_option m_role (membership_of user_id (tc_tenant_id ctx) d)
          in case change_member_role (tc_tenant_id ctx) user_id role actor_role d of
               Inl e \<Rightarrow> (Inl (HTTPException 400 (error_detail e)), d)
             | Inr (m, d1) \<Rightarrow>
                 (case get_user user_id d1 of None \<Rightarrow> (Inl NoResultFound, d)
                  | Some u \<Rightarrow>
                      (case record_audit_event (Some ctx) eid now
                              (audit_by a ''core.member.role_changed'' ''membership'' (str_uuid user_id)
                                 [(''email'', JStr (u_email u)), (''old_role'', json_opt_str old_role),
                                  (''new_role'', JStr (m_role m))]) d1 of
                         Inl e \<Rightarrow> (Inl e, d)
                       | Inr (_, d2) \<Rightarrow> (Inr (to_member_out u (m_role m)), d2))))"

definition member_remove ::
  "uuid \<Rightarrow> instant \<Rightarrow> uuid \<Rightarrow> current_auth \<Rightarrow> tenant_context \<Rightarrow> db \<Rightarrow> unit result \<times> db" where
  "member_remove eid now user_id a ctx d =
     (case tc_role ctx of None \<Rightarrow> (Inl (HTTPException 500 ''AssertionError''), d)
      | Some actor_role \<Rightarrow>
          let target = membership_of user_id (tc_tenant_id ctx) d
          in if target \<noteq> None \<and> get_user user_id d = None then (Inl NoResultFound, d)
             else let target_email = (if target = None then None else map_option u_email (get_user user_id d))
             in case remove_member (tc_tenant_id ctx) user_id actor_role d of
                  Inl e \<Rightarrow> (Inl (HTTPException 400 (error_detail e)), d)
                | Inr d1 \<Rightarrow>
                    (case record_audit_event (Some ctx) eid now
                            (audit_by a ''core.member.removed'' ''membership'' (str_uuid user_id)
                               [(''email'', json_opt_str target_email),
                                (''role'', json_opt_str (map_option m_role target))]) d1 of
                       Inl e \<Rightarrow> (Inl e, d)
                     | Inr (_, d2) \<Rightarrow> (Inr (), d2)))"

section \<open>Routes: invitations\<close>

record invitation_out =
  io_id :: uuid
  io_role :: string
  io_expires_at :: instant
  io_accept_url :: string

record pending_invitation_out =
  po_id :: uuid
  po_email :: string
  po_role :: string
  po_expires_at :: instant
  po_created_at :: instant

definition invitations_list ::
  "current_auth \<Rightarrow> tenant_context \<Rightarrow> db \<Rightarrow> pending_invitation_out list result \<times> db" where
  "invitations_list a ctx d =
     (Inr (map (\<lambda>i. \<lparr>po_id = inv_id i, po_email = inv_email i, po_role = inv_role i,
                     po_expires_at = inv_expires_at i, po_created_at = inv_created_at i\<rparr>)
            (list_pending_invitations (tc_tenant_id ctx) d)), d)"

text \<open>
  The mailer is an argument: it is called after the commit, with the recipient, the subject
  and the body, and may raise.
\<close>

type_synonym mailer = "string \<Rightarrow> string \<Rightarrow> string \<Rightarrow> unit result"

definition INVITATION_SUBJECT :: string where
  "INVITATION_SUBJECT = ''Invitation a rejoindre un espace de travail''"

definition invitation_mail_body :: "string \<Rightarrow> string \<Rightarrow> string" where
  "invitation_mail_body slug url =
     ''Vous etes invite(e) a rejoindre l'espace '' @ slug @ ''. Acceptez l'invitation ici : '' @ url"

definition invitation_create ::
  "primitives \<Rightarrow> settings \<Rightarrow> mailer \<Rightarrow> uuid \<Rightarrow> instant \<Rightarrow> uuid \<Rightarrow> string \<Rightarrow> string \<Rightarrow> string \<Rightarrow>
   current_auth \<Rightarrow> tenant_context \<Rightarrow> db \<Rightarrow> invitation_out result \<times> db" where
  "invitation_create P cfg mail eid now iid token email role a ctx d =
     (case create_invitation P cfg now iid token (tc_tenant_id ctx) email role (tc_role ctx)
             (Some (u_id (ca_user a))) d of
        Inl e \<Rightarrow> (Inl (HTTPException 400 (error_detail e)), d)
      | Inr ((i, tok), d1) \<Rightarrow>
          (case record_audit_event (Some ctx) eid now
                  (audit_by a ''core.member.invited'' ''invitation'' (str_uuid (inv_id i))
                     [(''email'', JStr (inv_email i)), (''role'', JStr (inv_role i))]) d1 of
             Inl e \<Rightarrow> (Inl e, d)
           | Inr (_, d2) \<Rightarrow>
               (case mail email INVITATION_SUBJECT
                       (invitation_mail_body (tc_slug ctx) (accept_url_for cfg tok)) of
                  Inl e \<Rightarrow> (Inl e, d2)
                | Inr _ \<Rightarrow>
                    (Inr \<lparr>io_id = inv_id i, io_role = inv_role i, io_expires_at = inv_expires_at i,
                          io_accept_url = accept_url_for cfg tok\<rparr>, d2))))"

definition invitation_revoke ::
  "uuid \<Rightarrow> instant \<Rightarrow> uuid \<Rightarrow> current_auth \<Rightarrow> tenant_context \<Rightarrow> db \<Rightarrow> unit result \<times> db" where
  "invitation_revoke eid now invitation_id a ctx d =
     (case revoke_invitation (tc_tenant_id ctx) invitation_id d of
        Inl e \<Rightarrow> (Inl (HTTPException 404 (error_detail e)), d)
      | Inr (i, d1) \<Rightarrow>
          (case record_audit_event (Some ctx) eid now
                  (audit_by a ''core.member.invitation_revoked'' ''invitation'' (str_uuid invitation_id)
                     [(''email'', JStr (inv_email i)), (''role'', JStr (inv_role i))]) d1 of
             Inl e \<Rightarrow> (Inl e, d) | Inr (_, d2) \<Rightarrow> (Inr (), d2)))"

section \<open>The directory as a state machine\<close>

text \<open>
  One successful service call per step; calls that raise leave the database as it was. The
  identifiers drawn for new rows are fresh (\<^verbatim>\<open>uuid4\<close>), and the unique index on
  \<^verbatim>\<open>invitations.token_hash\<close> rejects a digest already present.
\<close>

inductive dir_step :: "primitives \<Rightarrow> settings \<Rightarrow> db \<Rightarrow> db \<Rightarrow> bool" for P cfg where
  invite: "create_invitation P cfg now iid token t email role actor by d = Inr (x, d') \<Longrightarrow>
    iid \<notin> inv_id ` set (invitations d) \<Longrightarrow>
    hash_token P token \<notin> inv_token_hash ` set (invitations d) \<Longrightarrow> dir_step P cfg d d'"
| revoke: "revoke_invitation t iid d = Inr (x, d') \<Longrightarrow> dir_step P cfg d d'"
| accept: "accept_invitation P now uid mid salt token pw name d = Inr (x, d') \<Longrightarrow>
    mid \<notin> m_id ` set (memberships d) \<Longrightarrow> uid \<notin> u_id ` set (users d) \<Longrightarrow> dir_step P cfg d d'"
| change_role: "change_member_role t uid role actor d = Inr (x, d') \<Longrightarrow> dir_step P cfg d d'"
| remove: "remove_member t uid actor d = Inr d' \<Longrightarrow> dir_step P cfg d d'"
| purge: "purge_expired_auth_rows now d = (x, d') \<Longrightarrow> dir_step P cfg d d'"

section \<open>Lemmas\<close>

lemma membership_of_D:
  "membership_of u t d = Some m \<Longrightarrow> m \<in> set (memberships d) \<and> m_user_id m = u \<and> m_tenant_id m = t"
  by (auto simp: membership_of_def dest: find_eq_Some_D)

lemma membership_of_None:
  "membership_of u t d = None \<longleftrightarrow> (\<forall>m\<in>set (memberships d). \<not> (m_user_id m = u \<and> m_tenant_id m = t))"
  by (simp add: membership_of_def find_eq_None_iff)

lemma set_password_tables [simp]:
  "memberships (set_password P salt u pw d) = memberships d" "users (set_password P salt u pw d) = users d"
  "invitations (set_password P salt u pw d) = invitations d"
  by (simp_all add: set_password_def Let_def)

text \<open>What an accepted invitation does to the tables of the directory.\<close>

lemma accept_invitation_effect:
  assumes "accept_invitation P now uid mid salt token pw name d = Inr ((u, i'), d')"
  obtains i where
    "invitation_by_token P token d = Some i" "inv_accepted_at i = None" "now \<le> inv_expires_at i"
    "i' = i\<lparr>inv_accepted_at := Some now\<rparr>"
    "memberships d' = insert_row \<lparr>m_id = mid, m_user_id = u_id u, m_tenant_id = inv_tenant_id i,
        m_role = inv_role i\<rparr> (memberships d)"
    "membership_of (u_id u) (inv_tenant_id i) d = None"
    "invitations d' = update_where (\<lambda>x. inv_id x = inv_id i) (\<lambda>_. i') (invitations d)"
    "(get_user_by_email (inv_email i) d = None \<and> u_id u = uid \<and> u_email u = inv_email i
        \<and> users d' = insert_row u (users d)) \<or>
     (\<exists>u0. get_user_by_email (inv_email i) d = Some u0 \<and> u_id u = u_id u0 \<and> u_email u = u_email u0
        \<and> map u_id (users d') = map u_id (users d))"
proof -
  from assms obtain i where i: "invitation_by_token P token d = Some i" "inv_accepted_at i = None"
      "now \<le> inv_expires_at i"
    by (auto simp: accept_invitation_def split: option.splits if_splits)
  have ids: "map u_id (update_where (\<lambda>x. u_id x = k) (\<lambda>_. v) us) = map u_id us" if "u_id v = k"
    for us v and k :: uuid
    using that by (simp add: update_where_def)
  show thesis
  proof (cases "get_user_by_email (inv_email i) d")
    case None
    with assms i show thesis
      by (intro that [of i])
        (auto simp: accept_invitation_def Let_def membership_of_def split: if_splits option.splits)
  next
    case (Some u0)
    with assms i show thesis
      by (intro that [of i])
        (auto simp: accept_invitation_def Let_def membership_of_def ids split: if_splits option.splits)
  qed
qed

definition owner_membership :: "uuid \<Rightarrow> membership \<Rightarrow> bool" where
  "owner_membership t m \<longleftrightarrow> m_tenant_id m = t \<and> m_role m = ROLE_OWNER"

lemma count_owners_eq: "count_owners t d = length (filter (owner_membership t) (memberships d))"
  by (simp add: count_owners_def owner_membership_def [abs_def])

lemma count_owners_pos: "0 < count_owners t d \<longleftrightarrow> (\<exists>m\<in>set (memberships d). owner_membership t m)"
  by (auto simp: count_owners_eq filter_empty_conv)

lemma another_owner:
  assumes "memberships_constraints d" "m \<in> set (memberships d)" "\<not> count_owners t d \<le> 1"
  shows "\<exists>x\<in>set (memberships d). owner_membership t x \<and> m_id x \<noteq> m_id m"
proof -
  have dist: "distinct (map m_id (memberships d))" using assms(1) by (simp add: memberships_constraints_def)
  then have "distinct (memberships d)" by (simp add: distinct_map)
  with assms(3) obtain x where "x \<in> set (memberships d)" "owner_membership t x" "x \<noteq> m"
    using two_in_filter [of "memberships d" "owner_membership t" m]
    by (auto simp: count_owners_eq)
  with dist assms(2) show ?thesis by (auto simp: distinct_map inj_on_def)
qed

lemma change_role_keeps_owner:
  assumes "change_member_role t' uid role actor d = Inr (x, d')" "memberships_constraints d"
    and "0 < count_owners t d"
  shows "0 < count_owners t d'"
proof -
  from assms(1) obtain m where m: "membership_of uid t' d = Some m"
      and ok: "\<not> (m_role m = ROLE_OWNER \<and> role \<noteq> ROLE_OWNER \<and> count_owners t' d \<le> 1)"
      and d': "memberships d' = update_where (\<lambda>x. m_id x = m_id m) (\<lambda>x. x\<lparr>m_role := role\<rparr>) (memberships d)"
    by (auto simp: change_member_role_def split: sum.splits option.splits if_splits)
  obtain w where w: "w \<in> set (memberships d)" "owner_membership t w"
      "m_id w = m_id m \<longrightarrow> role = ROLE_OWNER"
  proof (cases "role = ROLE_OWNER")
    case False
    show ?thesis
    proof (cases "owner_membership t m")
      case True
      then have "t = t'" "m_role m = ROLE_OWNER"
        using membership_of_D [OF m] by (auto simp: owner_membership_def)
      with another_owner [OF assms(2), of m t] membership_of_D [OF m] ok False that show ?thesis by auto
    next
      case no: False
      obtain ow where "ow \<in> set (memberships d)" "owner_membership t ow"
        using assms(3) by (auto simp: count_owners_pos)
      with no that assms(2) membership_of_D [OF m] show ?thesis
        by (auto simp: memberships_constraints_def distinct_map inj_on_def)
    qed
  qed (use assms(3) that in \<open>auto simp: count_owners_pos\<close>)
  then have "(if m_id w = m_id m then w\<lparr>m_role := role\<rparr> else w) \<in> set (memberships d')"
    unfolding d' set_update_where by blast
  moreover have "owner_membership t (if m_id w = m_id m then w\<lparr>m_role := role\<rparr> else w)"
    using w by (auto simp: owner_membership_def)
  ultimately show ?thesis unfolding count_owners_pos by blast
qed

lemma remove_keeps_owner:
  assumes "remove_member t' uid actor d = Inr d'" "memberships_constraints d" "0 < count_owners t d"
  shows "0 < count_owners t d'"
proof -
  from assms(1) obtain m where m: "membership_of uid t' d = Some m"
      and ok: "\<not> (m_role m = ROLE_OWNER \<and> count_owners t' d \<le> 1)"
      and d': "memberships d' = delete_where (\<lambda>x. m_id x = m_id m) (memberships d)"
    by (auto simp: remove_member_def split: option.splits if_splits)
  have "\<exists>w\<in>set (memberships d). owner_membership t w \<and> m_id w \<noteq> m_id m"
  proof (cases "owner_membership t m")
    case True
    with another_owner [OF assms(2), of m t] membership_of_D [OF m] ok show ?thesis
      by (auto simp: owner_membership_def)
  next
    case False
    obtain ow where "ow \<in> set (memberships d)" "owner_membership t ow"
      using assms(3) by (auto simp: count_owners_pos)
    with False assms(2) membership_of_D [OF m] show ?thesis
      by (auto simp: memberships_constraints_def distinct_map inj_on_def)
  qed
  then show ?thesis by (auto simp: count_owners_pos d')
qed

lemma update_keys_distinct:
  "distinct (map k rs) \<Longrightarrow> (\<And>r. k (f r) = k r) \<Longrightarrow> distinct (map k (update_where p f rs))"
  by (simp add: map_update_where_key)

lemma create_invitation_tables:
  "create_invitation P cfg now iid token t email role actor by d = Inr (x, d') \<Longrightarrow>
   memberships d' = memberships d \<and> users d' = users d"
  by (auto simp: create_invitation_def Let_def split: sum.splits option.splits if_splits)

lemma revoke_invitation_tables:
  "revoke_invitation t iid d = Inr (x, d') \<Longrightarrow> memberships d' = memberships d \<and> users d' = users d"
  by (auto simp: revoke_invitation_def split: option.splits if_splits)

lemma purge_tables:
  "purge_expired_auth_rows now d = (x, d') \<Longrightarrow> memberships d' = memberships d \<and> users d' = users d"
  by (auto simp: purge_expired_auth_rows_def Let_def)

lemma change_member_role_tables:
  assumes "change_member_role t uid role actor d = Inr (x, d')"
  obtains m where "membership_of uid t d = Some m" "users d' = users d"
    "memberships d' = update_where (\<lambda>x. m_id x = m_id m) (\<lambda>x. x\<lparr>m_role := role\<rparr>) (memberships d)"
  using assms by (auto simp: change_member_role_def split: sum.splits option.splits if_splits)

lemma remove_member_tables:
  assumes "remove_member t uid actor d = Inr d'"
  obtains m where "membership_of uid t d = Some m" "users d' = users d"
    "memberships d' = delete_where (\<lambda>x. m_id x = m_id m) (memberships d)"
  using assms by (auto simp: remove_member_def split: option.splits if_splits)

lemma memberships_constraints_cong:
  "memberships d' = memberships d \<and> users d' = users d \<Longrightarrow> memberships_constraints d \<Longrightarrow> memberships_constraints d'"
  by (simp add: memberships_constraints_def)

lemma dir_step_constraints:
  assumes "dir_step P cfg d d'" "memberships_constraints d"
  shows "memberships_constraints d'"
  using assms
proof (cases rule: dir_step.cases)
  case (accept now uid mid salt token pw name x)
  obtain u i' where x: "x = (u, i')" by fastforce
  show ?thesis
  proof (rule accept_invitation_effect [OF accept(1) [unfolded x]])
    fix i
    assume ms: "memberships d' = insert_row \<lparr>m_id = mid, m_user_id = u_id u, m_tenant_id = inv_tenant_id i,
        m_role = inv_role i\<rparr> (memberships d)"
      and none: "membership_of (u_id u) (inv_tenant_id i) d = None"
      and us: "(get_user_by_email (inv_email i) d = None \<and> u_id u = uid \<and> u_email u = inv_email i
          \<and> users d' = insert_row u (users d)) \<or>
        (\<exists>u0. get_user_by_email (inv_email i) d = Some u0 \<and> u_id u = u_id u0 \<and> u_email u = u_email u0
          \<and> map u_id (users d') = map u_id (users d))"
    have ids: "u_id ` set (users d') = insert (u_id u) (u_id ` set (users d))"
    proof (cases "get_user_by_email (inv_email i) d")
      case None
      with us show ?thesis by auto
    next
      case (Some u0)
      then have "u0 \<in> set (users d)" by (auto simp: get_user_by_email_def dest: find_eq_Some_D)
      moreover from us Some have "map u_id (users d') = map u_id (users d)" "u_id u = u_id u0" by auto
      ultimately show ?thesis by (metis image_set insert_absorb imageI)
    qed
    have "(u_id u, inv_tenant_id i) \<notin> (\<lambda>m. (m_user_id m, m_tenant_id m)) ` set (memberships d)"
      using none by (auto simp: membership_of_None)
    then show ?thesis
      using assms(2) accept(2) ids by (auto simp: memberships_constraints_def ms insert_row_def)
  qed
next
  case (change_role t uid role actor x)
  from change_role(1) assms(2) show ?thesis
    by (elim change_member_role_tables)
      (auto simp: memberships_constraints_def update_keys_distinct set_update_where image_image subset_iff)
next
  case (remove t uid actor)
  from remove(1) assms(2) show ?thesis
    by (elim remove_member_tables)
      (auto simp: memberships_constraints_def distinct_map_delete_where)
qed (use assms(2) memberships_constraints_cong in
    \<open>blast dest: create_invitation_tables revoke_invitation_tables purge_tables\<close>)+

lemma dir_step_keeps_owner:
  assumes "dir_step P cfg d d'" "memberships_constraints d" "0 < count_owners t d"
  shows "0 < count_owners t d'"
  using assms
proof (cases rule: dir_step.cases)
  case (accept now uid mid salt token pw name x)
  obtain u i' where x: "x = (u, i')" by fastforce
  show ?thesis
    using assms(3)
    by (rule_tac accept_invitation_effect [OF accept(1) [unfolded x]]) (auto simp: count_owners_pos)
next
  case (change_role t' uid role actor x)
  then show ?thesis using change_role_keeps_owner assms by blast
next
  case (remove t' uid actor)
  then show ?thesis using remove_keeps_owner assms by blast
qed (auto simp: count_owners_def dest!: create_invitation_tables revoke_invitation_tables purge_tables)

text \<open>A token whose invitation has been accepted stays spent: its row is never removed.\<close>

definition invitation_spent :: "primitives \<Rightarrow> string \<Rightarrow> db \<Rightarrow> bool" where
  "invitation_spent P token d \<longleftrightarrow>
     invitations_constraints d \<and>
     (\<exists>i\<in>set (invitations d). inv_token_hash i = hash_token P token \<and> inv_accepted_at i \<noteq> None)"

lemma invitation_same_id:
  "invitations_constraints d \<Longrightarrow> i \<in> set (invitations d) \<Longrightarrow> j \<in> set (invitations d) \<Longrightarrow>
   inv_id i = inv_id j \<or> inv_token_hash i = inv_token_hash j \<Longrightarrow> i = j"
  by (auto simp: invitations_constraints_def distinct_map inj_on_def)

lemma invitations_delete_spent:
  assumes "invitation_spent P token d" "invitations d' = delete_where q (invitations d)"
    and "\<And>i. i \<in> set (invitations d) \<Longrightarrow> q i \<Longrightarrow> inv_accepted_at i = None"
  shows "invitation_spent P token d'"
  using assms by (fastforce simp: invitation_spent_def invitations_constraints_def distinct_map_delete_where)

lemma invitations_accept_constraints:
  assumes "invitations_constraints d" "i \<in> set (invitations d)"
    and "invitations d' = update_where (\<lambda>x. inv_id x = inv_id i) (\<lambda>_. i\<lparr>inv_accepted_at := Some now\<rparr>) (invitations d)"
  shows "invitations_constraints d'"
proof -
  have "map k (invitations d') = map k (invitations d)"
    if "k (i\<lparr>inv_accepted_at := Some now\<rparr>) = k i" for k :: "invitation \<Rightarrow> 'b"
    using assms that invitation_same_id [OF assms(1)] by (auto simp: update_where_def)
  from this [of inv_id] this [of inv_token_hash] assms(1) show ?thesis
    by (simp add: invitations_constraints_def)
qed

lemma dir_step_spent:
  assumes "dir_step P cfg d d'" "invitation_spent P token d"
  shows "invitation_spent P token d'"
  using assms(1)
proof (cases rule: dir_step.cases)
  case (invite now iid token' t email role actor by' x)
  have "invitations d' = insert_row (fst x) (invitations d)"
      "inv_id (fst x) = iid" "inv_token_hash (fst x) = hash_token P token'"
    using invite(1) by (auto simp: create_invitation_def Let_def split: sum.splits option.splits if_splits)
  then show ?thesis
    using assms(2) invite(2,3) by (auto simp: invitation_spent_def invitations_constraints_def insert_row_def)
next
  case (revoke t iid x)
  then obtain i where "i \<in> set (invitations d)" "inv_accepted_at i = None"
      "invitations d' = delete_where (\<lambda>x. inv_id x = inv_id i) (invitations d)"
    by (auto simp: revoke_invitation_def split: option.splits if_splits dest!: find_eq_Some_D)
  with assms(2) show ?thesis
    by (intro invitations_delete_spent [of P token d d' "\<lambda>x. inv_id x = inv_id i"])
      (auto simp: invitation_spent_def dest: invitation_same_id)
next
  case (accept now uid mid salt token' pw name x)
  obtain u i' where x: "x = (u, i')" by fastforce
  from accept(1) [unfolded x] show ?thesis
  proof (rule accept_invitation_effect)
    fix i
    assume i: "invitation_by_token P token' d = Some i" "inv_accepted_at i = None"
        "i' = i\<lparr>inv_accepted_at := Some now\<rparr>"
        "invitations d' = update_where (\<lambda>x. inv_id x = inv_id i) (\<lambda>_. i') (invitations d)"
    have mem: "i \<in> set (invitations d)" using i(1) by (auto simp: invitation_by_token_def dest: find_eq_Some_D)
    obtain w where w: "w \<in> set (invitations d)" "inv_token_hash w = hash_token P token" "inv_accepted_at w \<noteq> None"
      using assms(2) by (auto simp: invitation_spent_def)
    have "inv_id w \<noteq> inv_id i"
      using w i(2) invitation_same_id [of d w i] mem assms(2) by (auto simp: invitation_spent_def)
    with w have "w \<in> set (invitations d')" by (force simp: i(4) set_update_where)
    with w invitations_accept_constraints [of d i d' now] mem assms(2) i(3,4) show ?thesis
      by (auto simp: invitation_spent_def)
  qed
next
  case (change_role t uid role actor x)
  then have "invitations d' = invitations d"
    by (auto simp: change_member_role_def split: sum.splits option.splits if_splits)
  with assms(2) show ?thesis by (simp add: invitation_spent_def invitations_constraints_def)
next
  case (remove t uid actor)
  then have "invitations d' = invitations d" by (auto simp: remove_member_def split: option.splits if_splits)
  with assms(2) show ?thesis by (simp add: invitation_spent_def invitations_constraints_def)
next
  case (purge now x)
  then show ?thesis
    by (intro invitations_delete_spent [OF assms(2),
          where q = "\<lambda>i. inv_expires_at i < now \<and> inv_accepted_at i = None"])
      (auto simp: purge_expired_auth_rows_def Let_def)
qed

lemma spent_refused:
  assumes "invitation_spent P token d"
  shows "accept_invitation P now uid mid salt token pw name d =
    Inl (DirectoryError ''Invitation invalide ou expiree.'')"
proof -
  obtain w where w: "w \<in> set (invitations d)" "inv_token_hash w = hash_token P token" "inv_accepted_at w \<noteq> None"
    using assms by (auto simp: invitation_spent_def)
  have "invitation_by_token P token d = Some w"
    unfolding invitation_by_token_def using assms w
    by (intro find_unique [where k = inv_token_hash]) (auto simp: invitation_spent_def invitations_constraints_def)
  with w(3) show ?thesis by (simp add: accept_invitation_def)
qed

section \<open>A concrete directory\<close>

definition sample_user :: user where
  "sample_user = \<lparr>u_id = 1, u_email = ''Ann@Acme.io'', u_display_name = None\<rparr>"

definition sample_invitation :: invitation where
  "sample_invitation =
     \<lparr>inv_id = 51, inv_email = ''bob@acme.io'', inv_tenant_id = 7, inv_role = ''admin'',
      inv_token_hash = hash_token sample_primitives ''inv'', inv_expires_at = 100, inv_accepted_at = None,
      inv_invited_by_user_id = Some 1, inv_created_at = 0\<rparr>"

definition sample_directory :: db where
  "sample_directory = empty_db
     \<lparr>users := [sample_user],
      memberships := [\<lparr>m_id = 41, m_user_id = 1, m_tenant_id = 7, m_role = ''owner''\<rparr>],
      invitations := [sample_invitation]\<rparr>"

lemma sample_directory_ok:
  "memberships_constraints sample_directory" "invitations_constraints sample_directory"
  "count_owners 7 sample_directory = 1"
  by (simp_all add: memberships_constraints_def invitations_constraints_def count_owners_def
      sample_directory_def sample_user_def ROLE_OWNER_def)

lemma sample_accept:
  "\<exists>d'. accept_invitation sample_primitives 5 2 42 [] ''inv'' None None sample_directory =
     Inr ((\<lparr>u_id = 2, u_email = ''bob@acme.io'', u_display_name = None\<rparr>,
           sample_invitation\<lparr>inv_accepted_at := Some 5\<rparr>), d')
     \<and> dir_step sample_primitives default_settings sample_directory d'"
proof -
  have "get_user_by_email ''bob@acme.io'' sample_directory = None" by code_simp
  moreover have "invitation_by_token sample_primitives ''inv'' sample_directory = Some sample_invitation"
    by (simp add: invitation_by_token_def sample_directory_def sample_invitation_def)
  ultimately obtain d' where d': "accept_invitation sample_primitives 5 2 42 [] ''inv'' None None sample_directory =
     Inr ((\<lparr>u_id = 2, u_email = ''bob@acme.io'', u_display_name = None\<rparr>,
           sample_invitation\<lparr>inv_accepted_at := Some 5\<rparr>), d')"
    by (auto simp: accept_invitation_def Let_def sample_invitation_def membership_of_def sample_directory_def)
  have "dir_step sample_primitives default_settings sample_directory d'"
    by (rule dir_step.accept [OF d']) (simp_all add: sample_directory_def sample_user_def)
  with d' show ?thesis by blast
qed

section \<open>Properties\<close>

text \<open>
  C8 (invariant). A tenant that has an owner keeps one. Along every history of the directory
  (invitations, acceptances, role changes, removals, purges, in any order and for any
  tenants), the constraints of the memberships table hold and no tenant loses its last
  owner.
\<close>

theorem last_owner_kept:
  assumes "(dir_step P cfg)\<^sup>*\<^sup>* d d'" "memberships_constraints d" "0 < count_owners t d"
  shows "memberships_constraints d' \<and> 0 < count_owners t d'"
  using assms(1)
  by (induction rule: rtranclp_induct)
    (use assms(2,3) dir_step_constraints dir_step_keeps_owner in blast)+

theorem last_owner_kept_witness:
  "\<exists>d'. dir_step sample_primitives default_settings sample_directory d'
     \<and> memberships_constraints d' \<and> 0 < count_owners 7 d'"
proof -
  obtain d' where "dir_step sample_primitives default_settings sample_directory d'"
    using sample_accept by blast
  with last_owner_kept [of sample_primitives default_settings sample_directory d' 7] sample_directory_ok
  show ?thesis by auto
qed

text \<open>
  Only owners make or unmake owners. A role change or removal by an actor who is
  not an owner leaves the list of owners of every tenant as it was, and such an actor cannot
  invite one.
\<close>

theorem owners_changed_by_owners_only:
  assumes "memberships_constraints d" "actor \<noteq> ROLE_OWNER"
  shows "(\<forall>t' uid role x d'. change_member_role t' uid role actor d = Inr (x, d') \<longrightarrow>
      filter (owner_membership t) (memberships d') = filter (owner_membership t) (memberships d))
    \<and> (\<forall>t' uid d'. remove_member t' uid actor d = Inr d' \<longrightarrow>
      filter (owner_membership t) (memberships d') = filter (owner_membership t) (memberships d))
    \<and> (\<forall>P cfg now iid token t' email by x d'.
      create_invitation P cfg now iid token t' email ROLE_OWNER (Some actor) by d \<noteq> Inr (x, d'))"
proof -
  have same: "x = m" if "membership_of uid t' d = Some m" "x \<in> set (memberships d)" "m_id x = m_id m"
    for uid t' m x
    using assms(1) membership_of_D [OF that(1)] that(2,3)
    by (auto simp: memberships_constraints_def distinct_map inj_on_def)
  have "filter (owner_membership t) (memberships d') = filter (owner_membership t) (memberships d)"
    if "change_member_role t' uid role actor d = Inr (x, d')" for t' uid role x d'
  proof -
    from that assms(2) obtain m where m: "membership_of uid t' d = Some m"
        "m_role m \<noteq> ROLE_OWNER" "role \<noteq> ROLE_OWNER"
        and d': "memberships d' = update_where (\<lambda>x. m_id x = m_id m) (\<lambda>x. x\<lparr>m_role := role\<rparr>) (memberships d)"
      by (auto simp: change_member_role_def split: sum.splits option.splits if_splits)
    have "filter (owner_membership t) (map (\<lambda>x. if m_id x = m_id m then x\<lparr>m_role := role\<rparr> else x) ms)
        = filter (owner_membership t) ms" if "set ms \<subseteq> set (memberships d)" for ms
      using that same [OF m(1)] m(2,3) by (induction ms) (auto simp: owner_membership_def)
    then show ?thesis by (simp add: d' update_where_def)
  qed
  moreover have "filter (owner_membership t) (memberships d') = filter (owner_membership t) (memberships d)"
    if "remove_member t' uid actor d = Inr d'" for t' uid d'
  proof -
    from that assms(2) obtain m where m: "membership_of uid t' d = Some m" "m_role m \<noteq> ROLE_OWNER"
        and d': "memberships d' = delete_where (\<lambda>x. m_id x = m_id m) (memberships d)"
      by (auto simp: remove_member_def split: option.splits if_splits)
    have "owner_membership t x \<Longrightarrow> m_id x \<noteq> m_id m" if "x \<in> set (memberships d)" for x
      using same [OF m(1) that] m(2) by (auto simp: owner_membership_def)
    then show ?thesis by (auto simp: d' delete_where_def intro!: filter_cong)
  qed
  moreover have "create_invitation P cfg now iid token t' email ROLE_OWNER (Some actor) by' d \<noteq> Inr (x, d')"
    for P cfg now iid token t' email by' x d'
    using assms(2) by (auto simp: create_invitation_def split: sum.splits)
  ultimately show ?thesis by blast
qed

theorem owners_changed_by_owners_only_witness:
  "\<nexists>x d'. create_invitation sample_primitives default_settings 5 52 ''new'' 7 ''eve@acme.io'' ROLE_OWNER
     (Some ''admin'') (Some 1) sample_directory = Inr (x, d')"
  using owners_changed_by_owners_only [OF sample_directory_ok(1), of "''admin''" 7]
  by (simp add: ROLE_OWNER_def)

text \<open>
  What an accepted invitation gives, and that it gives it once. The account
  that joins carries the invited email; it becomes a member of the inviting tenant, which it
  was not, with exactly the invited role; and whatever the directory goes through
  afterwards, the same token is refused.
\<close>

theorem invitation_accepted_once:
  assumes "accept_invitation P now uid mid salt token pw name d = Inr ((u, i), d')"
    and "invitations_constraints d" "(dir_step P cfg)\<^sup>*\<^sup>* d' d''"
  shows "py_lower (u_email u) = py_lower (inv_email i)
    \<and> membership_of (u_id u) (inv_tenant_id i) d = None
    \<and> map_option m_role (membership_of (u_id u) (inv_tenant_id i) d') = Some (inv_role i)
    \<and> accept_invitation P later uid' mid' salt' token pw' name' d'' =
        Inl (DirectoryError ''Invitation invalide ou expiree.'')"
  using assms(1)
proof (rule accept_invitation_effect)
  fix i0
  assume i0: "invitation_by_token P token d = Some i0" "inv_accepted_at i0 = None"
      "i = i0\<lparr>inv_accepted_at := Some now\<rparr>"
    and ms: "memberships d' = insert_row \<lparr>m_id = mid, m_user_id = u_id u, m_tenant_id = inv_tenant_id i0,
        m_role = inv_role i0\<rparr> (memberships d)"
    and none: "membership_of (u_id u) (inv_tenant_id i0) d = None"
    and invs: "invitations d' = update_where (\<lambda>x. inv_id x = inv_id i0) (\<lambda>_. i) (invitations d)"
    and us: "(get_user_by_email (inv_email i0) d = None \<and> u_id u = uid \<and> u_email u = inv_email i0
          \<and> users d' = insert_row u (users d)) \<or>
        (\<exists>u0. get_user_by_email (inv_email i0) d = Some u0 \<and> u_id u = u_id u0 \<and> u_email u = u_email u0
          \<and> map u_id (users d') = map u_id (users d))"
  have mem: "i0 \<in> set (invitations d)" "inv_token_hash i0 = hash_token P token"
    using i0(1) by (auto simp: invitation_by_token_def dest: find_eq_Some_D)
  have "i \<in> set (invitations d')" using mem by (force simp: invs set_update_where)
  moreover have "inv_token_hash i = hash_token P token" "inv_accepted_at i \<noteq> None"
    using mem(2) by (simp_all add: i0(3))
  moreover have "invitations_constraints d'"
    by (rule invitations_accept_constraints [OF assms(2) mem(1) invs [unfolded i0(3)]])
  ultimately have "invitation_spent P token d'" unfolding invitation_spent_def by blast
  with assms(3) have "invitation_spent P token d''"
    by (induction rule: rtranclp_induct) (blast intro: dir_step_spent)+
  moreover have "membership_of (u_id u) (inv_tenant_id i0) d' =
      Some \<lparr>m_id = mid, m_user_id = u_id u, m_tenant_id = inv_tenant_id i0, m_role = inv_role i0\<rparr>"
    using none by (simp add: membership_of_def ms find_insert_row)
  moreover have "py_lower (u_email u) = py_lower (inv_email i0)"
    using us by (auto simp: get_user_by_email_def dest: find_eq_Some_D)
  ultimately show ?thesis using i0(3) none spent_refused by auto
qed

theorem invitation_accepted_once_witness:
  "\<exists>u i d'. accept_invitation sample_primitives 5 2 42 [] ''inv'' None None sample_directory = Inr ((u, i), d')
     \<and> map_option m_role (membership_of (u_id u) 7 d') = Some ''admin''
     \<and> accept_invitation sample_primitives 6 3 43 [] ''inv'' None None d' =
         Inl (DirectoryError ''Invitation invalide ou expiree.'')"
proof -
  obtain d' where d': "accept_invitation sample_primitives 5 2 42 [] ''inv'' None None sample_directory =
     Inr ((\<lparr>u_id = 2, u_email = ''bob@acme.io'', u_display_name = None\<rparr>,
           sample_invitation\<lparr>inv_accepted_at := Some 5\<rparr>), d')"
    using sample_accept by blast
  from invitation_accepted_once [OF d' sample_directory_ok(2)
      rtranclp.rtrancl_refl [of "dir_step sample_primitives default_settings" d'],
      where later = 6 and uid' = 3 and mid' = 43 and salt' = "[]" and pw' = None and name' = None] d'
  show ?thesis by (auto simp: sample_invitation_def)
qed

text \<open>
  At most one live invitation per email and tenant. If from some instant on no
  email has two pending invitations for a tenant, creating an invitation at that instant or
  later keeps it so.
\<close>

theorem one_pending_invitation:
  assumes "create_invitation P cfg now iid token t email role actor by d = Inr (x, d')"
    and "\<forall>later\<ge>now. \<forall>t email. length (filter (pending_invitation later t email) (invitations d)) \<le> 1"
    and "now \<le> later"
  shows "length (filter (pending_invitation later t' email') (invitations d')) \<le> 1"
proof -
  from assms(1) have none: "\<forall>i\<in>set (invitations d). \<not> pending_invitation now t email i"
      and ins: "invitations d' = insert_row (fst x) (invitations d)"
      and new: "inv_tenant_id (fst x) = t" "inv_email (fst x) = email"
    by (auto simp: create_invitation_def Let_def find_eq_None_iff split: sum.splits option.splits if_splits)
  show ?thesis
  proof (cases "pending_invitation later t' email' (fst x)")
    case True
    then have "t' = t" "py_lower email' = py_lower email" using new by (auto simp: pending_invitation_def)
    then have "filter (pending_invitation later t' email') (invitations d) = []"
      using none assms(3) by (auto simp: filter_empty_conv pending_invitation_def)
    then show ?thesis by (simp add: ins filter_insert_row)
  next
    case False
    then show ?thesis using assms(2,3) by (simp add: ins filter_insert_row)
  qed
qed

theorem one_pending_invitation_witness:
  "\<exists>x d'. create_invitation sample_primitives default_settings 5 52 ''new'' 7 ''eve@acme.io'' ''member'' None None
        sample_directory = Inr (x, d')
     \<and> length (filter (pending_invitation 9 7 ''eve@acme.io'') (invitations d')) \<le> 1"
proof -
  have "get_user_by_email ''eve@acme.io'' sample_directory = None" by code_simp
  moreover have "py_lower ''bob@acme.io'' \<noteq> py_lower ''eve@acme.io''" by code_simp
  ultimately obtain x d' where c: "create_invitation sample_primitives default_settings 5 52 ''new'' 7
      ''eve@acme.io'' ''member'' None None sample_directory = Inr (x, d')"
    by (auto simp: create_invitation_def Let_def validate_role_def ROLES_def ROLE_PERMISSIONS_def ROLE_MEMBER_def
        ROLE_OWNER_def sample_directory_def sample_invitation_def pending_invitation_def)
  have "length (filter (pending_invitation later t email) (invitations sample_directory)) \<le> 1" for later t email
    by (simp add: sample_directory_def)
  with one_pending_invitation [OF c, of 9 7 "''eve@acme.io''"] c show ?thesis by auto
qed

end
