(* ===== verification/PyText.thy ===== *)
theory PyText
  imports Codec
begin

text \<open>
  The texts Python prints into keys, messages and payloads: \<^verbatim>\<open>str\<close> of an integer, \<^verbatim>\<open>repr\<close> and
  \<^verbatim>\<open>str\<close> of a JSON value, and the calendar parts \<^verbatim>\<open>%Y-%m\<close> and \<^verbatim>\<open>%Y-%m-%d\<close> of an instant with
  the facts that tell two dates or months apart by their text.
\<close>

section \<open>Numbers and literals\<close>

fun str_nat :: "nat \<Rightarrow> string" where
  "str_nat n = (if n < 10 then dec_digits 1 n else str_nat (n div 10) @ dec_digits 1 n)"

declare str_nat.simps [simp del]

definition str_int :: "int \<Rightarrow> string" where
  "str_int i = (if i < 0 then ''-'' @ str_nat (nat (- i)) else str_nat (nat i))"

definition repr_char :: "char \<Rightarrow> char \<Rightarrow> string" where
  \<comment> \<open>one character of a literal quoted with \<open>q\<close>\<close>
  "repr_char q c =
     (if c = q \<or> c = CHR 0x5C then [CHR 0x5C, c]
      else if c = CHR 0x09 then [CHR 0x5C, CHR ''t'']
      else if c = CHR 0x0A then [CHR 0x5C, CHR ''n'']
      else if c = CHR 0x0D then [CHR 0x5C, CHR ''r'']
      else if c < CHR 0x20 \<or> c = CHR 0x7F then [CHR 0x5C, CHR ''x''] @ hex_digits 2 (of_char c)
      else [c])"

definition repr_str :: "string \<Rightarrow> string" where
  \<comment> \<open>\<^verbatim>\<open>repr(s)\<close>: single quotes unless only they occur\<close>
  "repr_str s =
     (let q = (if CHR 0x27 \<in> set s \<and> CHR 0x22 \<notin> set s then CHR 0x22 else CHR 0x27)
      in [q] @ concat (map (repr_char q) s) @ [q])"

definition join_with :: "string \<Rightarrow> string list \<Rightarrow> string" where
  \<comment> \<open>\<^verbatim>\<open>sep.join(xs)\<close>\<close>
  "join_with sep xs = (case xs of [] \<Rightarrow> [] | y # ys \<Rightarrow> y @ concat (map (\<lambda>z. sep @ z) ys))"

fun repr_json :: "json \<Rightarrow> string" where
  "repr_json JNull = ''None''"
| "repr_json (JBool b) = (if b then ''True'' else ''False'')"
| "repr_json (JInt i) = str_int i"
| "repr_json (JStr s) = repr_str s"
| "repr_json (JList js) = ''['' @ join_with '', '' (map repr_json js) @ '']''"
| "repr_json (JObj kvs) =
     ''{'' @ join_with '', '' (map (\<lambda>(k, v). repr_str k @ '': '' @ repr_json v) kvs) @ ''}''"

definition str_json :: "json \<Rightarrow> string" where
  "str_json v = (case v of JStr s \<Rightarrow> s | _ \<Rightarrow> repr_json v)"

section \<open>Dates and months\<close>

definition ymd :: "instant \<Rightarrow> nat \<times> nat \<times> nat" where
  \<comment> \<open>year, month and day of the month\<close>
  "ymd t =
     (let (y, doy) = find_year 1 (nat (t div days 1 + epoch_ordinal));
          (m, d) = find_month 1 (month_lengths y) doy
      in (y, m, Suc d))"

definition month_str :: "instant \<Rightarrow> string" where
  \<comment> \<open>\<^verbatim>\<open>f"{t:%Y-%m}"\<close>\<close>
  "month_str t = (case ymd t of (y, m, _) \<Rightarrow> dec_digits 4 y @ ''-'' @ dec_digits 2 m)"

definition date_str :: "instant \<Rightarrow> string" where
  \<comment> \<open>\<^verbatim>\<open>f"{t:%Y-%m-%d}"\<close>\<close>
  "date_str t = (case ymd t of (_, _, d) \<Rightarrow> month_str t @ ''-'' @ dec_digits 2 d)"

definition month_start :: "instant \<Rightarrow> instant" where
  \<comment> \<open>\<^verbatim>\<open>t.replace(day=1, hour=0, minute=0, second=0, microsecond=0)\<close>\<close>
  "month_start t = (case ymd t of (_, _, d) \<Rightarrow> days (t div days 1 - int (d - 1)))"

definition date_of :: "instant \<Rightarrow> int" where
  \<comment> \<open>\<^verbatim>\<open>t.date()\<close>, the number of its day\<close>
  "date_of t = t div days 1"

section \<open>Lemmas\<close>

lemma days_eq: "days n = n * 86400000000"
  by (simp add: days_def hours_def minutes_def seconds_def)

lemma dec_digits_inj:
  "dec_digits k m = dec_digits k n \<Longrightarrow> m < 10 ^ k \<Longrightarrow> n < 10 ^ k \<Longrightarrow> m = n"
  using parse_dec_digits by (metis option.inject)

lemma ymd_bounds:
  assumes "datetime_range t" "ymd t = (y, m, d)"
  shows "y \<le> 9999" "1 \<le> m" "m \<le> 12" "1 \<le> d" "d \<le> 31"
    and "date_of t = int (days_before_year y + days_before_month y m + (d - 1)) - epoch_ordinal"
proof -
  define n where "n = nat (t div days 1 + epoch_ordinal)"
  obtain doy e where f: "find_year 1 n = (y, doy)" "find_month 1 (month_lengths y) doy = (m, e)"
    and d: "d = Suc e"
    using assms(2) by (auto simp: ymd_def n_def Let_def split: prod.splits)
  show "y \<le> 9999" using assms(1) f(1) by (simp add: datetime_range_def n_def)
  have Y: "doy < year_length y" "n = days_before_year y + doy"
    using find_year_inv [OF f(1)] by (auto simp: days_before_year_def)
  have M: "1 \<le> m" "m - 1 < 12" "e < month_lengths y ! (m - 1)" "doy = days_before_month y m + e"
    using find_month_inv [OF f(2)] Y(1) by (auto simp: sum_month_lengths days_before_month_def)
  show "1 \<le> m" "m \<le> 12" "1 \<le> d" using M(1,2) d by auto
  show "d \<le> 31" using month_lengths_le [OF M(2), of y] M(3) d by simp
  have "int n = t div days 1 + epoch_ordinal"
    using assms(1) by (simp add: datetime_range_def n_def)
  then show "date_of t = int (days_before_year y + days_before_month y m + (d - 1)) - epoch_ordinal"
    using Y(2) M(4) d by (simp add: date_of_def)
qed

lemma month_str_eq_D:
  assumes "datetime_range t" "datetime_range u" "month_str t = month_str u"
  shows "fst (ymd t) = fst (ymd u) \<and> fst (snd (ymd t)) = fst (snd (ymd u))"
proof -
  obtain y m d y' m' d' where e: "ymd t = (y, m, d)" "ymd u = (y', m', d')"
    by (metis prod_cases3)
  note b = ymd_bounds [OF assms(1) e(1)] and b' = ymd_bounds [OF assms(2) e(2)]
  have "dec_digits 4 y @ ''-'' @ dec_digits 2 m = dec_digits 4 y' @ ''-'' @ dec_digits 2 m'"
    using assms(3) e by (simp add: month_str_def del: dec_digits.simps)
  then have "dec_digits 4 y = dec_digits 4 y'" "dec_digits 2 m = dec_digits 2 m'"
    by (simp_all del: dec_digits.simps)
  then show ?thesis
    using dec_digits_inj [of 4 y y'] dec_digits_inj [of 2 m m'] b b' e
    by (simp del: dec_digits.simps)
qed

lemma length_month_str: "length (month_str t) = 7"
  by (simp add: month_str_def split: prod.splits del: dec_digits.simps)

lemma date_str_eq_D:
  assumes "datetime_range t" "datetime_range u" "date_str t = date_str u"
  shows "date_of t = date_of u"
proof -
  obtain y m d y' m' d' where e: "ymd t = (y, m, d)" "ymd u = (y', m', d')"
    by (metis prod_cases3)
  note b = ymd_bounds [OF assms(1) e(1)] and b' = ymd_bounds [OF assms(2) e(2)]
  have "month_str t @ ''-'' @ dec_digits 2 d = month_str u @ ''-'' @ dec_digits 2 d'"
    using assms(3) e by (simp add: date_str_def del: dec_digits.simps)
  then have "month_str t = month_str u" "dec_digits 2 d = dec_digits 2 d'"
    using length_month_str [of t] length_month_str [of u] by (simp_all del: dec_digits.simps)
  then have "y = y'" "m = m'" "d = d'"
    using month_str_eq_D [OF assms(1,2)] dec_digits_inj [of 2 d d'] b b' e
    by (simp_all del: dec_digits.simps)
  then show ?thesis using b(6) b'(6) by simp
qed

lemma date_of_bounds: "days (date_of t) \<le> t" "t < days (date_of t) + days 1"
proof -
  have "t = t div 86400000000 * 86400000000 + t mod 86400000000" by simp
  moreover have "0 \<le> t mod 86400000000" "t mod 86400000000 < 86400000000" by simp_all
  ultimately show "days (date_of t) \<le> t" "t < days (date_of t) + days 1"
    unfolding date_of_def days_eq mult_1 by linarith+
qed

lemma same_date_close: "date_of t = date_of u \<Longrightarrow> u < t + days 1"
  using date_of_bounds [of t] date_of_bounds [of u] by simp

lemma date_of_yesterday [simp]: "date_of (t - days 1) = date_of t - 1"
proof -
  have "t - days 1 = t + (- 1) * days 1" by simp
  then have "date_of (t - days 1) = - 1 + t div days 1"
    unfolding date_of_def by (simp only: div_mult_self1) (simp add: days_eq)
  then show ?thesis by (simp add: date_of_def)
qed

lemma same_month_close:
  assumes "datetime_range t" "datetime_range u" "month_str t = month_str u"
  shows "u < t + days 31"
proof -
  obtain y m d y' m' d' where e: "ymd t = (y, m, d)" "ymd u = (y', m', d')"
    by (metis prod_cases3)
  note b = ymd_bounds [OF assms(1) e(1)] and b' = ymd_bounds [OF assms(2) e(2)]
  have "y = y'" "m = m'" using month_str_eq_D [OF assms] e by simp_all
  then have "date_of u \<le> date_of t + 30" using b b' by simp
  then show ?thesis using date_of_bounds [of t] date_of_bounds [of u] by (simp add: days_eq)
qed

lemma month_start_bounds:
  assumes "datetime_range t"
  shows "month_start t \<le> t" "t < month_start t + days 31"
proof -
  obtain y m d where e: "ymd t = (y, m, d)" by (metis prod_cases3)
  note b = ymd_bounds [OF assms e]
  have "month_start t = days (t div days 1 - int (d - 1))" using e by (simp add: month_start_def)
  then show "month_start t \<le> t" "t < month_start t + days 31"
    using b(4,5) date_of_bounds [of t] by (simp_all add: days_eq date_of_def)
qed

end
