(* ===== verification/Catalogue.thy ===== *)
theory Catalogue
  imports Directory PyText
begin

text \<open>
  The tenant catalogue: provisioning (\<^verbatim>\<open>tenancy/provisioning.py\<close>) and the administration
  commands (\<^verbatim>\<open>cli.py\<close>). A command returns its result and the database it committed; an error
  is what the command prints before it exits with status 1.
\<close>

section \<open>Provisioning\<close>

definition provision_tenant ::
  "string \<Rightarrow> string \<Rightarrow> uuid \<Rightarrow> uuid \<Rightarrow> instant \<Rightarrow> db \<Rightarrow> tenant result \<times> db" where
  "provision_tenant slug name tid eid now d =
     (case validate_slug slug of Inl e \<Rightarrow> (Inl e, d)
      | Inr _ \<Rightarrow>
          if tenant_by_slug slug d \<noteq> None then (Inl (ProvisioningError ''Le slug est deja utilise''), d)
          else let t = \<lparr>t_id = tid, t_slug = slug, t_name = name, t_state = T_ACTIVE,
                        t_plan = ''standard'', t_deleted_at = None\<rparr>;
                   d1 = tenants_update (insert_row t) d
               in case tenant_context_block \<lparr>tc_tenant_id = tid, tc_slug = slug, tc_role = None\<rparr>
                         (\<lambda>cv d'. case record_audit_event cv eid now
                              \<lparr>aa_action = ''core.tenant.provisioned'', aa_resource_type = ''tenant'',
                               aa_resource_id = str_uuid tid,
                               aa_payload = [(''slug'', JStr slug), (''name'', JStr name)],
                               aa_actor_user_id = None, aa_actor_label = CLI_ACTOR_LABEL\<rparr> d' of
                              Inl e \<Rightarrow> (Inl e, cv, d') | Inr (_, d'') \<Rightarrow> (Inr (), cv, d''))
                         None d1 of
                    (Inl e, _, _) \<Rightarrow> (Inl e, d)
                  | (Inr _, _, d2) \<Rightarrow> (Inr t, d2))"

section \<open>Commands\<close>

definition cli_invite ::
  "primitives \<Rightarrow> settings \<Rightarrow> instant \<Rightarrow> uuid \<Rightarrow> string \<Rightarrow> string \<Rightarrow> string \<Rightarrow> string \<Rightarrow> db \<Rightarrow> string result \<times> db" where
  "cli_invite P cfg now iid token slug email role d =
     (case tenant_by_slug slug d of None \<Rightarrow> (Inl (DirectoryError ''Tenant inconnu au catalogue.''), d)
      | Some t \<Rightarrow>
          (case create_invitation P cfg now iid token (t_id t) email role None None d of
             Inl e \<Rightarrow> (Inl e, d)
           | Inr ((_, tok), d1) \<Rightarrow> (Inr (accept_url_for cfg tok), d1)))"

definition tenant_create ::
  "primitives \<Rightarrow> settings \<Rightarrow> instant \<Rightarrow> uuid \<Rightarrow> uuid \<Rightarrow> uuid \<Rightarrow> string \<Rightarrow> string \<Rightarrow> string option \<Rightarrow> string option \<Rightarrow>
   db \<Rightarrow> string option result \<times> db" where
  \<comment> \<open>the acceptance URL printed when an owner is invited\<close>
  "tenant_create P cfg now tid eid iid token slug name owner_email d =
     (let shown = (case name of None \<Rightarrow> slug | Some n \<Rightarrow> if n = [] then slug else n)
      in case provision_tenant slug shown tid eid now d of
           (Inl e, d1) \<Rightarrow> (Inl e, d1)
         | (Inr _, d1) \<Rightarrow>
             (case owner_email of None \<Rightarrow> (Inr None, d1)
              | Some email \<Rightarrow>
                  (case cli_invite P cfg now iid token slug email ''owner'' d1 of
                     (Inl e, d2) \<Rightarrow> (Inl e, d2)
                   | (Inr url, d2) \<Rightarrow> (Inr (Some url), d2))))"

definition invitation_create_cmd ::
  "primitives \<Rightarrow> settings \<Rightarrow> instant \<Rightarrow> uuid \<Rightarrow> string \<Rightarrow> string \<Rightarrow> string \<Rightarrow> string \<Rightarrow> db \<Rightarrow> string result \<times> db" where
  "invitation_create_cmd P cfg now iid token slug email role d =
     cli_invite P cfg now iid token slug email role d"

definition soft_delete :: "instant \<Rightarrow> string \<Rightarrow> db \<Rightarrow> tenant result \<times> db" where
  "soft_delete now slug d =
     (case tenant_by_slug slug d of None \<Rightarrow> (Inl (DirectoryError ''Tenant inconnu au catalogue.''), d)
      | Some t \<Rightarrow>
          if t_deleted_at t \<noteq> None then (Inl (DirectoryError ''Tenant deja supprime''), d)
          else (Inr (t\<lparr>t_deleted_at := Some now\<rparr>),
                tenants_update (update_where (\<lambda>x. t_id x = t_id t) (\<lambda>x. x\<lparr>t_deleted_at := Some now\<rparr>)) d))"

definition tenant_delete :: "instant \<Rightarrow> string \<Rightarrow> string \<Rightarrow> db \<Rightarrow> tenant result \<times> db" where
  \<comment> \<open>\<open>confirmation\<close> is what the operator types at the prompt\<close>
  "tenant_delete now slug confirmation d =
     (if confirmation \<noteq> slug then (Inl (ValueError ''Confirmation invalide - annule.''), d)
      else soft_delete now slug d)"

definition tenant_rows :: "db \<Rightarrow> tenant list" where
  "tenant_rows d = sort_key t_slug (tenants d)"

definition tenant_state_str :: "tenant_state \<Rightarrow> string" where
  "tenant_state_str s = (case s of T_ACTIVE \<Rightarrow> ''active'' | T_SUSPENDED \<Rightarrow> ''suspended'')"

definition ljust :: "nat \<Rightarrow> string \<Rightarrow> string" where
  \<comment> \<open>the format \<^verbatim>\<open>{s:<n}\<close>\<close>
  "ljust n s = s @ replicate (n - length s) (CHR '' '')"

definition tenant_line :: "string \<Rightarrow> string \<Rightarrow> string \<Rightarrow> string" where
  "tenant_line slug state deleted = ljust 20 slug @ '' '' @ ljust 14 state @ '' '' @ deleted"

definition tenant_list :: "db \<Rightarrow> string list" where
  \<comment> \<open>the lines it prints\<close>
  "tenant_list d =
     (if tenant_rows d = [] then [''Aucun tenant au catalogue.'']
      else tenant_line ''SLUG'' ''ETAT'' ''SUPPRIME''
           # map (\<lambda>t. tenant_line (t_slug t) (tenant_state_str (t_state t))
                         (case t_deleted_at t of None \<Rightarrow> ''-'' | Some at \<Rightarrow> date_str at)) (tenant_rows d))"

section \<open>Lemmas\<close>

lemma validate_slug_Inr: "validate_slug s = Inr x \<longleftrightarrow> x = s \<and> slug_fullmatch s \<and> s \<notin> set RESERVED_SLUGS"
  by (auto simp: validate_slug_def)

lemma provision_tenant_ok:
  "provision_tenant slug name tid eid now d = (Inr t, d') \<longleftrightarrow>
     slug_fullmatch slug \<and> slug \<notin> set RESERVED_SLUGS \<and> tenant_by_slug slug d = None
     \<and> t = \<lparr>t_id = tid, t_slug = slug, t_name = name, t_state = T_ACTIVE, t_plan = ''standard'', t_deleted_at = None\<rparr>
     \<and> d' = audit_events_update (insert_row
          \<lparr>ae_id = eid, ae_tenant_id = tid, ae_occurred_at = now, ae_actor_user_id = None,
           ae_actor_label = CLI_ACTOR_LABEL, ae_action = ''core.tenant.provisioned'',
           ae_resource_type = ''tenant'', ae_resource_id = str_uuid tid,
           ae_payload = [(''slug'', JStr slug), (''name'', JStr name)]\<rparr>)
        (tenants_update (insert_row t) d)"
  by (auto simp: provision_tenant_def validate_slug_def Let_def tenant_context_block_def push_tenant_def
      pop_tenant_def record_audit_event_eq split: if_splits)

lemma provision_tenant_error:
  "provision_tenant slug name tid eid now d = (Inl e, d') \<Longrightarrow> d' = d"
  by (auto simp: provision_tenant_def Let_def split: sum.splits if_splits prod.splits)

lemma tenant_by_slug_D: "tenant_by_slug s d = Some t \<Longrightarrow> t \<in> set (tenants d) \<and> t_slug t = s"
  by (auto simp: tenant_by_slug_def dest: find_eq_Some_D)

lemma mark_deleted:
  "map (t_deleted_at_update (\<lambda>_. None)) (filter (\<lambda>x. t_slug x = s)
     (update_where (\<lambda>x. t_slug x = s) (\<lambda>x. x\<lparr>t_deleted_at := Some now\<rparr>) ts)) =
   map (t_deleted_at_update (\<lambda>_. None)) (filter (\<lambda>x. t_slug x = s) ts)"
  "filter (\<lambda>x. t_slug x \<noteq> s) (update_where (\<lambda>x. t_slug x = s) (\<lambda>x. x\<lparr>t_deleted_at := Some now\<rparr>) ts) =
   filter (\<lambda>x. t_slug x \<noteq> s) ts"
  by (induction ts) (auto simp: update_where_def)

section \<open>Properties\<close>

text \<open>
  Provisioning is atomic. A tenant is created exactly when its slug is well
  formed, not reserved and unused; then the catalogue gains one active tenant under that
  slug and the log exactly one \<^verbatim>\<open>core.tenant.provisioned\<close> event of that tenant, in the same
  commit, the unique constraints of the catalogue still hold and nothing else changes. On
  failure nothing changes at all.
\<close>

theorem provision_tenant_atomic:
  assumes "tenants_constraints d" "tid \<notin> t_id ` set (tenants d)"
    and "provision_tenant slug name tid eid now d = (r, d')"
  shows "(case r of Inl _ \<Rightarrow> d' = d
     | Inr t \<Rightarrow> tenants_constraints d' \<and> tenant_by_slug slug d' = Some t \<and> t_state t = T_ACTIVE
         \<and> t_deleted_at t = None \<and> t_id t = tid
         \<and> (\<exists>ev. audit_events d' = audit_events d @ [ev] \<and> ae_tenant_id ev = tid
              \<and> ae_action ev = ''core.tenant.provisioned'')
         \<and> d' = d\<lparr>tenants := tenants d', audit_events := audit_events d'\<rparr>)
    \<and> (is_ok r \<longleftrightarrow> slug_fullmatch slug \<and> slug \<notin> set RESERVED_SLUGS \<and> tenant_by_slug slug d = None)"
proof (cases r)
  case (Inl e)
  then have "d' = d" using provision_tenant_error assms(3) by blast
  moreover have "\<not> (slug_fullmatch slug \<and> slug \<notin> set RESERVED_SLUGS \<and> tenant_by_slug slug d = None)"
    using assms(3) Inl provision_tenant_ok [of slug name tid eid now d] by auto
  ultimately show ?thesis using Inl by simp
next
  case (Inr t)
  note ok = assms(3) [unfolded Inr provision_tenant_ok]
  have fresh: "t_slug t \<notin> t_slug ` set (tenants d)"
    using ok by (auto simp: tenant_by_slug_def find_eq_None_iff)
  have "tenant_by_slug slug d' = Some t"
    using tenants_tbl.lookup_after_insert [OF fresh] ok by (simp add: tenant_by_slug_def)
  moreover have "distinct (map t_slug (tenants d'))"
    using tenants_tbl.distinct_after_insert [OF _ fresh] assms(1) ok by (simp add: tenants_constraints_def)
  ultimately show ?thesis
    using Inr ok assms(1,2) by (auto simp: tenants_constraints_def insert_row_def)
qed

theorem provision_tenant_atomic_witness:
  "\<exists>t d'. provision_tenant ''acme'' ''Acme'' 7 81 5 empty_db = (Inr t, d') \<and> tenant_by_slug ''acme'' d' = Some t"
proof -
  have "slug_fullmatch ''acme''" "''acme'' \<notin> set RESERVED_SLUGS" by code_simp+
  then obtain t d' where p: "provision_tenant ''acme'' ''Acme'' 7 81 5 empty_db = (Inr t, d')"
    by (simp add: provision_tenant_ok tenant_by_slug_def empty_db_def)
  have "tenants_constraints empty_db" "7 \<notin> t_id ` set (tenants empty_db)"
    by (simp_all add: tenants_constraints_def empty_db_def)
  from provision_tenant_atomic [OF this p] p show ?thesis by auto
qed



end
