(* ===== verification/Valkey.thy ===== *)
theory Valkey
  imports Prelude
begin

text \<open>
  The commands the program sends to Valkey (Redis protocol): counters, expiring keys and
  \<^verbatim>\<open>SET NX EX\<close>. A store maps a key to its value and expiry; a key past its expiry behaves as if
  it were absent.
\<close>

datatype kv_value = VInt int | VStr string

type_synonym kv = "string \<Rightarrow> (kv_value \<times> instant option) option"

definition kv_alive :: "instant \<Rightarrow> string \<Rightarrow> kv \<Rightarrow> (kv_value \<times> instant option) option" where
  "kv_alive now k s =
     (case s k of None \<Rightarrow> None
      | Some (v, None) \<Rightarrow> Some (v, None)
      | Some (v, Some e) \<Rightarrow> if now \<le> e then Some (v, Some e) else None)"

definition kv_get :: "instant \<Rightarrow> string \<Rightarrow> kv \<Rightarrow> kv_value option" where
  "kv_get now k s = map_option fst (kv_alive now k s)"

definition kv_incrby :: "instant \<Rightarrow> string \<Rightarrow> int \<Rightarrow> kv \<Rightarrow> int result \<times> kv" where
  "kv_incrby now k n s =
     (case kv_alive now k s of
        None \<Rightarrow> (Inr n, s(k \<mapsto> (VInt n, None)))
      | Some (VInt m, e) \<Rightarrow> (Inr (m + n), s(k \<mapsto> (VInt (m + n), e)))
      | Some (VStr _, _) \<Rightarrow> (Inl KVResponseError, s))"

definition kv_incr :: "instant \<Rightarrow> string \<Rightarrow> kv \<Rightarrow> int result \<times> kv" where
  "kv_incr now k s = kv_incrby now k 1 s"

definition kv_expire :: "instant \<Rightarrow> string \<Rightarrow> int \<Rightarrow> kv \<Rightarrow> kv" where
  "kv_expire now k secs s =
     (case kv_alive now k s of None \<Rightarrow> s
      | Some (v, _) \<Rightarrow> s(k \<mapsto> (v, Some (now + seconds secs))))"

definition kv_set :: "instant \<Rightarrow> string \<Rightarrow> kv_value \<Rightarrow> int option \<Rightarrow> kv \<Rightarrow> kv" where
  \<comment> \<open>\<^verbatim>\<open>SET k v [EX secs]\<close>\<close>
  "kv_set now k v ex s = s(k \<mapsto> (v, map_option (\<lambda>x. now + seconds x) ex))"

definition kv_set_nx_ex :: "instant \<Rightarrow> string \<Rightarrow> kv_value \<Rightarrow> int \<Rightarrow> kv \<Rightarrow> bool \<times> kv" where
  "kv_set_nx_ex now k v secs s =
     (case kv_alive now k s of
        None \<Rightarrow> (True, s(k \<mapsto> (v, Some (now + seconds secs))))
      | Some _ \<Rightarrow> (False, s))"

definition kv_delete :: "string \<Rightarrow> kv \<Rightarrow> kv" where
  "kv_delete k s = s(k := None)"

definition kv_ttl :: "instant \<Rightarrow> string \<Rightarrow> kv \<Rightarrow> int" where
  \<comment> \<open>\<open>-2\<close> for a missing key, \<open>-1\<close> without expiry, else whole seconds left\<close>
  "kv_ttl now k s =
     (case kv_alive now k s of None \<Rightarrow> -2
      | Some (_, None) \<Rightarrow> -1
      | Some (_, Some e) \<Rightarrow> (e - now + 500000) div 1000000)"

lemma kv_other_key [simp]:
  "k' \<noteq> k \<Longrightarrow> snd (kv_incrby now k n s) k' = s k'"
  "k' \<noteq> k \<Longrightarrow> snd (kv_incr now k s) k' = s k'"
  "k' \<noteq> k \<Longrightarrow> kv_expire now k secs s k' = s k'"
  "k' \<noteq> k \<Longrightarrow> kv_set now k v ex s k' = s k'"
  "k' \<noteq> k \<Longrightarrow> snd (kv_set_nx_ex now k v secs s) k' = s k'"
  "k' \<noteq> k \<Longrightarrow> kv_delete k s k' = s k'"
  by (auto simp: kv_incrby_def kv_incr_def kv_expire_def kv_set_def kv_set_nx_ex_def kv_delete_def
      split: option.splits prod.splits kv_value.splits)

lemma kv_alive_cong: "s k = s' k \<Longrightarrow> kv_alive now k s = kv_alive now k s'"
  by (simp add: kv_alive_def)

lemma kv_dead_later: "kv_alive now k s = None \<Longrightarrow> now \<le> later \<Longrightarrow> kv_alive later k s = None"
  by (auto simp: kv_alive_def split: option.splits prod.splits if_splits)

end
