(* ===== verification/RateLimit.thy ===== *)
theory RateLimit
  imports Valkey Crypto
begin

text \<open>
  Rate limiting of the authentication endpoints (\<^verbatim>\<open>auth/rate_limit.py\<close>): fixed-window
  counters in Valkey, per client address and per business identifier.
\<close>

definition rl_key :: "primitives \<Rightarrow> string \<Rightarrow> string \<Rightarrow> string" where
  "rl_key P scope identifier =
     ''rl:'' @ scope @ '':'' @ take 32 (hexdigest (sha256 P (py_lower identifier)))"

fun rl_loop :: "settings \<Rightarrow> instant \<Rightarrow> string list \<Rightarrow> kv \<Rightarrow> unit result \<times> kv" where
  "rl_loop cfg now [] s = (Inr (), s)"
| "rl_loop cfg now (k # ks) s =
     (case kv_incr now k s of
        (Inl e, s1) \<Rightarrow> (Inl e, s1)
      | (Inr count, s1) \<Rightarrow>
          let s2 = (if count = 1 then kv_expire now k (auth_rate_limit_window_seconds cfg) s1 else s1)
          in if auth_rate_limit_attempts cfg < count
             then (Inl (HTTPException 429 ''Trop de tentatives - reessayez plus tard.''), s2)
             else rl_loop cfg now ks s2)"

definition rl_keys :: "primitives \<Rightarrow> string option \<Rightarrow> string \<Rightarrow> string list \<Rightarrow> string list" where
  "rl_keys P client scope identifiers =
     rl_key P scope (case client of None \<Rightarrow> ''unknown'' | Some ip \<Rightarrow> ip)
     # map (rl_key P scope) (filter (\<lambda>i. i \<noteq> []) identifiers)"

definition enforce_rate_limit ::
  "primitives \<Rightarrow> settings \<Rightarrow> instant \<Rightarrow> string option \<Rightarrow> string \<Rightarrow> string list \<Rightarrow> kv \<Rightarrow> unit result \<times> kv" where
  "enforce_rate_limit P cfg now client scope identifiers s =
     rl_loop cfg now (rl_keys P client scope identifiers) s"

section \<open>Sequences of requests\<close>

record rl_request =
  rr_now :: instant
  rr_client :: "string option"
  rr_identifiers :: "string list"

fun admitted ::
  "primitives \<Rightarrow> settings \<Rightarrow> string \<Rightarrow> string \<Rightarrow> rl_request list \<Rightarrow> kv \<Rightarrow> nat" where
  \<comment> \<open>how many of the requests that count against key \<open>k\<close> are let through\<close>
  "admitted P cfg scope k [] s = 0"
| "admitted P cfg scope k (r # rs) s =
     (case enforce_rate_limit P cfg (rr_now r) (rr_client r) scope (rr_identifiers r) s of
        (res, s') \<Rightarrow>
          (if is_ok res \<and> k \<in> set (rl_keys P (rr_client r) scope (rr_identifiers r)) then 1 else 0)
          + admitted P cfg scope k rs s')"

section \<open>Lemmas\<close>

lemma rl_step_other:
  assumes "rl_loop cfg now (x # ks) s = (r, s')" "x \<noteq> k"
  obtains (stop) "\<not> is_ok r" "s' k = s k"
    | (continue) s2 where "s2 k = s k" "rl_loop cfg now ks s2 = (r, s')"
proof -
  obtain res s1 where inc: "kv_incr now x s = (res, s1)" by fastforce
  have s1: "s1 k = s k" using kv_other_key(2) [of k x now s] inc assms(2) by simp
  show thesis
  proof (cases res)
    case (Inl e)
    with assms(1) inc s1 stop show thesis by auto
  next
    case (Inr c)
    define s2 where "s2 = (if c = 1 then kv_expire now x (auth_rate_limit_window_seconds cfg) s1 else s1)"
    have "s2 k = s k" using s1 assms(2) by (simp add: s2_def)
    with assms(1) inc Inr stop continue [of s2] show thesis
      by (auto simp: Let_def s2_def [symmetric] split: if_splits)
  qed
qed

lemma rl_loop_untouched: "rl_loop cfg now ks s = (r, s') \<Longrightarrow> k \<notin> set ks \<Longrightarrow> s' k = s k"
proof (induction ks arbitrary: s)
  case (Cons x ks)
  from Cons.prems have "x \<noteq> k" by auto
  with Cons.prems(1) show ?case by (rule rl_step_other) (use Cons in auto)
qed simp

lemma rl_loop_started:
  assumes "rl_loop cfg now ks s = (r, s')" "s k = Some (VInt n, Some e)" "1 \<le> n" "now \<le> e"
  shows "\<exists>n'. n \<le> n' \<and> s' k = Some (VInt n', Some e)
    \<and> (is_ok r \<longrightarrow> k \<in> set ks \<longrightarrow> n < n' \<and> n' \<le> auth_rate_limit_attempts cfg)"
  using assms
proof (induction ks arbitrary: s n)
  case (Cons x ks)
  show ?case
  proof (cases "x = k")
    case False
    with Cons.prems(1) show ?thesis
    proof (rule rl_step_other)
      assume "\<not> is_ok r" "s' k = s k"
      with Cons.prems(2) show ?thesis by auto
    next
      fix s2
      assume s2: "s2 k = s k" and rec: "rl_loop cfg now ks s2 = (r, s')"
      have "s2 k = Some (VInt n, Some e)" using s2 Cons.prems(2) by simp
      from Cons.IH [of s2 n, OF rec this Cons.prems(3,4)] False show ?thesis by auto
    qed
  next
    case True
    have alive: "kv_alive now k s = Some (VInt n, Some e)"
      using Cons.prems by (simp add: kv_alive_def)
    have inc: "kv_incr now k s = (Inr (n + 1), s(k \<mapsto> (VInt (n + 1), Some e)))"
      by (simp add: kv_incr_def kv_incrby_def alive)
    show ?thesis
    proof (cases "auth_rate_limit_attempts cfg < n + 1")
      case over: True
      then show ?thesis
        using Cons.prems(1,3) inc by (auto simp: True)
    next
      case False
      have rec: "rl_loop cfg now ks (s(k \<mapsto> (VInt (n + 1), Some e))) = (r, s')"
        using Cons.prems(1,3) inc False by (simp add: True)
      from Cons.IH [of _ "n + 1", OF rec] Cons.prems(3,4) obtain n' where
        "n + 1 \<le> n'" "s' k = Some (VInt n', Some e)"
        "is_ok r \<longrightarrow> k \<in> set ks \<longrightarrow> n + 1 < n' \<and> n' \<le> auth_rate_limit_attempts cfg" by auto
      moreover have "k \<notin> set ks \<Longrightarrow> n' = n + 1"
        using rl_loop_untouched [OF rec] \<open>s' k = _\<close> by auto
      ultimately show ?thesis using False by (intro exI [of _ n']) auto
    qed
  qed
qed auto

lemma rl_loop_fresh:
  assumes "rl_loop cfg now ks s = (r, s')" "kv_alive now k s = None"
    and "0 \<le> auth_rate_limit_window_seconds cfg"
  shows "(s' k = s k \<and> \<not> (is_ok r \<and> k \<in> set ks)) \<or>
    (\<exists>n'\<ge>1. s' k = Some (VInt n', Some (now + seconds (auth_rate_limit_window_seconds cfg)))
      \<and> (is_ok r \<longrightarrow> n' \<le> auth_rate_limit_attempts cfg))"
  using assms(1,2)
proof (induction ks arbitrary: s)
  case (Cons x ks)
  let ?e = "now + seconds (auth_rate_limit_window_seconds cfg)"
  show ?case
  proof (cases "x = k")
    case False
    with Cons.prems(1) show ?thesis
    proof (rule rl_step_other)
      fix s2
      assume s2: "s2 k = s k" and rec: "rl_loop cfg now ks s2 = (r, s')"
      have "kv_alive now k s2 = None" using s2 Cons.prems(2) kv_alive_cong by metis
      from Cons.IH [of s2, OF rec this] s2 False show ?thesis by auto
    qed simp
  next
    case True
    have "kv_incr now k s = (Inr 1, s(k \<mapsto> (VInt 1, None)))"
      by (simp add: kv_incr_def kv_incrby_def Cons.prems(2))
    moreover have "kv_expire now k w (s(k \<mapsto> (VInt 1, None))) = s(k \<mapsto> (VInt 1, Some (now + seconds w)))" for w
      by (simp add: kv_expire_def kv_alive_def)
    ultimately have step: "rl_loop cfg now (x # ks) s =
        (if auth_rate_limit_attempts cfg < 1
         then (Inl (HTTPException 429 ''Trop de tentatives - reessayez plus tard.''), s(k \<mapsto> (VInt 1, Some ?e)))
         else rl_loop cfg now ks (s(k \<mapsto> (VInt 1, Some ?e))))"
      by (simp add: True Let_def)
    show ?thesis
    proof (cases "auth_rate_limit_attempts cfg < 1")
      case True
      then show ?thesis using Cons.prems(1) step by auto
    next
      case False
      have le: "now \<le> ?e" using assms(3) by (simp add: seconds_def)
      have rec: "rl_loop cfg now ks (s(k \<mapsto> (VInt 1, Some ?e))) = (r, s')"
        using Cons.prems(1) step False by simp
      from rl_loop_started [of cfg now ks _ r s' k 1 ?e, OF rec _ _ le] obtain n' where
        n': "1 \<le> n'" "s' k = Some (VInt n', Some ?e)"
          "is_ok r \<longrightarrow> k \<in> set ks \<longrightarrow> n' \<le> auth_rate_limit_attempts cfg" by auto
      moreover have "k \<notin> set ks \<Longrightarrow> n' = 1"
        using rl_loop_untouched [OF rec] n'(2) by auto
      ultimately show ?thesis using False by auto
    qed
  qed
qed simp

lemma admitted_started:
  assumes "s k = Some (VInt n, Some e)" "1 \<le> n" "list_all (\<lambda>r. rr_now r \<le> e) rs"
  shows "admitted P cfg scope k rs s \<le> nat (auth_rate_limit_attempts cfg - n)"
  using assms
proof (induction rs arbitrary: s n)
  case (Cons r rs)
  obtain res s' where call: "enforce_rate_limit P cfg (rr_now r) (rr_client r) scope (rr_identifiers r) s = (res, s')"
    by fastforce
  from rl_loop_started [OF call [unfolded enforce_rate_limit_def] Cons.prems(1,2)] Cons.prems(3)
  obtain n' where n': "n \<le> n'" "s' k = Some (VInt n', Some e)"
      "is_ok res \<longrightarrow> k \<in> set (rl_keys P (rr_client r) scope (rr_identifiers r)) \<longrightarrow>
        n < n' \<and> n' \<le> auth_rate_limit_attempts cfg" by auto
  have "admitted P cfg scope k rs s' \<le> nat (auth_rate_limit_attempts cfg - n')"
    using Cons n' by auto
  with n' show ?case by (auto simp: call)
qed simp

lemma admitted_fresh:
  assumes "list_all (\<lambda>r. start \<le> rr_now r \<and> rr_now r \<le> start + seconds (auth_rate_limit_window_seconds cfg)) rs"
    and "0 \<le> auth_rate_limit_window_seconds cfg" "sorted_wrt (\<le>) (map rr_now rs)"
    and "\<forall>r\<in>set rs. kv_alive (rr_now r) k s = None"
  shows "admitted P cfg scope k rs s \<le> nat (auth_rate_limit_attempts cfg)"
  using assms(1,3,4)
proof (induction rs arbitrary: s)
  case (Cons r rs)
  let ?e = "rr_now r + seconds (auth_rate_limit_window_seconds cfg)"
  obtain res s' where call: "enforce_rate_limit P cfg (rr_now r) (rr_client r) scope (rr_identifiers r) s = (res, s')"
    by fastforce
  from rl_loop_fresh [OF call [unfolded enforce_rate_limit_def] _ assms(2)] Cons.prems(3)
  consider (skip) "s' k = s k" "\<not> (is_ok res \<and> k \<in> set (rl_keys P (rr_client r) scope (rr_identifiers r)))"
    | (start) n' where "1 \<le> n'" "s' k = Some (VInt n', Some ?e)" "is_ok res \<longrightarrow> n' \<le> auth_rate_limit_attempts cfg"
    by auto
  then show ?case
  proof cases
    case skip
    have "\<forall>x\<in>set rs. kv_alive (rr_now x) k s' = None"
      using Cons.prems(3) kv_alive_cong [of s' k s] skip(1) by simp
    with Cons skip show ?thesis by (auto simp: call)
  next
    case start
    have "list_all (\<lambda>x. rr_now x \<le> ?e) rs"
      using Cons.prems(1,2) by (auto simp: list_all_iff)
    from admitted_started [of s' k n' ?e, OF start(2,1) this, of P cfg scope] start(1,3) show ?thesis
      by (auto simp: call)
  qed
qed simp

section \<open>Properties\<close>

text \<open>
  C21 (bounds). In one window at most \<^verbatim>\<open>auth_rate_limit_attempts\<close> requests get through per
  counter. Take any sequence of requests, with any mix of clients and identifiers, spread
  over one window length, none of the counter's state left from before it: of those that
  count against a given key (one address, one email, one token), no more than the threshold
  are admitted.
\<close>

theorem rate_limit_bound:
  assumes "0 \<le> auth_rate_limit_window_seconds cfg" "sorted_wrt (\<le>) (map rr_now rs)"
    and "list_all (\<lambda>r. start \<le> rr_now r \<and> rr_now r \<le> start + seconds (auth_rate_limit_window_seconds cfg)) rs"
    and "kv_alive start k s = None"
  shows "admitted P cfg scope k rs s \<le> nat (auth_rate_limit_attempts cfg)"
proof (rule admitted_fresh [OF assms(3,1,2)])
  show "\<forall>r\<in>set rs. kv_alive (rr_now r) k s = None"
    using assms(3,4) kv_dead_later by (auto simp: list_all_iff)
qed

theorem rate_limit_bound_witness:
  "admitted sample_primitives (default_settings\<lparr>auth_rate_limit_attempts := 2\<rparr>) ''login'' (rl_key sample_primitives ''login'' ''ann@acme.io'')
     (replicate 5 \<lparr>rr_now = 9, rr_client = Some ''10.0.0.1'', rr_identifiers = [''ann@acme.io'']\<rparr>) (\<lambda>_. None) \<le> 2"
  using rate_limit_bound [where cfg = "default_settings\<lparr>auth_rate_limit_attempts := 2\<rparr>"
      and rs = "replicate 5 \<lparr>rr_now = 9, rr_client = Some ''10.0.0.1'', rr_identifiers = [''ann@acme.io'']\<rparr>"
      and start = 9 and k = "rl_key sample_primitives ''login'' ''ann@acme.io''" and s = "\<lambda>_. None" and P = sample_primitives and scope = "''login''"]
  by (simp add: default_settings_def seconds_def kv_alive_def list_all_iff)

end
