(* ===== verification/AuthRouter.thy ===== *)
theory AuthRouter
  imports Directory RateLimit
begin

text \<open>
  The authentication routes (\<^verbatim>\<open>auth/router.py\<close>), OAuth login (\<^verbatim>\<open>auth/oauth.py\<close>) and the Origin
  check of mutating requests (\<^verbatim>\<open>core/csrf.py\<close>). Handlers take and return the database and the
  Valkey store. The identity provider (its metadata, token endpoint and signed claims) is an
  argument.
\<close>

section \<open>URLs and hosts\<close>

text \<open>\<^verbatim>\<open>urllib.parse.urlsplit\<close>: the scheme and the network location of a URL.\<close>

definition scheme_char :: "char \<Rightarrow> bool" where
  "scheme_char c = (is_lower c \<or> is_upper c \<or> is_digit c \<or> c \<in> set ''+-.'')"

definition split_scheme :: "string \<Rightarrow> string \<times> string" where
  "split_scheme url =
     (let pre = before_first (CHR '':'') url
      in if CHR '':'' \<in> set url \<and> pre \<noteq> [] \<and> (is_lower (hd pre) \<or> is_upper (hd pre)) \<and> list_all scheme_char pre
         then (py_lower pre, drop (Suc (length pre)) url) else ([], url))"

definition url_scheme :: "string \<Rightarrow> string" where
  "url_scheme url = fst (split_scheme url)"

definition url_netloc :: "string \<Rightarrow> string" where
  "url_netloc url =
     (let rest = snd (split_scheme url)
      in if startswith rest ''//'' then takeWhile (\<lambda>c. c \<notin> set ''/?#'') (drop 2 rest) else [])"

definition bare_host :: "string \<Rightarrow> string" where
  "bare_host value = py_lower (py_strip (before_first (CHR '':'') value))"

definition MUTATING_METHODS :: "string list" where
  "MUTATING_METHODS = [''POST'', ''PUT'', ''PATCH'', ''DELETE'']"

definition origin_allowed :: "settings \<Rightarrow> string \<Rightarrow> string \<Rightarrow> bool" where
  "origin_allowed cfg origin request_host =
     (let origin_host = bare_host (url_netloc origin);
          cookie_domain = py_lower (dropWhile (\<lambda>c. c = CHR ''.'') (session_cookie_domain cfg))
      in if origin_host = [] then False
         else if origin_host = bare_host request_host then True
         else cookie_domain \<noteq> [] \<and>
              (origin_host = cookie_domain \<or> endswith origin_host (''.'' @ cookie_domain)))"

definition csrf_dispatch ::
  "settings \<Rightarrow> string \<Rightarrow> string option \<Rightarrow> string \<Rightarrow> ('s \<Rightarrow> 'a result \<times> 's) \<Rightarrow> 's \<Rightarrow> 'a result \<times> 's" where
  \<comment> \<open>\<^verbatim>\<open>CsrfOriginMiddleware.dispatch\<close>; \<open>call_next\<close> is the rest of the application\<close>
  "csrf_dispatch cfg verb origin host call_next s =
     (if verb \<in> set MUTATING_METHODS \<and> (case origin of None \<Rightarrow> False | Some og \<Rightarrow> \<not> origin_allowed cfg og host)
      then (Inl (HTTPException 403 ''Origin non autorisee''), s)
      else call_next s)"

definition apex_host :: "settings \<Rightarrow> string" where
  "apex_host cfg = url_netloc (public_base_url cfg)"

definition validate_return_host :: "settings \<Rightarrow> string \<Rightarrow> string" where
  "validate_return_host cfg host =
     (let apex = apex_host cfg;
          bare = before_first (CHR '':'') host;
          apex_bare = before_first (CHR '':'') apex
      in if bare = apex_bare \<or> endswith bare (''.'' @ apex_bare) then host else apex)"

section \<open>Login\<close>

record login_response =
  lr_status :: string
  lr_challenge_token :: "string option"
  lr_cookie :: "string option"  \<comment> \<open>the token \<^verbatim>\<open>set_session_cookie\<close> puts on the response\<close>

text \<open>Random values drawn by one request.\<close>

record draws =
  dr_salt :: string
  dr_session_id :: uuid
  dr_challenge_id :: uuid
  dr_token :: string

definition login ::
  "primitives \<Rightarrow> settings \<Rightarrow> request \<Rightarrow> draws \<Rightarrow> string \<Rightarrow> string \<Rightarrow> db \<Rightarrow> kv \<Rightarrow>
   login_response result \<times> db \<times> kv" where
  "login P cfg rq dr email password d s =
     (if password = [] then (Inl (HTTPException 422 ''password''), d, s)
      else case enforce_rate_limit P cfg (rq_now rq) (rq_client rq) ''login'' [email] s of
        (Inl e, s') \<Rightarrow> (Inl e, d, s')
      | (Inr _, s') \<Rightarrow>
          (case authenticate P (dr_salt dr) email password d of
             (None, _) \<Rightarrow> (Inl (HTTPException 401 ''Identifiants invalides''), d, s')
           | (Some (user, c), d1) \<Rightarrow>
               if uc_totp_enabled c
               then let (t, d2) = create_login_challenge P cfg (rq_now rq) (dr_challenge_id dr) (dr_token dr)
                                    (u_id user) d1
                    in (Inr \<lparr>lr_status = ''totp_required'', lr_challenge_token = Some t, lr_cookie = None\<rparr>,
                        d2, s')
               else let (t, d2) = create_session P cfg (rq_now rq) (dr_session_id dr) (dr_token dr)
                                    (u_id user) d1
                    in (Inr \<lparr>lr_status = ''ok'', lr_challenge_token = None, lr_cookie = Some t\<rparr>, d2, s')))"

definition login_totp ::
  "primitives \<Rightarrow> settings \<Rightarrow> request \<Rightarrow> draws \<Rightarrow> string \<Rightarrow> string \<Rightarrow> db \<Rightarrow> kv \<Rightarrow>
   login_response result \<times> db \<times> kv" where
  "login_totp P cfg rq dr challenge_token code d s =
     (if length code < 6 \<or> 16 < length code then (Inl (HTTPException 422 ''code''), d, s)
      else case enforce_rate_limit P cfg (rq_now rq) (rq_client rq) ''login-totp'' [challenge_token] s of
        (Inl e, s') \<Rightarrow> (Inl e, d, s')
      | (Inr _, s') \<Rightarrow>
          (case consume_login_challenge P (rq_now rq) challenge_token d of
             (None, d1) \<Rightarrow> (Inl (HTTPException 401 ''Code invalide ou challenge expire''), d1, s')
           | (Some user_id, d1) \<Rightarrow>
               (case verify_second_factor P cfg (rq_now rq) user_id code d1 of
                  Inl e \<Rightarrow> (Inl e, d, s')
                | Inr (ok, d2) \<Rightarrow>
                    if \<not> ok
                    then (Inl (HTTPException 401 ''Code invalide ou challenge expire''), d2, s')
                    else let (t, d3) = create_session P cfg (rq_now rq) (dr_session_id dr) (dr_token dr) user_id d2
                         in (Inr \<lparr>lr_status = ''ok'', lr_challenge_token = None, lr_cookie = Some t\<rparr>,
                             d3, s'))))"

definition logout :: "primitives \<Rightarrow> request \<Rightarrow> db \<Rightarrow> unit result \<times> db" where
  "logout P rq d =
     authenticated_route P rq (\<lambda>a d1. (Inr (), revoke_session (rq_now rq) (ca_session a) d1)) d"

section \<open>Profile and TOTP management\<close>

record me_response =
  me_id :: uuid
  me_email :: string
  me_display_name :: "string option"
  me_totp_enabled :: bool
  me_memberships :: "(string \<times> string) list"

definition get_me :: "primitives \<Rightarrow> request \<Rightarrow> db \<Rightarrow> me_response result \<times> db" where
  "get_me P rq d =
     authenticated_route P rq
       (\<lambda>a d1.
          let u = ca_user a;
              rows = concat (map (\<lambda>t. map (\<lambda>m. (t_slug t, m_role m))
                 (filter (\<lambda>m. m_tenant_id m = t_id t \<and> m_user_id m = u_id u) (memberships d1))) (tenants d1))
          in (Inr \<lparr>me_id = u_id u, me_email = u_email u, me_display_name = u_display_name u,
                   me_totp_enabled = (case get_credentials (u_id u) d1 of None \<Rightarrow> False
                                      | Some c \<Rightarrow> uc_totp_enabled c),
                   me_memberships = sort_key fst rows\<rparr>, d1)) d"

definition totp_setup ::
  "primitives \<Rightarrow> settings \<Rightarrow> request \<Rightarrow> string \<Rightarrow> bytes \<Rightarrow> db \<Rightarrow> (string \<times> string) result \<times> db" where
  "totp_setup P cfg rq secret nonce d =
     authenticated_route P rq
       (\<lambda>a d1. case setup_totp P cfg secret nonce (ca_user a) d1 of
            Inl (AuthError msg) \<Rightarrow> (Inl (HTTPException 409 msg), d1)
          | Inl e \<Rightarrow> (Inl e, d1)
          | Inr (r, d2) \<Rightarrow> (Inr r, d2)) d"

definition totp_activate ::
  "primitives \<Rightarrow> settings \<Rightarrow> request \<Rightarrow> (uuid \<times> string) list \<Rightarrow> string \<Rightarrow> db \<Rightarrow> string list result \<times> db" where
  "totp_activate P cfg rq fresh code d =
     authenticated_route P rq
       (\<lambda>a d1. if length code < 6 \<or> 8 < length code then (Inl (HTTPException 422 ''code''), d1)
          else case activate_totp P cfg (rq_now rq) fresh (u_id (ca_user a)) code d1 of
            Inl (AuthError msg) \<Rightarrow> (Inl (HTTPException 400 msg), d1)
          | Inl e \<Rightarrow> (Inl e, d1)
          | Inr (codes, d2) \<Rightarrow> (Inr codes, d2)) d"

definition totp_disable ::
  "primitives \<Rightarrow> request \<Rightarrow> string \<Rightarrow> db \<Rightarrow> unit result \<times> db" where
  "totp_disable P rq password d =
     authenticated_route P rq
       (\<lambda>a d1. if password = [] then (Inl (HTTPException 422 ''password''), d1)
          else case disable_totp P (u_id (ca_user a)) password d1 of
            Inl (AuthError msg) \<Rightarrow> (Inl (HTTPException 400 msg), d1)
          | Inl e \<Rightarrow> (Inl e, d1)
          | Inr d2 \<Rightarrow> (Inr (), d2)) d"

section \<open>Accepting an invitation\<close>

definition invitations_accept ::
  "primitives \<Rightarrow> settings \<Rightarrow> request \<Rightarrow> uuid \<Rightarrow> uuid \<Rightarrow> uuid \<Rightarrow> string \<Rightarrow> string \<Rightarrow> string option \<Rightarrow> string option \<Rightarrow>
   db \<Rightarrow> kv \<Rightarrow> unit result \<times> db \<times> kv" where
  "invitations_accept P cfg rq uid mid eid salt token password display_name d s =
     (if (\<exists>pw\<in>set_option password. length pw < 12 \<or> 256 < length pw)
         \<or> (\<exists>n\<in>set_option display_name. 255 < length n)
      then (Inl (HTTPException 422 ''validation''), d, s)
      else case enforce_rate_limit P cfg (rq_now rq) (rq_client rq) ''invitation-accept'' [token] s of
        (Inl e, s') \<Rightarrow> (Inl e, d, s')
      | (Inr _, s') \<Rightarrow>
          (case accept_invitation P (rq_now rq) uid mid salt token password display_name d of
             Inl e \<Rightarrow> (Inl (HTTPException 400 (error_detail e)), d, s')
           | Inr ((user, i), d1) \<Rightarrow>
               (case List.find (\<lambda>t. t_id t = inv_tenant_id i) (tenants d1) of
                  None \<Rightarrow> (Inr (), d1, s')
                | Some t \<Rightarrow>
                    (case record_audit_event_for_tenant t eid (rq_now rq)
                            \<lparr>aa_action = ''core.member.invitation_accepted'', aa_resource_type = ''membership'',
                             aa_resource_id = str_uuid (u_id user),
                             aa_payload = [(''email'', JStr (u_email user)), (''role'', JStr (inv_role i))],
                             aa_actor_user_id = Some (u_id user), aa_actor_label = actor_label user\<rparr>
                            None d1 of
                       (Inl e, _, d2) \<Rightarrow> (Inl e, d2, s')
                     | (Inr _, _, d2) \<Rightarrow> (Inr (), d2, s')))))"

section \<open>OAuth login\<close>

text \<open>
  What the code reads from an identity provider: its metadata, the answer of the token
  endpoint (status and \<^verbatim>\<open>id_token\<close> member) and the claims of an \<^verbatim>\<open>id_token\<close> whose signature,
  audience and expiry Authlib has validated (\<open>None\<close> is \<^verbatim>\<open>JoseError\<close>).
\<close>

record oidc =
  oidc_metadata :: "oauth_provider \<Rightarrow> string result"  \<comment> \<open>the authorization endpoint\<close>
  oidc_token :: "oauth_provider \<Rightarrow> string \<Rightarrow> string \<Rightarrow> nat \<times> json option"
  oidc_claims :: "oauth_provider \<Rightarrow> string \<Rightarrow> string \<Rightarrow> instant \<Rightarrow> (string \<times> json) list option"

record oauth_user_info =
  oui_provider :: oauth_provider
  oui_subject :: string
  oui_email :: string
  oui_email_verified :: bool

definition STATE_TTL_SECONDS :: int where "STATE_TTL_SECONDS = 600"

fun provider_value :: "oauth_provider \<Rightarrow> string" where
  "provider_value O_GOOGLE = ''google''"
| "provider_value O_MICROSOFT = ''microsoft''"

definition client_credentials :: "oauth_provider \<Rightarrow> settings \<Rightarrow> (string \<times> string) result" where
  "client_credentials provider cfg =
     (let (client_id, secret) =
            (if provider = O_GOOGLE then (google_client_id cfg, google_client_secret cfg)
             else (microsoft_client_id cfg, microsoft_client_secret cfg))
      in if client_id = [] \<or> secret = [] then Inl (OAuthLoginError ''Provider OAuth non configure'')
         else Inr (client_id, secret))"

definition redirect_uri :: "oauth_provider \<Rightarrow> settings \<Rightarrow> string" where
  "redirect_uri provider cfg =
     public_base_url cfg @ ''/api/v1/auth/oauth/'' @ provider_value provider @ ''/callback''"

definition build_authorization_url ::
  "primitives \<Rightarrow> settings \<Rightarrow> oidc \<Rightarrow> instant \<Rightarrow> string \<Rightarrow> oauth_provider \<Rightarrow> string \<Rightarrow>
   (string \<times> (string \<times> string) list) result" where
  \<comment> \<open>the endpoint and the query parameters; \<open>nonce\<close> is a fresh token\<close>
  "build_authorization_url P cfg idp now nonce provider return_host =
     (case client_credentials provider cfg of Inl e \<Rightarrow> Inl e
      | Inr (client_id, _) \<Rightarrow>
          (case oidc_metadata idp provider of Inl e \<Rightarrow> Inl e
           | Inr endpoint \<Rightarrow>
               (case sign_payload P cfg now
                       [(''p'', JStr (provider_value provider)), (''r'', JStr return_host), (''n'', JStr nonce)]
                       STATE_TTL_SECONDS of
                  Inl e \<Rightarrow> Inl e
                | Inr state \<Rightarrow>
                    Inr (endpoint,
                         [(''response_type'', ''code''), (''client_id'', client_id),
                          (''redirect_uri'', redirect_uri provider cfg), (''scope'', ''openid email profile''),
                          (''state'', state), (''nonce'', nonce)]))))"

definition exchange_code :: "settings \<Rightarrow> oidc \<Rightarrow> oauth_provider \<Rightarrow> string \<Rightarrow> string result" where
  "exchange_code cfg idp provider code =
     (case client_credentials provider cfg of Inl e \<Rightarrow> Inl e
      | Inr (client_id, secret) \<Rightarrow>
          (case oidc_token idp provider code (redirect_uri provider cfg) of
             (status, body) \<Rightarrow>
               if status \<noteq> 200 then Inl (OAuthLoginError ''Echange de code refuse'')
               else (case body of Some (JStr id_token) \<Rightarrow> Inr id_token
                     | _ \<Rightarrow> Inl (OAuthLoginError ''Reponse token sans id_token''))))"

definition json_truthy :: "json option \<Rightarrow> bool" where
  \<comment> \<open>\<^verbatim>\<open>bool(claims.get(key, False))\<close>\<close>
  "json_truthy v =
     (case v of None \<Rightarrow> False | Some JNull \<Rightarrow> False | Some (JBool b) \<Rightarrow> b | Some (JInt n) \<Rightarrow> n \<noteq> 0
      | Some (JStr x) \<Rightarrow> x \<noteq> [] | Some (JList xs) \<Rightarrow> xs \<noteq> [] | Some (JObj kvs) \<Rightarrow> kvs \<noteq> [])"

definition validate_id_token ::
  "settings \<Rightarrow> oidc \<Rightarrow> instant \<Rightarrow> oauth_provider \<Rightarrow> string \<Rightarrow> string \<Rightarrow> oauth_user_info result" where
  "validate_id_token cfg idp now provider id_token nonce =
     (case client_credentials provider cfg of Inl e \<Rightarrow> Inl e
      | Inr (client_id, _) \<Rightarrow>
          (case oidc_claims idp provider id_token client_id now of
             None \<Rightarrow> Inl (OAuthLoginError ''id_token invalide'')
           | Some claims \<Rightarrow>
               if json_get claims ''nonce'' \<noteq> Some (JStr nonce)
               then Inl (OAuthLoginError ''Nonce de l'id_token inattendu.'')
               else (case (json_get claims ''email'', json_get claims ''sub'') of
                       (Some (JStr email), Some (JStr subject)) \<Rightarrow>
                         Inr \<lparr>oui_provider = provider, oui_subject = subject, oui_email = email,
                              oui_email_verified = json_truthy (json_get claims ''email_verified'')\<rparr>
                     | _ \<Rightarrow> Inl (OAuthLoginError ''id_token sans email ou subject.''))))"

definition parse_state ::
  "primitives \<Rightarrow> settings \<Rightarrow> instant \<Rightarrow> string \<Rightarrow> oauth_provider \<Rightarrow> (string \<times> string) result" where
  "parse_state P cfg now state expected_provider =
     (case verify_payload P cfg now state of
        Inl _ \<Rightarrow> Inl (OAuthLoginError ''State OAuth invalide ou expire.'')
      | Inr payload \<Rightarrow>
          if json_get payload ''p'' \<noteq> Some (JStr (provider_value expected_provider))
          then Inl (OAuthLoginError ''State OAuth emis pour un autre provider.'')
          else (case (json_get payload ''r'', json_get payload ''n'') of
                  (Some (JStr return_host), Some (JStr nonce)) \<Rightarrow> Inr (return_host, nonce)
                | _ \<Rightarrow> Inl (OAuthLoginError ''State OAuth incomplet.'')))"

definition link_identity ::
  "uuid \<Rightarrow> oauth_user_info \<Rightarrow> db \<Rightarrow> (user \<times> db) result" where
  \<comment> \<open>the database part of \<^verbatim>\<open>complete_login\<close>; the unique index on (provider, user) can reject the insert\<close>
  "link_identity iid info d =
     (case List.find (\<lambda>i. oi_provider i = oui_provider info \<and> oi_subject i = oui_subject info)
             (oauth_identities d) of
        Some identity \<Rightarrow>
          (case get_user (oi_user_id identity) d of
             None \<Rightarrow> Inl (OAuthLoginError ''Identite OAuth orpheline.'')
           | Some user \<Rightarrow> Inr (user, d))
      | None \<Rightarrow>
          if \<not> oui_email_verified info then Inl (OAuthLoginError ''Email non verifie - liaison refusee.'')
          else (case get_user_by_email (oui_email info) d of
                  None \<Rightarrow> Inl (OAuthLoginError ''Aucun compte pour cette identite'')
                | Some user \<Rightarrow>
                    if List.find (\<lambda>i. oi_provider i = oui_provider info \<and> oi_user_id i = u_id user)
                         (oauth_identities d) \<noteq> None
                    then Inl IntegrityError
                    else Inr (user, oauth_identities_update
                           (insert_row \<lparr>oi_id = iid, oi_provider = oui_provider info,
                                        oi_subject = oui_subject info, oi_user_id = u_id user\<rparr>) d)))"

definition complete_login ::
  "settings \<Rightarrow> oidc \<Rightarrow> instant \<Rightarrow> uuid \<Rightarrow> oauth_provider \<Rightarrow> string \<Rightarrow> string \<Rightarrow> db \<Rightarrow> (user \<times> db) result" where
  "complete_login cfg idp now iid provider code nonce d =
     (case oidc_metadata idp provider of Inl e \<Rightarrow> Inl e
      | Inr _ \<Rightarrow>
          (case exchange_code cfg idp provider code of Inl e \<Rightarrow> Inl e
           | Inr id_token \<Rightarrow>
               (case validate_id_token cfg idp now provider id_token nonce of Inl e \<Rightarrow> Inl e
                | Inr info \<Rightarrow> link_identity iid info d)))"

definition oauth_start ::
  "primitives \<Rightarrow> settings \<Rightarrow> oidc \<Rightarrow> request \<Rightarrow> string \<Rightarrow> oauth_provider \<Rightarrow>
   (string \<times> (string \<times> string) list) result" where
  "oauth_start P cfg idp rq nonce provider =
     (case build_authorization_url P cfg idp (rq_now rq) nonce provider
             (validate_return_host cfg (rq_host rq)) of
        Inl (OAuthLoginError msg) \<Rightarrow> Inl (HTTPException 503 msg)
      | Inl e \<Rightarrow> Inl e
      | Inr r \<Rightarrow> Inr r)"

definition oauth_callback ::
  "primitives \<Rightarrow> settings \<Rightarrow> oidc \<Rightarrow> request \<Rightarrow> draws \<Rightarrow> uuid \<Rightarrow> oauth_provider \<Rightarrow> string \<Rightarrow> string \<Rightarrow> db \<Rightarrow>
   (string \<times> string) result \<times> db" where
  \<comment> \<open>the redirect target and the session token put in the cookie\<close>
  "oauth_callback P cfg idp rq dr iid provider code state d =
     (let refused = Inl (HTTPException 403 ''Connexion OAuth refusee'')
      in case parse_state P cfg (rq_now rq) state provider of
           Inl (OAuthLoginError _) \<Rightarrow> (refused, d)
         | Inl e \<Rightarrow> (Inl e, d)
         | Inr (return_host, nonce) \<Rightarrow>
             (case complete_login cfg idp (rq_now rq) iid provider code nonce d of
                Inl (OAuthLoginError _) \<Rightarrow> (refused, d)
              | Inl e \<Rightarrow> (Inl e, d)
              | Inr (user, d1) \<Rightarrow>
                  let (t, d2) = create_session P cfg (rq_now rq) (dr_session_id dr) (dr_token dr) (u_id user) d1
                  in (Inr (url_scheme (public_base_url cfg) @ ''://''
                           @ validate_return_host cfg return_host @ ''/'', t), d2)))"

section \<open>Lemmas\<close>

lemma enforce_rate_limit_error:
  "enforce_rate_limit P cfg now client scope ids s = (Inl e, s') \<Longrightarrow>
   e = KVResponseError \<or> e = HTTPException 429 ''Trop de tentatives - reessayez plus tard.''"
proof -
  have "rl_loop cfg now ks s = (Inl e, s') \<Longrightarrow>
      e = KVResponseError \<or> e = HTTPException 429 ''Trop de tentatives - reessayez plus tard.''" for ks s
  proof (induction ks arbitrary: s)
    case (Cons k ks)
    have "fst (kv_incr now k s) = Inl e' \<Longrightarrow> e' = KVResponseError" for e'
      by (auto simp: kv_incr_def kv_incrby_def split: option.splits prod.splits kv_value.splits)
    with Cons show ?case
      by (auto simp: Let_def split: prod.splits sum.splits if_splits)
  qed simp
  then show "enforce_rate_limit P cfg now client scope ids s = (Inl e, s') \<Longrightarrow> ?thesis"
    by (simp add: enforce_rate_limit_def)
qed

lemma login_error_cases:
  assumes "login P cfg rq dr email password d s = (Inl e, d', s')"
  shows "d' = d \<and>
    (password = [] \<and> e = HTTPException 422 ''password'' \<and> s' = s \<or>
     password \<noteq> [] \<and> enforce_rate_limit P cfg (rq_now rq) (rq_client rq) ''login'' [email] s = (Inl e, s') \<or>
     password \<noteq> [] \<and> enforce_rate_limit P cfg (rq_now rq) (rq_client rq) ''login'' [email] s = (Inr (), s')
       \<and> e = HTTPException 401 ''Identifiants invalides'')"
  using assms
  by (auto simp: login_def Let_def split: if_splits prod.splits sum.splits option.splits)

text \<open>Verification of the second factor does not touch sessions or challenges.\<close>

lemma verify_second_factor_tables:
  "verify_second_factor P cfg now uid code d = Inr (ok, d') \<Longrightarrow>
   sessions d' = sessions d \<and> login_challenges d' = login_challenges d"
  by (auto simp: verify_second_factor_def split: option.splits if_splits sum.splits)

lemma consume_tables:
  "consume_login_challenge P now token d = (r, d') \<Longrightarrow> sessions d' = sessions d"
  by (auto simp: consume_login_challenge_def split: option.splits if_splits)

text \<open>
  The host a browser connects to for \<^verbatim>\<open>scheme://h/\<close>: the authority ends at the first slash,
  question mark or hash, user-info ends at the last at sign, the port starts at the colon.
\<close>

definition browser_host :: "string \<Rightarrow> string" where
  "browser_host h =
     before_first (CHR '':'')
       (rev (takeWhile (\<lambda>c. c \<noteq> CHR ''@'') (rev (takeWhile (\<lambda>c. c \<notin> set ''/?#'') h))))"

lemma browser_host_plain:
  assumes "list_all (\<lambda>c. c \<notin> set ''@/?#'') h"
  shows "browser_host h = before_first (CHR '':'') h"
proof -
  have "takeWhile (\<lambda>c. c \<notin> set ''/?#'') h = h"
    using assms by (auto simp: takeWhile_eq_all_conv list_all_iff)
  moreover have "takeWhile (\<lambda>c. c \<noteq> CHR ''@'') (rev h) = rev h"
    using assms by (auto simp: takeWhile_eq_all_conv list_all_iff)
  ultimately show ?thesis unfolding browser_host_def by (simp only: rev_rev_ident)
qed

section \<open>Properties\<close>

text \<open>
  C25 (safety). Failed logins are no oracle. If two databases both refuse the same login
  request (same address, email and password), the answers and the Valkey stores they leave
  are identical, whether the email is unknown, has no password, or the password is wrong;
  and a refused login changes no row.
\<close>

theorem login_failure_indistinct:
  assumes "login P cfg rq dr email password d1 s = (Inl e1, d1', s1)"
    and "login P cfg rq dr' email password d2 s = (Inl e2, d2', s2)"
  shows "e1 = e2 \<and> s1 = s2 \<and> d1' = d1 \<and> d2' = d2"
  using login_error_cases [OF assms(1)] login_error_cases [OF assms(2)] by auto

lemma sample_rate_ok:
  "\<exists>s'. enforce_rate_limit P default_settings now client scope [x] (\<lambda>_. None) = (Inr (), s')"
  by (auto simp: enforce_rate_limit_def rl_keys_def kv_incr_def kv_incrby_def kv_alive_def kv_expire_def
      default_settings_def seconds_def)

definition sample_request :: request where
  "sample_request = \<lparr>rq_now = 3, rq_host = ''acme.app.io'', rq_cookie = None, rq_client = Some ''10.0.0.1''\<rparr>"

definition sample_draws :: draws where
  "sample_draws = \<lparr>dr_salt = [], dr_session_id = 12, dr_challenge_id = 22, dr_token = ''other''\<rparr>"

theorem login_failure_indistinct_witness:
  "\<exists>s'. login sample_primitives default_settings sample_request sample_draws ''ann@acme.io'' ''wrong''
        sample_auth_db (\<lambda>_. None) = (Inl (HTTPException 401 ''Identifiants invalides''), sample_auth_db, s')
     \<and> login sample_primitives default_settings sample_request sample_draws ''ann@acme.io'' ''wrong''
        empty_db (\<lambda>_. None) = (Inl (HTTPException 401 ''Identifiants invalides''), empty_db, s')"
proof -
  obtain s' where rl: "enforce_rate_limit sample_primitives default_settings 3 (Some ''10.0.0.1'') ''login''
      [''ann@acme.io''] (\<lambda>_. None) = (Inr (), s')" using sample_rate_ok by blast
  have "get_user_by_email ''ann@acme.io'' empty_db = None" by (simp add: get_user_by_email_def empty_db_def)
  with rl have two: "login sample_primitives default_settings sample_request sample_draws ''ann@acme.io'' ''wrong''
      empty_db (\<lambda>_. None) = (Inl (HTTPException 401 ''Identifiants invalides''), empty_db, s')"
    by (simp add: login_def sample_request_def authenticate_def)
  have "get_user_by_email ''ann@acme.io'' sample_auth_db =
      Some \<lparr>u_id = 1, u_email = ''Ann@Acme.io'', u_display_name = None\<rparr>" by code_simp
  moreover have "get_credentials 1 sample_auth_db = Some sample_credentials"
    by (simp add: get_credentials_def sample_auth_db_def sample_credentials_def)
  ultimately have "\<exists>e d' s1. login sample_primitives default_settings sample_request sample_draws ''ann@acme.io''
      ''wrong'' sample_auth_db (\<lambda>_. None) = (Inl e, d', s1)"
    using rl by (simp add: login_def sample_request_def authenticate_def verify_password_def
        sample_credentials_def sample_primitives_def)
  with login_failure_indistinct two show ?thesis by fastforce
qed

text \<open>
  A TOTP login attempt uses up its challenge. Whenever \<^verbatim>\<open>login_totp\<close> gets past the
  rate limit and validation and does not raise an internal error, the challenge it presented
  is refused from then on, whatever authentication operations follow; and it opens a session
  only when the challenge was live and the second factor was verified, for the user of the
  challenge.
\<close>

theorem login_totp_burns_challenge:
  assumes "login_challenges_constraints d"
    and "login_totp P cfg rq dr token code d s = (r, d', s')"
    and "r = Inl (HTTPException 401 ''Code invalide ou challenge expire'') \<or> is_ok r"
    and "consume_login_challenge P (rq_now rq) token d = (Some uid, d1)"
    and "list_all (no_new_challenge P token) ops"
  shows "fst (consume_login_challenge P later token (fold (auth_step P cfg) ops d')) = None
    \<and> (if is_ok r
       then \<exists>d2. verify_second_factor P cfg (rq_now rq) uid code d1 = Inr (True, d2)
              \<and> d' = snd (create_session P cfg (rq_now rq) (dr_session_id dr) (dr_token dr) uid d2)
       else sessions d' = sessions d)"
proof -
  have not429: "enforce_rate_limit P cfg (rq_now rq) (rq_client rq) ''login-totp'' [token] s \<noteq>
      (Inl (HTTPException 401 ''Code invalide ou challenge expire''), s')"
    using enforce_rate_limit_error by fastforce
  have "verify_second_factor P cfg (rq_now rq) uid code d1 \<noteq>
      Inl (HTTPException 401 ''Code invalide ou challenge expire'')"
    by (auto simp: verify_second_factor_def verify_totp_code_def decrypt_totp_secret_def kp_decrypt_def
        get_key_provider_def master_key_bytes_def env_key_provider_init_def
        split: option.splits if_splits sum.splits prod.splits)
  with assms(2-4) not429 obtain ok d2 where
      v: "verify_second_factor P cfg (rq_now rq) uid code d1 = Inr (ok, d2)"
      and ok: "is_ok r = ok"
      and d': "d' = (if ok then snd (create_session P cfg (rq_now rq) (dr_session_id dr) (dr_token dr) uid d2) else d2)"
    by (auto simp: login_totp_def Let_def split: if_splits prod.splits sum.splits)
  have dead: "challenge_dead P token d1" by (rule consume_makes_dead [OF assms(1,4)])
  then have "challenge_dead P token d'"
    using verify_second_factor_tables [OF v] by (simp add: d' challenge_dead_def create_session_def)
  then have "fst (consume_login_challenge P later token (fold (auth_step P cfg) ops d')) = None"
    using challenge_run.run_dead [OF _ assms(5)] challenge_dead_consume by (metis fst_conv)
  moreover have "\<not> ok \<Longrightarrow> sessions d' = sessions d"
    using verify_second_factor_tables [OF v] consume_tables [OF assms(4)] by (simp add: d')
  ultimately show ?thesis using ok v d' by auto
qed

theorem login_totp_burns_challenge_witness:
  "\<exists>d' s'. login_totp sample_primitives default_settings sample_request sample_draws ''chal'' ''123456''
        sample_auth_db (\<lambda>_. None) = (Inl (HTTPException 401 ''Code invalide ou challenge expire''), d', s')
     \<and> fst (consume_login_challenge sample_primitives 4 ''chal'' d') = None"
proof -
  obtain s' where rl: "enforce_rate_limit sample_primitives default_settings 3 (Some ''10.0.0.1'') ''login-totp''
      [''chal''] (\<lambda>_. None) = (Inr (), s')" using sample_rate_ok by blast
  obtain d1 where d1: "consume_login_challenge sample_primitives 3 ''chal'' sample_auth_db = (Some 1, d1)"
      "credentials d1 = [sample_credentials]" "recovery_codes d1 = recovery_codes sample_auth_db"
    by (simp add: consume_login_challenge_def challenge_by_token_def sample_auth_db_def)
  have "get_credentials 1 d1 = Some sample_credentials"
    by (simp add: get_credentials_def d1(2) sample_credentials_def)
  moreover have "verify_totp_code sample_primitives default_settings 3 sample_credentials ''123456''
      = Inr (False, sample_credentials)"
    by (simp add: verify_totp_code_def sample_decrypt sample_totp_at TOTP_INTERVAL_def seconds_def)
  moreover have "hash_token sample_primitives ''recov'' \<noteq> hash_token sample_primitives ''123456''"
    by (simp add: hash_token_def hexdigest_def sample_primitives_def numeral_2_eq_2 hex_char_def)
  ultimately have v: "verify_second_factor sample_primitives default_settings 3 1 ''123456'' d1 = Inr (False, d1)"
    by (simp add: verify_second_factor_def d1(3) sample_credentials_def sample_auth_db_def)
  have r: "login_totp sample_primitives default_settings sample_request sample_draws ''chal'' ''123456''
      sample_auth_db (\<lambda>_. None) = (Inl (HTTPException 401 ''Code invalide ou challenge expire''), d1, s')"
    using rl d1(1) v by (simp add: login_totp_def sample_request_def)
  from login_totp_burns_challenge [OF sample_auth_constraints(2) r, of 1 d1 "[]" 4] d1(1) r show ?thesis
    by (auto simp: sample_request_def)
qed

text \<open>
  C26 (safety). OAuth login never creates an account. It succeeds for the user already linked
  to the provider's subject, whatever email the provider now reports, or else links the
  subject to the existing user of a verified email; users, memberships and credentials are
  unchanged, and once linked the subject always leads to the same user.
\<close>

theorem link_identity_sound:
  assumes "link_identity iid info d = Inr (u, d')" "users_constraints d"
  shows "d' = d\<lparr>oauth_identities := oauth_identities d'\<rparr> \<and> u \<in> set (users d)
    \<and> ((\<exists>i\<in>set (oauth_identities d). oi_provider i = oui_provider info \<and> oi_subject i = oui_subject info
           \<and> oi_user_id i = u_id u) \<and> d' = d
       \<or> oui_email_verified info \<and> py_lower (u_email u) = py_lower (oui_email info))
    \<and> (\<forall>iid' info'. oui_provider info' = oui_provider info \<and> oui_subject info' = oui_subject info \<longrightarrow>
         link_identity iid' info' d' = Inr (u, d'))"
proof -
  let ?q = "\<lambda>i. oi_provider i = oui_provider info \<and> oi_subject i = oui_subject info"
  show ?thesis
  proof (cases "List.find ?q (oauth_identities d)")
    case (Some i)
    with assms(1) have "get_user (oi_user_id i) d = Some u" "d' = d"
      by (auto simp: link_identity_def split: option.splits)
    moreover have "i \<in> set (oauth_identities d)" "?q i" using find_eq_Some_D [OF Some] by auto
    moreover have "u \<in> set (users d)" "u_id u = oi_user_id i"
      using calculation(1) by (auto simp: get_user_def dest: find_eq_Some_D)
    ultimately show ?thesis using Some by (auto simp: link_identity_def)
  next
    case None
    let ?new = "\<lparr>oi_id = iid, oi_provider = oui_provider info, oi_subject = oui_subject info, oi_user_id = u_id u\<rparr>"
    from None assms(1) have e: "oui_email_verified info" "get_user_by_email (oui_email info) d = Some u"
        and d': "d' = oauth_identities_update (insert_row ?new) d"
      by (auto simp: link_identity_def split: option.splits if_splits)
    have u: "u \<in> set (users d)" "py_lower (u_email u) = py_lower (oui_email info)"
      using e(2) by (auto simp: get_user_by_email_def dest: find_eq_Some_D)
    have "List.find (\<lambda>x. u_id x = u_id u) (users d) = Some u"
      using assms(2) u(1) by (intro find_unique [where k = u_id]) (auto simp: users_constraints_def)
    then have "get_user (u_id u) d' = Some u" by (simp add: get_user_def d')
    then have "link_identity iid' info' d' = Inr (u, d')"
      if "oui_provider info' = oui_provider info \<and> oui_subject info' = oui_subject info" for iid' info'
      using None that by (simp add: link_identity_def d' find_insert_row)
    with e(1) u show ?thesis by (auto simp: d')
  qed
qed

theorem link_identity_sound_witness:
  "link_identity 61 \<lparr>oui_provider = O_GOOGLE, oui_subject = ''sub-1'', oui_email = ''ann@acme.io'',
       oui_email_verified = True\<rparr> sample_directory =
     Inr (sample_user, sample_directory\<lparr>oauth_identities := [\<lparr>oi_id = 61, oi_provider = O_GOOGLE,
       oi_subject = ''sub-1'', oi_user_id = 1\<rparr>]\<rparr>)
   \<and> sample_user \<in> set (users sample_directory)"
proof -
  have "get_user_by_email ''ann@acme.io'' sample_directory = Some sample_user" by code_simp
  then have l: "link_identity 61 \<lparr>oui_provider = O_GOOGLE, oui_subject = ''sub-1'', oui_email = ''ann@acme.io'',
       oui_email_verified = True\<rparr> sample_directory =
     Inr (sample_user, sample_directory\<lparr>oauth_identities := [\<lparr>oi_id = 61, oi_provider = O_GOOGLE,
       oi_subject = ''sub-1'', oi_user_id = 1\<rparr>]\<rparr>)"
    by (simp add: link_identity_def sample_directory_def empty_db_def insert_row_def sample_user_def)
  moreover have "users_constraints sample_directory" by (simp add: users_constraints_def sample_directory_def)
  ultimately show ?thesis using link_identity_sound by blast
qed

text \<open>
  The redirect after an OAuth login stays on the platform for plain host headers.
  When the return host is a host name with at most a port (no user-info, path or query
  characters), the host the browser is sent to is the apex or one of its sub-domains.
\<close>

theorem return_host_on_platform:
  assumes "list_all (\<lambda>c. c \<notin> set ''@/?#'') host" "CHR ''@'' \<notin> set (apex_host cfg)"
  shows "browser_host (validate_return_host cfg host) = before_first (CHR '':'') (apex_host cfg)
    \<or> endswith (browser_host (validate_return_host cfg host)) (''.'' @ before_first (CHR '':'') (apex_host cfg))"
proof -
  have "list_all (\<lambda>c. c \<notin> set ''/?#'') (apex_host cfg)"
    by (auto simp: apex_host_def url_netloc_def Let_def list_all_iff dest: set_takeWhileD)
  then have "list_all (\<lambda>c. c \<notin> set ''@/?#'') (apex_host cfg)"
    using assms(2) by (auto simp: list_all_iff)
  with assms(1) show ?thesis
    by (auto simp: validate_return_host_def Let_def browser_host_plain)
qed

theorem return_host_on_platform_witness:
  "browser_host (validate_return_host default_settings ''evil.com'') = ''localhost''"
proof -
  have apex: "apex_host default_settings = ''localhost:8000''" by code_simp
  have "validate_return_host default_settings ''evil.com'' = ''localhost:8000''" by code_simp
  then have "\<not> endswith (browser_host (validate_return_host default_settings ''evil.com'')) ''.localhost''"
    by code_simp
  with return_host_on_platform [of "''evil.com''" default_settings] show ?thesis
    by (simp add: apex before_first_def)
qed

text \<open>
  C27 (error). The check can be bypassed with user-info. For any apex without a colon, a return
  host made of the apex, a port, an at sign and a foreign host is accepted unchanged, and a
  browser following the redirect goes to the foreign host.
\<close>

theorem return_host_userinfo_bypass:
  assumes "CHR '':'' \<notin> set (apex_host cfg)" "list_all (\<lambda>c. c \<notin> set '':@/?#'') foreign"
  shows "validate_return_host cfg (apex_host cfg @ '':80@'' @ foreign) = apex_host cfg @ '':80@'' @ foreign
    \<and> browser_host (apex_host cfg @ '':80@'' @ foreign) = foreign"
proof -
  have plain: "list_all (\<lambda>c. c \<notin> set ''/?#'') (apex_host cfg @ '':80@'' @ foreign)"
    using assms(2) by (auto simp: apex_host_def url_netloc_def Let_def list_all_iff dest: set_takeWhileD)
  then have tw: "takeWhile (\<lambda>c. c \<notin> set ''/?#'') (apex_host cfg @ '':80@'' @ foreign) = apex_host cfg @ '':80@'' @ foreign"
    by (simp only: takeWhile_eq_all_conv list_all_iff)
  have "takeWhile (\<lambda>c. c \<noteq> CHR ''@'') (rev foreign @ CHR ''@'' # rest) = rev foreign" for rest
    using assms(2) by (subst takeWhile_append2) (auto simp: list_all_iff)
  moreover have "before_first (CHR '':'') foreign = foreign"
    using assms(2) by (intro before_first_id) (auto simp: list_all_iff)
  ultimately have "browser_host (apex_host cfg @ '':80@'' @ foreign) = foreign"
    unfolding browser_host_def tw by simp
  moreover have "validate_return_host cfg (apex_host cfg @ '':80@'' @ foreign) = apex_host cfg @ '':80@'' @ foreign"
    using assms(1) by (simp add: validate_return_host_def Let_def)
  ultimately show ?thesis by blast
qed

theorem return_host_userinfo_bypass_witness:
  "\<exists>cfg. apex_host cfg = ''app.example.com''
     \<and> validate_return_host cfg ''app.example.com:80@evil.com'' = ''app.example.com:80@evil.com''
     \<and> browser_host ''app.example.com:80@evil.com'' = ''evil.com''"
proof -
  let ?cfg = "default_settings\<lparr>public_base_url := ''https://app.example.com''\<rparr>"
  have apex: "apex_host ?cfg = ''app.example.com''" by code_simp
  with return_host_userinfo_bypass [of ?cfg "''evil.com''"] show ?thesis
    by (intro exI [of _ ?cfg]) simp
qed

end
