(* ===== verification/ConnectorRegistry.thy ===== *)
theory ConnectorRegistry
  imports Schema Codec PyText
begin

text \<open>
  What a connector is: the rows of \<^verbatim>\<open>connectors/tenant_models.py\<close> and \<^verbatim>\<open>connectors/models.py\<close>, the
  provider manifests (\<^verbatim>\<open>connectors/registry.py\<close>, \<^verbatim>\<open>connectors/providers/*/manifest.py\<close>) and the
  capabilities a connection grants (\<^verbatim>\<open>connectors/capabilities.py\<close>).
\<close>

section \<open>Rows\<close>

datatype connector_provider = GOOGLE | MICROSOFT
datatype connection_kind = KIND_TENANT | KIND_USER
datatype connection_status = CONN_ACTIVE | CONN_NEEDS_RECONSENT | CONN_REVOKED | CONN_ERROR

definition provider_str :: "connector_provider \<Rightarrow> string" where
  "provider_str p = (case p of GOOGLE \<Rightarrow> ''google'' | MICROSOFT \<Rightarrow> ''microsoft'')"

definition kind_str :: "connection_kind \<Rightarrow> string" where
  "kind_str k = (case k of KIND_TENANT \<Rightarrow> ''tenant'' | KIND_USER \<Rightarrow> ''user'')"

definition status_str :: "connection_status \<Rightarrow> string" where
  "status_str s = (case s of CONN_ACTIVE \<Rightarrow> ''active'' | CONN_NEEDS_RECONSENT \<Rightarrow> ''needs_reconsent''
     | CONN_REVOKED \<Rightarrow> ''revoked'' | CONN_ERROR \<Rightarrow> ''error'')"

record connector_connection =
  cn_id :: uuid
  cn_tenant_id :: uuid
  cn_provider :: connector_provider
  cn_kind :: connection_kind
  cn_user_id :: "uuid option"
  cn_account_label :: string
  cn_scopes :: "string list"
  cn_access_token_enc :: bytes
  cn_refresh_token_enc :: bytes
  cn_access_token_expires_at :: instant
  cn_status :: connection_status
  cn_last_error :: "string option"
  cn_health_checked_at :: "instant option"
  cn_created_at :: instant

record connector_subscription =
  sb_id :: uuid
  sb_tenant_id :: uuid
  sb_connection_id :: uuid
  sb_capability :: string
  sb_provider_subscription_id :: string
  sb_resource :: string
  sb_expires_at :: instant
  sb_client_state_hash :: string
  sb_provider_data :: "(string \<times> string) list"

record webhook_route =
  wr_id :: uuid
  wr_route_key :: string
  wr_provider :: string
  wr_tenant_id :: uuid
  wr_connection_id :: uuid

section \<open>Manifests\<close>

definition CAPABILITY_MAIL :: string where "CAPABILITY_MAIL = ''mail''"
definition CAPABILITY_CALENDAR :: string where "CAPABILITY_CALENDAR = ''calendar''"

definition KNOWN_CAPABILITIES :: "string list" where
  "KNOWN_CAPABILITIES = [CAPABILITY_MAIL, CAPABILITY_CALENDAR]"

record provider_manifest =
  pm_provider :: connector_provider
  authorization_endpoint :: string
  token_endpoint :: string
  account_info_endpoint :: string
  parse_account_label :: "(string \<times> json) list \<Rightarrow> string option"
  base_scopes :: "string list"
  capability_scopes :: "(string \<times> string list) list"
  api_base_url :: string
  revoke_endpoint :: "string option"
  authorization_extra_params :: "(string \<times> string) list"
  requests_per_minute :: int
  subscription_ttl_hours :: int

definition google_account_label :: "(string \<times> json) list \<Rightarrow> string option" where
  "google_account_label payload =
     (case json_get payload ''email'' of Some (JStr e) \<Rightarrow> Some e | _ \<Rightarrow> None)"

fun first_text :: "(string \<times> json) list \<Rightarrow> string list \<Rightarrow> string option" where
  "first_text payload [] = None"
| "first_text payload (k # ks) =
     (case json_get payload k of
        Some (JStr v) \<Rightarrow> if v \<noteq> [] then Some v else first_text payload ks
      | _ \<Rightarrow> first_text payload ks)"

definition microsoft_account_label :: "(string \<times> json) list \<Rightarrow> string option" where
  "microsoft_account_label payload = first_text payload [''mail'', ''userPrincipalName'']"

definition GOOGLE_MANIFEST :: provider_manifest where
  "GOOGLE_MANIFEST =
     \<lparr>pm_provider = GOOGLE,
      authorization_endpoint = ''https://accounts.google.com/o/oauth2/v2/auth'',
      token_endpoint = ''https://oauth2.googleapis.com/token'',
      account_info_endpoint = ''https://openidconnect.googleapis.com/v1/userinfo'',
      parse_account_label = google_account_label,
      base_scopes = [''openid'', ''email''],
      capability_scopes =
        [(CAPABILITY_MAIL, [''https://www.googleapis.com/auth/gmail.readonly'',
                            ''https://www.googleapis.com/auth/gmail.send'']),
         (CAPABILITY_CALENDAR, [''https://www.googleapis.com/auth/calendar''])],
      api_base_url = ''https://www.googleapis.com'',
      revoke_endpoint = Some ''https://oauth2.googleapis.com/revoke'',
      authorization_extra_params = [(''access_type'', ''offline''), (''prompt'', ''consent'')],
      requests_per_minute = 240, subscription_ttl_hours = 7 * 24\<rparr>"

definition MICROSOFT_MANIFEST :: provider_manifest where
  "MICROSOFT_MANIFEST =
     \<lparr>pm_provider = MICROSOFT,
      authorization_endpoint = ''https://login.microsoftonline.com/common/oauth2/v2.0/authorize'',
      token_endpoint = ''https://login.microsoftonline.com/common/oauth2/v2.0/token'',
      account_info_endpoint = ''https://graph.microsoft.com/v1.0/me'',
      parse_account_label = microsoft_account_label,
      base_scopes = [''openid'', ''email'', ''offline_access''],
      capability_scopes = [(CAPABILITY_MAIL, [''Mail.Read'', ''Mail.Send'']),
                           (CAPABILITY_CALENDAR, [''Calendars.ReadWrite''])],
      api_base_url = ''https://graph.microsoft.com/v1.0'', revoke_endpoint = None,
      authorization_extra_params = [], requests_per_minute = 600,
      subscription_ttl_hours = 3 * 24\<rparr>"

definition get_provider :: "connector_provider \<Rightarrow> provider_manifest" where
  "get_provider p = (case p of GOOGLE \<Rightarrow> GOOGLE_MANIFEST | MICROSOFT \<Rightarrow> MICROSOFT_MANIFEST)"

definition manifest_capabilities :: "provider_manifest \<Rightarrow> string list" where
  "manifest_capabilities m = map fst (capability_scopes m)"

definition extend_scopes :: "string list \<Rightarrow> string list \<Rightarrow> string list" where
  "extend_scopes scopes new = fold (\<lambda>s acc. if s \<in> set acc then acc else acc @ [s]) new scopes"

fun scopes_loop :: "provider_manifest \<Rightarrow> string list \<Rightarrow> string list \<Rightarrow> string list result" where
  "scopes_loop m scopes [] = Inr scopes"
| "scopes_loop m scopes (c # cs) =
     (case map_of (capability_scopes m) c of
        None \<Rightarrow> Inl (UnsupportedCapabilityError (''Capability '' @ repr_str c
                  @ '' non supportee par '' @ provider_str (pm_provider m) @ ''.''))
      | Some ss \<Rightarrow> scopes_loop m (extend_scopes scopes ss) cs)"

definition scopes_for :: "provider_manifest \<Rightarrow> string list \<Rightarrow> string list result" where
  "scopes_for m capabilities = scopes_loop m (base_scopes m) capabilities"

section \<open>Capabilities of a connection\<close>

definition granted_capabilities :: "connector_connection \<Rightarrow> string list" where
  "granted_capabilities c =
     map fst (filter (\<lambda>(cap, scopes). set scopes \<subseteq> set (cn_scopes c))
       (capability_scopes (get_provider (cn_provider c))))"

datatype capability_type = MailCapability | CalendarCapability

definition capability_name :: "capability_type \<Rightarrow> string" where
  "capability_name t = (case t of MailCapability \<Rightarrow> CAPABILITY_MAIL | CalendarCapability \<Rightarrow> CAPABILITY_CALENDAR)"

definition not_active_msg :: "connector_connection \<Rightarrow> string" where
  "not_active_msg c =
     ''Connexion '' @ str_uuid (cn_id c) @ '' non active ('' @ status_str (cn_status c) @ '').''"

datatype capability_impl = GoogleMail | GoogleCalendar | MicrosoftMail | MicrosoftCalendar

definition implementation :: "connector_provider \<Rightarrow> capability_type \<Rightarrow> capability_impl" where
  "implementation p t =
     (case (p, t) of (GOOGLE, MailCapability) \<Rightarrow> GoogleMail
      | (GOOGLE, CalendarCapability) \<Rightarrow> GoogleCalendar
      | (MICROSOFT, MailCapability) \<Rightarrow> MicrosoftMail
      | (MICROSOFT, CalendarCapability) \<Rightarrow> MicrosoftCalendar)"

definition get_capability :: "connector_connection \<Rightarrow> capability_type \<Rightarrow> capability_impl result" where
  "get_capability c t =
     (let nm = capability_name t; m = get_provider (cn_provider c)
      in if cn_status c \<noteq> CONN_ACTIVE then Inl (CapabilityError (not_active_msg c))
         else if nm \<notin> set (manifest_capabilities m)
         then Inl (CapabilityError (''Capability '' @ repr_str nm @ '' non supportee par ''
                     @ provider_str (cn_provider c) @ ''.''))
         else if nm \<notin> set (granted_capabilities c)
         then Inl (CapabilityError (''Capability '' @ repr_str nm @ '' non consentie par la connexion ''
                     @ str_uuid (cn_id c) @ '' (scopes insuffisants - re-consentement requis).''))
         else Inr (implementation (cn_provider c) t))"

section \<open>Lemmas\<close>

lemma pm_provider_get_provider [simp]: "pm_provider (get_provider p) = p"
  by (cases p) (simp_all add: get_provider_def GOOGLE_MANIFEST_def MICROSOFT_MANIFEST_def)

lemma provider_str_inj: "provider_str p = provider_str q \<Longrightarrow> p = q"
  by (cases p; cases q) (simp_all add: provider_str_def)

lemma extend_scopes_props:
  "set (extend_scopes scopes new) = set scopes \<union> set new"
  "distinct scopes \<Longrightarrow> distinct (extend_scopes scopes new)"
  unfolding extend_scopes_def
  by (induction new arbitrary: scopes) auto

lemma manifest_caps [simp]: "set (manifest_capabilities (get_provider p)) = set KNOWN_CAPABILITIES"
  by (cases p) (simp_all add: manifest_capabilities_def get_provider_def GOOGLE_MANIFEST_def
      MICROSOFT_MANIFEST_def KNOWN_CAPABILITIES_def)

lemma distinct_capability_scopes: "distinct (map fst (capability_scopes (get_provider p)))"
  by (cases p) (simp_all add: get_provider_def GOOGLE_MANIFEST_def MICROSOFT_MANIFEST_def
      CAPABILITY_MAIL_def CAPABILITY_CALENDAR_def)

lemma scopes_loop_set:
  "scopes_loop m scopes cs = Inr r \<Longrightarrow>
   set r = set scopes \<union> {s. \<exists>c ss. c \<in> set cs \<and> map_of (capability_scopes m) c = Some ss \<and> s \<in> set ss}"
proof (induction cs arbitrary: scopes)
  case (Cons c cs)
  then obtain ss where ss: "map_of (capability_scopes m) c = Some ss" "scopes_loop m (extend_scopes scopes ss) cs = Inr r"
    by (auto split: option.splits)
  from Cons.IH [OF ss(2)] ss(1) show ?case by (auto simp: extend_scopes_props)
qed simp

end
