(* ===== verification/AiPolicy.thy ===== *)
theory AiPolicy
  imports Crypto PyText
begin

text \<open>
  Prices and per-tenant policies of the AI gateway: \<^verbatim>\<open>ai/pricing.py\<close> (the price table and the
  cost estimate), \<^verbatim>\<open>ai/models.py\<close> (the policy row) and \<^verbatim>\<open>ai/policy.py\<close> (the resolved policy,
  the selection of a provider and model, the sealed keys of a tenant).
\<close>

section \<open>Prices\<close>

definition PRICE_VERSION :: string where "PRICE_VERSION = ''2026-07-12''"

record model_price =
  input_per_mtok :: int
  output_per_mtok :: int
  cached_input_per_mtok :: int

record token_usage =
  input_tokens :: int
  output_tokens :: int
  cached_tokens :: int

definition model_price_of :: "int \<Rightarrow> int \<Rightarrow> int \<Rightarrow> model_price" where
  "model_price_of i u c = \<lparr>input_per_mtok = i, output_per_mtok = u, cached_input_per_mtok = c\<rparr>"

definition token_usage_of :: "int \<Rightarrow> int \<Rightarrow> int \<Rightarrow> token_usage" where
  "token_usage_of i u c = \<lparr>input_tokens = i, output_tokens = u, cached_tokens = c\<rparr>"

definition PRICES :: "((string \<times> string) \<times> model_price) list" where
  "PRICES =
     [((''mistral'', ''mistral-small-latest''), model_price_of 200000 600000 200000),
      ((''mistral'', ''mistral-large-latest''), model_price_of 2000000 6000000 2000000),
      ((''mistral'', ''mistral-embed''), model_price_of 100000 0 100000),
      ((''anthropic'', ''claude-3-5-haiku-latest''), model_price_of 800000 4000000 80000),
      ((''anthropic'', ''claude-3-5-sonnet-latest''), model_price_of 3000000 15000000 300000),
      ((''openai'', ''gpt-4o-mini''), model_price_of 150000 600000 75000),
      ((''openai'', ''gpt-4o''), model_price_of 2500000 10000000 1250000),
      ((''openai'', ''text-embedding-3-small''), model_price_of 20000 0 20000)]"

definition estimate_cost :: "string \<Rightarrow> string \<Rightarrow> token_usage \<Rightarrow> int" where
  "estimate_cost provider model u =
     (case map_of PRICES (provider, model) of None \<Rightarrow> 0
      | Some price \<Rightarrow>
          let billable_input = max (input_tokens u - cached_tokens u) 0;
              total = billable_input * input_per_mtok price
                      + cached_tokens u * cached_input_per_mtok price
                      + output_tokens u * output_per_mtok price
          in total div 1000000)"

section \<open>The policy of a tenant\<close>

record tenant_ai_policy =
  tp_tenant_id :: uuid
  tp_default_provider :: "string option"
  tp_default_model :: "string option"
  tp_allowed_providers :: "string list"
  tp_zero_retention :: bool
  tp_monthly_token_quota :: "int option"
  tp_hard_limit_enabled :: bool
  tp_fallback_provider :: "string option"
  tp_fallback_model :: "string option"
  tp_byok_keys_enc :: "bytes option"

definition ZERO_RETENTION_PROVIDERS :: "string list" where
  "ZERO_RETENTION_PROVIDERS = [''mistral'']"

record resolved_policy =
  rp_slug :: string
  rp_default_provider :: string
  rp_default_model :: string
  rp_allowed_providers :: "string list"
  rp_zero_retention :: bool
  rp_monthly_token_quota :: int
  rp_hard_limit_enabled :: bool
  rp_fallback_provider :: "string option"
  rp_fallback_model :: "string option"
  rp_byok_keys :: "(string \<times> string) list"

definition py_or :: "string option \<Rightarrow> string \<Rightarrow> string" where
  \<comment> \<open>\<^verbatim>\<open>x or y\<close>: neither \<^verbatim>\<open>None\<close> nor the empty string\<close>
  "py_or x y = (case x of None \<Rightarrow> y | Some s \<Rightarrow> if s = [] then y else s)"

definition not_allowed_msg :: "string \<Rightarrow> string" where
  "not_allowed_msg p = ''Provider '' @ repr_str p @ '' non autorise par la politique du tenant.''"

definition not_zdr_msg :: "string \<Rightarrow> string" where
  "not_zdr_msg p =
     ''Provider '' @ repr_str p @ '' refuse : le tenant est en zero-retention, ''
     @ ''seuls les providers ZDR ('' @ join_with '', '' (sort ZERO_RETENTION_PROVIDERS)
     @ '') sont autorises.''"

definition policy_select ::
  "resolved_policy \<Rightarrow> string option \<Rightarrow> string option \<Rightarrow> (string \<times> string) result" where
  "policy_select pol provider model =
     (let resolved_provider = py_or provider (rp_default_provider pol);
          resolved_model = py_or model (rp_default_model pol)
      in if rp_allowed_providers pol \<noteq> [] \<and> resolved_provider \<notin> set (rp_allowed_providers pol)
         then Inl (PolicyError (not_allowed_msg resolved_provider))
         else if rp_zero_retention pol \<and> resolved_provider \<notin> set ZERO_RETENTION_PROVIDERS
         then Inl (PolicyError (not_zdr_msg resolved_provider))
         else Inr (resolved_provider, resolved_model))"

definition byok_key_for :: "resolved_policy \<Rightarrow> string \<Rightarrow> string option" where
  "byok_key_for pol provider = map_of (rp_byok_keys pol) provider"

definition decrypt_byok ::
  "primitives \<Rightarrow> settings \<Rightarrow> bytes option \<Rightarrow> (string \<times> string) list result" where
  "decrypt_byok P cfg sealed =
     (case sealed of None \<Rightarrow> Inr []
      | Some c \<Rightarrow>
          if c = [] then Inr []
          else (case get_key_provider P cfg of Inl e \<Rightarrow> Inl e
                | Inr kp \<Rightarrow>
                    (case kp_decrypt P kp c of Inl e \<Rightarrow> Inl e
                     | Inr raw \<Rightarrow>
                         (case json_loads P raw of None \<Rightarrow> Inl (ValueError ''json'')
                          | Some data \<Rightarrow> Inr (map (\<lambda>(k, v). (k, str_json v)) data)))))"

definition resolve_record ::
  "primitives \<Rightarrow> settings \<Rightarrow> string \<Rightarrow> tenant_ai_policy option \<Rightarrow> resolved_policy result" where
  "resolve_record P cfg slug rec =
     (case rec of
        None \<Rightarrow>
          Inr \<lparr>rp_slug = slug, rp_default_provider = ai_default_provider cfg,
               rp_default_model = ai_default_model cfg, rp_allowed_providers = [],
               rp_zero_retention = False,
               rp_monthly_token_quota = ai_quota_default_monthly_tokens cfg,
               rp_hard_limit_enabled = False, rp_fallback_provider = None,
               rp_fallback_model = None, rp_byok_keys = []\<rparr>
      | Some r \<Rightarrow>
          (case decrypt_byok P cfg (tp_byok_keys_enc r) of Inl e \<Rightarrow> Inl e
           | Inr keys \<Rightarrow>
               Inr \<lparr>rp_slug = slug,
                    rp_default_provider = py_or (tp_default_provider r) (ai_default_provider cfg),
                    rp_default_model = py_or (tp_default_model r) (ai_default_model cfg),
                    rp_allowed_providers = tp_allowed_providers r,
                    rp_zero_retention = tp_zero_retention r,
                    rp_monthly_token_quota =
                      (case tp_monthly_token_quota r of Some q \<Rightarrow> q
                       | None \<Rightarrow> ai_quota_default_monthly_tokens cfg),
                    rp_hard_limit_enabled = tp_hard_limit_enabled r,
                    rp_fallback_provider = tp_fallback_provider r,
                    rp_fallback_model = tp_fallback_model r, rp_byok_keys = keys\<rparr>))"

definition get_policy ::
  "primitives \<Rightarrow> settings \<Rightarrow> uuid \<Rightarrow> string \<Rightarrow> tenant_ai_policy list \<Rightarrow> resolved_policy result" where
  "get_policy P cfg tenant_id slug policies =
     resolve_record P cfg slug (List.find (\<lambda>r. tp_tenant_id r = tenant_id) policies)"

section \<open>Lemmas\<close>

definition permitted :: "resolved_policy \<Rightarrow> string \<Rightarrow> bool" where
  \<comment> \<open>the contract of the policy on a provider\<close>
  "permitted pol p \<longleftrightarrow>
     (rp_allowed_providers pol = [] \<or> p \<in> set (rp_allowed_providers pol)) \<and>
     (\<not> rp_zero_retention pol \<or> p \<in> set ZERO_RETENTION_PROVIDERS)"

lemma policy_select_Inr:
  "policy_select pol provider model = Inr (p, m) \<longleftrightarrow>
     p = py_or provider (rp_default_provider pol) \<and> m = py_or model (rp_default_model pol)
     \<and> permitted pol p"
  by (auto simp: policy_select_def permitted_def Let_def)

lemma policy_select_Inl:
  "policy_select pol provider model = Inl e \<Longrightarrow>
   (\<exists>s. e = PolicyError s) \<and> \<not> permitted pol (py_or provider (rp_default_provider pol))"
  by (auto simp: policy_select_def permitted_def Let_def split: if_splits)

lemma PRICES_cases:
  assumes "map_of PRICES k = Some price"
  shows "0 \<le> input_per_mtok price" "0 \<le> output_per_mtok price" "0 \<le> cached_input_per_mtok price"
    and "cached_input_per_mtok price \<le> input_per_mtok price"
    and "input_per_mtok price \<le> 3000000" "output_per_mtok price \<le> 15000000"
proof -
  have "price \<in> snd ` set PRICES" using map_of_SomeD [OF assms] by force
  then show "0 \<le> input_per_mtok price" "0 \<le> output_per_mtok price"
    "0 \<le> cached_input_per_mtok price" "cached_input_per_mtok price \<le> input_per_mtok price"
    "input_per_mtok price \<le> 3000000" "output_per_mtok price \<le> 15000000"
    by (auto simp: PRICES_def model_price_of_def)
qed

section \<open>Properties\<close>

text \<open>
  For non-negative token counts the estimated cost is never negative and at most
  3 micro-euros per input token plus 15 per output token; tokens served from the provider's
  cache never make a call more expensive than the same call without a cache; and a model that is
  not in the price table costs nothing (the call is never blocked).
\<close>

theorem estimate_cost_bounds:
  assumes "0 \<le> inp" "0 \<le> out" "0 \<le> c" "c \<le> inp"
  shows "0 \<le> estimate_cost p m (token_usage_of inp out c)
    \<and> estimate_cost p m (token_usage_of inp out c) \<le> estimate_cost p m (token_usage_of inp out 0)
    \<and> estimate_cost p m (token_usage_of inp out c) \<le> 3 * inp + 15 * out
    \<and> (map_of PRICES (p, m) = None \<longrightarrow> estimate_cost p m (token_usage_of inp out c) = 0)"
proof (cases "map_of PRICES (p, m)")
  case (Some price)
  note pr = PRICES_cases [OF Some]
  define tot where "tot = (inp - c) * input_per_mtok price + c * cached_input_per_mtok price
      + out * output_per_mtok price"
  define full where "full = inp * input_per_mtok price + out * output_per_mtok price"
  have cost: "estimate_cost p m (token_usage_of inp out c) = tot div 1000000"
    "estimate_cost p m (token_usage_of inp out 0) = full div 1000000"
    using assms Some
    by (simp_all add: estimate_cost_def token_usage_of_def tot_def full_def Let_def max_absorb1)
  have "0 \<le> tot" using assms pr by (simp add: tot_def)
  have "c * cached_input_per_mtok price \<le> c * input_per_mtok price"
    using assms pr by (intro mult_left_mono) auto
  then have le: "tot \<le> full" by (simp add: tot_def full_def left_diff_distrib)
  have "inp * input_per_mtok price \<le> inp * 3000000" "out * output_per_mtok price \<le> out * 15000000"
    using assms pr by (auto intro: mult_left_mono)
  with le have "tot \<le> 1000000 * (3 * inp + 15 * out)" by (simp add: full_def)
  then have "tot div 1000000 \<le> 3 * inp + 15 * out"
    using zdiv_mono1 [of tot "1000000 * (3 * inp + 15 * out)" 1000000] by simp
  moreover have "0 \<le> tot div 1000000" using \<open>0 \<le> tot\<close> by simp
  moreover have "tot div 1000000 \<le> full div 1000000" using le by (rule zdiv_mono1) simp
  ultimately show ?thesis using cost Some by simp
qed (use assms in \<open>simp add: estimate_cost_def\<close>)

theorem estimate_cost_bounds_witness:
  "0 \<le> estimate_cost ''openai'' ''gpt-4o'' (token_usage_of 1000000 2 500000)
    \<and> estimate_cost ''openai'' ''gpt-4o'' (token_usage_of 1000000 2 500000) = 1875020
    \<and> estimate_cost ''openai'' ''gpt-4o'' (token_usage_of 1000000 2 0) = 2500020"
  using estimate_cost_bounds [of 1000000 2 500000 "''openai''" "''gpt-4o''"]
  by (simp add: estimate_cost_def PRICES_def model_price_of_def token_usage_of_def Let_def)

text \<open>
  The effective policy of a tenant: without a row it is the platform's defaults
  (every provider, no zero retention, the platform quota); with a row, the row's restrictions and
  quota apply unchanged, empty defaults fall back to the platform's, and the sealed keys of the
  tenant are exactly the ones that were sealed under the server's key. A row of another tenant
  is never used.
\<close>

theorem get_policy_resolves:
  assumes "get_key_provider P cfg = Inr kp" "aead_law P" "length nonce = NONCE_SIZE"
    and "json_law P (map (\<lambda>(k, v). (k, JStr v)) keys)"
    and "List.find (\<lambda>r. tp_tenant_id r = t) policies = row"
    and "\<And>r. row = Some r \<Longrightarrow> tp_byok_keys_enc r =
           Some (kp_encrypt P kp nonce (json_dumps P (map (\<lambda>(k, v). (k, JStr v)) keys)))"
  shows "\<exists>pol. get_policy P cfg t slug policies = Inr pol \<and> rp_slug pol = slug \<and>
     (case row of
        None \<Rightarrow> rp_allowed_providers pol = [] \<and> \<not> rp_zero_retention pol
          \<and> rp_monthly_token_quota pol = ai_quota_default_monthly_tokens cfg
          \<and> rp_fallback_provider pol = None \<and> (\<forall>p. permitted pol p \<and> byok_key_for pol p = None)
      | Some r \<Rightarrow> tp_tenant_id r = t \<and> rp_allowed_providers pol = tp_allowed_providers r
          \<and> rp_zero_retention pol = tp_zero_retention r
          \<and> rp_fallback_provider pol = tp_fallback_provider r
          \<and> (\<forall>q. tp_monthly_token_quota r = Some q \<longrightarrow> rp_monthly_token_quota pol = q)
          \<and> (\<forall>p. byok_key_for pol p = map_of keys p))"
proof (cases row)
  case None
  then show ?thesis using assms(5)
    by (auto simp: get_policy_def resolve_record_def permitted_def byok_key_for_def)
next
  case (Some r)
  let ?c = "kp_encrypt P kp nonce (json_dumps P (map (\<lambda>(k, v). (k, JStr v)) keys))"
  have "?c \<noteq> []" using assms(3) by (auto simp: kp_encrypt_def NONCE_SIZE_def)
  moreover have "map ((\<lambda>(k, v). (k, str_json v)) \<circ> (\<lambda>(k, v). (k, JStr v))) keys = keys"
    by (rule map_idI) (auto simp: str_json_def)
  ultimately have dec: "decrypt_byok P cfg (tp_byok_keys_enc r) = Inr keys"
    using assms(1-4,6) Some
    by (simp add: decrypt_byok_def kp_decrypt_encrypt json_law_def)
  have "tp_tenant_id r = t" using assms(5) Some find_eq_Some_D by fast
  then show ?thesis using assms(5) Some dec
    by (simp add: get_policy_def resolve_record_def byok_key_for_def)
qed

definition byok_primitives :: primitives where
  "byok_primitives = sample_primitives
     \<lparr>json_dumps := (\<lambda>d. if d = [(''mistral'', JStr ''k'')] then ''m'' else ''{}''),
      json_loads := (\<lambda>s. if s = ''m'' then Some [(''mistral'', JStr ''k'')]
                         else if s = ''{}'' then Some [] else None)\<rparr>"

definition byok_policy :: tenant_ai_policy where
  \<comment> \<open>a zero-retention tenant with its own sealed key\<close>
  "byok_policy =
     \<lparr>tp_tenant_id = 7, tp_default_provider = None, tp_default_model = Some [],
      tp_allowed_providers = [''mistral'', ''openai''], tp_zero_retention = True,
      tp_monthly_token_quota = Some 5, tp_hard_limit_enabled = False,
      tp_fallback_provider = Some ''openai'', tp_fallback_model = None,
      tp_byok_keys_enc = Some (kp_encrypt byok_primitives
        \<lparr>ekp_key = sha256 byok_primitives ''saas-dev-master-key-not-a-secret''\<rparr>
        (replicate 12 (CHR ''n'')) ''m'')\<rparr>"

lemma byok_key_provider:
  "get_key_provider byok_primitives default_settings =
     Inr \<lparr>ekp_key = sha256 byok_primitives ''saas-dev-master-key-not-a-secret''\<rparr>"
  by (simp add: get_key_provider_def master_key_bytes_def env_key_provider_init_def
      default_settings_def byok_primitives_def sample_primitives_def)

theorem get_policy_resolves_witness:
  "\<exists>pol. get_policy byok_primitives default_settings 7 ''acme'' [byok_policy] = Inr pol
     \<and> rp_zero_retention pol \<and> rp_monthly_token_quota pol = 5
     \<and> byok_key_for pol ''mistral'' = Some ''k'' \<and> byok_key_for pol ''openai'' = None"
proof -
  have aead: "aead_law byok_primitives"
    using sample_aead by (simp add: aead_law_def byok_primitives_def)
  have js: "json_law byok_primitives (map (\<lambda>(k, v). (k, JStr v)) [(''mistral'', ''k'')])"
    by (simp add: json_law_def byok_primitives_def)
  have dumps: "json_dumps byok_primitives [(''mistral'', JStr ''k'')] = ''m''"
    by (simp add: byok_primitives_def)
  show ?thesis
    using get_policy_resolves [OF byok_key_provider aead _ js, of "replicate 12 (CHR ''n'')" 7
        "[byok_policy]" "Some byok_policy" "''acme''"]
    by (auto simp: NONCE_SIZE_def byok_policy_def dumps)
qed

end
