(* ===== verification/Upsert.thy ===== *)
theory Upsert
  imports Prelude
begin

text \<open>
  \<^verbatim>\<open>INSERT ... ON CONFLICT (key) DO UPDATE\<close>, and the select-then-insert-or-update the ORM code
  writes by hand: what a table with a unique key holds afterwards. A component interprets the
  locale with its key and with the columns it overwrites.
\<close>

definition upsert_row :: "('r \<Rightarrow> 'k) \<Rightarrow> ('r \<Rightarrow> 'r \<Rightarrow> 'r) \<Rightarrow> 'r \<Rightarrow> 'r list \<Rightarrow> 'r list" where
  \<comment> \<open>\<open>merge r x\<close>: the existing row \<open>x\<close> after the \<^verbatim>\<open>SET\<close> clause with the values of \<open>r\<close>\<close>
  "upsert_row key merge r rows =
     (if key r \<in> key ` set rows
      then update_where (\<lambda>x. key x = key r) (merge r) rows
      else insert_row r rows)"

locale upsertable =
  fixes key :: "'r \<Rightarrow> 'k" and merge :: "'r \<Rightarrow> 'r \<Rightarrow> 'r"
  assumes key_merge: "key x = key r \<Longrightarrow> key (merge r x) = key r"
begin

lemma keys_upsert:
  "map key (upsert_row key merge r rows) =
     (if key r \<in> key ` set rows then map key rows else map key rows @ [key r])"
  by (auto simp: upsert_row_def update_where_def insert_row_def key_merge)

lemma distinct_upsert:
  "distinct (map key rows) \<Longrightarrow> distinct (map key (upsert_row key merge r rows))"
  by (simp add: keys_upsert)

lemma find_update_key:
  "List.find (\<lambda>x. key x = k) (update_where (\<lambda>x. key x = key r) (merge r) rows) =
     map_option (\<lambda>x. if key x = key r then merge r x else x) (List.find (\<lambda>x. key x = k) rows)"
  by (induction rows) (auto simp: update_where_def key_merge)

lemma lookup_upsert:
  "List.find (\<lambda>x. key x = k) (upsert_row key merge r rows) =
     (if k = key r
      then Some (case List.find (\<lambda>x. key x = k) rows of None \<Rightarrow> r | Some x \<Rightarrow> merge r x)
      else List.find (\<lambda>x. key x = k) rows)"
proof (cases "key r \<in> key ` set rows")
  case True
  then have "List.find (\<lambda>x. key x = key r) rows \<noteq> None"
    by (auto simp: find_eq_None_iff)
  with True show ?thesis
    by (auto simp: upsert_row_def find_update_key map_option_case dest: find_eq_Some_D
        split: option.splits)
next
  case False
  then have "List.find (\<lambda>x. key x = key r) rows = None"
    using notin_image_key [of "key r" key "set rows"] by (simp add: find_eq_None_iff)
  with False show ?thesis
    by (auto simp: upsert_row_def find_insert_row split: option.splits)
qed

lemma distinct_fold_upsert:
  "distinct (map key rows) \<Longrightarrow> distinct (map key (fold (upsert_row key merge) rs rows))"
  by (induction rs arbitrary: rows) (auto simp: distinct_upsert)

end

text \<open>The \<^verbatim>\<open>SET\<close> clause overwrites every column outside the key.\<close>

locale replacing =
  fixes key :: "'r \<Rightarrow> 'k"

sublocale replacing \<subseteq> upsertable key "\<lambda>r _. r"
  by unfold_locales simp

context replacing
begin

lemma lookup_fold_upsert:
  assumes "distinct (map key rs)"
  shows "List.find (\<lambda>x. key x = k) (fold (upsert_row key (\<lambda>r _. r)) rs rows) =
    (case List.find (\<lambda>x. key x = k) rs of Some r \<Rightarrow> Some r
     | None \<Rightarrow> List.find (\<lambda>x. key x = k) rows)"
  using assms
proof (induction rs arbitrary: rows)
  case (Cons r rs)
  show ?case
  proof (cases "k = key r")
    case True
    then have "List.find (\<lambda>x. key x = k) rs = None"
      using Cons.prems notin_image_key [of k key "set rs"] by (simp add: find_eq_None_iff)
    with True Cons show ?thesis by (simp add: lookup_upsert split: option.split)
  next
    case False
    then show ?thesis using False [symmetric] Cons
      by (simp add: lookup_upsert split: option.split)
  qed
qed simp

lemma upsert_present:
  assumes "r \<in> set rows" "distinct (map key rows)"
  shows "upsert_row key (\<lambda>r _. r) r rows = rows"
proof -
  have "x = r" if "x \<in> set rows" "key x = key r" for x
    using assms that by (auto simp: distinct_map dest: inj_onD)
  then have "update_where (\<lambda>x. key x = key r) (\<lambda>_. r) rows = rows"
    unfolding update_where_def by (intro map_idI) auto
  with assms(1) show ?thesis by (auto simp: upsert_row_def)
qed

lemma fold_upsert_present:
  "set rs \<subseteq> set rows \<Longrightarrow> distinct (map key rows) \<Longrightarrow>
   fold (upsert_row key (\<lambda>r _. r)) rs rows = rows"
  by (induction rs) (simp_all add: upsert_present)

lemma mem_fold_upsert:
  assumes "distinct (map key rs)" "distinct (map key rows)"
  shows "x \<in> set (fold (upsert_row key (\<lambda>r _. r)) rs rows) \<longleftrightarrow>
    x \<in> set rs \<or> (x \<in> set rows \<and> key x \<notin> key ` set rs)"
proof -
  have find_mem: "List.find (\<lambda>y. key y = key x) ys = Some x \<longleftrightarrow> x \<in> set ys"
    if "distinct (map key ys)" for ys
    using that find_unique [of key ys x "\<lambda>y. key y = key x"] find_eq_Some_D [of _ ys x] by fastforce
  have "x \<in> set (fold (upsert_row key (\<lambda>r _. r)) rs rows) \<longleftrightarrow>
      (case List.find (\<lambda>y. key y = key x) rs of Some r \<Rightarrow> Some r
       | None \<Rightarrow> List.find (\<lambda>y. key y = key x) rows) = Some x"
    using find_mem [OF distinct_fold_upsert [OF assms(2), of rs]] lookup_fold_upsert [OF assms(1)]
    by metis
  also have "\<dots> \<longleftrightarrow> x \<in> set rs \<or> (x \<in> set rows \<and> key x \<notin> key ` set rs)"
  proof (cases "key x \<in> key ` set rs")
    case True
    then have "List.find (\<lambda>y. key y = key x) rs \<noteq> None" by (auto simp: find_eq_None_iff)
    with True find_mem [OF assms(1)] show ?thesis by auto
  next
    case False
    then have "List.find (\<lambda>y. key y = key x) rs = None"
      using notin_image_key [of "key x" key "set rs"] by (simp add: find_eq_None_iff)
    with False find_mem [OF assms(2)] show ?thesis by auto
  qed
  finally show ?thesis .
qed

end

end
