(* ===== verification/AiUsage.thy ===== *)
theory AiUsage
  imports AuditLog Valkey AiPolicy Upsert
begin

text \<open>
  What the AI gateway records of its calls: usage events (\<^verbatim>\<open>ai/metering.py\<close>), the monthly token
  counters and alerts (\<^verbatim>\<open>ai/quota.py\<close>) and the daily rollup (\<^verbatim>\<open>ai/tasks.py\<close>). The tables of
  \<^verbatim>\<open>ai/models.py\<close> and the Valkey store stand beside the database of the other components in one
  record, which the gateway extends.
\<close>

section \<open>State\<close>

datatype usage_status = USAGE_OK | USAGE_ERROR | USAGE_TIMEOUT

record usage_record =
  ur_tenant_id :: uuid
  ur_user_id :: "uuid option"
  ur_module :: string
  ur_provider :: string
  ur_model :: string
  ur_status :: usage_status
  ur_price_version :: string
  ur_input_tokens :: int
  ur_output_tokens :: int
  ur_cached_tokens :: int
  ur_latency_ms :: int
  ur_estimated_cost_microeur :: int
  ur_error_kind :: "string option"

record ai_usage_event =
  ue_id :: uuid
  ue_occurred_at :: instant
  ue_tenant_id :: uuid
  ue_user_id :: "uuid option"
  ue_module :: string
  ue_provider :: string
  ue_model :: string
  ue_input_tokens :: int
  ue_output_tokens :: int
  ue_cached_tokens :: int
  ue_latency_ms :: int
  ue_estimated_cost_microeur :: int
  ue_price_version :: string
  ue_status :: usage_status
  ue_error_kind :: "string option"

record ai_usage_daily =
  ud_day :: int
  ud_tenant_id :: uuid
  ud_provider :: string
  ud_model :: string
  ud_input_tokens :: int
  ud_output_tokens :: int
  ud_cached_tokens :: int
  ud_request_count :: int
  ud_error_count :: int
  ud_estimated_cost_microeur :: int

record ai_world =
  core_db :: db
  ai_policies :: "tenant_ai_policy list"
  usage_events :: "ai_usage_event list"
  usage_daily :: "ai_usage_daily list"
  valkey :: kv

section \<open>Metering\<close>

definition fits_bits :: "nat \<Rightarrow> int \<Rightarrow> bool" where
  "fits_bits w i \<longleftrightarrow> - (2 ^ (w - 1)) \<le> i \<and> i < 2 ^ (w - 1)"

definition usage_fits :: "db \<Rightarrow> usage_record \<Rightarrow> bool" where
  \<comment> \<open>the column types and the foreign key of \<^verbatim>\<open>ai_usage_events\<close>\<close>
  "usage_fits d r \<longleftrightarrow>
     ur_tenant_id r \<in> t_id ` set (tenants d) \<and> length (ur_module r) \<le> 50
     \<and> length (ur_provider r) \<le> 20 \<and> length (ur_model r) \<le> 100
     \<and> length (ur_price_version r) \<le> 20
     \<and> (case ur_error_kind r of None \<Rightarrow> True | Some k \<Rightarrow> length k \<le> 50)
     \<and> fits_bits 32 (ur_input_tokens r) \<and> fits_bits 32 (ur_output_tokens r)
     \<and> fits_bits 32 (ur_cached_tokens r) \<and> fits_bits 32 (ur_latency_ms r)
     \<and> fits_bits 64 (ur_estimated_cost_microeur r)"

definition usage_event_of :: "uuid \<Rightarrow> instant \<Rightarrow> usage_record \<Rightarrow> ai_usage_event" where
  "usage_event_of eid now r =
     \<lparr>ue_id = eid, ue_occurred_at = now, ue_tenant_id = ur_tenant_id r, ue_user_id = ur_user_id r,
      ue_module = ur_module r, ue_provider = ur_provider r, ue_model = ur_model r,
      ue_input_tokens = ur_input_tokens r, ue_output_tokens = ur_output_tokens r,
      ue_cached_tokens = ur_cached_tokens r, ue_latency_ms = ur_latency_ms r,
      ue_estimated_cost_microeur = ur_estimated_cost_microeur r,
      ue_price_version = ur_price_version r, ue_status = ur_status r,
      ue_error_kind = ur_error_kind r\<rparr>"

definition record_usage ::
  "bool \<Rightarrow> uuid \<Rightarrow> instant \<Rightarrow> usage_record \<Rightarrow> 'z ai_world_scheme \<Rightarrow> 'z ai_world_scheme" where
  \<comment> \<open>\<open>available\<close>: the database accepts the transaction. A failed insertion is logged, not raised\<close>
  "record_usage available eid now r w =
     (if available \<and> usage_fits (core_db w) r
      then usage_events_update (insert_row (usage_event_of eid now r)) w
      else w)"

section \<open>Quotas\<close>

definition MONTH_TTL_SECONDS :: int where "MONTH_TTL_SECONDS = 62 * 24 * 3600"
definition ALERT_TTL_SECONDS :: int where "ALERT_TTL_SECONDS = 24 * 3600"

definition month_key :: "uuid \<Rightarrow> instant \<Rightarrow> string" where
  "month_key tenant_id now = ''ai:quota:'' @ str_uuid tenant_id @ '':'' @ month_str now"

definition alert_key :: "uuid \<Rightarrow> instant \<Rightarrow> string" where
  "alert_key tenant_id now = ''ai:quota:alert:'' @ str_uuid tenant_id @ '':'' @ date_str now"

record quota_outcome =
  qo_month_usage :: int
  qo_over_quota :: bool
  qo_alerted :: bool

definition current_usage :: "uuid \<Rightarrow> instant \<Rightarrow> kv \<Rightarrow> int result" where
  \<comment> \<open>\<^verbatim>\<open>int(raw)\<close> of a text value that is no number raises\<close>
  "current_usage tenant_id now s =
     (case kv_get now (month_key tenant_id now) s of
        None \<Rightarrow> Inr 0 | Some (VInt n) \<Rightarrow> Inr n | Some (VStr _) \<Rightarrow> Inl (ValueError ''int''))"

definition add_usage :: "uuid \<Rightarrow> int \<Rightarrow> instant \<Rightarrow> kv \<Rightarrow> int result \<times> kv" where
  "add_usage tenant_id tokens now s =
     (let key = month_key tenant_id now
      in case kv_incrby now key (max tokens 0) s of
           (Inl e, s1) \<Rightarrow> (Inl e, s1)
         | (Inr new_total, s1) \<Rightarrow>
             (Inr new_total,
              if new_total = tokens then kv_expire now key MONTH_TTL_SECONDS s1 else s1))"

definition reconcile :: "uuid \<Rightarrow> int \<Rightarrow> instant \<Rightarrow> kv \<Rightarrow> kv" where
  "reconcile tenant_id month_total now s =
     kv_set now (month_key tenant_id now) (VInt (max month_total 0)) (Some MONTH_TTL_SECONDS) s"

definition quota_alert_args :: "instant \<Rightarrow> int \<Rightarrow> int \<Rightarrow> audit_args" where
  "quota_alert_args now month_usage quota =
     \<lparr>aa_action = ''core.ai.quota_exceeded'', aa_resource_type = ''ai_quota'',
      aa_resource_id = month_str now,
      aa_payload = [(''month_usage'', JInt month_usage), (''monthly_token_quota'', JInt quota)],
      aa_actor_user_id = None, aa_actor_label = SYSTEM_ACTOR_LABEL\<rparr>"

definition emit_alert_once ::
  "tenant_context \<Rightarrow> int \<Rightarrow> int \<Rightarrow> uuid \<Rightarrow> instant \<Rightarrow> context_var \<Rightarrow> 'z ai_world_scheme
   \<Rightarrow> bool result \<times> 'z ai_world_scheme" where
  \<comment> \<open>\<open>aid\<close> is the id of the audit row; the context block restores \<open>cv\<close>\<close>
  "emit_alert_once ctx month_usage quota aid now cv w =
     (case kv_set_nx_ex now (alert_key (tc_tenant_id ctx) now) (VStr ''1'') ALERT_TTL_SECONDS (valkey w) of
        (False, _) \<Rightarrow> (Inr False, w)
      | (True, s1) \<Rightarrow>
          (let w1 = w\<lparr>valkey := s1\<rparr>;
               (r, _, d1) = tenant_context_block ctx
                 (\<lambda>cv' d. case record_audit_event cv' aid now (quota_alert_args now month_usage quota) d of
                     Inl e \<Rightarrow> (Inl e, cv', d) | Inr (_, d') \<Rightarrow> (Inr True, cv', d'))
                 cv (core_db w1)
           in (r, w1\<lparr>core_db := d1\<rparr>)))"

definition record_and_alert ::
  "tenant_context \<Rightarrow> int \<Rightarrow> int \<Rightarrow> uuid \<Rightarrow> instant \<Rightarrow> context_var \<Rightarrow> 'z ai_world_scheme
   \<Rightarrow> quota_outcome result \<times> 'z ai_world_scheme" where
  "record_and_alert ctx added_tokens quota aid now cv w =
     (case add_usage (tc_tenant_id ctx) added_tokens now (valkey w) of
        (Inl e, s1) \<Rightarrow> (Inl e, w\<lparr>valkey := s1\<rparr>)
      | (Inr month_usage, s1) \<Rightarrow>
          (let w1 = w\<lparr>valkey := s1\<rparr>; over_quota = quota < month_usage
           in if over_quota then
                (case emit_alert_once ctx month_usage quota aid now cv w1 of
                   (Inl e, w2) \<Rightarrow> (Inl e, w2)
                 | (Inr alerted, w2) \<Rightarrow>
                     (Inr \<lparr>qo_month_usage = month_usage, qo_over_quota = over_quota,
                           qo_alerted = alerted\<rparr>, w2))
              else (Inr \<lparr>qo_month_usage = month_usage, qo_over_quota = over_quota,
                         qo_alerted = False\<rparr>, w1)))"

section \<open>The daily rollup\<close>

type_synonym usage_key = "uuid \<times> string \<times> string"

definition usage_key_of :: "ai_usage_event \<Rightarrow> usage_key" where
  "usage_key_of e = (ue_tenant_id e, ue_provider e, ue_model e)"

definition daily_key :: "ai_usage_daily \<Rightarrow> int \<times> usage_key" where
  "daily_key r = (ud_day r, ud_tenant_id r, ud_provider r, ud_model r)"

definition day_events :: "int \<Rightarrow> ai_usage_event list \<Rightarrow> ai_usage_event list" where
  "day_events target_day evs =
     (let start = days target_day; stop = start + days 1
      in filter (\<lambda>e. start \<le> ue_occurred_at e \<and> ue_occurred_at e < stop) evs)"

definition daily_row :: "int \<Rightarrow> usage_key \<Rightarrow> ai_usage_event list \<Rightarrow> ai_usage_daily" where
  \<comment> \<open>one row of the grouped query over the events \<open>evs\<close> of the day\<close>
  "daily_row target_day k evs =
     (let g = filter (\<lambda>e. usage_key_of e = k) evs
      in \<lparr>ud_day = target_day, ud_tenant_id = fst k, ud_provider = fst (snd k),
          ud_model = snd (snd k),
          ud_input_tokens = sum_list (map ue_input_tokens g),
          ud_output_tokens = sum_list (map ue_output_tokens g),
          ud_cached_tokens = sum_list (map ue_cached_tokens g),
          ud_request_count = int (length g),
          ud_error_count = int (length (filter (\<lambda>e. ue_status e \<noteq> USAGE_OK) g)),
          ud_estimated_cost_microeur = sum_list (map ue_estimated_cost_microeur g)\<rparr>)"

definition upsert_daily :: "ai_usage_daily \<Rightarrow> ai_usage_daily list \<Rightarrow> ai_usage_daily list" where
  \<comment> \<open>on a conflict of (day, tenant_id, provider, model) every other column is overwritten\<close>
  "upsert_daily = upsert_row daily_key (\<lambda>r _. r)"

definition aggregate_day :: "int \<Rightarrow> 'z ai_world_scheme \<Rightarrow> nat \<times> 'z ai_world_scheme" where
  "aggregate_day target_day w =
     (let evs = day_events target_day (usage_events w);
          grouped = map (\<lambda>k. daily_row target_day k evs) (remdups (map usage_key_of evs))
      in (length grouped, usage_daily_update (fold upsert_daily grouped) w))"

definition reconcile_month_quotas :: "instant \<Rightarrow> 'z ai_world_scheme \<Rightarrow> 'z ai_world_scheme" where
  "reconcile_month_quotas now w =
     (let evs = filter (\<lambda>e. month_start now \<le> ue_occurred_at e) (usage_events w);
          rows = map (\<lambda>t. (t, sum_list (map (\<lambda>e. ue_input_tokens e + ue_output_tokens e)
                               (filter (\<lambda>e. ue_tenant_id e = t) evs))))
                   (remdups (map ue_tenant_id evs))
      in valkey_update (fold (\<lambda>(t, total). reconcile t total now) rows) w)"

definition purge_raw_events ::
  "settings \<Rightarrow> instant \<Rightarrow> 'z ai_world_scheme \<Rightarrow> nat \<times> 'z ai_world_scheme" where
  "purge_raw_events cfg now w =
     (let cutoff = now - days (ai_usage_raw_retention_days cfg);
          old = (\<lambda>e. ue_occurred_at e < cutoff)
      in (length (filter old (usage_events w)), usage_events_update (delete_where old) w))"

definition run_daily_rollup ::
  "settings \<Rightarrow> instant \<Rightarrow> 'z ai_world_scheme \<Rightarrow> (nat \<times> nat) \<times> 'z ai_world_scheme" where
  \<comment> \<open>the counts \<^verbatim>\<open>aggregated\<close> and \<^verbatim>\<open>purged\<close> of the returned dictionary\<close>
  "run_daily_rollup cfg now w =
     (let yesterday = date_of (now - days 1);
          (aggregated, w1) = aggregate_day yesterday w;
          w2 = reconcile_month_quotas now w1;
          (purged, w3) = purge_raw_events cfg now w2
      in ((aggregated, purged), w3))"

section \<open>Lemmas on the rollup\<close>

interpretation daily: replacing daily_key .

lemma sum_list_grouped:
  fixes f :: "'e \<Rightarrow> int"
  assumes "finite K" "key ` set evs \<subseteq> K"
  shows "(\<Sum>k\<in>K. sum_list (map f (filter (\<lambda>e. key e = k) evs))) = sum_list (map f evs)"
  using assms(2)
proof (induction evs)
  case (Cons e evs)
  have "(\<Sum>k\<in>K. sum_list (map f (filter (\<lambda>x. key x = k) (e # evs))))
      = (\<Sum>k\<in>K. (if key e = k then f e else 0) + sum_list (map f (filter (\<lambda>x. key x = k) evs)))"
    by (intro sum.cong) auto
  also have "\<dots> = f e + sum_list (map f evs)"
    using Cons assms(1) by (simp add: sum.distrib)
  finally show ?case by simp
qed simp

lemma daily_key_daily_row [simp]: "daily_key (daily_row day k evs) = (day, k)"
  by (simp add: daily_key_def daily_row_def Let_def)

lemma ud_day_key: "ud_day r = fst (daily_key r)"
  by (simp add: daily_key_def)

definition grouped_rows :: "int \<Rightarrow> ai_usage_event list \<Rightarrow> ai_usage_daily list" where
  "grouped_rows day evs =
     map (\<lambda>k. daily_row day k (day_events day evs)) (remdups (map usage_key_of (day_events day evs)))"

lemma aggregate_day_eq:
  "aggregate_day day w =
     (length (grouped_rows day (usage_events w)),
      usage_daily_update (fold upsert_daily (grouped_rows day (usage_events w))) w)"
  by (simp add: aggregate_day_def grouped_rows_def Let_def)

lemma grouped_rows_keys:
  "map daily_key (grouped_rows day evs) = map (Pair day) (remdups (map usage_key_of (day_events day evs)))"
  by (simp add: grouped_rows_def comp_def)

lemma grouped_rows_distinct: "distinct (map daily_key (grouped_rows day evs))"
  by (simp add: grouped_rows_keys distinct_map inj_on_def)

lemma grouped_rows_day: "r \<in> set (grouped_rows day evs) \<Longrightarrow> ud_day r = day"
  by (auto simp: grouped_rows_def daily_row_def Let_def)

lemma grouped_rows_other_day:
  "ud_day r \<noteq> day \<Longrightarrow> r \<notin> set (grouped_rows day evs) \<and> daily_key r \<notin> daily_key ` set (grouped_rows day evs)"
  by (metis (no_types, lifting) grouped_rows_day imageE ud_day_key)

lemma grouped_rows_total:
  assumes "\<And>k. g (daily_row day k (day_events day evs)) =
      sum_list (map f (filter (\<lambda>e. usage_key_of e = k) (day_events day evs)))"
  shows "sum_list (map g (grouped_rows day evs)) = (sum_list (map f (day_events day evs)) :: int)"
proof -
  let ?K = "remdups (map usage_key_of (day_events day evs))"
  have "sum_list (map g (grouped_rows day evs)) =
      (\<Sum>k\<leftarrow>?K. sum_list (map f (filter (\<lambda>e. usage_key_of e = k) (day_events day evs))))"
    by (simp add: grouped_rows_def comp_def assms)
  also have "\<dots> = (\<Sum>k\<in>set ?K. sum_list (map f (filter (\<lambda>e. usage_key_of e = k) (day_events day evs))))"
    by (intro sum_list_distinct_conv_sum_set) simp
  also have "\<dots> = sum_list (map f (day_events day evs))"
    by (rule sum_list_grouped) auto
  finally show ?thesis .
qed

lemma aggregate_mem:
  assumes "distinct (map daily_key (usage_daily w))"
  shows "r \<in> set (usage_daily (snd (aggregate_day day w))) \<longleftrightarrow>
    r \<in> set (grouped_rows day (usage_events w)) \<or>
    (r \<in> set (usage_daily w) \<and> daily_key r \<notin> daily_key ` set (grouped_rows day (usage_events w)))"
  using daily.mem_fold_upsert [OF grouped_rows_distinct assms]
  by (simp add: aggregate_day_eq upsert_daily_def)

lemma aggregate_distinct:
  "distinct (map daily_key (usage_daily w)) \<Longrightarrow>
   distinct (map daily_key (usage_daily (snd (aggregate_day day w))))"
  by (simp add: aggregate_day_eq upsert_daily_def daily.distinct_fold_upsert)

lemma sum_list_same_rows:
  fixes g :: "'r \<Rightarrow> int"
  assumes "distinct xs" "distinct ys" "set xs = set ys"
  shows "sum_list (map g xs) = sum_list (map g ys)"
  using assms by (simp add: sum_list_distinct_conv_sum_set)

lemma aggregate_total:
  assumes "distinct (map daily_key (usage_daily w))"
    and "\<And>r. r \<in> set (usage_daily w) \<Longrightarrow> ud_day r = day \<Longrightarrow>
           daily_key r \<in> daily_key ` set (grouped_rows day (usage_events w))"
    and "\<And>k. g (daily_row day k (day_events day (usage_events w))) =
      sum_list (map f (filter (\<lambda>e. usage_key_of e = k) (day_events day (usage_events w))))"
  shows "sum_list (map g (filter (\<lambda>r. ud_day r = day) (usage_daily (snd (aggregate_day day w)))))
    = (sum_list (map f (day_events day (usage_events w))) :: int)"
proof -
  have "set (filter (\<lambda>r. ud_day r = day) (usage_daily (snd (aggregate_day day w))))
      = set (grouped_rows day (usage_events w))"
    using assms(2) by (auto simp: aggregate_mem [OF assms(1)] grouped_rows_def daily_row_def Let_def)
  moreover have "distinct (usage_daily (snd (aggregate_day day w)))"
    "distinct (grouped_rows day (usage_events w))"
    using aggregate_distinct [OF assms(1), of day] grouped_rows_distinct distinct_map by blast+
  ultimately have "sum_list (map g (filter (\<lambda>r. ud_day r = day) (usage_daily (snd (aggregate_day day w)))))
      = sum_list (map g (grouped_rows day (usage_events w)))"
    by (intro sum_list_same_rows) auto
  then show ?thesis using grouped_rows_total [of g day "usage_events w" f] assms(3) by simp
qed

lemma rollup_fields [simp]:
  "usage_daily (reconcile_month_quotas now w) = usage_daily w"
  "usage_events (reconcile_month_quotas now w) = usage_events w"
  "usage_events (snd (aggregate_day day w)) = usage_events w"
  "usage_daily (snd (purge_raw_events cfg now w)) = usage_daily w"
  "usage_events (snd (purge_raw_events cfg now w)) =
     delete_where (\<lambda>e. ue_occurred_at e < now - days (ai_usage_raw_retention_days cfg)) (usage_events w)"
  by (simp_all add: reconcile_month_quotas_def aggregate_day_def purge_raw_events_def Let_def)

lemma rollup_daily:
  "usage_daily (snd (run_daily_rollup cfg now w)) =
     usage_daily (snd (aggregate_day (date_of (now - days 1)) w))"
  "usage_events (snd (run_daily_rollup cfg now w)) =
     delete_where (\<lambda>e. ue_occurred_at e < now - days (ai_usage_raw_retention_days cfg)) (usage_events w)"
  by (simp_all add: run_daily_rollup_def split_def Let_def)

lemma day_events_after_purge:
  assumes "2 \<le> ai_usage_raw_retention_days cfg" "date_of now \<le> day + 1"
  shows "day_events day (delete_where (\<lambda>e. ue_occurred_at e < now - days (ai_usage_raw_retention_days cfg)) evs)
    = day_events day evs"
proof -
  have "days 2 \<le> days (ai_usage_raw_retention_days cfg)" using assms(1) by (simp add: days_eq)
  moreover have "now < days (day + 2)"
    using date_of_bounds [of now] assms(2) by (simp add: days_eq)
  ultimately have "now - days (ai_usage_raw_retention_days cfg) < days day" by (simp add: days_eq)
  then show ?thesis
    by (auto simp: day_events_def delete_where_def Let_def intro!: filter_cong)
qed

lemma sum_list_indicator:
  "sum_list (map (\<lambda>e. if p e then 1 else 0) xs) = int (length (filter p xs))"
  by (induction xs) auto

definition no_stale_rows :: "int \<Rightarrow> 'z ai_world_scheme \<Rightarrow> bool" where
  \<comment> \<open>the aggregates of the day, if any, come from an earlier run over events that are still there\<close>
  "no_stale_rows day w \<longleftrightarrow>
     (\<forall>r\<in>set (usage_daily w). ud_day r = day \<longrightarrow>
        (ud_tenant_id r, ud_provider r, ud_model r) \<in> usage_key_of ` set (day_events day (usage_events w)))"

lemma no_stale_rows_keys:
  assumes "no_stale_rows day w" "r \<in> set (usage_daily w)" "ud_day r = day"
  shows "daily_key r \<in> daily_key ` set (grouped_rows day (usage_events w))"
  using assms by (fastforce simp: no_stale_rows_def daily_key_def [of r] grouped_rows_def image_iff)

definition totals :: "int \<Rightarrow> ai_usage_daily list \<Rightarrow> int list" where
  \<comment> \<open>requests, failures, tokens and cost of a day according to the aggregates\<close>
  "totals day rows =
     (let rs = filter (\<lambda>r. ud_day r = day) rows
      in map (\<lambda>g. sum_list (map g rs))
           [ud_request_count, ud_error_count, ud_input_tokens, ud_output_tokens, ud_cached_tokens,
            ud_estimated_cost_microeur])"

definition raw_totals :: "ai_usage_event list \<Rightarrow> int list" where
  "raw_totals evs =
     [int (length evs), int (length (filter (\<lambda>e. ue_status e \<noteq> USAGE_OK) evs)),
      sum_list (map ue_input_tokens evs), sum_list (map ue_output_tokens evs),
      sum_list (map ue_cached_tokens evs), sum_list (map ue_estimated_cost_microeur evs)]"

lemma aggregate_day_totals:
  assumes "distinct (map daily_key (usage_daily w))" "no_stale_rows day w"
  shows "totals day (usage_daily (snd (aggregate_day day w))) = raw_totals (day_events day (usage_events w))"
proof -
  note tot = aggregate_total [OF assms(1) no_stale_rows_keys [OF assms(2)]]
  have req: "sum_list (map ud_request_count (filter (\<lambda>r. ud_day r = day)
      (usage_daily (snd (aggregate_day day w))))) = int (length (day_events day (usage_events w)))"
    by (subst tot [of _ "\<lambda>_. 1"]) (simp_all add: daily_row_def Let_def sum_list_triv)
  have err: "sum_list (map ud_error_count (filter (\<lambda>r. ud_day r = day)
      (usage_daily (snd (aggregate_day day w)))))
      = int (length (filter (\<lambda>e. ue_status e \<noteq> USAGE_OK) (day_events day (usage_events w))))"
    by (subst tot [of _ "\<lambda>e. if ue_status e \<noteq> USAGE_OK then 1 else 0"])
      (simp_all only: sum_list_indicator, simp_all add: daily_row_def Let_def)
  show ?thesis
    by (simp add: totals_def raw_totals_def Let_def req err tot daily_row_def)
qed

lemma aggregate_day_replay:
  assumes "distinct (map daily_key (usage_daily w))"
    and "day_events day (usage_events v) = day_events day (usage_events w)"
    and "usage_daily v = usage_daily (snd (aggregate_day day w))"
  shows "usage_daily (snd (aggregate_day day v)) = usage_daily v"
proof -
  have "grouped_rows day (usage_events v) = grouped_rows day (usage_events w)"
    using assms(2) by (simp add: grouped_rows_def)
  moreover have "set (grouped_rows day (usage_events w)) \<subseteq> set (usage_daily v)"
    unfolding assms(3) by (auto simp: aggregate_mem [OF assms(1)])
  ultimately show ?thesis
    using aggregate_distinct [OF assms(1), of day] assms(3)
    by (simp add: aggregate_day_eq [of day v] upsert_daily_def daily.fold_upsert_present)
qed

section \<open>Histories of the quota counters\<close>

datatype quota_op = UsageOp tenant_context int int | ReconcileOp uuid int

text \<open>
  One step is a call of \<^verbatim>\<open>record_and_alert\<close> (tenant, tokens, quota) or of \<^verbatim>\<open>reconcile\<close>, at its
  instant and with the id its audit row would take. What the counters stand for is a total per
  tenant and month.
\<close>

fun quota_step :: "instant \<times> uuid \<times> quota_op \<Rightarrow> 'z ai_world_scheme \<Rightarrow> 'z ai_world_scheme" where
  "quota_step (now, aid, UsageOp ctx n q) w = snd (record_and_alert ctx n q aid now None w)"
| "quota_step (now, aid, ReconcileOp t n) w = valkey_update (reconcile t n now) w"

type_synonym month_totals = "uuid \<times> string \<Rightarrow> int"

fun totals_step :: "instant \<times> uuid \<times> quota_op \<Rightarrow> month_totals \<Rightarrow> month_totals" where
  "totals_step (now, aid, UsageOp ctx n q) A =
     (let k = (tc_tenant_id ctx, month_str now) in A(k := A k + max n 0))"
| "totals_step (now, aid, ReconcileOp t n) A = A((t, month_str now) := max n 0)"

lemma length_str_uuid [simp]: "length (str_uuid u) = 36"
  by (simp add: str_uuid_def Let_def)

lemma month_key_eq_iff: "month_key t u = month_key t' u' \<longleftrightarrow> t = t' \<and> month_str u = month_str u'"
  by (auto simp: month_key_def dest: str_uuid_inj)

lemma alert_key_eq_iff: "alert_key t u = alert_key t' u' \<longleftrightarrow> t = t' \<and> date_str u = date_str u'"
  by (auto simp: alert_key_def dest: str_uuid_inj)

lemma month_key_not_alert_key [simp]: "month_key t u \<noteq> alert_key t' u'" "alert_key t' u' \<noteq> month_key t u"
proof -
  have "length (month_key t u) \<noteq> length (alert_key t' u')"
    by (simp add: month_key_def alert_key_def date_str_def length_month_str split: prod.split
        del: dec_digits.simps)
  then show "month_key t u \<noteq> alert_key t' u'" "alert_key t' u' \<noteq> month_key t u" by metis+
qed

definition counter_ok :: "string \<Rightarrow> int \<Rightarrow> (kv_value \<times> instant option) option \<Rightarrow> bool" where
  \<comment> \<open>an entry that stands for \<open>tot\<close> throughout the month \<open>M\<close>\<close>
  "counter_ok M tot entry =
     (case entry of None \<Rightarrow> tot = 0
      | Some (v, e) \<Rightarrow> v = VInt tot \<and>
          (\<forall>x. e = Some x \<longrightarrow> (\<forall>u. datetime_range u \<longrightarrow> month_str u = M \<longrightarrow> u \<le> x)))"

lemma counter_alive:
  assumes "counter_ok (month_str now) tot (s (month_key t now))" "datetime_range now"
  shows "kv_alive now (month_key t now) s = s (month_key t now)"
  using assms by (auto simp: counter_ok_def kv_alive_def split: option.splits prod.splits)

lemma month_ttl_covers:
  assumes "datetime_range now" "datetime_range u" "month_str u = month_str now"
  shows "u \<le> now + seconds MONTH_TTL_SECONDS"
  using same_month_close [OF assms(1,2)] assms(3)
  by (simp add: days_eq seconds_def MONTH_TTL_SECONDS_def)

lemma add_usage_spec:
  assumes "counter_ok (month_str now) tot (s (month_key t now))" "datetime_range now"
  shows "\<exists>s'. add_usage t n now s = (Inr (tot + max n 0), s')
    \<and> counter_ok (month_str now) (tot + max n 0) (s' (month_key t now))
    \<and> (\<forall>k. k \<noteq> month_key t now \<longrightarrow> s' k = s k)"
proof -
  let ?k = "month_key t now"
  obtain s1 where s1: "kv_incrby now ?k (max n 0) s = (Inr (tot + max n 0), s1)"
    and ok: "counter_ok (month_str now) (tot + max n 0) (s1 ?k)" and new: "s1 ?k \<noteq> None"
    and other: "\<forall>k. k \<noteq> ?k \<longrightarrow> s1 k = s k"
    using assms counter_alive [of now tot s t, OF assms]
    by (auto simp: kv_incrby_def counter_ok_def split: option.splits prod.splits)
  have "counter_ok (month_str now) (tot + max n 0) (kv_expire now ?k MONTH_TTL_SECONDS s1 ?k)"
    using ok new month_ttl_covers [OF assms(2)] counter_alive [of now _ s1 t, OF ok assms(2)]
    by (auto simp: kv_expire_def counter_ok_def split: option.splits prod.splits)
  then show ?thesis using s1 ok other
    by (auto simp: add_usage_def Let_def)
qed

lemma emit_alert_once_spec:
  fixes w :: "'z ai_world_scheme"
  shows "\<exists>b w'. emit_alert_once ctx n q aid now cv w = (Inr b, w')
    \<and> (\<forall>k. k \<noteq> alert_key (tc_tenant_id ctx) now \<longrightarrow> valkey w' k = valkey w k)
    \<and> usage_events w' = usage_events w \<and> ai_policies w' = ai_policies w \<and> usage_daily w' = usage_daily w
    \<and> ai_world.more w' = ai_world.more w \<and> tenants (core_db w') = tenants (core_db w)
    \<and> (if kv_alive now (alert_key (tc_tenant_id ctx) now) (valkey w) = None
       then b \<and> valkey w' (alert_key (tc_tenant_id ctx) now) = Some (VStr ''1'', Some (now + days 1))
            \<and> (\<exists>ev. audit_events (core_db w') = audit_events (core_db w) @ [ev]
                 \<and> ae_tenant_id ev = tc_tenant_id ctx \<and> ae_occurred_at ev = now
                 \<and> ae_action ev = ''core.ai.quota_exceeded'')
       else \<not> b \<and> w' = w)"
  by (auto simp: emit_alert_once_def kv_set_nx_ex_def tenant_context_block_def push_tenant_def
      record_audit_event_def flush_insert_eq quota_alert_args_def insert_row_def ALERT_TTL_SECONDS_def
      seconds_def days_eq Let_def split: option.splits)

lemma add_usage_other_key:
  "k \<noteq> month_key t now \<Longrightarrow> snd (add_usage t n now s) k = s k"
  by (auto simp: add_usage_def kv_incrby_def Let_def
      split: option.splits prod.splits kv_value.splits)

lemma record_and_alert_spec:
  assumes "counter_ok (month_str now) tot (valkey w (month_key (tc_tenant_id ctx) now))"
    and "datetime_range now"
  shows "\<exists>out w'. record_and_alert ctx n q aid now cv w = (Inr out, w')
    \<and> qo_month_usage out = tot + max n 0 \<and> (qo_over_quota out \<longleftrightarrow> q < tot + max n 0)
    \<and> counter_ok (month_str now) (tot + max n 0) (valkey w' (month_key (tc_tenant_id ctx) now))
    \<and> (\<forall>t u. month_key t u \<noteq> month_key (tc_tenant_id ctx) now \<longrightarrow>
          valkey w' (month_key t u) = valkey w (month_key t u))"
proof -
  obtain s1 where s1: "add_usage (tc_tenant_id ctx) n now (valkey w) = (Inr (tot + max n 0), s1)"
    and ok: "counter_ok (month_str now) (tot + max n 0) (s1 (month_key (tc_tenant_id ctx) now))"
    and oth: "\<forall>k. k \<noteq> month_key (tc_tenant_id ctx) now \<longrightarrow> s1 k = valkey w k"
    using add_usage_spec [of now tot "valkey w" "tc_tenant_id ctx" n] assms by auto
  obtain b w2 where em: "emit_alert_once ctx (tot + max n 0) q aid now cv (w\<lparr>valkey := s1\<rparr>) = (Inr b, w2)"
    and keep: "\<forall>k. k \<noteq> alert_key (tc_tenant_id ctx) now \<longrightarrow> valkey w2 k = s1 k"
    using emit_alert_once_spec [of ctx "tot + max n 0" q aid now cv "w\<lparr>valkey := s1\<rparr>"] by auto
  show ?thesis
    using s1 ok oth em keep by (auto simp: record_and_alert_def Let_def)
qed

lemma record_and_alert_frame:
  fixes w :: "'z ai_world_scheme"
  assumes "record_and_alert ctx n q aid now cv w = (r, w')"
  shows "usage_events w' = usage_events w" "ai_policies w' = ai_policies w"
    "usage_daily w' = usage_daily w" "ai_world.more w' = ai_world.more w"
    "tenants (core_db w') = tenants (core_db w)"
proof -
  obtain r1 s1 where a: "add_usage (tc_tenant_id ctx) n now (valkey w) = (r1, s1)" by fastforce
  have e: "usage_events w2 = usage_events w \<and> ai_policies w2 = ai_policies w \<and> usage_daily w2 = usage_daily w
      \<and> ai_world.more w2 = ai_world.more w \<and> tenants (core_db w2) = tenants (core_db w)"
    if "emit_alert_once ctx m q aid now cv (w\<lparr>valkey := s1\<rparr>) = (r2, w2)" for m r2 w2
    using emit_alert_once_spec [of ctx m q aid now cv "w\<lparr>valkey := s1\<rparr>"] that by auto
  have "usage_events w' = usage_events w \<and> ai_policies w' = ai_policies w \<and> usage_daily w' = usage_daily w
      \<and> ai_world.more w' = ai_world.more w \<and> tenants (core_db w') = tenants (core_db w)"
    using assms a e
    by (auto simp: record_and_alert_def Let_def split: sum.splits if_splits prod.splits)
  then show "usage_events w' = usage_events w" "ai_policies w' = ai_policies w"
    "usage_daily w' = usage_daily w" "ai_world.more w' = ai_world.more w"
    "tenants (core_db w') = tenants (core_db w)" by auto
qed

definition counters_ok :: "month_totals \<Rightarrow> 'z ai_world_scheme \<Rightarrow> bool" where
  "counters_ok A w \<longleftrightarrow>
     (\<forall>t u. datetime_range u \<longrightarrow> counter_ok (month_str u) (A (t, month_str u)) (valkey w (month_key t u)))"

lemma usage_step_counters:
  assumes "counters_ok A w" "datetime_range now"
  shows "counters_ok (totals_step (now, aid, UsageOp ctx n q) A) (quota_step (now, aid, UsageOp ctx n q) w)"
proof -
  obtain out w' where w': "record_and_alert ctx n q aid now None w = (Inr out, w')"
    and ok: "counter_ok (month_str now) (A (tc_tenant_id ctx, month_str now) + max n 0)
        (valkey w' (month_key (tc_tenant_id ctx) now))"
    and oth: "\<forall>t u. month_key t u \<noteq> month_key (tc_tenant_id ctx) now \<longrightarrow>
        valkey w' (month_key t u) = valkey w (month_key t u)"
    using record_and_alert_spec [of now "A (tc_tenant_id ctx, month_str now)" w ctx n q aid None]
      assms by (auto simp: counters_ok_def)
  have "counter_ok (month_str u)
      (totals_step (now, aid, UsageOp ctx n q) A (t, month_str u)) (valkey w' (month_key t u))"
    if "datetime_range u" for t u
  proof (cases "month_key t u = month_key (tc_tenant_id ctx) now")
    case True
    then have "t = tc_tenant_id ctx" "month_str u = month_str now" by (simp_all add: month_key_eq_iff)
    then show ?thesis unfolding True using ok by (simp add: Let_def)
  next
    case False
    then have "(t, month_str u) \<noteq> (tc_tenant_id ctx, month_str now)"
      by (simp add: month_key_eq_iff)
    then show ?thesis using False oth assms(1) that by (auto simp: counters_ok_def Let_def)
  qed
  then show ?thesis using w' by (simp add: counters_ok_def)
qed

lemma quota_step_counters:
  assumes "counters_ok A w" "datetime_range (fst op)"
  shows "counters_ok (totals_step op A) (quota_step op w)"
proof -
  obtain now aid a where op: "op = (now, aid, a)" by (cases op)
  show ?thesis
  proof (cases a)
    case (UsageOp ctx n q)
    then show ?thesis using usage_step_counters assms op by simp
  next
    case (ReconcileOp t n)
    then show ?thesis using assms op month_ttl_covers
      by (auto simp: counters_ok_def counter_ok_def reconcile_def kv_set_def month_key_eq_iff)
  qed
qed

interpretation quota: simulation quota_step totals_step "\<lambda>op. datetime_range (fst op)" counters_ok
  by unfold_locales (rule quota_step_counters)

section \<open>Properties\<close>

text \<open>
  The daily rollup keeps the accounts: after it, the aggregates of the previous
  day add up to exactly the requests, failures, tokens and estimated costs of the day's raw events,
  the aggregates of every other day are untouched, the raw events left are exactly those within the
  retention period, and with a retention of at least two days running the rollup again on the same
  day changes no aggregate.
\<close>

theorem rollup_accounts:
  assumes "distinct (map daily_key (usage_daily w))"
    and "day = date_of (now - days 1)"
    and "no_stale_rows day w"
    and "2 \<le> ai_usage_raw_retention_days cfg"
    and "date_of later = date_of now"
    and "w' = snd (run_daily_rollup cfg now w)"
  shows "totals day (usage_daily w') = raw_totals (day_events day (usage_events w))
    \<and> (\<forall>r. ud_day r \<noteq> day \<longrightarrow> (r \<in> set (usage_daily w') \<longleftrightarrow> r \<in> set (usage_daily w)))
    \<and> usage_events w' = filter (\<lambda>e. now - days (ai_usage_raw_retention_days cfg) \<le> ue_occurred_at e)
                          (usage_events w)
    \<and> usage_daily (snd (run_daily_rollup cfg later w')) = usage_daily w'"
proof -
  have daily: "usage_daily w' = usage_daily (snd (aggregate_day day w))"
    using rollup_daily assms(2,6) by simp
  have dl: "date_of (later - days 1) = day" "date_of now = day + 1"
    using assms(2,5) by simp_all
  have "totals day (usage_daily w') = raw_totals (day_events day (usage_events w))"
    unfolding daily by (rule aggregate_day_totals [OF assms(1,3)])
  moreover have "r \<in> set (usage_daily w') \<longleftrightarrow> r \<in> set (usage_daily w)" if "ud_day r \<noteq> day" for r
    using grouped_rows_other_day [OF that] by (simp add: daily aggregate_mem [OF assms(1)])
  moreover have "usage_events w' =
      filter (\<lambda>e. now - days (ai_usage_raw_retention_days cfg) \<le> ue_occurred_at e) (usage_events w)"
    by (simp add: assms(6) rollup_daily delete_where_def not_less)
  moreover have "usage_daily (snd (aggregate_day day w')) = usage_daily w'"
    using day_events_after_purge [OF assms(4), of now day] dl(2)
    by (intro aggregate_day_replay [OF assms(1) _ daily]) (simp add: assms(6) rollup_daily)
  ultimately show ?thesis using dl(1) by (simp add: rollup_daily)
qed

definition sample_usage :: "instant \<Rightarrow> uuid \<Rightarrow> usage_status \<Rightarrow> int \<Rightarrow> ai_usage_event" where
  "sample_usage at t st n =
     \<lparr>ue_id = 1, ue_occurred_at = at, ue_tenant_id = t, ue_user_id = None, ue_module = ''core'',
      ue_provider = ''mistral'', ue_model = ''m'', ue_input_tokens = n, ue_output_tokens = 1,
      ue_cached_tokens = 0, ue_latency_ms = 5, ue_estimated_cost_microeur = 2 * n,
      ue_price_version = PRICE_VERSION, ue_status = st, ue_error_kind = None\<rparr>"

definition sample_ai_world :: ai_world where
  "sample_ai_world =
     \<lparr>core_db = empty_db, ai_policies = [],
      usage_events = [sample_usage 5 7 USAGE_OK 10, sample_usage 6 7 USAGE_ERROR 4,
        sample_usage 7 8 USAGE_OK 1, sample_usage (days 1) 7 USAGE_OK 100],
      usage_daily = [], valkey = Map.empty\<rparr>"

theorem rollup_accounts_witness:
  "totals 0 (usage_daily (snd (run_daily_rollup default_settings (days 1 + 3) sample_ai_world)))
     = [3, 1, 15, 3, 0, 30]"
proof -
  have d: "date_of (days 1 + 3 - days 1) = 0" by (simp add: date_of_def days_eq)
  have evs: "day_events 0 (usage_events sample_ai_world) =
      [sample_usage 5 7 USAGE_OK 10, sample_usage 6 7 USAGE_ERROR 4, sample_usage 7 8 USAGE_OK 1]"
    by (simp add: day_events_def sample_ai_world_def sample_usage_def days_eq Let_def)
  have "no_stale_rows 0 sample_ai_world" by (simp add: no_stale_rows_def sample_ai_world_def)
  then show ?thesis
    using rollup_accounts [of sample_ai_world 0 "days 1 + 3" default_settings "days 1 + 3"] d
    by (simp add: evs raw_totals_def default_settings_def) (simp add: sample_ai_world_def sample_usage_def)
qed

text \<open>
  C28 (refinement). The Valkey counters implement a table of totals per tenant and calendar month:
  along any history of metered calls and reconciliations, reading a tenant's counter at any instant
  of a month gives the total of that month (the expiry of the keys never cuts a month short, and
  alerts and other tenants never disturb it), and a further call reports the total it reaches and
  whether that is above the quota.
\<close>

theorem month_totals_refined:
  assumes "\<And>t u. valkey w (month_key t u) = None"
    and "list_all (\<lambda>op. datetime_range (fst op)) ops" "datetime_range u"
    and "A = fold totals_step ops (\<lambda>_. 0)" "w' = fold quota_step ops w"
  shows "current_usage t u (valkey w') = Inr (A (t, month_str u))
    \<and> (\<exists>out. fst (record_and_alert ctx n q aid u cv w') = Inr out
         \<and> qo_month_usage out = A (tc_tenant_id ctx, month_str u) + max n 0
         \<and> (qo_over_quota out \<longleftrightarrow> q < A (tc_tenant_id ctx, month_str u) + max n 0))"
proof -
  have "counters_ok (\<lambda>_. 0) w" using assms(1) by (simp add: counters_ok_def counter_ok_def)
  then have "counters_ok A w'" using quota.run_related assms(2,4,5) by blast
  then have ok: "counter_ok (month_str u) (A (t, month_str u)) (valkey w' (month_key t u))" for t
    using assms(3) by (simp add: counters_ok_def)
  have "current_usage t u (valkey w') = Inr (A (t, month_str u))"
    using ok [of t] counter_alive [of u _ "valkey w'" t, OF ok assms(3)]
    by (auto simp: current_usage_def kv_get_def counter_ok_def split: option.splits)
  moreover obtain out w'' where "record_and_alert ctx n q aid u cv w' = (Inr out, w'')"
    "qo_month_usage out = A (tc_tenant_id ctx, month_str u) + max n 0"
    "qo_over_quota out \<longleftrightarrow> q < A (tc_tenant_id ctx, month_str u) + max n 0"
    using record_and_alert_spec [of u _ w' ctx n q aid cv, OF ok assms(3)] by auto
  ultimately show ?thesis by auto
qed

definition sample_quota_ctx :: tenant_context where
  "sample_quota_ctx = \<lparr>tc_tenant_id = 7, tc_slug = ''acme'', tc_role = None\<rparr>"

lemma datetime_range_epoch: "0 \<le> t \<Longrightarrow> t < days 100 \<Longrightarrow> datetime_range t"
proof -
  assume t: "0 \<le> t" "t < days 100"
  have d: "0 \<le> t div days 1" "t div days 1 < 100"
    using t by (simp_all add: days_eq pos_imp_zdiv_nonneg_iff)
  obtain y doy where fy: "find_year 1 (nat (t div days 1 + epoch_ordinal)) = (y, doy)" by fastforce
  then have inv: "days_before_year 1 + nat (t div days 1 + epoch_ordinal) = days_before_year y + doy"
    using find_year_inv by blast
  have "y \<le> 9999"
  proof (rule ccontr)
    assume "\<not> y \<le> 9999"
    then have "365 * 9999 \<le> days_before_year y"
    proof -
      have "sum_list (map (\<lambda>_. 365) [1..<y]) \<le> sum_list (map year_length [1..<y])"
        by (rule sum_list_mono) (simp add: year_length_def)
      then show ?thesis using \<open>\<not> y \<le> 9999\<close> by (simp add: days_before_year_def sum_list_triv)
    qed
    then show False using inv d by (simp add: days_before_year_def epoch_ordinal_def)
  qed
  then show ?thesis using fy d by (simp add: datetime_range_def epoch_ordinal_def)
qed

theorem month_totals_refined_witness:
  "current_usage 7 30 (valkey (fold quota_step
      [(10, 1, UsageOp sample_quota_ctx 40 50), (20, 2, UsageOp sample_quota_ctx 25 50)] sample_ai_world))
     = Inr 65"
proof -
  have r: "datetime_range t" if "t \<in> {10, 20, 30}" for t
    using that by (intro datetime_range_epoch) (auto simp: days_eq)
  have m: "month_str 20 = month_str 10" "month_str 30 = month_str 10"
    by (simp_all add: month_str_def ymd_def days_eq)
  show ?thesis
    using month_totals_refined [of sample_ai_world
        "[(10, 1, UsageOp sample_quota_ctx 40 50), (20, 2, UsageOp sample_quota_ctx 25 50)]" 30 _ _ 7] r m
    by (simp add: sample_ai_world_def sample_quota_ctx_def Let_def)
qed

definition day_alerts :: "uuid \<Rightarrow> int \<Rightarrow> db \<Rightarrow> audit_event list" where
  "day_alerts t day d =
     filter (\<lambda>e. ae_tenant_id e = t \<and> ae_action e = ''core.ai.quota_exceeded''
                 \<and> date_of (ae_occurred_at e) = day) (audit_events d)"

definition alerted_on :: "uuid \<Rightarrow> int \<Rightarrow> 'z ai_world_scheme \<Rightarrow> bool" where
  \<comment> \<open>the alert key of the day is set and stays alive throughout the day\<close>
  "alerted_on t day w \<longleftrightarrow>
     (\<forall>u. datetime_range u \<longrightarrow> date_of u = day \<longrightarrow> kv_alive u (alert_key t u) (valkey w) \<noteq> None)"

lemma date_str_cong: "date_of u = date_of v \<Longrightarrow> date_str u = date_str v"
  unfolding date_of_def date_str_def month_str_def ymd_def by (simp only:)

lemma alert_key_cong: "date_of u = date_of v \<Longrightarrow> alert_key t u = alert_key t v"
  using date_str_cong [of u v] by (simp only: alert_key_eq_iff)

lemma day_alerts_insert:
  "audit_events d' = audit_events d @ [ev] \<Longrightarrow>
   length (day_alerts t day d') = length (day_alerts t day d)
     + (if ae_tenant_id ev = t \<and> ae_action ev = ''core.ai.quota_exceeded''
           \<and> date_of (ae_occurred_at ev) = day then 1 else 0)"
  by (simp add: day_alerts_def)

lemma emit_alert_once_day:
  assumes "emit_alert_once ctx n q aid now cv w = (r, w')" "datetime_range now"
  shows "length (day_alerts t day (core_db w')) \<le> length (day_alerts t day (core_db w))
      + (if alerted_on t day w then 0 else 1)"
    and "alerted_on t day w \<Longrightarrow> alerted_on t day w'"
    and "length (day_alerts t day (core_db w')) \<noteq> length (day_alerts t day (core_db w)) \<Longrightarrow> alerted_on t day w'"
proof -
  let ?k = "alert_key (tc_tenant_id ctx) now"
  obtain b where r: "r = Inr b" and oth: "\<forall>k. k \<noteq> ?k \<longrightarrow> valkey w' k = valkey w k"
    and cs: "if kv_alive now ?k (valkey w) = None
       then b \<and> valkey w' ?k = Some (VStr ''1'', Some (now + days 1))
            \<and> (\<exists>ev. audit_events (core_db w') = audit_events (core_db w) @ [ev]
                 \<and> ae_tenant_id ev = tc_tenant_id ctx \<and> ae_occurred_at ev = now
                 \<and> ae_action ev = ''core.ai.quota_exceeded'')
       else \<not> b \<and> w' = w"
    using emit_alert_once_spec [of ctx n q aid now cv w] assms(1) by auto
  have set': "alerted_on (tc_tenant_id ctx) (date_of now) w'" if "kv_alive now ?k (valkey w) = None"
  proof -
    have "kv_alive u ?k (valkey w') \<noteq> None" if "date_of u = date_of now" for u
      using cs \<open>kv_alive now ?k (valkey w) = None\<close> same_date_close [of now u] that
      by (simp add: kv_alive_def)
    then show ?thesis using alert_key_cong unfolding alerted_on_def by metis
  qed
  have keep: "alerted_on t day w'" if al: "alerted_on t day w"
  proof (cases "kv_alive now ?k (valkey w) = None")
    case True
    show ?thesis unfolding alerted_on_def
    proof (intro allI impI)
      fix u assume u: "datetime_range u" "date_of u = day"
      show "kv_alive u (alert_key t u) (valkey w') \<noteq> None"
      proof (cases "alert_key t u = ?k")
        case same: True
        then have "t = tc_tenant_id ctx" "date_of u = date_of now"
          using date_str_eq_D [OF u(1) assms(2)] by (simp_all add: alert_key_eq_iff)
        then show ?thesis using set' [OF True] u by (simp add: alerted_on_def)
      next
        case False
        then show ?thesis
          using oth al u kv_alive_cong [of "valkey w'" "alert_key t u" "valkey w"]
          by (simp add: alerted_on_def)
      qed
    qed
  qed (use cs al in auto)
  have no: "kv_alive now ?k (valkey w) \<noteq> None" if "alerted_on t day w" "t = tc_tenant_id ctx" "date_of now = day"
    using that assms(2) by (simp add: alerted_on_def)
  show "alerted_on t day w \<Longrightarrow> alerted_on t day w'" by (rule keep)
  show "length (day_alerts t day (core_db w')) \<le> length (day_alerts t day (core_db w))
      + (if alerted_on t day w then 0 else 1)"
    using cs no by (auto simp: day_alerts_insert split: if_splits)
  show "alerted_on t day w'"
    if "length (day_alerts t day (core_db w')) \<noteq> length (day_alerts t day (core_db w))"
    using cs that set' by (auto simp: day_alerts_insert split: if_splits)
qed

text \<open>What one step does to the alerts of a day: nothing once the day has been alerted.\<close>

lemma alerted_on_other_keys:
  "(\<And>u. valkey w' (alert_key t u) = valkey w (alert_key t u)) \<Longrightarrow> alerted_on t day w' = alerted_on t day w"
  by (simp add: alerted_on_def kv_alive_def)

lemma record_and_alert_cases:
  obtains "core_db (snd (record_and_alert ctx n q aid now cv w)) = core_db w"
      "\<And>t u. valkey (snd (record_and_alert ctx n q aid now cv w)) (alert_key t u) = valkey w (alert_key t u)"
  | w1 m where "core_db w1 = core_db w" "\<And>t u. valkey w1 (alert_key t u) = valkey w (alert_key t u)"
      "snd (record_and_alert ctx n q aid now cv w) = snd (emit_alert_once ctx m q aid now cv w1)"
proof -
  obtain r s1 where a: "add_usage (tc_tenant_id ctx) n now (valkey w) = (r, s1)" by fastforce
  then have keys: "\<And>t u. s1 (alert_key t u) = valkey w (alert_key t u)"
    using add_usage_other_key [of _ "tc_tenant_id ctx" now n "valkey w"] by simp
  show thesis
  proof (cases "\<exists>m. r = Inr m \<and> q < m")
    case True
    then obtain m where "r = Inr m" "q < m" by blast
    then have "snd (record_and_alert ctx n q aid now cv w) = snd (emit_alert_once ctx m q aid now cv (w\<lparr>valkey := s1\<rparr>))"
      using a by (simp add: record_and_alert_def Let_def split: prod.split sum.split)
    then show thesis using keys by (intro that(2) [of "w\<lparr>valkey := s1\<rparr>" m]) simp_all
  next
    case False
    then have "snd (record_and_alert ctx n q aid now cv w) = w\<lparr>valkey := s1\<rparr>"
      using a by (auto simp: record_and_alert_def Let_def split: sum.split)
    then show thesis using that(1) keys by simp
  qed
qed

definition alerts_bounded :: "uuid \<Rightarrow> int \<Rightarrow> nat \<Rightarrow> 'z ai_world_scheme \<Rightarrow> bool" where
  "alerts_bounded t day n w \<longleftrightarrow>
     length (day_alerts t day (core_db w)) \<le> n \<or>
     (length (day_alerts t day (core_db w)) \<le> Suc n \<and> alerted_on t day w)"

lemma alerts_bounded_cong:
  assumes "core_db w' = core_db w" "\<And>u. valkey w' (alert_key t u) = valkey w (alert_key t u)"
  shows "alerts_bounded t day k w' = alerts_bounded t day k w"
  using alerted_on_other_keys [of w' t w day, OF assms(2)] assms(1) by (simp add: alerts_bounded_def)

lemma emit_alerts_bounded:
  assumes "alerts_bounded t day k w" "datetime_range now"
  shows "alerts_bounded t day k (snd (emit_alert_once ctx n q aid now cv w))"
proof -
  obtain r w' where e: "emit_alert_once ctx n q aid now cv w = (r, w')" by fastforce
  show ?thesis
    using emit_alert_once_day [OF e assms(2), of t day] assms(1) e
    by (cases "length (day_alerts t day (core_db w')) = length (day_alerts t day (core_db w))")
      (auto simp: alerts_bounded_def split: if_splits)
qed

lemma quota_step_bounded:
  assumes "alerts_bounded t day k w" "datetime_range (fst op)"
  shows "alerts_bounded t day k (quota_step op w)"
proof -
  obtain now aid a where op: "op = (now, aid, a)" by (cases op)
  show ?thesis
  proof (cases a)
    case (UsageOp ctx n q)
    show ?thesis
    proof (cases rule: record_and_alert_cases [of ctx n q aid now None w])
      case 1
      then show ?thesis using alerts_bounded_cong [OF 1] assms(1) op UsageOp by simp
    next
      case (2 w1 m)
      have "alerts_bounded t day k w1" using alerts_bounded_cong [OF 2(1,2)] assms(1) by simp
      then show ?thesis using emit_alerts_bounded assms(2) op UsageOp 2(3) by simp
    qed
  next
    case (ReconcileOp t' n)
    then have "core_db (quota_step op w) = core_db w"
      "\<And>u. valkey (quota_step op w) (alert_key t u) = valkey w (alert_key t u)"
      using op by (simp_all add: reconcile_def)
    from alerts_bounded_cong [OF this] show ?thesis using assms(1) by simp
  qed
qed

interpretation alerts: absorbing quota_step "\<lambda>op. datetime_range (fst op)" "alerts_bounded t day k"
  for t day k
  by unfold_locales (rule quota_step_bounded)

text \<open>
  However often a tenant exceeds its quota on one day, and however its calls
  interleave with those of other tenants and with reconciliations, at most one quota alert of that
  tenant is written to the audit log for that day.
\<close>

theorem quota_alert_once_per_day:
  assumes "list_all (\<lambda>op. datetime_range (fst op)) ops"
  shows "length (day_alerts t day (core_db (fold quota_step ops w)))
    \<le> length (day_alerts t day (core_db w)) + 1"
proof -
  have "alerts_bounded t day (length (day_alerts t day (core_db w))) w"
    by (simp add: alerts_bounded_def)
  from alerts.run_dead [OF this assms] show ?thesis by (auto simp: alerts_bounded_def)
qed

theorem quota_alert_once_per_day_witness:
  "length (day_alerts 7 0 (core_db (fold quota_step
      [(10, 1, UsageOp sample_quota_ctx 60 50), (20, 2, UsageOp sample_quota_ctx 25 50)] sample_ai_world))) \<le> 1"
proof -
  have "list_all (\<lambda>op. datetime_range (fst op))
      [(10, 1, UsageOp sample_quota_ctx 60 50), (20, 2 :: uuid, UsageOp sample_quota_ctx 25 50)]"
    using datetime_range_epoch [of 10] datetime_range_epoch [of 20] by (simp add: days_eq)
  from quota_alert_once_per_day [OF this, of 7 0 sample_ai_world]
  show ?thesis by (simp add: sample_ai_world_def day_alerts_def empty_db_def)
qed

end
