(* ===== verification/Metadata.thy ===== *)
theory Metadata
  imports Catalogue AuthRouter ConnectorRegistry AiUsage
begin

text \<open>
  The mapped classes (\<^verbatim>\<open>models.py\<close> and \<^verbatim>\<open>tenant_models.py\<close> of every package, the mixin of
  \<^verbatim>\<open>tenancy/tenant_base.py\<close>) and the tables they declare in \<^verbatim>\<open>Base.metadata\<close>. Of a class, what bears on
  the schema is kept: the columns with their annotation and arguments, and \<^verbatim>\<open>__table_args__\<close>. From it
  a table is derived by the declarative rules the classes rely on: a column is nullable when its
  annotation is optional and it is no key, a column without a type takes it from the annotation, the
  index of a column is named after the table and the column.
\<close>

section \<open>Tables\<close>

datatype sa_type =
  Uuid | String nat | StringAny | Text | Boolean | Integer | BigInteger | Date | DateTime bool | JSON | LargeBinary
| Enum "string list" string nat

datatype sql_default = LiteralDefault string | SqlDefault string

datatype index_term = ColumnTerm string | SqlTerm string

record column =
  col_name :: string
  col_type :: sa_type
  col_default :: "sql_default option"
  col_nullable :: bool

record foreign_key =
  fk_columns :: "string list"
  fk_table :: string
  fk_referred :: "string list"
  fk_ondelete :: string

record table_index =
  ix_name :: string
  ix_terms :: "index_term list"
  ix_unique :: bool

record table =
  tb_name :: string
  tb_columns :: "column list"
  tb_primary_key :: "string list"
  tb_uniques :: "(string option \<times> string list) list"
  tb_foreign_keys :: "foreign_key list"
  tb_indexes :: "table_index list"

section \<open>Mapped classes\<close>

datatype py_type = PyUuid | PyStr | PyInt | PyBool | PyBytes | PyDatetime | PyDate | PyOther

record mapped_column =
  mc_name :: string
  mc_annotation :: py_type
  mc_optional :: bool
  mc_type :: "sa_type option"
  mc_foreign_key :: "(string \<times> string \<times> string) option"
  mc_primary_key :: bool
  mc_unique :: bool
  mc_index :: bool
  mc_server_default :: "sql_default option"

datatype table_arg = UniqueArg string "string list" | IndexArg string "index_term list" bool

record orm_class =
  oc_tablename :: string
  oc_scoped :: bool
  oc_table_args :: "table_arg list"
  oc_columns :: "mapped_column list"

definition mapped :: "string \<Rightarrow> py_type \<Rightarrow> bool \<Rightarrow> mapped_column" where
  \<comment> \<open>\<^verbatim>\<open>name: Mapped[t] = mapped_column()\<close>, \<open>opt\<close> for \<^verbatim>\<open>t | None\<close>\<close>
  "mapped name t opt =
     \<lparr>mc_name = name, mc_annotation = t, mc_optional = opt, mc_type = None, mc_foreign_key = None,
      mc_primary_key = False, mc_unique = False, mc_index = False, mc_server_default = None\<rparr>"

definition usage_status_str :: "usage_status \<Rightarrow> string" where
  "usage_status_str s = (case s of USAGE_OK \<Rightarrow> ''ok'' | USAGE_ERROR \<Rightarrow> ''error'' | USAGE_TIMEOUT \<Rightarrow> ''timeout'')"

definition tenant_scoped_column :: mapped_column where
  \<comment> \<open>the column of the mixin \<^verbatim>\<open>TenantScoped\<close>\<close>
  "tenant_scoped_column =
     (mapped ''tenant_id'' PyUuid False)\<lparr>mc_foreign_key := Some (''tenants'', ''id'', ''CASCADE''), mc_index := True\<rparr>"

definition Tenant_class :: orm_class where
  "Tenant_class =
     \<lparr>oc_tablename = ''tenants'', oc_scoped = False,
      oc_table_args =
        [],
      oc_columns =
        [(mapped ''id'' PyUuid False)\<lparr>mc_primary_key := True\<rparr>,
         (mapped ''slug'' PyStr False)\<lparr>mc_type := Some (String 40), mc_unique := True\<rparr>,
         (mapped ''name'' PyStr False)\<lparr>mc_type := Some (String 255)\<rparr>,
         (mapped ''state'' PyOther False)\<lparr>mc_type := Some (Enum (map tenant_state_str [T_ACTIVE, T_SUSPENDED]) ''tenant_state'' 20)\<rparr>,
         (mapped ''plan'' PyStr False)\<lparr>mc_type := Some (String 50), mc_server_default := Some (LiteralDefault ''standard'')\<rparr>,
         (mapped ''deleted_at'' PyDatetime True)\<lparr>mc_type := Some (DateTime True)\<rparr>,
         (mapped ''created_at'' PyDatetime False)\<lparr>mc_type := Some (DateTime True), mc_server_default := Some (SqlDefault ''now()'')\<rparr>,
         (mapped ''updated_at'' PyDatetime False)\<lparr>mc_type := Some (DateTime True), mc_server_default := Some (SqlDefault ''now()'')\<rparr>]\<rparr>"

definition User_class :: orm_class where
  "User_class =
     \<lparr>oc_tablename = ''users'', oc_scoped = False,
      oc_table_args =
        [IndexArg ''ux_users_email_lower'' [SqlTerm ''lower(email)''] True],
      oc_columns =
        [(mapped ''id'' PyUuid False)\<lparr>mc_primary_key := True\<rparr>,
         (mapped ''email'' PyStr False)\<lparr>mc_type := Some (String 320)\<rparr>,
         (mapped ''display_name'' PyStr True)\<lparr>mc_type := Some (String 255)\<rparr>,
         (mapped ''created_at'' PyDatetime False)\<lparr>mc_type := Some (DateTime True), mc_server_default := Some (SqlDefault ''now()'')\<rparr>,
         (mapped ''updated_at'' PyDatetime False)\<lparr>mc_type := Some (DateTime True), mc_server_default := Some (SqlDefault ''now()'')\<rparr>]\<rparr>"

definition Membership_class :: orm_class where
  "Membership_class =
     \<lparr>oc_tablename = ''memberships'', oc_scoped = False,
      oc_table_args =
        [UniqueArg ''ux_memberships_user_tenant'' [''user_id'', ''tenant_id'']],
      oc_columns =
        [(mapped ''id'' PyUuid False)\<lparr>mc_primary_key := True\<rparr>,
         (mapped ''user_id'' PyUuid False)\<lparr>mc_foreign_key := Some (''users'', ''id'', ''CASCADE'')\<rparr>,
         (mapped ''tenant_id'' PyUuid False)\<lparr>mc_foreign_key := Some (''tenants'', ''id'', ''CASCADE'')\<rparr>,
         (mapped ''role'' PyStr False)\<lparr>mc_type := Some (String 50)\<rparr>,
         (mapped ''created_at'' PyDatetime False)\<lparr>mc_type := Some (DateTime True), mc_server_default := Some (SqlDefault ''now()'')\<rparr>]\<rparr>"

definition UserCredentials_class :: orm_class where
  "UserCredentials_class =
     \<lparr>oc_tablename = ''user_credentials'', oc_scoped = False,
      oc_table_args =
        [],
      oc_columns =
        [(mapped ''user_id'' PyUuid False)\<lparr>mc_foreign_key := Some (''users'', ''id'', ''CASCADE''), mc_primary_key := True\<rparr>,
         (mapped ''password_hash'' PyStr True)\<lparr>mc_type := Some Text\<rparr>,
         (mapped ''totp_secret_encrypted'' PyBytes True)\<lparr>mc_type := Some LargeBinary\<rparr>,
         (mapped ''totp_enabled'' PyBool False)\<lparr>mc_type := Some Boolean, mc_server_default := Some (LiteralDefault ''false'')\<rparr>,
         (mapped ''totp_last_counter'' PyInt True)\<lparr>mc_type := Some BigInteger\<rparr>,
         (mapped ''created_at'' PyDatetime False)\<lparr>mc_type := Some (DateTime True), mc_server_default := Some (SqlDefault ''now()'')\<rparr>,
         (mapped ''updated_at'' PyDatetime False)\<lparr>mc_type := Some (DateTime True), mc_server_default := Some (SqlDefault ''now()'')\<rparr>]\<rparr>"

definition RecoveryCode_class :: orm_class where
  "RecoveryCode_class =
     \<lparr>oc_tablename = ''auth_recovery_codes'', oc_scoped = False,
      oc_table_args =
        [],
      oc_columns =
        [(mapped ''id'' PyUuid False)\<lparr>mc_primary_key := True\<rparr>,
         (mapped ''user_id'' PyUuid False)\<lparr>mc_foreign_key := Some (''users'', ''id'', ''CASCADE'')\<rparr>,
         (mapped ''code_hash'' PyStr False)\<lparr>mc_type := Some (String 64), mc_unique := True\<rparr>,
         (mapped ''used_at'' PyDatetime True)\<lparr>mc_type := Some (DateTime True)\<rparr>,
         (mapped ''created_at'' PyDatetime False)\<lparr>mc_type := Some (DateTime True), mc_server_default := Some (SqlDefault ''now()'')\<rparr>]\<rparr>"

definition AuthSession_class :: orm_class where
  "AuthSession_class =
     \<lparr>oc_tablename = ''sessions'', oc_scoped = False,
      oc_table_args =
        [],
      oc_columns =
        [(mapped ''id'' PyUuid False)\<lparr>mc_primary_key := True\<rparr>,
         (mapped ''user_id'' PyUuid False)\<lparr>mc_foreign_key := Some (''users'', ''id'', ''CASCADE'')\<rparr>,
         (mapped ''token_hash'' PyStr False)\<lparr>mc_type := Some (String 64), mc_unique := True\<rparr>,
         (mapped ''created_at'' PyDatetime False)\<lparr>mc_type := Some (DateTime True), mc_server_default := Some (SqlDefault ''now()'')\<rparr>,
         (mapped ''expires_at'' PyDatetime False)\<lparr>mc_type := Some (DateTime True)\<rparr>,
         (mapped ''last_seen_at'' PyDatetime False)\<lparr>mc_type := Some (DateTime True), mc_server_default := Some (SqlDefault ''now()'')\<rparr>,
         (mapped ''revoked_at'' PyDatetime True)\<lparr>mc_type := Some (DateTime True)\<rparr>]\<rparr>"

definition LoginChallenge_class :: orm_class where
  "LoginChallenge_class =
     \<lparr>oc_tablename = ''login_challenges'', oc_scoped = False,
      oc_table_args =
        [],
      oc_columns =
        [(mapped ''id'' PyUuid False)\<lparr>mc_primary_key := True\<rparr>,
         (mapped ''user_id'' PyUuid False)\<lparr>mc_foreign_key := Some (''users'', ''id'', ''CASCADE'')\<rparr>,
         (mapped ''token_hash'' PyStr False)\<lparr>mc_type := Some (String 64), mc_unique := True\<rparr>,
         (mapped ''expires_at'' PyDatetime False)\<lparr>mc_type := Some (DateTime True)\<rparr>,
         (mapped ''consumed_at'' PyDatetime True)\<lparr>mc_type := Some (DateTime True)\<rparr>,
         (mapped ''created_at'' PyDatetime False)\<lparr>mc_type := Some (DateTime True), mc_server_default := Some (SqlDefault ''now()'')\<rparr>]\<rparr>"

definition OAuthIdentity_class :: orm_class where
  "OAuthIdentity_class =
     \<lparr>oc_tablename = ''oauth_identities'', oc_scoped = False,
      oc_table_args =
        [UniqueArg ''ux_oauth_identities_provider_subject'' [''provider'', ''subject''],
         UniqueArg ''ux_oauth_identities_provider_user'' [''provider'', ''user_id'']],
      oc_columns =
        [(mapped ''id'' PyUuid False)\<lparr>mc_primary_key := True\<rparr>,
         (mapped ''provider'' PyOther False)\<lparr>mc_type := Some (Enum (map provider_value [O_GOOGLE, O_MICROSOFT]) ''oauth_provider'' 20)\<rparr>,
         (mapped ''subject'' PyStr False)\<lparr>mc_type := Some (String 255)\<rparr>,
         (mapped ''user_id'' PyUuid False)\<lparr>mc_foreign_key := Some (''users'', ''id'', ''CASCADE'')\<rparr>,
         (mapped ''created_at'' PyDatetime False)\<lparr>mc_type := Some (DateTime True), mc_server_default := Some (SqlDefault ''now()'')\<rparr>]\<rparr>"

definition Invitation_class :: orm_class where
  "Invitation_class =
     \<lparr>oc_tablename = ''invitations'', oc_scoped = False,
      oc_table_args =
        [],
      oc_columns =
        [(mapped ''id'' PyUuid False)\<lparr>mc_primary_key := True\<rparr>,
         (mapped ''email'' PyStr False)\<lparr>mc_type := Some (String 320)\<rparr>,
         (mapped ''tenant_id'' PyUuid False)\<lparr>mc_foreign_key := Some (''tenants'', ''id'', ''CASCADE'')\<rparr>,
         (mapped ''role'' PyStr False)\<lparr>mc_type := Some (String 50)\<rparr>,
         (mapped ''token_hash'' PyStr False)\<lparr>mc_type := Some (String 64), mc_unique := True\<rparr>,
         (mapped ''expires_at'' PyDatetime False)\<lparr>mc_type := Some (DateTime True)\<rparr>,
         (mapped ''accepted_at'' PyDatetime True)\<lparr>mc_type := Some (DateTime True)\<rparr>,
         (mapped ''invited_by_user_id'' PyUuid True)\<lparr>mc_foreign_key := Some (''users'', ''id'', ''SET NULL'')\<rparr>,
         (mapped ''created_at'' PyDatetime False)\<lparr>mc_type := Some (DateTime True), mc_server_default := Some (SqlDefault ''now()'')\<rparr>]\<rparr>"

definition TenantModule_class :: orm_class where
  "TenantModule_class =
     \<lparr>oc_tablename = ''tenant_modules'', oc_scoped = False,
      oc_table_args =
        [UniqueArg ''uq_tenant_module'' [''tenant_id'', ''module_name'']],
      oc_columns =
        [(mapped ''id'' PyUuid False)\<lparr>mc_primary_key := True\<rparr>,
         (mapped ''tenant_id'' PyUuid False)\<lparr>mc_foreign_key := Some (''tenants'', ''id'', ''CASCADE''), mc_index := True\<rparr>,
         (mapped ''module_name'' PyStr False)\<lparr>mc_type := Some (String 32)\<rparr>,
         (mapped ''enabled'' PyBool False)\<lparr>mc_type := Some Boolean\<rparr>,
         (mapped ''created_at'' PyDatetime False)\<lparr>mc_type := Some (DateTime True), mc_server_default := Some (SqlDefault ''now()'')\<rparr>,
         (mapped ''updated_at'' PyDatetime False)\<lparr>mc_type := Some (DateTime True), mc_server_default := Some (SqlDefault ''now()'')\<rparr>]\<rparr>"

definition TenantAIPolicy_class :: orm_class where
  "TenantAIPolicy_class =
     \<lparr>oc_tablename = ''tenant_ai_policies'', oc_scoped = False,
      oc_table_args =
        [],
      oc_columns =
        [(mapped ''tenant_id'' PyUuid False)\<lparr>mc_foreign_key := Some (''tenants'', ''id'', ''CASCADE''), mc_primary_key := True\<rparr>,
         (mapped ''default_provider'' PyStr True)\<lparr>mc_type := Some (String 20)\<rparr>,
         (mapped ''default_model'' PyStr True)\<lparr>mc_type := Some (String 100)\<rparr>,
         (mapped ''allowed_providers'' PyOther False)\<lparr>mc_type := Some JSON\<rparr>,
         mapped ''zero_retention'' PyBool False,
         (mapped ''monthly_token_quota'' PyInt True)\<lparr>mc_type := Some BigInteger\<rparr>,
         mapped ''hard_limit_enabled'' PyBool False,
         (mapped ''fallback_provider'' PyStr True)\<lparr>mc_type := Some (String 20)\<rparr>,
         (mapped ''fallback_model'' PyStr True)\<lparr>mc_type := Some (String 100)\<rparr>,
         (mapped ''byok_keys_enc'' PyBytes True)\<lparr>mc_type := Some LargeBinary\<rparr>,
         (mapped ''created_at'' PyDatetime False)\<lparr>mc_type := Some (DateTime True), mc_server_default := Some (SqlDefault ''now()'')\<rparr>,
         (mapped ''updated_at'' PyDatetime False)\<lparr>mc_type := Some (DateTime True), mc_server_default := Some (SqlDefault ''now()'')\<rparr>]\<rparr>"

definition AIUsageEvent_class :: orm_class where
  "AIUsageEvent_class =
     \<lparr>oc_tablename = ''ai_usage_events'', oc_scoped = False,
      oc_table_args =
        [],
      oc_columns =
        [(mapped ''id'' PyUuid False)\<lparr>mc_primary_key := True\<rparr>,
         (mapped ''occurred_at'' PyDatetime False)\<lparr>mc_type := Some (DateTime True), mc_index := True, mc_server_default := Some (SqlDefault ''now()'')\<rparr>,
         (mapped ''tenant_id'' PyUuid False)\<lparr>mc_foreign_key := Some (''tenants'', ''id'', ''CASCADE''), mc_index := True\<rparr>,
         mapped ''user_id'' PyUuid True,
         (mapped ''module'' PyStr False)\<lparr>mc_type := Some (String 50)\<rparr>,
         (mapped ''provider'' PyStr False)\<lparr>mc_type := Some (String 20)\<rparr>,
         (mapped ''model'' PyStr False)\<lparr>mc_type := Some (String 100)\<rparr>,
         (mapped ''input_tokens'' PyInt False)\<lparr>mc_type := Some Integer\<rparr>,
         (mapped ''output_tokens'' PyInt False)\<lparr>mc_type := Some Integer\<rparr>,
         (mapped ''cached_tokens'' PyInt False)\<lparr>mc_type := Some Integer\<rparr>,
         (mapped ''latency_ms'' PyInt False)\<lparr>mc_type := Some Integer\<rparr>,
         (mapped ''estimated_cost_microeur'' PyInt False)\<lparr>mc_type := Some BigInteger\<rparr>,
         (mapped ''price_version'' PyStr False)\<lparr>mc_type := Some (String 20)\<rparr>,
         (mapped ''status'' PyOther False)\<lparr>mc_type := Some (Enum (map usage_status_str [USAGE_OK, USAGE_ERROR, USAGE_TIMEOUT]) ''ai_usage_status'' 10)\<rparr>,
         (mapped ''error_kind'' PyStr True)\<lparr>mc_type := Some (String 50)\<rparr>]\<rparr>"

definition AIUsageDaily_class :: orm_class where
  "AIUsageDaily_class =
     \<lparr>oc_tablename = ''ai_usage_daily'', oc_scoped = False,
      oc_table_args =
        [],
      oc_columns =
        [(mapped ''day'' PyDate False)\<lparr>mc_type := Some Date, mc_primary_key := True\<rparr>,
         (mapped ''tenant_id'' PyUuid False)\<lparr>mc_foreign_key := Some (''tenants'', ''id'', ''CASCADE''), mc_primary_key := True\<rparr>,
         (mapped ''provider'' PyStr False)\<lparr>mc_type := Some (String 20), mc_primary_key := True\<rparr>,
         (mapped ''model'' PyStr False)\<lparr>mc_type := Some (String 100), mc_primary_key := True\<rparr>,
         (mapped ''input_tokens'' PyInt False)\<lparr>mc_type := Some BigInteger\<rparr>,
         (mapped ''output_tokens'' PyInt False)\<lparr>mc_type := Some BigInteger\<rparr>,
         (mapped ''cached_tokens'' PyInt False)\<lparr>mc_type := Some BigInteger\<rparr>,
         (mapped ''request_count'' PyInt False)\<lparr>mc_type := Some Integer\<rparr>,
         (mapped ''error_count'' PyInt False)\<lparr>mc_type := Some Integer\<rparr>,
         (mapped ''estimated_cost_microeur'' PyInt False)\<lparr>mc_type := Some BigInteger\<rparr>]\<rparr>"

definition WebhookRoute_class :: orm_class where
  "WebhookRoute_class =
     \<lparr>oc_tablename = ''webhook_routes'', oc_scoped = False,
      oc_table_args =
        [],
      oc_columns =
        [(mapped ''id'' PyUuid False)\<lparr>mc_primary_key := True\<rparr>,
         (mapped ''route_key'' PyStr False)\<lparr>mc_type := Some (String 64), mc_unique := True\<rparr>,
         (mapped ''provider'' PyStr False)\<lparr>mc_type := Some (String 20)\<rparr>,
         (mapped ''tenant_id'' PyUuid False)\<lparr>mc_foreign_key := Some (''tenants'', ''id'', ''CASCADE'')\<rparr>,
         mapped ''connection_id'' PyUuid False,
         (mapped ''created_at'' PyDatetime False)\<lparr>mc_type := Some (DateTime True), mc_server_default := Some (SqlDefault ''now()'')\<rparr>]\<rparr>"

definition AuditEvent_class :: orm_class where
  "AuditEvent_class =
     \<lparr>oc_tablename = ''audit_events'', oc_scoped = True,
      oc_table_args =
        [IndexArg ''ix_audit_events_tenant_action'' [ColumnTerm ''tenant_id'', ColumnTerm ''action''] False,
         IndexArg ''ix_audit_events_tenant_cursor'' [ColumnTerm ''tenant_id'', ColumnTerm ''occurred_at'', ColumnTerm ''id''] False],
      oc_columns =
        [(mapped ''id'' PyUuid False)\<lparr>mc_primary_key := True\<rparr>,
         (mapped ''occurred_at'' PyDatetime False)\<lparr>mc_type := Some (DateTime True), mc_server_default := Some (SqlDefault ''now()'')\<rparr>,
         mapped ''actor_user_id'' PyUuid True,
         (mapped ''actor_label'' PyStr False)\<lparr>mc_type := Some (String 320)\<rparr>,
         (mapped ''action'' PyStr False)\<lparr>mc_type := Some (String 100)\<rparr>,
         (mapped ''resource_type'' PyStr False)\<lparr>mc_type := Some (String 100)\<rparr>,
         (mapped ''resource_id'' PyStr False)\<lparr>mc_type := Some (String 100)\<rparr>,
         (mapped ''payload'' PyOther False)\<lparr>mc_type := Some JSON\<rparr>]\<rparr>"

definition Team_class :: orm_class where
  "Team_class =
     \<lparr>oc_tablename = ''teams'', oc_scoped = True,
      oc_table_args =
        [UniqueArg ''ux_teams_tenant_name'' [''tenant_id'', ''name'']],
      oc_columns =
        [(mapped ''id'' PyUuid False)\<lparr>mc_primary_key := True\<rparr>,
         (mapped ''name'' PyStr False)\<lparr>mc_type := Some (String 120)\<rparr>,
         (mapped ''description'' PyStr True)\<lparr>mc_type := Some Text\<rparr>,
         (mapped ''created_at'' PyDatetime False)\<lparr>mc_type := Some (DateTime True), mc_server_default := Some (SqlDefault ''now()'')\<rparr>]\<rparr>"

definition TeamMember_class :: orm_class where
  "TeamMember_class =
     \<lparr>oc_tablename = ''team_members'', oc_scoped = True,
      oc_table_args =
        [UniqueArg ''ux_team_members_team_user'' [''team_id'', ''user_id'']],
      oc_columns =
        [(mapped ''id'' PyUuid False)\<lparr>mc_primary_key := True\<rparr>,
         (mapped ''team_id'' PyUuid False)\<lparr>mc_foreign_key := Some (''teams'', ''id'', ''CASCADE'')\<rparr>,
         mapped ''user_id'' PyUuid False,
         (mapped ''created_at'' PyDatetime False)\<lparr>mc_type := Some (DateTime True), mc_server_default := Some (SqlDefault ''now()'')\<rparr>]\<rparr>"

definition ConnectorConnection_class :: orm_class where
  "ConnectorConnection_class =
     \<lparr>oc_tablename = ''connector_connections'', oc_scoped = True,
      oc_table_args =
        [],
      oc_columns =
        [(mapped ''id'' PyUuid False)\<lparr>mc_primary_key := True\<rparr>,
         (mapped ''provider'' PyOther False)\<lparr>mc_type := Some (Enum (map provider_str [GOOGLE, MICROSOFT]) ''connector_provider'' 20)\<rparr>,
         (mapped ''kind'' PyOther False)\<lparr>mc_type := Some (Enum (map kind_str [KIND_TENANT, KIND_USER]) ''connection_kind'' 10)\<rparr>,
         mapped ''user_id'' PyUuid True,
         (mapped ''account_label'' PyStr False)\<lparr>mc_type := Some (String 320)\<rparr>,
         (mapped ''scopes'' PyOther False)\<lparr>mc_type := Some JSON\<rparr>,
         (mapped ''access_token_enc'' PyBytes False)\<lparr>mc_type := Some LargeBinary\<rparr>,
         (mapped ''refresh_token_enc'' PyBytes False)\<lparr>mc_type := Some LargeBinary\<rparr>,
         (mapped ''access_token_expires_at'' PyDatetime False)\<lparr>mc_type := Some (DateTime True)\<rparr>,
         (mapped ''status'' PyOther False)\<lparr>mc_type := Some (Enum (map status_str [CONN_ACTIVE, CONN_NEEDS_RECONSENT, CONN_REVOKED, CONN_ERROR]) ''connection_status'' 20)\<rparr>,
         (mapped ''last_error'' PyStr True)\<lparr>mc_type := Some Text\<rparr>,
         (mapped ''health_checked_at'' PyDatetime True)\<lparr>mc_type := Some (DateTime True)\<rparr>,
         (mapped ''created_at'' PyDatetime False)\<lparr>mc_type := Some (DateTime True), mc_server_default := Some (SqlDefault ''now()'')\<rparr>,
         (mapped ''updated_at'' PyDatetime False)\<lparr>mc_type := Some (DateTime True), mc_server_default := Some (SqlDefault ''now()'')\<rparr>]\<rparr>"

definition ConnectorSubscription_class :: orm_class where
  "ConnectorSubscription_class =
     \<lparr>oc_tablename = ''connector_subscriptions'', oc_scoped = True,
      oc_table_args =
        [],
      oc_columns =
        [(mapped ''id'' PyUuid False)\<lparr>mc_primary_key := True\<rparr>,
         (mapped ''connection_id'' PyUuid False)\<lparr>mc_foreign_key := Some (''connector_connections'', ''id'', ''CASCADE'')\<rparr>,
         (mapped ''capability'' PyStr False)\<lparr>mc_type := Some (String 20)\<rparr>,
         (mapped ''provider_subscription_id'' PyStr False)\<lparr>mc_type := Some (String 255)\<rparr>,
         (mapped ''resource'' PyStr False)\<lparr>mc_type := Some (String 255)\<rparr>,
         (mapped ''expires_at'' PyDatetime False)\<lparr>mc_type := Some (DateTime True)\<rparr>,
         (mapped ''client_state_hash'' PyStr False)\<lparr>mc_type := Some (String 64)\<rparr>,
         (mapped ''provider_data'' PyOther False)\<lparr>mc_type := Some JSON\<rparr>,
         (mapped ''created_at'' PyDatetime False)\<lparr>mc_type := Some (DateTime True), mc_server_default := Some (SqlDefault ''now()'')\<rparr>]\<rparr>"

definition SampleDigestDigest_class :: orm_class where
  "SampleDigestDigest_class =
     \<lparr>oc_tablename = ''sample_digest_digests'', oc_scoped = True,
      oc_table_args =
        [IndexArg ''ix_sample_digest_digests_tenant_generated'' [ColumnTerm ''tenant_id'', ColumnTerm ''generated_at''] False],
      oc_columns =
        [(mapped ''id'' PyUuid False)\<lparr>mc_primary_key := True\<rparr>,
         (mapped ''generated_at'' PyDatetime False)\<lparr>mc_type := Some (DateTime True), mc_server_default := Some (SqlDefault ''now()'')\<rparr>,
         (mapped ''message_count'' PyInt False)\<lparr>mc_type := Some Integer\<rparr>,
         (mapped ''summary'' PyStr False)\<lparr>mc_type := Some Text\<rparr>]\<rparr>"

definition orm_classes :: "orm_class list" where
  "orm_classes =
     [Tenant_class, User_class, Membership_class, UserCredentials_class, RecoveryCode_class, AuthSession_class,
     LoginChallenge_class, OAuthIdentity_class, Invitation_class, TenantModule_class, TenantAIPolicy_class,
     AIUsageEvent_class, AIUsageDaily_class, WebhookRoute_class, AuditEvent_class, Team_class, TeamMember_class,
     ConnectorConnection_class, ConnectorSubscription_class, SampleDigestDigest_class]"

section \<open>The tables of \<open>Base.metadata\<close>\<close>

definition inferred_type :: "py_type \<Rightarrow> sa_type option" where
  "inferred_type t =
     (case t of PyUuid \<Rightarrow> Some Uuid | PyStr \<Rightarrow> Some StringAny | PyInt \<Rightarrow> Some Integer | PyBool \<Rightarrow> Some Boolean
      | PyBytes \<Rightarrow> Some LargeBinary | PyDatetime \<Rightarrow> Some (DateTime False) | PyDate \<Rightarrow> Some Date | PyOther \<Rightarrow> None)"

definition column_of :: "mapped_column \<Rightarrow> column option" where
  "column_of m =
     map_option (\<lambda>t. \<lparr>col_name = mc_name m, col_type = t, col_default = mc_server_default m,
                      col_nullable = (mc_optional m \<and> \<not> mc_primary_key m)\<rparr>)
       (case mc_type m of Some t \<Rightarrow> Some t | None \<Rightarrow> inferred_type (mc_annotation m))"

definition class_columns :: "orm_class \<Rightarrow> mapped_column list" where
  "class_columns k = oc_columns k @ (if oc_scoped k then [tenant_scoped_column] else [])"

definition foreign_key_of :: "mapped_column \<Rightarrow> foreign_key option" where
  "foreign_key_of m =
     map_option (\<lambda>(t, c, del). \<lparr>fk_columns = [mc_name m], fk_table = t, fk_referred = [c], fk_ondelete = del\<rparr>)
       (mc_foreign_key m)"

fun unique_of :: "table_arg \<Rightarrow> (string option \<times> string list) option" where
  "unique_of (UniqueArg n cols) = Some (Some n, cols)"
| "unique_of _ = None"

fun index_of :: "table_arg \<Rightarrow> table_index option" where
  "index_of (IndexArg n terms u) = Some \<lparr>ix_name = n, ix_terms = terms, ix_unique = u\<rparr>"
| "index_of _ = None"

definition column_index :: "string \<Rightarrow> mapped_column \<Rightarrow> table_index" where
  "column_index table m =
     \<lparr>ix_name = ''ix_'' @ table @ ''_'' @ mc_name m, ix_terms = [ColumnTerm (mc_name m)], ix_unique = False\<rparr>"

definition table_of :: "orm_class \<Rightarrow> table option" where
  \<comment> \<open>\<open>None\<close>: some column has no type\<close>
  "table_of k =
     map_option (\<lambda>cols.
       \<lparr>tb_name = oc_tablename k, tb_columns = cols,
        tb_primary_key = map mc_name (filter mc_primary_key (class_columns k)),
        tb_uniques = map (\<lambda>m. (None, [mc_name m])) (filter mc_unique (class_columns k))
                     @ List.map_filter unique_of (oc_table_args k),
        tb_foreign_keys = List.map_filter foreign_key_of (class_columns k),
        tb_indexes = List.map_filter index_of (oc_table_args k)
                     @ map (column_index (oc_tablename k)) (filter mc_index (class_columns k))\<rparr>)
       (those (map column_of (class_columns k)))"

definition metadata :: "table list option" where
  "metadata = those (map table_of orm_classes)"

end
