(* ===== verification/Throttle.thy ===== *)
theory Throttle
  imports ConnectorRegistry Valkey
begin

text \<open>
  The envelope of every provider call (\<^verbatim>\<open>connectors/throttle.py\<close>): the per-connection budget, the
  bounded retries with backoff, and the Valkey locks. Time passes here: a sleep advances the clock
  of the world. Random values are numbered draws; what the network answers to the \<open>n\<close>-th request
  is a parameter of the environment, and every request sent is appended to \<open>http_log\<close>.
\<close>

section \<open>The outside world\<close>

record http_request =
  hq_method :: string
  hq_url :: string
  hq_bearer :: "string option"
  hq_form :: "(string \<times> string) list"
  hq_json :: "json option"
  hq_params :: "(string \<times> string) list"

record http_response =
  hr_status :: nat
  hr_retry_after :: "int option"
  hr_body :: "json option"

text \<open>
  \<open>hr_retry_after\<close> is \<^verbatim>\<open>_retry_after_seconds(response)\<close> in microseconds (\<open>None\<close> when the header is
  missing or no number); \<open>hr_body\<close> is \<^verbatim>\<open>response.json()\<close>, \<open>None\<close> when the body is no JSON. A transport
  failure carries the name of the \<^verbatim>\<open>httpx\<close> exception.
\<close>

datatype http_outcome = Answered http_response | NetworkFailure string

record net_env =
  ne_http :: "nat \<Rightarrow> http_request \<Rightarrow> http_outcome"
  ne_hex :: "nat \<Rightarrow> string"
  ne_jitter :: "nat \<Rightarrow> int"
  ne_nonce :: "nat \<Rightarrow> bytes"
  ne_token :: "nat \<Rightarrow> string"
  ne_uuid :: "nat \<Rightarrow> uuid"

record net_world =
  clock :: instant
  vk :: kv
  drawn :: nat
  http_log :: "http_request list"

definition draw :: "'z net_world_scheme \<Rightarrow> nat \<times> 'z net_world_scheme" where
  "draw w = (drawn w, drawn_update Suc w)"

definition sleep :: "int \<Rightarrow> 'z net_world_scheme \<Rightarrow> 'z net_world_scheme" where
  "sleep d w = clock_update (\<lambda>t. t + d) w"

definition send :: "net_env \<Rightarrow> http_request \<Rightarrow> 'z net_world_scheme \<Rightarrow> http_outcome \<times> 'z net_world_scheme" where
  "send env rq w = (ne_http env (length (http_log w)) rq, http_log_update (\<lambda>l. l @ [rq]) w)"

section \<open>Budget and backoff\<close>

definition WINDOW_SECONDS :: int where "WINDOW_SECONDS = 60"
definition MAX_ATTEMPTS :: nat where "MAX_ATTEMPTS = 5"
definition LOCK_TTL_SECONDS :: int where "LOCK_TTL_SECONDS = 30"

definition retryable :: "nat \<Rightarrow> bool" where
  "retryable status = (status = 429 \<or> 500 \<le> status)"

definition budget_key :: "provider_manifest \<Rightarrow> uuid \<Rightarrow> string" where
  "budget_key m cid = ''connector:rl:'' @ provider_str (pm_provider m) @ '':'' @ str_uuid cid"

definition budget_delay ::
  "provider_manifest \<Rightarrow> uuid \<Rightarrow> 'z net_world_scheme \<Rightarrow> int option result \<times> 'z net_world_scheme" where
  \<comment> \<open>the delay in microseconds\<close>
  "budget_delay m cid w =
     (let key = budget_key m cid; now = clock w
      in case kv_incr now key (vk w) of
           (Inl e, s1) \<Rightarrow> (Inl e, w\<lparr>vk := s1\<rparr>)
         | (Inr count, s1) \<Rightarrow>
             (let s2 = (if count = 1 then kv_expire now key WINDOW_SECONDS s1 else s1);
                  w2 = w\<lparr>vk := s2\<rparr>
              in if requests_per_minute m < count
                 then (Inr (Some (seconds (max (kv_ttl now key s2) 1))), w2)
                 else (Inr None, w2)))"

definition backoff_delay :: "net_env \<Rightarrow> nat \<Rightarrow> 'z net_world_scheme \<Rightarrow> int \<times> 'z net_world_scheme" where
  \<comment> \<open>\<open>ne_jitter\<close> is \<^verbatim>\<open>random.uniform(0, 0.5)\<close> in microseconds\<close>
  "backoff_delay env attempt_no w =
     (let (n, w1) = draw w in (2 ^ attempt_no * 500000 + ne_jitter env n, w1))"

fun backoff_loop ::
  "net_env \<Rightarrow> provider_manifest \<Rightarrow> uuid \<Rightarrow>
   ('z net_world_scheme \<Rightarrow> 'a result \<times> 'z net_world_scheme) \<Rightarrow> nat list \<Rightarrow>
   'z net_world_scheme \<Rightarrow> 'a result \<times> 'z net_world_scheme" where
  "backoff_loop env m cid attempt [] w =
     (Inl (ThrottleUnavailable (''Provider '' @ provider_str (pm_provider m) @ '' indisponible apres ''
        @ str_nat MAX_ATTEMPTS @ '' tentatives.'')), w)"
| "backoff_loop env m cid attempt (attempt_no # rest) w =
     (case budget_delay m cid w of
        (Inl e, w1) \<Rightarrow> (Inl e, w1)
      | (Inr budget_wait, w1) \<Rightarrow>
          (let w2 = (case budget_wait of None \<Rightarrow> w1 | Some d \<Rightarrow> sleep d w1)
           in case attempt w2 of
                (Inr r, w3) \<Rightarrow> (Inr r, w3)
              | (Inl e, w3) \<Rightarrow>
                  (case e of
                     ProviderResponseError status retry_after \<Rightarrow>
                       if \<not> retryable status then (Inl e, w3)
                       else (let (delay, w4) = (case retry_after of Some d \<Rightarrow> (d, w3)
                                                | None \<Rightarrow> backoff_delay env attempt_no w3)
                             in backoff_loop env m cid attempt rest (sleep delay w4))
                   | _ \<Rightarrow> (Inl e, w3))))"

definition run_with_backoff ::
  "net_env \<Rightarrow> provider_manifest \<Rightarrow> uuid \<Rightarrow>
   ('z net_world_scheme \<Rightarrow> 'a result \<times> 'z net_world_scheme) \<Rightarrow>
   'z net_world_scheme \<Rightarrow> 'a result \<times> 'z net_world_scheme" where
  "run_with_backoff env m cid attempt w = backoff_loop env m cid attempt [0..<MAX_ATTEMPTS] w"

section \<open>Locks\<close>

definition lock_key :: "string \<Rightarrow> string" where
  "lock_key name = ''connector:lock:'' @ name"

definition acquire_lock ::
  "net_env \<Rightarrow> string \<Rightarrow> int \<Rightarrow> 'z net_world_scheme \<Rightarrow> string option \<times> 'z net_world_scheme" where
  "acquire_lock env name ttl_seconds w =
     (let (n, w1) = draw w; token = ne_hex env n;
          (acquired, s1) = kv_set_nx_ex (clock w1) (lock_key name) (VStr token) ttl_seconds (vk w1)
      in (if acquired then Some token else None, w1\<lparr>vk := s1\<rparr>))"

definition release_lock :: "string \<Rightarrow> string \<Rightarrow> 'z net_world_scheme \<Rightarrow> 'z net_world_scheme" where
  "release_lock name token w =
     (if kv_get (clock w) (lock_key name) (vk w) = Some (VStr token)
      then w\<lparr>vk := kv_delete (lock_key name) (vk w)\<rparr> else w)"

fun wait_for_lock ::
  "net_env \<Rightarrow> ('z net_world_scheme \<Rightarrow> 'z net_world_scheme) \<Rightarrow> string \<Rightarrow> nat \<Rightarrow>
   'z net_world_scheme \<Rightarrow> string result \<times> 'z net_world_scheme" where
  \<comment> \<open>\<open>others\<close>: what the other workers do while this one sleeps for a quarter of a second\<close>
  "wait_for_lock env others name 0 w =
     (Inl (ThrottleUnavailable (''Verrou connecteur '' @ repr_str name
        @ '' toujours occupe apres 20 tentatives.'')), w)"
| "wait_for_lock env others name (Suc attempts) w =
     (case acquire_lock env name LOCK_TTL_SECONDS w of
        (Some token, w1) \<Rightarrow> (Inr token, w1)
      | (None, w1) \<Rightarrow> wait_for_lock env others name attempts (others (sleep 250000 w1)))"

definition WAIT_ATTEMPTS :: nat where "WAIT_ATTEMPTS = 20"

section \<open>Lemmas\<close>

lemma net_fields [simp]:
  "http_log (snd (draw w)) = http_log w" "vk (snd (draw w)) = vk w" "clock (snd (draw w)) = clock w"
  "http_log (sleep d w) = http_log w" "vk (sleep d w) = vk w" "clock (sleep d w) = clock w + d"
  "drawn (sleep d w) = drawn w" "fst (draw w) = drawn w" "drawn (snd (draw w)) = Suc (drawn w)"
  by (simp_all add: draw_def sleep_def)

lemma budget_delay_fields:
  "budget_delay m cid w = (r, w') \<Longrightarrow>
   http_log w' = http_log w \<and> clock w' = clock w \<and> drawn w' = drawn w \<and> net_world.more w' = net_world.more w"
  by (auto simp: budget_delay_def Let_def split: prod.splits sum.splits if_splits)

lemma backoff_delay_fields:
  "backoff_delay env i w = (d, w') \<Longrightarrow> http_log w' = http_log w"
  by (auto simp: backoff_delay_def draw_def)

lemma acquire_lock_fields:
  "acquire_lock env name ttl w = (r, w') \<Longrightarrow>
   http_log w' = http_log w \<and> clock w' = clock w \<and> net_world.more w' = net_world.more w"
  by (auto simp: acquire_lock_def draw_def Let_def split: prod.splits)

lemma release_lock_fields [simp]:
  "http_log (release_lock name token w) = http_log w" "clock (release_lock name token w) = clock w"
  "drawn (release_lock name token w) = drawn w"
  "net_world.more (release_lock name token w) = net_world.more w"
  by (simp_all add: release_lock_def)

text \<open>
  An attempt that sends one request and maps its outcome to a result: what \<^verbatim>\<open>refresh_token_grant\<close>
  and \<^verbatim>\<open>provider_http_request\<close> run under the envelope.
\<close>

definition one_request :: "('z net_world_scheme \<Rightarrow> 'a result \<times> 'z net_world_scheme) \<Rightarrow> http_request \<Rightarrow>
    (http_outcome \<Rightarrow> 'a result) \<Rightarrow> net_env \<Rightarrow> bool" where
  "one_request attempt rq out env \<longleftrightarrow>
     (\<forall>w. fst (attempt w) = out (ne_http env (length (http_log w)) rq)
          \<and> http_log (snd (attempt w)) = http_log w @ [rq] \<and> vk (snd (attempt w)) = vk w)"

definition request_attempt ::
  "net_env \<Rightarrow> http_request \<Rightarrow> (http_outcome \<Rightarrow> 'a result) \<Rightarrow> 'z net_world_scheme \<Rightarrow>
   'a result \<times> 'z net_world_scheme" where
  "request_attempt env rq out w = (let (ans, w1) = send env rq w in (out ans, w1))"

lemma one_request_attempt: "one_request (request_attempt env rq out) rq out env"
  by (simp add: one_request_def request_attempt_def send_def)

definition retry :: "'a result \<Rightarrow> bool" where
  \<comment> \<open>the results the envelope tries again after\<close>
  "retry r = (case r of Inl (ProviderResponseError status _) \<Rightarrow> retryable status | _ \<Rightarrow> False)"

fun first_settled :: "'a result \<Rightarrow> (nat \<Rightarrow> 'a result) \<Rightarrow> nat \<Rightarrow> nat \<Rightarrow> 'a result \<times> nat" where
  \<comment> \<open>the specification: the first of the answers \<open>i\<close>, \<open>i+1\<close>, ... that is not to be retried\<close>
  "first_settled unavailable answers i 0 = (unavailable, 0)"
| "first_settled unavailable answers i (Suc k) =
     (if retry (answers i)
      then (let (r, n) = first_settled unavailable answers (Suc i) k in (r, Suc n))
      else (answers i, 1))"

lemma first_settled_le: "snd (first_settled u answers i k) \<le> k"
  by (induction k arbitrary: i) (auto simp: split_def Let_def)

definition budget_ok :: "provider_manifest \<Rightarrow> uuid \<Rightarrow> kv \<Rightarrow> bool" where
  "budget_ok m cid s \<longleftrightarrow> (\<forall>v e. s (budget_key m cid) \<noteq> Some (VStr v, e))"

lemma budget_delay_ok:
  assumes "budget_ok m cid (vk w)"
  shows "\<exists>d w1. budget_delay m cid w = (Inr d, w1) \<and> budget_ok m cid (vk w1) \<and> http_log w1 = http_log w"
  using assms
  by (auto simp: budget_delay_def budget_ok_def kv_incr_def kv_incrby_def kv_expire_def kv_alive_def Let_def
      split: option.splits prod.splits kv_value.splits if_splits)

lemma backoff_loop_settles:
  assumes "one_request attempt rq out env" "budget_ok m cid (vk w)"
  shows "\<exists>w'. backoff_loop env m cid attempt ns w =
      (fst (first_settled (fst (backoff_loop env m cid attempt [] w)) (\<lambda>i. out (ne_http env i rq))
         (length (http_log w)) (length ns)), w')
    \<and> http_log w' = http_log w @ replicate (snd (first_settled (fst (backoff_loop env m cid attempt [] w))
        (\<lambda>i. out (ne_http env i rq)) (length (http_log w)) (length ns))) rq
    \<and> budget_ok m cid (vk w')"
  using assms(2)
proof (induction ns arbitrary: w)
  case (Cons n ns)
  obtain d w1 where bd: "budget_delay m cid w = (Inr d, w1)" "budget_ok m cid (vk w1)" "http_log w1 = http_log w"
    using budget_delay_ok [OF Cons.prems] by blast
  define w2 where "w2 = (case d of None \<Rightarrow> w1 | Some x \<Rightarrow> sleep x w1)"
  have w2: "budget_ok m cid (vk w2)" "http_log w2 = http_log w"
    using bd by (auto simp: w2_def split: option.split)
  obtain r w3 where at: "attempt w2 = (r, w3)" by fastforce
  have w3: "r = out (ne_http env (length (http_log w)) rq)" "http_log w3 = http_log w @ [rq]" "vk w3 = vk w2"
    using assms(1) at w2 unfolding one_request_def by (metis fst_conv snd_conv)+
  show ?case
  proof (cases "retry r")
    case False
    then show ?thesis using bd at w3 Cons.prems w2(1)
      by (auto simp: w2_def [symmetric] retry_def Let_def split: sum.splits exn.splits)
  next
    case True
    then obtain st ra where r: "r = Inl (ProviderResponseError st ra)" "retryable st"
      by (auto simp: retry_def split: sum.splits exn.splits)
    obtain dl w4 where w4: "(case ra of Some d \<Rightarrow> (d, w3) | None \<Rightarrow> backoff_delay env n w3) = (dl, w4)"
      by fastforce
    have w4': "http_log w4 = http_log w @ [rq]" "vk w4 = vk w3"
      using w4 w3(2) by (auto simp: backoff_delay_def draw_def split: option.splits)
    have "backoff_loop env m cid attempt (n # ns) w = backoff_loop env m cid attempt ns (sleep dl w4)"
      using bd at r w4 by (simp add: w2_def [symmetric] Let_def)
    then show ?thesis
      using Cons.IH [of "sleep dl w4"] w4' w3 w2(1) True r(1)
      by (simp add: split_def Let_def)
  qed
qed simp

section \<open>Histories of the locks\<close>

datatype lock_op = LAcquire string int | LRelease string string | LBudget provider_manifest uuid

fun lock_step :: "net_env \<Rightarrow> instant \<times> lock_op \<Rightarrow> 'z net_world_scheme \<Rightarrow> 'z net_world_scheme" where
  "lock_step env (now, LAcquire name ttl) w = snd (acquire_lock env name ttl (w\<lparr>clock := now\<rparr>))"
| "lock_step env (now, LRelease name token) w = release_lock name token (w\<lparr>clock := now\<rparr>)"
| "lock_step env (now, LBudget m cid) w = snd (budget_delay m cid (w\<lparr>clock := now\<rparr>))"

definition lock_held :: "string \<Rightarrow> string \<Rightarrow> instant \<Rightarrow> 'z net_world_scheme \<Rightarrow> bool" where
  "lock_held name token deadline w \<longleftrightarrow> vk w (lock_key name) = Some (VStr token, Some deadline)"

definition leaves_lock :: "string \<Rightarrow> string \<Rightarrow> instant \<Rightarrow> instant \<times> lock_op \<Rightarrow> bool" where
  \<comment> \<open>an operation of any worker before the expiry, other than the holder's release\<close>
  "leaves_lock name token deadline op \<longleftrightarrow> fst op \<le> deadline \<and> snd op \<noteq> LRelease name token"

lemma lock_key_eq_iff [simp]: "lock_key a = lock_key b \<longleftrightarrow> a = b"
  by (simp add: lock_key_def)

lemma lock_key_not_budget_key [simp]: "lock_key a \<noteq> budget_key m cid" "budget_key m cid \<noteq> lock_key a"
  by (simp_all add: lock_key_def budget_key_def)

lemma budget_delay_other_key: "k \<noteq> budget_key m cid \<Longrightarrow> vk (snd (budget_delay m cid w)) k = vk w k"
  by (auto simp: budget_delay_def kv_incr_def kv_incrby_def kv_expire_def Let_def
      split: option.splits prod.splits kv_value.splits sum.splits)

lemma acquire_lock_eq:
  "acquire_lock env name ttl w =
     (if kv_alive (clock w) (lock_key name) (vk w) = None
      then (Some (ne_hex env (drawn w)),
            w\<lparr>drawn := Suc (drawn w),
              vk := (vk w)(lock_key name \<mapsto> (VStr (ne_hex env (drawn w)), Some (clock w + seconds ttl)))\<rparr>)
      else (None, w\<lparr>drawn := Suc (drawn w)\<rparr>))"
  by (simp add: acquire_lock_def draw_def kv_set_nx_ex_def Let_def split: option.split)

lemma lock_step_held:
  assumes "lock_held name token deadline w" "leaves_lock name token deadline op"
  shows "lock_held name token deadline (lock_step env op w)"
proof -
  obtain now a where op: "op = (now, a)" by (cases op)
  show ?thesis
  proof (cases a)
    case (LAcquire n ttl)
    then show ?thesis using assms op
      by (auto simp: acquire_lock_eq lock_held_def leaves_lock_def kv_alive_def)
  next
    case (LRelease n t)
    then show ?thesis using assms op
      by (cases "n = name")
        (auto simp: release_lock_def lock_held_def leaves_lock_def kv_alive_def kv_get_def kv_delete_def)
  next
    case (LBudget m cid)
    then show ?thesis using assms op by (simp add: lock_held_def budget_delay_other_key)
  qed
qed

interpretation lock_run: absorbing "lock_step env" "leaves_lock name token deadline" "lock_held name token deadline"
  for env name token deadline
  by unfold_locales (rule lock_step_held)

section \<open>Properties\<close>


definition sample_net :: net_env where
  "sample_net =
     \<lparr>ne_http = (\<lambda>n rq. if n < 2 then Answered \<lparr>hr_status = 503, hr_retry_after = Some 1000000, hr_body = None\<rparr>
                         else Answered \<lparr>hr_status = 200, hr_retry_after = None, hr_body = Some (JObj [])\<rparr>),
      ne_hex = (\<lambda>n. if n = 0 then ''a'' else ''b''), ne_jitter = (\<lambda>n. 0),
      ne_nonce = (\<lambda>n. replicate 12 (CHR ''n'')), ne_token = (\<lambda>n. ''t''), ne_uuid = (\<lambda>n. 9)\<rparr>"

definition sample_net_world :: net_world where
  "sample_net_world = \<lparr>clock = 0, vk = Map.empty, drawn = 0, http_log = []\<rparr>"


text \<open>
  C30 (equivalence). The retry loop computes its specification: of the provider's answers to the
  same request, numbered from the next one, it returns the first that is not a retryable failure
  (429 or 5xx) and sends no further request, and after five retryable failures it reports the provider
  as unavailable; it always ends, after at most five requests.
\<close>

theorem run_with_backoff_settles:
  assumes "one_request attempt rq out env" "budget_ok m cid (vk w)"
    and "spec = first_settled (Inl (ThrottleUnavailable (''Provider '' @ provider_str (pm_provider m)
           @ '' indisponible apres '' @ str_nat 5 @ '' tentatives.'')))
         (\<lambda>i. out (ne_http env i rq)) (length (http_log w)) 5"
  shows "fst (run_with_backoff env m cid attempt w) = fst spec
    \<and> http_log (snd (run_with_backoff env m cid attempt w)) = http_log w @ replicate (snd spec) rq
    \<and> snd spec \<le> 5"
proof -
  have "length [0..<MAX_ATTEMPTS] = 5" by (simp add: MAX_ATTEMPTS_def)
  moreover have "fst (backoff_loop env m cid attempt [] w) = Inl (ThrottleUnavailable (''Provider ''
      @ provider_str (pm_provider m) @ '' indisponible apres '' @ str_nat 5 @ '' tentatives.''))"
    by (simp add: MAX_ATTEMPTS_def)
  ultimately show ?thesis
    using backoff_loop_settles [OF assms(1,2), of "[0..<MAX_ATTEMPTS]"] assms(3)
      first_settled_le [of _ "\<lambda>i. out (ne_http env i rq)" "length (http_log w)" 5]
    by (auto simp: run_with_backoff_def)
qed

definition sample_out :: "http_outcome \<Rightarrow> nat result" where
  "sample_out ans =
     (case ans of Answered r \<Rightarrow> if hr_status r = 200 then Inr (hr_status r)
                               else Inl (ProviderResponseError (hr_status r) (hr_retry_after r))
      | NetworkFailure n \<Rightarrow> Inl (HTTPError n))"

definition sample_http :: http_request where
  "sample_http = \<lparr>hq_method = ''GET'', hq_url = ''u'', hq_bearer = None, hq_form = [], hq_json = None, hq_params = []\<rparr>"

theorem run_with_backoff_settles_witness:
  "fst (run_with_backoff sample_net GOOGLE_MANIFEST 1 (request_attempt sample_net sample_http sample_out)
       sample_net_world) = Inr 200
    \<and> http_log (snd (run_with_backoff sample_net GOOGLE_MANIFEST 1
         (request_attempt sample_net sample_http sample_out) sample_net_world)) = replicate 3 sample_http"
proof -
  have s: "first_settled u (\<lambda>i. sample_out (ne_http sample_net i sample_http)) 0 5 = (Inr 200, 3)" for u
    by (simp add: eval_nat_numeral retry_def sample_out_def sample_net_def retryable_def Let_def)
  have b: "budget_ok GOOGLE_MANIFEST 1 (vk sample_net_world)" "http_log sample_net_world = []"
    by (simp_all add: budget_ok_def sample_net_world_def)
  show ?thesis
    using run_with_backoff_settles [OF one_request_attempt b(1) refl, of sample_net sample_http sample_out]
    unfolding b(2) list.size(3) s by simp
qed

end
