(* ===== verification/ConnectorTokens.thy ===== *)
theory ConnectorTokens
  imports Throttle Crypto AuditLog
begin

text \<open>
  The life cycle of connector tokens: \<^verbatim>\<open>connectors/service.py\<close> (code exchange, refresh under a lock,
  revocation) and \<^verbatim>\<open>connectors/client_base.py\<close> (a fresh token for a call, REST calls under the
  throttling envelope). A function that works on an ORM object inside a session returns the object
  as it changed it and the audit events it added; the table changes when the caller commits.
\<close>

section \<open>State\<close>

datatype queued_task =
    SyncSubscriptions string uuid
  | EventReceived string uuid string string string "string option"
  | PeriodicUnit string string uuid

record conn_world = net_world +
  cdb :: db
  connections :: "connector_connection list"
  subscriptions :: "connector_subscription list"
  webhook_routes :: "webhook_route list"
  task_queue :: "queued_task list"

definition EXPIRY_SKEW_SECONDS :: int where "EXPIRY_SKEW_SECONDS = 60"

record token_bundle =
  tb_access_token :: string
  tb_expires_in :: int
  tb_refresh_token :: "string option"
  tb_scopes :: "string list"

section \<open>Sealing\<close>

definition encrypt_token ::
  "primitives \<Rightarrow> settings \<Rightarrow> net_env \<Rightarrow> string \<Rightarrow> 'z net_world_scheme \<Rightarrow> bytes result \<times> 'z net_world_scheme" where
  "encrypt_token P cfg env token w =
     (case get_key_provider P cfg of Inl e \<Rightarrow> (Inl e, w)
      | Inr kp \<Rightarrow> (let (n, w1) = draw w in (Inr (kp_encrypt P kp (ne_nonce env n) token), w1)))"

definition decrypt_token :: "primitives \<Rightarrow> settings \<Rightarrow> bytes \<Rightarrow> string result" where
  "decrypt_token P cfg sealed =
     (case get_key_provider P cfg of Inl e \<Rightarrow> Inl e | Inr kp \<Rightarrow> kp_decrypt P kp sealed)"

section \<open>Token endpoint\<close>

definition connector_credentials :: "provider_manifest \<Rightarrow> settings \<Rightarrow> (string \<times> string) result" where
  "connector_credentials m cfg =
     (let (cid, sec) = (case pm_provider m of
            GOOGLE \<Rightarrow> (google_connector_client_id cfg, google_connector_client_secret cfg)
          | MICROSOFT \<Rightarrow> (microsoft_connector_client_id cfg, microsoft_connector_client_secret cfg))
      in if cid = [] \<or> sec = []
         then Inl (ConnectorError (''App OAuth connecteurs '' @ provider_str (pm_provider m) @ '' non configuree.''))
         else Inr (cid, sec))"

fun split_ws :: "string \<Rightarrow> string \<Rightarrow> string list" where
  \<comment> \<open>\<^verbatim>\<open>s.split()\<close>, with the word read so far\<close>
  "split_ws word [] = (if word = [] then [] else [word])"
| "split_ws word (c # cs) =
     (if is_space c then (if word = [] then split_ws [] cs else word # split_ws [] cs)
      else split_ws (word @ [c]) cs)"

definition int_of_json :: "json \<Rightarrow> int option" where
  \<comment> \<open>\<^verbatim>\<open>int(v)\<close> of a JSON value; the decimal texts a provider sends\<close>
  "int_of_json v =
     (case v of JInt i \<Rightarrow> Some i | JBool b \<Rightarrow> Some (if b then 1 else 0)
      | JStr s \<Rightarrow> (if s = [] then None else map_option int (parse_dec 0 s))
      | _ \<Rightarrow> None)"

definition invalid_grant_msg :: "provider_manifest \<Rightarrow> string" where
  "invalid_grant_msg m = ''Refresh token invalide par '' @ provider_str (pm_provider m) @ '' (invalid_grant).''"

definition parse_token_response :: "provider_manifest \<Rightarrow> http_response \<Rightarrow> token_bundle result" where
  "parse_token_response m r =
     (if hr_status r \<noteq> 200 then
        (let error_code = (case hr_body r of
               Some (JObj raw) \<Rightarrow> (case json_get raw ''error'' of None \<Rightarrow> [] | Some v \<Rightarrow> str_json v)
             | _ \<Rightarrow> [])
         in if error_code = ''invalid_grant'' then Inl (InvalidGrantError (invalid_grant_msg m))
            else Inl (ProviderResponseError (hr_status r) None))
      else (case hr_body r of
              Some (JObj payload) \<Rightarrow>
                (case json_get payload ''access_token'' of
                   Some (JStr access_token) \<Rightarrow>
                     if access_token = []
                     then Inl (ConnectorError (''Reponse token de '' @ provider_str (pm_provider m) @ '' sans access_token.''))
                     else (case int_of_json (case json_get payload ''expires_in'' of None \<Rightarrow> JInt 3600 | Some v \<Rightarrow> v) of
                             None \<Rightarrow> Inl (ValueError ''int'')
                           | Some expires_in \<Rightarrow>
                               Inr \<lparr>tb_access_token = access_token, tb_expires_in = expires_in,
                                    tb_refresh_token = (case json_get payload ''refresh_token'' of
                                       Some (JStr t) \<Rightarrow> Some t | _ \<Rightarrow> None),
                                    tb_scopes = (case json_get payload ''scope'' of
                                       Some (JStr s) \<Rightarrow> split_ws [] s | _ \<Rightarrow> [])\<rparr>)
                 | _ \<Rightarrow> Inl (ConnectorError (''Reponse token de '' @ provider_str (pm_provider m) @ '' sans access_token.'')))
            | Some _ \<Rightarrow> Inl AttributeError
            | None \<Rightarrow> Inl (ValueError ''json'')))"

definition token_outcome :: "provider_manifest \<Rightarrow> http_outcome \<Rightarrow> token_bundle result" where
  "token_outcome m ans =
     (case ans of NetworkFailure n \<Rightarrow> Inl (HTTPError n) | Answered r \<Rightarrow> parse_token_response m r)"

definition post_form :: "string \<Rightarrow> (string \<times> string) list \<Rightarrow> http_request" where
  "post_form url form =
     \<lparr>hq_method = ''POST'', hq_url = url, hq_bearer = None, hq_form = form, hq_json = None, hq_params = []\<rparr>"

definition connector_exchange_code ::
  "net_env \<Rightarrow> settings \<Rightarrow> provider_manifest \<Rightarrow> string \<Rightarrow> string \<Rightarrow> 'z net_world_scheme \<Rightarrow>
   token_bundle result \<times> 'z net_world_scheme" where
  "connector_exchange_code env cfg m code redirect w =
     (case connector_credentials m cfg of Inl e \<Rightarrow> (Inl e, w)
      | Inr (cid, sec) \<Rightarrow>
          request_attempt env (post_form (token_endpoint m)
            [(''grant_type'', ''authorization_code''), (''code'', code), (''redirect_uri'', redirect),
             (''client_id'', cid), (''client_secret'', sec)]) (token_outcome m) w)"

definition refresh_request :: "provider_manifest \<Rightarrow> string \<Rightarrow> string \<Rightarrow> string \<Rightarrow> http_request" where
  "refresh_request m refresh_token cid sec =
     post_form (token_endpoint m)
       [(''grant_type'', ''refresh_token''), (''refresh_token'', refresh_token),
        (''client_id'', cid), (''client_secret'', sec)]"

definition refresh_token_grant ::
  "net_env \<Rightarrow> settings \<Rightarrow> provider_manifest \<Rightarrow> string \<Rightarrow> 'z net_world_scheme \<Rightarrow>
   token_bundle result \<times> 'z net_world_scheme" where
  "refresh_token_grant env cfg m refresh_token w =
     (case connector_credentials m cfg of Inl e \<Rightarrow> (Inl e, w)
      | Inr (cid, sec) \<Rightarrow> request_attempt env (refresh_request m refresh_token cid sec) (token_outcome m) w)"

definition fetch_account_label ::
  "net_env \<Rightarrow> provider_manifest \<Rightarrow> string \<Rightarrow> 'z net_world_scheme \<Rightarrow> string result \<times> 'z net_world_scheme" where
  "fetch_account_label env m access_token w =
     request_attempt env
       \<lparr>hq_method = ''GET'', hq_url = account_info_endpoint m, hq_bearer = Some access_token, hq_form = [],
        hq_json = None, hq_params = []\<rparr>
       (\<lambda>ans. let fallback = ''compte '' @ provider_str (pm_provider m)
              in case ans of NetworkFailure n \<Rightarrow> Inl (HTTPError n)
                 | Answered r \<Rightarrow>
                     if hr_status r \<noteq> 200 then Inr fallback
                     else (case hr_body r of
                             Some (JObj payload) \<Rightarrow>
                               Inr (case parse_account_label m payload of
                                      Some l \<Rightarrow> if l = [] then fallback else l | None \<Rightarrow> fallback)
                           | Some _ \<Rightarrow> Inl AttributeError
                           | None \<Rightarrow> Inl (ValueError ''json''))) w"

section \<open>Refresh\<close>

definition apply_token_bundle ::
  "primitives \<Rightarrow> settings \<Rightarrow> net_env \<Rightarrow> token_bundle \<Rightarrow> connector_connection \<Rightarrow> 'z net_world_scheme \<Rightarrow>
   connector_connection result \<times> 'z net_world_scheme" where
  "apply_token_bundle P cfg env bundle c w =
     (case encrypt_token P cfg env (tb_access_token bundle) w of
        (Inl e, w1) \<Rightarrow> (Inl e, w1)
      | (Inr access_enc, w1) \<Rightarrow>
          (let c1 = c\<lparr>cn_access_token_enc := access_enc\<rparr>;
               finish = (\<lambda>c2. c2\<lparr>cn_access_token_expires_at := clock w1 + seconds (tb_expires_in bundle),
                                 cn_status := CONN_ACTIVE, cn_last_error := None,
                                 cn_health_checked_at := Some (clock w1)\<rparr>)
           in case tb_refresh_token bundle of
                None \<Rightarrow> (Inr (finish c1), w1)
              | Some t \<Rightarrow>
                  if t = [] then (Inr (finish c1), w1)
                  else (case encrypt_token P cfg env t w1 of
                          (Inl e, w2) \<Rightarrow> (Inl e, w2)
                        | (Inr refresh_enc, w2) \<Rightarrow>
                            (Inr (finish (c1\<lparr>cn_refresh_token_enc := refresh_enc\<rparr>)), w2))))"

definition refresh_lock_name :: "uuid \<Rightarrow> string" where
  "refresh_lock_name cid = ''refresh:'' @ str_uuid cid"

definition access_token_expiring :: "connector_connection \<Rightarrow> int \<Rightarrow> instant \<Rightarrow> bool" where
  "access_token_expiring c lead now = (cn_access_token_expires_at c \<le> now + lead)"

definition exn_class :: "exn \<Rightarrow> string" where
  \<comment> \<open>\<^verbatim>\<open>exc.__class__.__name__\<close> of the failures the connectors report\<close>
  "exn_class e = (case e of ProviderResponseError _ _ \<Rightarrow> ''ProviderResponseError''
     | ThrottleUnavailable _ \<Rightarrow> ''ProviderUnavailable'' | HTTPError n \<Rightarrow> n
     | ConnectorCallError _ \<Rightarrow> ''ConnectorCallError'' | InvalidGrantError _ \<Rightarrow> ''InvalidGrantError''
     | ConnectorError _ \<Rightarrow> ''ConnectorError'' | CryptoError \<Rightarrow> ''CryptoError''
     | NoResultFound \<Rightarrow> ''InvalidRequestError'' | KVResponseError \<Rightarrow> ''ResponseError''
     | TenantContextError \<Rightarrow> ''TenantContextError'' | AttributeError \<Rightarrow> ''AttributeError''
     | KeyError _ \<Rightarrow> ''KeyError'' | TypeError \<Rightarrow> ''TypeError'' | TransportError n \<Rightarrow> n
     | ValueError m \<Rightarrow> if m = ''json'' then ''JSONDecodeError'' else ''ValueError''
     | _ \<Rightarrow> ''RuntimeError'')"

definition recoverable :: "exn \<Rightarrow> bool" where
  "recoverable e = (case e of ProviderResponseError _ _ \<Rightarrow> True | ThrottleUnavailable _ \<Rightarrow> True
     | HTTPError _ \<Rightarrow> True | _ \<Rightarrow> False)"

definition reconsent_args :: "connector_connection \<Rightarrow> audit_args" where
  "reconsent_args c =
     \<lparr>aa_action = ''connector.reconsent_required'', aa_resource_type = ''connector_connection'',
      aa_resource_id = str_uuid (cn_id c),
      aa_payload = [(''provider'', JStr (provider_str (cn_provider c))), (''account'', JStr (cn_account_label c))],
      aa_actor_user_id = None, aa_actor_label = SYSTEM_ACTOR_LABEL\<rparr>"

definition scoped_connections :: "context_var \<Rightarrow> conn_world \<Rightarrow> connector_connection list result" where
  "scoped_connections cv w = scoped_select cv ''connector_connections'' cn_tenant_id (connections w)"

definition get_connection :: "context_var \<Rightarrow> uuid \<Rightarrow> conn_world \<Rightarrow> connector_connection option result" where
  \<comment> \<open>\<^verbatim>\<open>session.get(ConnectorConnection, id)\<close>\<close>
  "get_connection cv cid w =
     (case scoped_connections cv w of Inl e \<Rightarrow> Inl e
      | Inr rows \<Rightarrow> Inr (List.find (\<lambda>c. cn_id c = cid) rows))"

definition refresh_locked ::
  "primitives \<Rightarrow> settings \<Rightarrow> net_env \<Rightarrow> string \<Rightarrow> connector_connection \<Rightarrow> conn_world \<Rightarrow>
   bool result \<times> connector_connection \<times> audit_args list \<times> conn_world" where
  \<comment> \<open>from \<^verbatim>\<open>manifest = get_provider(...)\<close> on, the lock held with \<open>token\<close>\<close>
  "refresh_locked P cfg env token c w =
     (let m = get_provider (cn_provider c); name = refresh_lock_name (cn_id c)
      in case decrypt_token P cfg (cn_refresh_token_enc c) of
           Inl e \<Rightarrow> (Inl e, c, [], release_lock name token w)
         | Inr refresh_token \<Rightarrow>
             (case run_with_backoff env m (cn_id c) (refresh_token_grant env cfg m refresh_token) w of
                (Inr bundle, w1) \<Rightarrow>
                  (case apply_token_bundle P cfg env bundle c (release_lock name token w1) of
                     (Inl e, w2) \<Rightarrow> (Inl e, c, [], w2)
                   | (Inr c1, w2) \<Rightarrow> (Inr True, c1, [], w2))
              | (Inl e, w1) \<Rightarrow>
                  (case e of
                     InvalidGrantError _ \<Rightarrow>
                       (Inr False,
                        c\<lparr>cn_status := CONN_NEEDS_RECONSENT,
                          cn_last_error := Some ''Refresh token invalide par le provider (invalid_grant).'',
                          cn_health_checked_at := Some (clock w1)\<rparr>,
                        [reconsent_args c], release_lock name token w1)
                   | _ \<Rightarrow>
                       if recoverable e
                       then (Inl e, c\<lparr>cn_last_error := Some (''Refresh echoue : '' @ exn_class e),
                                      cn_health_checked_at := Some (clock w1)\<rparr>, [], release_lock name token w1)
                       else (Inl e, c, [], release_lock name token w1))))"

definition refresh_connection ::
  "primitives \<Rightarrow> settings \<Rightarrow> net_env \<Rightarrow> (conn_world \<Rightarrow> conn_world) \<Rightarrow> context_var \<Rightarrow> bool \<Rightarrow>
   connector_connection \<Rightarrow> conn_world \<Rightarrow>
   bool result \<times> connector_connection \<times> audit_args list \<times> conn_world" where
  "refresh_connection P cfg env others cv block c w =
     (let name = refresh_lock_name (cn_id c)
      in if block then
           (case wait_for_lock env others name WAIT_ATTEMPTS w of
              (Inl e, w1) \<Rightarrow> (Inl e, c, [], w1)
            | (Inr token, w1) \<Rightarrow>
                (case get_connection cv (cn_id c) w1 of
                   Inl e \<Rightarrow> (Inl e, c, [], w1)
                 | Inr None \<Rightarrow> (Inl NoResultFound, c, [], w1)
                 | Inr (Some c1) \<Rightarrow>
                     if \<not> access_token_expiring c1 (seconds EXPIRY_SKEW_SECONDS) (clock w1)
                     then (Inr False, c1, [], release_lock name token w1)
                     else refresh_locked P cfg env token c1 w1))
         else
           (case acquire_lock env name LOCK_TTL_SECONDS w of
              (None, w1) \<Rightarrow> (Inr False, c, [], w1)
            | (Some token, w1) \<Rightarrow> refresh_locked P cfg env token c w1))"

fun add_audits :: "net_env \<Rightarrow> context_var \<Rightarrow> audit_args list \<Rightarrow> conn_world \<Rightarrow> unit result \<times> conn_world" where
  "add_audits env cv [] w = (Inr (), w)"
| "add_audits env cv (a # as) w =
     (let (n, w1) = draw w
      in case record_audit_event cv (ne_uuid env n) (clock w1) a (cdb w1) of
           Inl e \<Rightarrow> (Inl e, w1)
         | Inr (_, d) \<Rightarrow> add_audits env cv as (w1\<lparr>cdb := d\<rparr>))"

definition commit_connection ::
  "net_env \<Rightarrow> context_var \<Rightarrow> connector_connection \<Rightarrow> audit_args list \<Rightarrow> conn_world \<Rightarrow>
   unit result \<times> conn_world" where
  \<comment> \<open>flush and commit of the changed connection with the audit events added to its session\<close>
  "commit_connection env cv c audits w =
     (case flush_touch cv (cn_tenant_id c) of Inl e \<Rightarrow> (Inl e, w)
      | Inr _ \<Rightarrow>
          (case add_audits env cv audits w of
             (Inl e, w1) \<Rightarrow> (Inl e, w)
           | (Inr _, w1) \<Rightarrow>
               (Inr (), connections_update (update_where (\<lambda>r. cn_id r = cn_id c) (\<lambda>_. c)) w1)))"

section \<open>Revocation\<close>

definition revoke_connection ::
  "primitives \<Rightarrow> settings \<Rightarrow> net_env \<Rightarrow> connector_connection \<Rightarrow> conn_world \<Rightarrow>
   connector_connection \<times> conn_world" where
  "revoke_connection P cfg env c w =
     (let w1 = (case revoke_endpoint (get_provider (cn_provider c)) of None \<Rightarrow> w
                | Some url \<Rightarrow>
                    (case decrypt_token P cfg (cn_refresh_token_enc c) of Inl _ \<Rightarrow> w
                     | Inr t \<Rightarrow> snd (send env (post_form url [(''token'', t)]) w)))
      in (c\<lparr>cn_access_token_enc := [], cn_refresh_token_enc := [], cn_status := CONN_REVOKED,
            cn_last_error := None, cn_health_checked_at := Some (clock w1)\<rparr>, w1))"

section \<open>Calls\<close>

definition fresh_access_token ::
  "primitives \<Rightarrow> settings \<Rightarrow> net_env \<Rightarrow> (conn_world \<Rightarrow> conn_world) \<Rightarrow> context_var \<Rightarrow>
   connector_connection \<Rightarrow> conn_world \<Rightarrow> string result \<times> connector_connection \<times> conn_world" where
  "fresh_access_token P cfg env others cv c w =
     (if cn_status c \<noteq> CONN_ACTIVE then (Inl (ConnectorCallError (not_active_msg c)), c, w)
      else if access_token_expiring c (seconds EXPIRY_SKEW_SECONDS) (clock w) then
        (case refresh_connection P cfg env others cv True c w of
           (Inl e, c1, audits, w1) \<Rightarrow> (Inl e, c1, w1)
         | (Inr _, c1, audits, w1) \<Rightarrow>
             (case commit_connection env cv c1 audits w1 of
                (Inl e, w2) \<Rightarrow> (Inl e, c1, w2)
              | (Inr _, w2) \<Rightarrow> (decrypt_token P cfg (cn_access_token_enc c1), c1, w2)))
      else (decrypt_token P cfg (cn_access_token_enc c), c, w))"

definition call_outcome :: "http_outcome \<Rightarrow> http_response result" where
  "call_outcome ans =
     (case ans of NetworkFailure n \<Rightarrow> Inl (HTTPError n)
      | Answered r \<Rightarrow>
          if retryable (hr_status r) then Inl (ProviderResponseError (hr_status r) (hr_retry_after r))
          else Inr r)"

definition provider_http_request ::
  "net_env \<Rightarrow> provider_manifest \<Rightarrow> uuid \<Rightarrow> http_request \<Rightarrow> string \<Rightarrow> 'z net_world_scheme \<Rightarrow>
   http_response result \<times> 'z net_world_scheme" where
  \<comment> \<open>\<open>path\<close> is the path of the URL, for the message\<close>
  "provider_http_request env m cid rq path w =
     (case run_with_backoff env m cid (request_attempt env rq call_outcome) w of
        (Inl e, w1) \<Rightarrow> (Inl e, w1)
      | (Inr r, w1) \<Rightarrow>
          if 400 \<le> hr_status r
          then (Inl (ConnectorCallError (''Appel '' @ provider_str (pm_provider m) @ '' refuse (HTTP ''
                  @ str_nat (hr_status r) @ '', '' @ hq_method rq @ '' '' @ path @ '').'')), w1)
          else (Inr r, w1))"

section \<open>Lemmas\<close>

lemma conn_more:
  "net_world.more w = net_world.more w' \<Longrightarrow> cdb w = cdb (w' :: conn_world)"
  "net_world.more w = net_world.more w' \<Longrightarrow> connections w = connections (w' :: conn_world)"
  "net_world.more w = net_world.more w' \<Longrightarrow> subscriptions w = subscriptions (w' :: conn_world)"
  "net_world.more w = net_world.more w' \<Longrightarrow> webhook_routes w = webhook_routes (w' :: conn_world)"
  "net_world.more w = net_world.more w' \<Longrightarrow> task_queue w = task_queue (w' :: conn_world)"
  by (cases w; cases w'; simp)+

text \<open>An attempt that touches neither Valkey nor the tables.\<close>

definition plain_attempt :: "('z net_world_scheme \<Rightarrow> 'a result \<times> 'z net_world_scheme) \<Rightarrow> bool" where
  "plain_attempt attempt \<longleftrightarrow>
     (\<forall>w. vk (snd (attempt w)) = vk w \<and> net_world.more (snd (attempt w)) = net_world.more w)"

lemma plain_request_attempt: "plain_attempt (request_attempt env rq out)"
  by (simp add: plain_attempt_def request_attempt_def send_def)

lemma plain_refresh_token_grant: "plain_attempt (refresh_token_grant env cfg m t)"
  using plain_request_attempt
  by (auto simp: plain_attempt_def refresh_token_grant_def split: sum.split)

lemma backoff_loop_frame:
  assumes "plain_attempt attempt"
  shows "backoff_loop env m cid attempt ns w = (r, w') \<Longrightarrow>
    net_world.more w' = net_world.more w \<and> (\<forall>k. k \<noteq> budget_key m cid \<longrightarrow> vk w' k = vk w k)"
proof (induction ns arbitrary: w)
  case (Cons n ns)
  obtain b w1 where bd: "budget_delay m cid w = (b, w1)" by fastforce
  have w1: "net_world.more w1 = net_world.more w" "\<And>k. k \<noteq> budget_key m cid \<Longrightarrow> vk w1 k = vk w k"
    using budget_delay_fields [OF bd] budget_delay_other_key [of _ m cid w] bd by auto
  show ?case
  proof (cases b)
    case (Inl e)
    then show ?thesis using Cons.prems bd w1 by auto
  next
    case (Inr d)
    define w2 where "w2 = (case d of None \<Rightarrow> w1 | Some x \<Rightarrow> sleep x w1)"
    have w2: "net_world.more w2 = net_world.more w1" "vk w2 = vk w1"
      by (simp_all add: w2_def sleep_def split: option.split)
    obtain ar w3 where at: "attempt w2 = (ar, w3)" by fastforce
    have w3: "net_world.more w3 = net_world.more w2" "vk w3 = vk w2"
      using assms at unfolding plain_attempt_def by (metis snd_conv)+
    show ?thesis
    proof (cases "retry ar")
      case False
      then have "w' = w3"
        using Cons.prems bd Inr at
        by (auto simp: w2_def [symmetric] retry_def Let_def split: sum.splits exn.splits if_splits)
      then show ?thesis using w1 w2 w3 by simp
    next
      case True
      then obtain st ra where ar: "ar = Inl (ProviderResponseError st ra)" "retryable st"
        by (auto simp: retry_def split: sum.splits exn.splits)
      obtain dl w4 where w4: "(case ra of Some d \<Rightarrow> (d, w3) | None \<Rightarrow> backoff_delay env n w3) = (dl, w4)"
        by fastforce
      then have w4': "net_world.more w4 = net_world.more w3" "vk w4 = vk w3"
        by (auto simp: backoff_delay_def draw_def split: option.splits)
      have "backoff_loop env m cid attempt ns (sleep dl w4) = (r, w')"
        using Cons.prems bd Inr at ar w4 by (simp add: w2_def [symmetric] Let_def)
      from Cons.IH [OF this] show ?thesis using w1 w2 w3 w4' by (simp add: sleep_def)
    qed
  qed
qed simp

lemma encrypt_token_fields:
  "encrypt_token P cfg env t w = (r, w') \<Longrightarrow>
   vk w' = vk w \<and> clock w' = clock w \<and> http_log w' = http_log w \<and> net_world.more w' = net_world.more w"
  by (auto simp: encrypt_token_def draw_def split: sum.splits)

lemma apply_token_bundle_fields:
  "apply_token_bundle P cfg env b c w = (r, w') \<Longrightarrow>
   vk w' = vk w \<and> clock w' = clock w \<and> http_log w' = http_log w \<and> net_world.more w' = net_world.more w"
  by (auto simp: apply_token_bundle_def Let_def dest!: encrypt_token_fields
      split: sum.splits prod.splits option.splits if_splits)

lemma decrypt_encrypt_token:
  assumes "encrypt_token P cfg env t w = (Inr sealed, w')" "aead_law P"
    and "\<And>n. length (ne_nonce env n) = NONCE_SIZE"
  shows "decrypt_token P cfg sealed = Inr t"
  using assms kp_decrypt_encrypt
  by (auto simp: encrypt_token_def decrypt_token_def draw_def split: sum.splits)

lemma apply_token_bundle_stores:
  assumes "apply_token_bundle P cfg env b c w = (Inr c', w')" "aead_law P"
    and "\<And>n. length (ne_nonce env n) = NONCE_SIZE"
  shows "decrypt_token P cfg (cn_access_token_enc c') = Inr (tb_access_token b)
    \<and> cn_status c' = CONN_ACTIVE \<and> cn_last_error c' = None
    \<and> cn_access_token_expires_at c' = clock w + seconds (tb_expires_in b)
    \<and> cn_id c' = cn_id c \<and> cn_tenant_id c' = cn_tenant_id c \<and> cn_provider c' = cn_provider c
    \<and> (case tb_refresh_token b of
         Some t \<Rightarrow> if t = [] then cn_refresh_token_enc c' = cn_refresh_token_enc c
                   else decrypt_token P cfg (cn_refresh_token_enc c') = Inr t
       | None \<Rightarrow> cn_refresh_token_enc c' = cn_refresh_token_enc c)"
  using assms(1) decrypt_encrypt_token [OF _ assms(2,3)]
  by (auto simp: apply_token_bundle_def Let_def dest: encrypt_token_fields
      split: sum.splits prod.splits option.splits if_splits)

lemma release_lock_free:
  assumes "vk w (lock_key name) = Some (VStr token, Some e)"
  shows "kv_alive (clock w) (lock_key name) (vk (release_lock name token w)) = None"
  using assms by (auto simp: release_lock_def kv_get_def kv_alive_def kv_delete_def split: if_splits)

lemma acquired_entry:
  "acquire_lock env name ttl w = (Some token, w1) \<Longrightarrow>
   vk w1 (lock_key name) = Some (VStr token, Some (clock w + seconds ttl))"
  by (auto simp: acquire_lock_eq split: if_splits)

lemma refresh_locked_releases:
  assumes "refresh_locked P cfg env token c w = (r, c', audits, w')"
    and "vk w (lock_key (refresh_lock_name (cn_id c))) = Some (VStr token, Some e)"
  shows "kv_alive (clock w') (lock_key (refresh_lock_name (cn_id c))) (vk w') = None"
    and "net_world.more w' = net_world.more w"
proof -
  let ?n = "refresh_lock_name (cn_id c)"
  let ?m = "get_provider (cn_provider c)"
  have "\<exists>v. vk v (lock_key ?n) = vk w (lock_key ?n) \<and> net_world.more v = net_world.more w
      \<and> vk w' = vk (release_lock ?n token v) \<and> clock w' = clock v
      \<and> net_world.more w' = net_world.more v"
  proof (cases "decrypt_token P cfg (cn_refresh_token_enc c)")
    case (Inl e)
    then show ?thesis using assms(1) by (intro exI [of _ w]) (auto simp: refresh_locked_def Let_def)
  next
    case (Inr rt)
    obtain br w1 where bo: "run_with_backoff env ?m (cn_id c) (refresh_token_grant env cfg ?m rt) w = (br, w1)"
      by fastforce
    have fr: "net_world.more w1 = net_world.more w" "vk w1 (lock_key ?n) = vk w (lock_key ?n)"
      using backoff_loop_frame [OF plain_refresh_token_grant bo [unfolded run_with_backoff_def]] by auto
    show ?thesis
    proof (cases br)
      case (Inl e)
      then show ?thesis using assms(1) Inr bo fr
        by (intro exI [of _ w1])
          (auto simp: refresh_locked_def Let_def split: exn.splits if_splits)
    next
      case b: (Inr b)
      obtain ar w2 where ap: "apply_token_bundle P cfg env b c (release_lock ?n token w1) = (ar, w2)" by fastforce
      then have "w' = w2" using assms(1) Inr bo b
        by (auto simp: refresh_locked_def Let_def split: sum.splits)
      then show ?thesis using apply_token_bundle_fields [OF ap] fr
        by (intro exI [of _ w1]) simp
    qed
  qed
  then obtain v where v: "vk v (lock_key ?n) = vk w (lock_key ?n)" "net_world.more v = net_world.more w"
    "vk w' = vk (release_lock ?n token v)" "clock w' = clock v" "net_world.more w' = net_world.more v" by blast
  show "kv_alive (clock w') (lock_key ?n) (vk w') = None"
    using release_lock_free [of v ?n token e] v assms(2) by simp
  show "net_world.more w' = net_world.more w" using v by simp
qed

lemma first_settled_pos: "0 < k \<Longrightarrow> 0 < snd (first_settled u answers i k)"
  by (cases k) (auto simp: split_def Let_def)

lemma first_settled_answer:
  "fst (first_settled (Inl e) answers i k) = Inr r \<Longrightarrow> \<exists>j. answers j = Inr r"
  by (induction k arbitrary: i) (auto simp: split_def Let_def split: if_splits)

lemma refresh_grant_one_request:
  assumes "connector_credentials m cfg = Inr (cid, sec)"
  shows "one_request (refresh_token_grant env cfg m rt) (refresh_request m rt cid sec) (token_outcome m) env"
  using assms one_request_attempt [of env "refresh_request m rt cid sec" "token_outcome m"]
  by (simp add: one_request_def refresh_token_grant_def)

lemma refresh_locked_success:
  assumes "refresh_locked P cfg env token c w = (Inr True, c', audits, w')"
  obtains rt b w1 where "decrypt_token P cfg (cn_refresh_token_enc c) = Inr rt"
    "run_with_backoff env (get_provider (cn_provider c)) (cn_id c)
       (refresh_token_grant env cfg (get_provider (cn_provider c)) rt) w = (Inr b, w1)"
    "apply_token_bundle P cfg env b c (release_lock (refresh_lock_name (cn_id c)) token w1) = (Inr c', w')"
    "audits = []"
  using assms
  by (auto simp: refresh_locked_def Let_def split: sum.splits prod.splits exn.splits if_splits)

lemma refresh_needs_credentials:
  assumes "run_with_backoff env m cid (refresh_token_grant env cfg m rt) w = (Inr b, w1)"
  obtains cs where "connector_credentials m cfg = Inr cs"
proof (cases "connector_credentials m cfg")
  case (Inl e)
  then have "fst (backoff_loop env m cid (refresh_token_grant env cfg m rt) ns v) \<noteq> Inr b" for ns v
  proof (induction ns arbitrary: v)
    case (Cons n ns)
    then show ?case
      by (auto simp: refresh_token_grant_def Let_def split: prod.splits sum.splits exn.splits option.splits)
  qed simp
  then show ?thesis using assms by (metis fst_conv run_with_backoff_def)
qed

lemma backoff_answer:
  assumes "run_with_backoff env m cid (refresh_token_grant env cfg m rt) w = (Inr b, w1)"
    and "budget_ok m cid (vk w)"
  obtains i ci sec where "connector_credentials m cfg = Inr (ci, sec)"
    "token_outcome m (ne_http env i (refresh_request m rt ci sec)) = Inr b"
proof -
  obtain cs where Inr: "connector_credentials m cfg = Inr cs"
    using refresh_needs_credentials [OF assms(1)] by blast
  obtain ci sec where cs: "cs = (ci, sec)" by (cases cs)
  with Inr have cred: "connector_credentials m cfg = Inr (ci, sec)" by simp
  note settle = backoff_loop_settles [OF refresh_grant_one_request [OF cred, of env rt] assms(2),
      of "[0..<MAX_ATTEMPTS]"]
  have "fst (first_settled (fst (backoff_loop env m cid (refresh_token_grant env cfg m rt) [] w))
      (\<lambda>i. token_outcome m (ne_http env i (refresh_request m rt ci sec))) (length (http_log w))
      (length [0..<MAX_ATTEMPTS])) = Inr b"
    using settle Inr cs assms(1) by (auto simp: run_with_backoff_def)
  then obtain j where "token_outcome m (ne_http env j (refresh_request m rt ci sec)) = Inr b"
    using first_settled_answer by fastforce
  with Inr cs that show ?thesis by blast
qed

lemma refresh_sends:
  assumes "decrypt_token P cfg (cn_refresh_token_enc c) = Inr rt"
    and "connector_credentials (get_provider (cn_provider c)) cfg = Inr (ci, sec)"
    and "budget_ok (get_provider (cn_provider c)) (cn_id c) (vk w)"
  shows "\<exists>k r2 c2 a2 w2. refresh_locked P cfg env token c w = (r2, c2, a2, w2)
    \<and> http_log w2 = http_log w @ replicate (Suc k) (refresh_request (get_provider (cn_provider c)) rt ci sec)"
proof -
  let ?m = "get_provider (cn_provider c)"
  define sp where "sp = first_settled (fst (backoff_loop env ?m (cn_id c) (refresh_token_grant env cfg ?m rt) [] w))
      (\<lambda>i. token_outcome ?m (ne_http env i (refresh_request ?m rt ci sec))) (length (http_log w))
      (length [0..<MAX_ATTEMPTS])"
  obtain w1 where bo: "run_with_backoff env ?m (cn_id c) (refresh_token_grant env cfg ?m rt) w = (fst sp, w1)"
    and log: "http_log w1 = http_log w @ replicate (snd sp) (refresh_request ?m rt ci sec)"
    using backoff_loop_settles [OF refresh_grant_one_request [OF assms(2), of env rt] assms(3), of "[0..<MAX_ATTEMPTS]"]
    unfolding run_with_backoff_def sp_def [symmetric] by blast
  have "0 < snd sp" unfolding sp_def by (rule first_settled_pos) (simp add: MAX_ATTEMPTS_def)
  then obtain k where k: "snd sp = Suc k" by (metis gr0_implies_Suc)
  obtain r2 c2 a2 w2 where rl: "refresh_locked P cfg env token c w = (r2, c2, a2, w2)" by (metis prod_cases4)
  moreover have "http_log w2 = http_log w1"
    using rl assms(1) bo
    by (auto simp: refresh_locked_def Let_def dest!: apply_token_bundle_fields
        split: sum.splits prod.splits exn.splits if_splits)
  ultimately show ?thesis using log k by auto
qed

section \<open>Properties\<close>

text \<open>
  A successful refresh stores exactly what the provider's token endpoint answered to the
  connection's own refresh token: the sealed access token opens to the new access token with its
  expiry, the refresh token is replaced when the provider sent a new one and kept otherwise, the
  connection is active again without an error, and no other column that identifies it changes.
\<close>

theorem refresh_stores_tokens:
  assumes "refresh_connection P cfg env others cv False c w = (Inr True, c', audits, w')"
    and "aead_law P" "\<And>n. length (ne_nonce env n) = NONCE_SIZE"
    and "budget_ok (get_provider (cn_provider c)) (cn_id c) (vk w)"
  shows "\<exists>rt i ci sec b. decrypt_token P cfg (cn_refresh_token_enc c) = Inr rt
    \<and> token_outcome (get_provider (cn_provider c))
        (ne_http env i (refresh_request (get_provider (cn_provider c)) rt ci sec)) = Inr b
    \<and> decrypt_token P cfg (cn_access_token_enc c') = Inr (tb_access_token b)
    \<and> cn_access_token_expires_at c' = clock w' + seconds (tb_expires_in b)
    \<and> (case tb_refresh_token b of
         Some t \<Rightarrow> if t = [] then cn_refresh_token_enc c' = cn_refresh_token_enc c
                   else decrypt_token P cfg (cn_refresh_token_enc c') = Inr t
       | None \<Rightarrow> cn_refresh_token_enc c' = cn_refresh_token_enc c)
    \<and> cn_status c' = CONN_ACTIVE \<and> cn_last_error c' = None
    \<and> cn_id c' = cn_id c \<and> cn_tenant_id c' = cn_tenant_id c \<and> cn_provider c' = cn_provider c"
proof -
  from assms(1) obtain token w0 where lk: "acquire_lock env (refresh_lock_name (cn_id c)) LOCK_TTL_SECONDS w = (Some token, w0)"
    and rl: "refresh_locked P cfg env token c w0 = (Inr True, c', audits, w')"
    by (auto simp: refresh_connection_def Let_def split: prod.splits option.splits)
  from refresh_locked_success [OF rl] obtain rt b w1 where
    rt: "decrypt_token P cfg (cn_refresh_token_enc c) = Inr rt" and
    bo: "run_with_backoff env (get_provider (cn_provider c)) (cn_id c)
       (refresh_token_grant env cfg (get_provider (cn_provider c)) rt) w0 = (Inr b, w1)" and
    ap: "apply_token_bundle P cfg env b c (release_lock (refresh_lock_name (cn_id c)) token w1) = (Inr c', w')"
    by blast
  have "budget_ok (get_provider (cn_provider c)) (cn_id c) (vk w0)"
    using assms(4) lk by (auto simp: budget_ok_def acquire_lock_eq split: if_splits)
  from backoff_answer [OF bo this] obtain i ci sec where
    "token_outcome (get_provider (cn_provider c))
        (ne_http env i (refresh_request (get_provider (cn_provider c)) rt ci sec)) = Inr b" by blast
  then show ?thesis
    using rt apply_token_bundle_stores [OF ap assms(2,3)] apply_token_bundle_fields [OF ap]
    by (intro exI [of _ rt] exI [of _ i] exI [of _ ci] exI [of _ sec] exI [of _ b]) simp
qed

definition sample_key :: env_key_provider where
  "sample_key = \<lparr>ekp_key = sha256 sample_primitives ''saas-dev-master-key-not-a-secret''\<rparr>"

definition sample_cfg :: settings where
  "sample_cfg = default_settings\<lparr>google_connector_client_id := ''id'', google_connector_client_secret := ''s''\<rparr>"

definition sample_connection :: connector_connection where
  "sample_connection =
     \<lparr>cn_id = 5, cn_tenant_id = 7, cn_provider = GOOGLE, cn_kind = KIND_TENANT, cn_user_id = None,
      cn_account_label = ''a@b.c'', cn_scopes = [], cn_access_token_enc = [],
      cn_refresh_token_enc = kp_encrypt sample_primitives sample_key (replicate 12 (CHR ''n'')) ''rt'',
      cn_access_token_expires_at = 0, cn_status = CONN_ACTIVE, cn_last_error = None,
      cn_health_checked_at = None, cn_created_at = 0\<rparr>"

definition sample_token_body :: json where
  "sample_token_body = JObj [(''access_token'', JStr ''at''), (''expires_in'', JInt 100)]"

definition token_env :: net_env where
  \<comment> \<open>a token endpoint that answers every refresh\<close>
  "token_env = sample_net\<lparr>ne_http := (\<lambda>n rq. Answered
     \<lparr>hr_status = 200, hr_retry_after = None, hr_body = Some sample_token_body\<rparr>)\<rparr>"

definition sample_conn_world :: conn_world where
  "sample_conn_world =
     \<lparr>clock = 10, vk = Map.empty, drawn = 0, http_log = [], cdb = empty_db,
      connections = [sample_connection], subscriptions = [], webhook_routes = [], task_queue = []\<rparr>"

lemma sample_key_provider: "get_key_provider sample_primitives sample_cfg = Inr sample_key"
  by (simp add: get_key_provider_def master_key_bytes_def env_key_provider_init_def sample_key_def
      sample_cfg_def default_settings_def sample_primitives_def)

lemma sample_decrypt_rt:
  "decrypt_token sample_primitives sample_cfg (cn_refresh_token_enc sample_connection) = Inr ''rt''"
  using kp_decrypt_encrypt [OF sample_aead, of "replicate 12 (CHR ''n'')" sample_key "''rt''"]
  by (simp add: decrypt_token_def sample_key_provider sample_connection_def NONCE_SIZE_def)

lemma sample_token_outcome:
  "token_outcome m (ne_http token_env n rq) =
     Inr \<lparr>tb_access_token = ''at'', tb_expires_in = 100, tb_refresh_token = None, tb_scopes = []\<rparr>"
  by (simp add: token_env_def token_outcome_def parse_token_response_def sample_token_body_def json_get_def
      int_of_json_def)

lemma sample_backoff:
  assumes "budget_ok GOOGLE_MANIFEST 5 (vk w)"
  shows "fst (run_with_backoff token_env GOOGLE_MANIFEST 5
      (refresh_token_grant token_env sample_cfg GOOGLE_MANIFEST ''rt'') w) =
    Inr \<lparr>tb_access_token = ''at'', tb_expires_in = 100, tb_refresh_token = None, tb_scopes = []\<rparr>
    \<and> budget_ok GOOGLE_MANIFEST 5 (vk (snd (run_with_backoff token_env GOOGLE_MANIFEST 5
      (refresh_token_grant token_env sample_cfg GOOGLE_MANIFEST ''rt'') w)))"
proof -
  have cred: "connector_credentials GOOGLE_MANIFEST sample_cfg = Inr (''id'', ''s'')"
    by (simp add: connector_credentials_def GOOGLE_MANIFEST_def sample_cfg_def)
  have "first_settled u (\<lambda>i. token_outcome GOOGLE_MANIFEST (ne_http token_env i rq)) k (length [0..<MAX_ATTEMPTS])
      = (Inr \<lparr>tb_access_token = ''at'', tb_expires_in = 100, tb_refresh_token = None, tb_scopes = []\<rparr>, 1)" for u k rq
    by (simp add: sample_token_outcome retry_def MAX_ATTEMPTS_def eval_nat_numeral)
  then show ?thesis
    using backoff_loop_settles [OF refresh_grant_one_request [OF cred, of token_env "''rt''"] assms,
        of "[0..<MAX_ATTEMPTS]"]
    by (auto simp: run_with_backoff_def)
qed

lemma sample_refresh:
  obtains c' w' where "refresh_connection sample_primitives sample_cfg token_env others cv False sample_connection
      sample_conn_world = (Inr True, c', [], w')" "budget_ok GOOGLE_MANIFEST 5 (vk w')"
proof -
  obtain w0 where lk: "acquire_lock token_env (refresh_lock_name 5) LOCK_TTL_SECONDS sample_conn_world = (Some ''a'', w0)"
    by (simp add: acquire_lock_eq sample_conn_world_def kv_alive_def token_env_def sample_net_def)
  then have b: "budget_ok GOOGLE_MANIFEST 5 (vk w0)"
    by (auto simp: acquire_lock_eq budget_ok_def sample_conn_world_def split: if_splits)
  obtain w1 where bo: "run_with_backoff token_env GOOGLE_MANIFEST 5
      (refresh_token_grant token_env sample_cfg GOOGLE_MANIFEST ''rt'') w0 =
      (Inr \<lparr>tb_access_token = ''at'', tb_expires_in = 100, tb_refresh_token = None, tb_scopes = []\<rparr>, w1)"
    and b1: "budget_ok GOOGLE_MANIFEST 5 (vk w1)"
    using sample_backoff [OF b] by (metis prod.collapse)
  have "get_provider (cn_provider sample_connection) = GOOGLE_MANIFEST" "cn_id sample_connection = 5"
    by (simp_all add: get_provider_def sample_connection_def)
  moreover have "budget_ok GOOGLE_MANIFEST 5 (vk (release_lock (refresh_lock_name 5) ''a'' w1))"
    using b1 by (simp add: release_lock_def budget_ok_def)
  ultimately show thesis using that lk bo sample_decrypt_rt
    by (simp add: refresh_connection_def refresh_locked_def Let_def apply_token_bundle_def encrypt_token_def
        sample_key_provider draw_def)
qed

theorem refresh_stores_tokens_witness:
  "\<exists>c' audits w'. refresh_connection sample_primitives sample_cfg token_env (\<lambda>w. w) None False
       sample_connection sample_conn_world = (Inr True, c', audits, w')
     \<and> decrypt_token sample_primitives sample_cfg (cn_access_token_enc c') = Inr ''at''
     \<and> cn_status c' = CONN_ACTIVE"
proof -
  obtain c' w' where rf: "refresh_connection sample_primitives sample_cfg token_env (\<lambda>w. w) None False
      sample_connection sample_conn_world = (Inr True, c', [], w')" by (rule sample_refresh)
  have n: "\<And>n. length (ne_nonce token_env n) = NONCE_SIZE"
    by (simp add: token_env_def sample_net_def NONCE_SIZE_def)
  have b: "budget_ok (get_provider (cn_provider sample_connection)) (cn_id sample_connection) (vk sample_conn_world)"
    by (simp add: budget_ok_def sample_conn_world_def)
  from refresh_stores_tokens [OF rf sample_aead n b] rf show ?thesis
    by (auto simp: sample_token_outcome)
qed

text \<open>
  C31 (error). The refresh lock does not protect the stored refresh token: it is released before the
  new tokens reach the database. After a successful refresh and before the caller's commit, every other
  session still reads the old row, the lock can be acquired again, and a second worker sends the
  same, already used refresh token to the provider (which a provider that rotates refresh tokens
  rejects).
\<close>

theorem refresh_lock_released_before_commit:
  assumes "refresh_connection P cfg env others cv False c w = (Inr True, c', audits, w')"
    and "get_connection cv (cn_id c) w = Inr (Some c)"
    and "budget_ok (get_provider (cn_provider c)) (cn_id c) (vk w')"
  shows "get_connection cv (cn_id c) w' = Inr (Some c)
    \<and> fst (acquire_lock env (refresh_lock_name (cn_id c)) LOCK_TTL_SECONDS w') \<noteq> None
    \<and> (\<exists>rq rt ci sec k r2 c2 a2 w2. rq = refresh_request (get_provider (cn_provider c)) rt ci sec
         \<and> decrypt_token P cfg (cn_refresh_token_enc c) = Inr rt
         \<and> refresh_connection P cfg env others cv False c w' = (r2, c2, a2, w2)
         \<and> http_log w2 = http_log w' @ replicate (Suc k) rq)"
proof -
  let ?m = "get_provider (cn_provider c)" and ?n = "refresh_lock_name (cn_id c)"
  from assms(1) obtain token w0 where lk: "acquire_lock env ?n LOCK_TTL_SECONDS w = (Some token, w0)"
    and rl: "refresh_locked P cfg env token c w0 = (Inr True, c', audits, w')"
    by (auto simp: refresh_connection_def Let_def split: prod.splits option.splits)
  note free = refresh_locked_releases [OF rl acquired_entry [OF lk]]
  have "connections w' = connections w"
    using conn_more(2) [OF free(2)] conn_more(2) acquire_lock_fields [OF lk] by metis
  then have row: "get_connection cv (cn_id c) w' = Inr (Some c)"
    using assms(2) by (simp add: get_connection_def scoped_connections_def)
  obtain token2 w3 where lk2: "acquire_lock env ?n LOCK_TTL_SECONDS w' = (Some token2, w3)"
    using free(1) by (simp add: acquire_lock_eq)
  from refresh_locked_success [OF rl] obtain rt b w1 where
    rt: "decrypt_token P cfg (cn_refresh_token_enc c) = Inr rt" and
    bo: "run_with_backoff env ?m (cn_id c) (refresh_token_grant env cfg ?m rt) w0 = (Inr b, w1)" by blast
  obtain ci sec where cred: "connector_credentials ?m cfg = Inr (ci, sec)"
    using refresh_needs_credentials [OF bo] by (metis prod.collapse)
  have "budget_ok ?m (cn_id c) (vk w3)"
    using assms(3) lk2 by (auto simp: budget_ok_def acquire_lock_eq split: if_splits)
  from refresh_sends [OF rt cred this] obtain k r2 c2 a2 w2 where
    "refresh_locked P cfg env token2 c w3 = (r2, c2, a2, w2)"
    "http_log w2 = http_log w3 @ replicate (Suc k) (refresh_request ?m rt ci sec)" by blast
  moreover have "http_log w3 = http_log w'" using acquire_lock_fields [OF lk2] by simp
  moreover have "refresh_connection P cfg env others cv False c w' = refresh_locked P cfg env token2 c w3"
    using lk2 by (simp add: refresh_connection_def)
  ultimately show ?thesis using row lk2 rt by auto
qed

theorem refresh_lock_released_before_commit_witness:
  "\<exists>w'. get_connection (Some \<lparr>tc_tenant_id = 7, tc_slug = ''acme'', tc_role = None\<rparr>) 5 w' = Inr (Some sample_connection)
     \<and> fst (acquire_lock token_env (refresh_lock_name 5) LOCK_TTL_SECONDS w') \<noteq> None"
proof -
  let ?cv = "Some \<lparr>tc_tenant_id = 7, tc_slug = ''acme'', tc_role = None\<rparr>"
  obtain c' w' where rf: "refresh_connection sample_primitives sample_cfg token_env (\<lambda>w. w) ?cv False
      sample_connection sample_conn_world = (Inr True, c', [], w')" and b: "budget_ok GOOGLE_MANIFEST 5 (vk w')"
    by (rule sample_refresh)
  have id5: "cn_id sample_connection = 5" "get_provider (cn_provider sample_connection) = GOOGLE_MANIFEST"
    by (simp_all add: sample_connection_def get_provider_def)
  have "get_connection ?cv (cn_id sample_connection) sample_conn_world = Inr (Some sample_connection)"
    by (simp add: get_connection_def scoped_connections_def scoped_select_eq sample_conn_world_def)
      (simp add: sample_connection_def)
  from refresh_lock_released_before_commit [OF rf this] b show ?thesis unfolding id5 by blast
qed

end
