(* ===== verification/ConnectorFlow.thy ===== *)
theory ConnectorFlow
  imports ConnectorTokens AuthRouter
begin

text \<open>
  The consent flow of the connectors (\<^verbatim>\<open>connectors/oauth.py\<close>) and their management routes
  (\<^verbatim>\<open>connectors/router.py\<close>). The callback is anonymous: the signed state is its only authority.
\<close>

section \<open>Starting a consent\<close>

definition connector_redirect_uri :: "connector_provider \<Rightarrow> settings \<Rightarrow> string" where
  "connector_redirect_uri p cfg = public_base_url cfg @ ''/api/v1/connectors/'' @ provider_str p @ ''/callback''"

definition connector_apex_host :: "settings \<Rightarrow> string" where
  "connector_apex_host cfg = url_netloc (public_base_url cfg)"

definition connector_return_host :: "settings \<Rightarrow> string \<Rightarrow> string" where
  "connector_return_host cfg host =
     (let apex = connector_apex_host cfg;
          bare = before_first (CHR '':'') host;
          apex_bare = before_first (CHR '':'') apex
      in if bare = apex_bare \<or> endswith bare (''.'' @ apex_bare) then host else apex)"

definition repr_list :: "string list \<Rightarrow> string" where
  "repr_list xs = repr_json (JList (map JStr xs))"

definition validate_capabilities :: "provider_manifest \<Rightarrow> string list \<Rightarrow> string list result" where
  "validate_capabilities m capabilities =
     (let unknown = filter (\<lambda>c. c \<notin> set KNOWN_CAPABILITIES) capabilities
      in if unknown \<noteq> [] \<or> capabilities = []
         then Inl (ConnectorOAuthError (''Capabilities invalides : ''
                     @ (if unknown \<noteq> [] then repr_list unknown else ''aucune'')))
         else (let unsupported = filter (\<lambda>c. c \<notin> set (manifest_capabilities m)) capabilities
               in if unsupported \<noteq> []
                  then Inl (ConnectorOAuthError (''Capabilities non supportees par ''
                              @ provider_str (pm_provider m) @ '' : '' @ repr_list unsupported))
                  else Inr capabilities))"

definition CONNECTOR_STATE_TTL :: int where "CONNECTOR_STATE_TTL = 600"

definition connector_state ::
  "connector_provider \<Rightarrow> string \<Rightarrow> uuid \<Rightarrow> connection_kind \<Rightarrow> string list \<Rightarrow> string \<Rightarrow> uuid option \<Rightarrow>
   (string \<times> json) list" where
  "connector_state p slug user_id kind capabilities return_host cid =
     [(''p'', JStr (provider_str p)), (''t'', JStr slug), (''u'', JStr (str_uuid user_id)),
      (''k'', JStr (kind_str kind)), (''c'', JList (map JStr capabilities)), (''r'', JStr return_host),
      (''cid'', json_opt_str (map_option str_uuid cid))]"

definition connector_authorization_url ::
  "primitives \<Rightarrow> settings \<Rightarrow> instant \<Rightarrow> connector_provider \<Rightarrow> string \<Rightarrow> uuid \<Rightarrow> connection_kind \<Rightarrow>
   string list \<Rightarrow> string \<Rightarrow> uuid option \<Rightarrow> (string \<times> (string \<times> string) list) result" where
  \<comment> \<open>\<^verbatim>\<open>build_authorization_url\<close>: the endpoint and the query parameters\<close>
  "connector_authorization_url P cfg now p slug user_id kind capabilities return_host cid =
     (let m = get_provider p
      in case validate_capabilities m capabilities of Inl e \<Rightarrow> Inl e
         | Inr _ \<Rightarrow>
             (case connector_credentials m cfg of Inl e \<Rightarrow> Inl e
              | Inr (client_id, _) \<Rightarrow>
                  (case sign_payload P cfg now
                          (connector_state p slug user_id kind capabilities
                             (connector_return_host cfg return_host) cid) CONNECTOR_STATE_TTL of
                     Inl e \<Rightarrow> Inl e
                   | Inr state \<Rightarrow>
                       (case scopes_for m capabilities of Inl e \<Rightarrow> Inl e
                        | Inr scopes \<Rightarrow>
                            Inr (authorization_endpoint m,
                                 [(''response_type'', ''code''), (''client_id'', client_id),
                                  (''redirect_uri'', connector_redirect_uri p cfg),
                                  (''scope'', join_with '' '' scopes), (''state'', state)]
                                 @ authorization_extra_params m)))))"

definition connector_parse_state ::
  "primitives \<Rightarrow> settings \<Rightarrow> instant \<Rightarrow> string \<Rightarrow> connector_provider \<Rightarrow> (string \<times> json) list result" where
  "connector_parse_state P cfg now state expected =
     (case verify_payload P cfg now state of
        Inl (ValueError _) \<Rightarrow> Inl (ConnectorOAuthError ''State OAuth invalide ou expire.'')
      | Inl e \<Rightarrow> Inl e
      | Inr payload \<Rightarrow>
          if json_get payload ''p'' \<noteq> Some (JStr (provider_str expected))
          then Inl (ConnectorOAuthError ''State OAuth emis pour un autre provider.'')
          else (case (json_get payload ''t'', json_get payload ''c'') of
                  (Some (JStr _), Some (JList _)) \<Rightarrow> Inr payload
                | _ \<Rightarrow> Inl (ConnectorOAuthError ''State OAuth incomplet.'')))"

section \<open>Storing a connection\<close>

definition missing_refresh_msg :: "connector_provider \<Rightarrow> string" where
  "missing_refresh_msg p =
     provider_str p @ '' n'' @ [CHR 0x27] @ ''a pas emis de refresh token - reconnectez le compte ''
     @ ''(chez Google, le consentement doit etre re-demande avec prompt=consent).''"

definition no_refresh_msg :: "connector_provider \<Rightarrow> string" where
  "no_refresh_msg p =
     provider_str p @ '' n'' @ [CHR 0x27] @ ''a pas emis de refresh token pour cette connexion.''"

definition find_connection ::
  "connector_provider \<Rightarrow> connection_kind \<Rightarrow> string \<Rightarrow> uuid option \<Rightarrow> connector_connection list \<Rightarrow>
   connector_connection option" where
  \<comment> \<open>the two lookups of \<^verbatim>\<open>_upsert_connection\<close> over the rows of the tenant\<close>
  "find_connection p kind label cid rows =
     (case (case cid of None \<Rightarrow> None | Some i \<Rightarrow> List.find (\<lambda>c. cn_id c = i) rows) of
        Some c \<Rightarrow> Some c
      | None \<Rightarrow> List.find (\<lambda>c. cn_provider c = p \<and> cn_kind c = kind \<and> cn_account_label c = label
                              \<and> cn_status c \<noteq> CONN_REVOKED) rows)"

definition upsert_connection ::
  "primitives \<Rightarrow> settings \<Rightarrow> net_env \<Rightarrow> context_var \<Rightarrow> connector_provider \<Rightarrow> connection_kind \<Rightarrow> uuid option \<Rightarrow>
   string \<Rightarrow> string list \<Rightarrow> token_bundle \<Rightarrow> uuid option \<Rightarrow> conn_world \<Rightarrow>
   (connector_connection \<times> bool) result \<times> conn_world" where
  \<comment> \<open>the connection to write and whether it is new\<close>
  "upsert_connection P cfg env cv p kind user_id label scopes bundle cid w =
     (case scoped_connections cv w of Inl e \<Rightarrow> (Inl e, w)
      | Inr rows \<Rightarrow>
          (case find_connection p kind label cid rows of
             None \<Rightarrow>
               if tb_refresh_token bundle = None
               then (Inl (MissingRefreshTokenError (missing_refresh_msg p)), w)
               else (case flush_insert cv of Inl e \<Rightarrow> (Inl e, w)
                     | Inr t \<Rightarrow>
                         (let (n, w1) = draw w;
                              c = \<lparr>cn_id = ne_uuid env n, cn_tenant_id = t, cn_provider = p, cn_kind = kind,
                                   cn_user_id = user_id, cn_account_label = label, cn_scopes = scopes,
                                   cn_access_token_enc = [], cn_refresh_token_enc = [],
                                   cn_access_token_expires_at = clock w1, cn_status = CONN_ACTIVE,
                                   cn_last_error = None, cn_health_checked_at = None, cn_created_at = clock w1\<rparr>
                          in case apply_token_bundle P cfg env bundle c w1 of
                               (Inl e, w2) \<Rightarrow> (Inl e, w2)
                             | (Inr c1, w2) \<Rightarrow>
                                 if cn_refresh_token_enc c1 = []
                                 then (Inl (MissingRefreshTokenError (no_refresh_msg p)), w2)
                                 else (Inr (c1, True), w2)))
           | Some old \<Rightarrow>
               (let c = old\<lparr>cn_account_label := label,
                            cn_scopes := sort (remdups (cn_scopes old @ scopes))\<rparr>
                in case apply_token_bundle P cfg env bundle c w of
                     (Inl e, w2) \<Rightarrow> (Inl e, w2)
                   | (Inr c1, w2) \<Rightarrow>
                       if cn_refresh_token_enc c1 = []
                       then (Inl (MissingRefreshTokenError (no_refresh_msg p)), w2)
                       else (Inr (c1, False), w2))))"

definition store_connection :: "connector_connection \<Rightarrow> bool \<Rightarrow> conn_world \<Rightarrow> conn_world" where
  "store_connection c is_new w =
     connections_update
       (if is_new then insert_row c else update_where (\<lambda>r. cn_id r = cn_id c) (\<lambda>_. c)) w"

definition ensure_webhook_route ::
  "net_env \<Rightarrow> uuid \<Rightarrow> connector_provider \<Rightarrow> uuid \<Rightarrow> conn_world \<Rightarrow> conn_world" where
  "ensure_webhook_route env t p cid w =
     (case List.find (\<lambda>r. wr_connection_id r = cid) (webhook_routes w) of
        Some _ \<Rightarrow> w
      | None \<Rightarrow>
          (let (n, w1) = draw w
           in webhook_routes_update (insert_row
                \<lparr>wr_id = ne_uuid env n, wr_route_key = ne_token env n, wr_provider = provider_str p,
                 wr_tenant_id = t, wr_connection_id = cid\<rparr>) w1))"

definition active_tenant :: "tenant \<Rightarrow> bool" where
  "active_tenant t = (t_state t = T_ACTIVE \<and> t_deleted_at t = None)"

definition kind_of_str :: "string \<Rightarrow> connection_kind option" where
  "kind_of_str s = (if s = ''tenant'' then Some KIND_TENANT else if s = ''user'' then Some KIND_USER else None)"

definition state_uuid :: "json option \<Rightarrow> uuid option result" where
  \<comment> \<open>\<^verbatim>\<open>uuid.UUID(str(v)) if isinstance(v, str) else None\<close>\<close>
  "state_uuid v =
     (case v of Some (JStr s) \<Rightarrow> (case parse_uuid s of None \<Rightarrow> Inl (ValueError ''uuid'') | Some u \<Rightarrow> Inr (Some u))
      | _ \<Rightarrow> Inr None)"

definition connected_args ::
  "connector_connection \<Rightarrow> connector_provider \<Rightarrow> connection_kind \<Rightarrow> string list \<Rightarrow> uuid option \<Rightarrow> string \<Rightarrow> audit_args" where
  "connected_args c p kind capabilities user_id label =
     \<lparr>aa_action = ''connector.connected'', aa_resource_type = ''connector_connection'',
      aa_resource_id = str_uuid (cn_id c),
      aa_payload = [(''provider'', JStr (provider_str p)), (''account'', JStr label),
                    (''kind'', JStr (kind_str kind)), (''capabilities'', JList (map JStr capabilities))],
      aa_actor_user_id = user_id, aa_actor_label = label\<rparr>"

definition callback_error :: "exn \<Rightarrow> exn" where
  \<comment> \<open>the two \<^verbatim>\<open>except\<close> clauses around the exchange; any other exception passes through\<close>
  "callback_error e =
     (case e of ConnectorError msg \<Rightarrow> HTTPException 400 msg
      | InvalidGrantError msg \<Rightarrow> HTTPException 400 msg
      | MissingRefreshTokenError msg \<Rightarrow> HTTPException 400 msg
      | HTTPError _ \<Rightarrow> HTTPException 502 ''Provider OAuth injoignable''
      | _ \<Rightarrow> e)"

definition store_consent ::
  "primitives \<Rightarrow> settings \<Rightarrow> net_env \<Rightarrow> tenant \<Rightarrow> connector_provider \<Rightarrow> connection_kind \<Rightarrow> uuid option \<Rightarrow>
   string \<Rightarrow> string list \<Rightarrow> string list \<Rightarrow> token_bundle \<Rightarrow> uuid option \<Rightarrow> conn_world \<Rightarrow> uuid result \<times> conn_world" where
  \<comment> \<open>the block under \<^verbatim>\<open>with tenant_context(ctx)\<close>; nothing is committed when it raises\<close>
  "store_consent P cfg env t p kind user_id label scopes capabilities bundle cid w =
     (let cv = Some \<lparr>tc_tenant_id = t_id t, tc_slug = t_slug t, tc_role = None\<rparr>
      in case upsert_connection P cfg env cv p kind (if kind = KIND_USER then user_id else None) label scopes bundle cid w of
           (Inl (MissingRefreshTokenError msg), w1) \<Rightarrow> (Inl (HTTPException 400 msg), w1)
         | (Inl e, w1) \<Rightarrow> (Inl e, w1)
         | (Inr (c, is_new), w1) \<Rightarrow>
             (case add_audits env cv [connected_args c p kind capabilities user_id label] w1 of
                (Inl e, w2) \<Rightarrow> (Inl e, w1)
              | (Inr _, w2) \<Rightarrow> (Inr (cn_id c), store_connection c is_new w2)))"

definition complete_consent ::
  "primitives \<Rightarrow> settings \<Rightarrow> net_env \<Rightarrow> tenant \<Rightarrow> connector_provider \<Rightarrow> connection_kind \<Rightarrow> uuid option \<Rightarrow>
   uuid option \<Rightarrow> string list \<Rightarrow> string \<Rightarrow> string \<Rightarrow> conn_world \<Rightarrow> string result \<times> conn_world" where
  \<comment> \<open>the callback from the exchange of the code on\<close>
  "complete_consent P cfg env t p kind user_id cid capabilities code page w =
     (let m = get_provider p
      in case connector_exchange_code env cfg m code (connector_redirect_uri p cfg) w of
           (Inl e, w1) \<Rightarrow> (Inl (callback_error e), w1)
         | (Inr bundle, w1) \<Rightarrow>
             (case fetch_account_label env m (tb_access_token bundle) w1 of
                (Inl e, w2) \<Rightarrow> (Inl (callback_error e), w2)
              | (Inr label, w2) \<Rightarrow>
                  (case (if tb_scopes bundle \<noteq> [] then Inr (tb_scopes bundle) else scopes_for m capabilities) of
                     Inl e \<Rightarrow> (Inl e, w2)
                   | Inr scopes \<Rightarrow>
                       (case store_consent P cfg env t p kind user_id label scopes capabilities bundle cid w2 of
                          (Inl e, w3) \<Rightarrow> (Inl e, w3)
                        | (Inr connection_id, w3) \<Rightarrow>
                            (Inr (page @ ''?connected='' @ provider_str p),
                             task_queue_update (\<lambda>q. q @ [SyncSubscriptions (t_slug t) connection_id])
                               (ensure_webhook_route env (t_id t) p connection_id w3))))))"

definition connector_oauth_callback ::
  "primitives \<Rightarrow> settings \<Rightarrow> net_env \<Rightarrow> connector_provider \<Rightarrow> string \<Rightarrow> string option \<Rightarrow> string option \<Rightarrow>
   conn_world \<Rightarrow> string result \<times> conn_world" where
  \<comment> \<open>the result is the URL of the 303 redirect\<close>
  "connector_oauth_callback P cfg env p state code err w =
     (case connector_parse_state P cfg (clock w) state p of
        Inl (ConnectorOAuthError _) \<Rightarrow> (Inl (HTTPException 400 ''State OAuth invalide''), w)
      | Inl e \<Rightarrow> (Inl e, w)
      | Inr payload \<Rightarrow>
          (let return_host = connector_return_host cfg
                 (case json_get payload ''r'' of None \<Rightarrow> [] | Some v \<Rightarrow> str_json v);
               page = url_scheme (public_base_url cfg) @ ''://'' @ return_host @ ''/connectors''
           in if err \<noteq> None \<or> code = None then (Inr (page @ ''?error=denied''), w)
              else (case List.find (\<lambda>t. Some (JStr (t_slug t)) = json_get payload ''t'') (tenants (cdb w)) of
                      None \<Rightarrow> (Inl (HTTPException 400 ''Tenant introuvable ou inactif''), w)
                    | Some t \<Rightarrow>
                        if \<not> active_tenant t then (Inl (HTTPException 400 ''Tenant introuvable ou inactif''), w)
                        else (case (kind_of_str (case json_get payload ''k'' of None \<Rightarrow> ''tenant'' | Some v \<Rightarrow> str_json v),
                                    state_uuid (json_get payload ''u''), state_uuid (json_get payload ''cid'')) of
                                (Some kind, Inr user_id, Inr cid) \<Rightarrow>
                                  complete_consent P cfg env t p kind user_id cid
                                    (case json_get payload ''c'' of Some (JList cs) \<Rightarrow> map str_json cs | _ \<Rightarrow> [])
                                    (the code) page w
                              | _ \<Rightarrow> (Inl (ValueError ''state''), w)))))"

section \<open>Routes\<close>

record connection_out =
  co_id :: uuid
  co_provider :: connector_provider
  co_kind :: connection_kind
  co_account_label :: string
  co_scopes :: "string list"
  co_status :: connection_status
  co_last_error :: "string option"
  co_health_checked_at :: "instant option"
  co_access_token_expires_at :: instant
  co_created_at :: instant

definition connection_to_out :: "connector_connection \<Rightarrow> connection_out" where
  "connection_to_out c =
     \<lparr>co_id = cn_id c, co_provider = cn_provider c, co_kind = cn_kind c,
      co_account_label = cn_account_label c, co_scopes = cn_scopes c, co_status = cn_status c,
      co_last_error = cn_last_error c, co_health_checked_at = cn_health_checked_at c,
      co_access_token_expires_at = cn_access_token_expires_at c, co_created_at = cn_created_at c\<rparr>"

definition conn_route ::
  "primitives \<Rightarrow> permission_registry \<Rightarrow> string \<Rightarrow> request \<Rightarrow>
   (current_auth \<Rightarrow> tenant_context \<Rightarrow> conn_world \<Rightarrow> 'a result \<times> conn_world) \<Rightarrow> conn_world \<Rightarrow> 'a result \<times> conn_world" where
  \<comment> \<open>a permission-guarded route whose handler also works on the connector tables\<close>
  "conn_route P st permission rq handler w =
     (case permission_route P st permission (rq\<lparr>rq_now := clock w\<rparr>) (\<lambda>a ctx d. (Inr (a, ctx), d)) (cdb w) of
        (Inl e, d) \<Rightarrow> (Inl e, w\<lparr>cdb := d\<rparr>)
      | (Inr (a, ctx), d) \<Rightarrow> handler a ctx (w\<lparr>cdb := d\<rparr>))"

definition connectors_list ::
  "primitives \<Rightarrow> permission_registry \<Rightarrow> request \<Rightarrow> conn_world \<Rightarrow> connection_out list result \<times> conn_world" where
  "connectors_list P st rq w =
     conn_route P st ''core.connectors.read'' rq
       (\<lambda>a ctx w1. case scoped_connections (Some ctx) w1 of Inl e \<Rightarrow> (Inl e, w1)
          | Inr rows \<Rightarrow> (Inr (map connection_to_out (sort_key cn_created_at rows)), w1)) w"

definition connector_start ::
  "primitives \<Rightarrow> settings \<Rightarrow> permission_registry \<Rightarrow> request \<Rightarrow> connector_provider \<Rightarrow> string list option \<Rightarrow>
   connection_kind \<Rightarrow> conn_world \<Rightarrow> (string \<times> (string \<times> string) list) result \<times> conn_world" where
  "connector_start P cfg st rq p capabilities kind w =
     conn_route P st ''core.connectors.manage'' rq
       (\<lambda>a ctx w1.
          let caps = (case capabilities of None \<Rightarrow> [''mail'', ''calendar'']
                      | Some cs \<Rightarrow> if cs = [] then [''mail'', ''calendar''] else cs)
          in case connector_authorization_url P cfg (clock w1) p (tc_slug ctx) (u_id (ca_user a)) kind caps
                    (rq_host rq) None of
               Inl (ConnectorOAuthError msg) \<Rightarrow> (Inl (HTTPException 400 msg), w1)
             | Inl (ConnectorError msg) \<Rightarrow> (Inl (HTTPException 503 msg), w1)
             | Inl e \<Rightarrow> (Inl e, w1)
             | Inr url \<Rightarrow> (Inr url, w1)) w"

definition connector_reconsent ::
  "primitives \<Rightarrow> settings \<Rightarrow> permission_registry \<Rightarrow> request \<Rightarrow> uuid \<Rightarrow> conn_world \<Rightarrow>
   (string \<times> (string \<times> string) list) result \<times> conn_world" where
  "connector_reconsent P cfg st rq cid w =
     conn_route P st ''core.connectors.manage'' rq
       (\<lambda>a ctx w1.
          case get_connection (Some ctx) cid w1 of Inl e \<Rightarrow> (Inl e, w1)
          | Inr None \<Rightarrow> (Inl (HTTPException 404 ''Connexion introuvable''), w1)
          | Inr (Some c) \<Rightarrow>
              if cn_status c \<noteq> CONN_NEEDS_RECONSENT
              then (Inl (HTTPException 409 ''La connexion n'attend pas de re-consentement''), w1)
              else (let granted = sort (granted_capabilities c);
                        caps = (if granted \<noteq> [] then granted
                                else sort (manifest_capabilities (get_provider (cn_provider c))))
                    in case connector_authorization_url P cfg (clock w1) (cn_provider c) (tc_slug ctx)
                              (u_id (ca_user a)) (cn_kind c) caps (rq_host rq) (Some (cn_id c)) of
                         Inl (ConnectorOAuthError msg) \<Rightarrow> (Inl (HTTPException 503 msg), w1)
                       | Inl (ConnectorError msg) \<Rightarrow> (Inl (HTTPException 503 msg), w1)
                       | Inl e \<Rightarrow> (Inl e, w1)
                       | Inr url \<Rightarrow> (Inr url, w1))) w"

definition revoked_args :: "connector_connection \<Rightarrow> user \<Rightarrow> audit_args" where
  "revoked_args c u =
     \<lparr>aa_action = ''connector.revoked'', aa_resource_type = ''connector_connection'',
      aa_resource_id = str_uuid (cn_id c),
      aa_payload = [(''provider'', JStr (provider_str (cn_provider c))), (''account'', JStr (cn_account_label c))],
      aa_actor_user_id = Some (u_id u), aa_actor_label = actor_label u\<rparr>"

definition connector_revoke ::
  "primitives \<Rightarrow> settings \<Rightarrow> net_env \<Rightarrow> permission_registry \<Rightarrow> request \<Rightarrow> uuid \<Rightarrow> conn_world \<Rightarrow>
   unit result \<times> conn_world" where
  "connector_revoke P cfg env st rq cid w =
     conn_route P st ''core.connectors.manage'' rq
       (\<lambda>a ctx w1.
          case get_connection (Some ctx) cid w1 of Inl e \<Rightarrow> (Inl e, w1)
          | Inr None \<Rightarrow> (Inl (HTTPException 404 ''Connexion introuvable''), w1)
          | Inr (Some c) \<Rightarrow>
              if cn_status c = CONN_REVOKED then (Inr (), w1)
              else (let (c1, w2) = revoke_connection P cfg env c w1
                    in case scoped_delete (Some ctx) ''connector_subscriptions'' sb_tenant_id
                              (\<lambda>s. sb_connection_id s = cn_id c) (subscriptions w2) of
                         Inl e \<Rightarrow> (Inl e, w2)
                       | Inr subs \<Rightarrow>
                           (case commit_connection env (Some ctx) c1 [revoked_args c (ca_user a)] w2 of
                              (Inl e, w3) \<Rightarrow> (Inl e, w3)
                            | (Inr _, w3) \<Rightarrow>
                                (Inr (), webhook_routes_update (delete_where (\<lambda>r. wr_connection_id r = cn_id c))
                                           (w3\<lparr>subscriptions := subs\<rparr>))))) w"

section \<open>Lemmas\<close>

lemma apply_token_bundle_keys:
  "apply_token_bundle P cfg env b c w = (Inr c', w') \<Longrightarrow>
   cn_id c' = cn_id c \<and> cn_tenant_id c' = cn_tenant_id c \<and> net_world.more w' = net_world.more w"
  by (auto simp: apply_token_bundle_def Let_def dest!: encrypt_token_fields
      split: sum.splits prod.splits option.splits if_splits)

lemma find_connection_mem: "find_connection p kind label cid rows = Some c \<Longrightarrow> c \<in> set rows"
  by (auto simp: find_connection_def dest!: find_eq_Some_D split: option.splits)

lemma draw_eq_more: "draw w = (n, w') \<Longrightarrow> net_world.more w' = net_world.more w"
  by (auto simp: draw_def)

lemma upsert_connection_more:
  "upsert_connection P cfg env cv p kind u label scopes b cid w = (r, w') \<Longrightarrow> net_world.more w' = net_world.more w"
  by (auto simp: upsert_connection_def Let_def dest!: apply_token_bundle_fields draw_eq_more
      split: sum.splits option.splits prod.splits if_splits)

lemma request_attempt_more:
  "request_attempt env rq out w = (r, w') \<Longrightarrow> net_world.more w' = net_world.more w"
  by (auto simp: request_attempt_def send_def)

lemma exchange_code_more:
  "connector_exchange_code env cfg m code red w = (r, w') \<Longrightarrow> net_world.more w' = net_world.more w"
  by (auto simp: connector_exchange_code_def dest: request_attempt_more split: sum.splits)

lemma fetch_account_label_more:
  "fetch_account_label env m token w = (r, w') \<Longrightarrow> net_world.more w' = net_world.more w"
  unfolding fetch_account_label_def by (rule request_attempt_more)

text \<open>A consent writes a row of its tenant: an existing one, or one with a new identifier.\<close>

lemma upsert_connection_row:
  assumes "upsert_connection P cfg env (Some ctx) p kind u label scopes b cid w = (Inr (c, is_new), w')"
  shows "cn_tenant_id c = tc_tenant_id ctx \<and> net_world.more w' = net_world.more w \<and>
    (if is_new then \<exists>n. cn_id c = ne_uuid env n
     else \<exists>r\<in>set (connections w). cn_id r = cn_id c \<and> cn_tenant_id r = tc_tenant_id ctx)"
proof -
  let ?rows = "filter (\<lambda>c. cn_tenant_id c = tc_tenant_id ctx) (connections w)"
  have sc: "scoped_connections (Some ctx) w = Inr ?rows"
    by (simp add: scoped_connections_def handler_simps)
  show ?thesis
  proof (cases "find_connection p kind label cid ?rows")
    case None
    then show ?thesis
      using assms sc
      by (auto simp: upsert_connection_def handler_simps Let_def draw_def
          dest!: apply_token_bundle_keys split: if_splits sum.splits prod.splits)
  next
    case (Some r)
    have "r \<in> set ?rows" by (rule find_connection_mem [OF Some])
    then show ?thesis
      using assms sc Some
      by (auto simp: upsert_connection_def Let_def dest!: apply_token_bundle_keys
          split: if_splits sum.splits prod.splits)
  qed
qed

text \<open>What one tenant has in the connector tables and in its audit log.\<close>

definition connector_view ::
  "uuid \<Rightarrow> conn_world \<Rightarrow> connector_connection list \<times> connector_subscription list \<times> webhook_route list \<times> audit_event list" where
  "connector_view t w =
     (filter (\<lambda>c. cn_tenant_id c = t) (connections w), filter (\<lambda>s. sb_tenant_id s = t) (subscriptions w),
      filter (\<lambda>r. wr_tenant_id r = t) (webhook_routes w), filter (\<lambda>e. ae_tenant_id e = t) (audit_events (cdb w)))"

lemma connector_view_more:
  "net_world.more w' = net_world.more w \<Longrightarrow> connector_view t w' = connector_view t w"
  using conn_more [of w' w] by (simp add: connector_view_def)

lemma add_audits_view:
  "add_audits env (Some ctx) as w = (r, w') \<Longrightarrow> t \<noteq> tc_tenant_id ctx \<Longrightarrow>
   connector_view t w' = connector_view t w \<and> connections w' = connections w \<and> task_queue w' = task_queue w"
  by (induction as arbitrary: w)
    (auto simp: draw_def record_audit_event_eq Let_def connector_view_def insert_row_def)

lemma store_connection_view:
  assumes "cn_tenant_id c \<noteq> t"
    and "\<not> is_new \<Longrightarrow> \<forall>r\<in>set (connections w). cn_id r = cn_id c \<longrightarrow> cn_tenant_id r \<noteq> t"
  shows "connector_view t (store_connection c is_new w) = connector_view t w"
proof -
  have "filter (\<lambda>c. cn_tenant_id c = t) (update_where (\<lambda>r. cn_id r = cn_id c) (\<lambda>_. c) rs) = filter (\<lambda>c. cn_tenant_id c = t) rs"
    if "\<forall>r\<in>set rs. cn_id r = cn_id c \<longrightarrow> cn_tenant_id r \<noteq> t" for rs
    using that assms(1) by (induction rs) (auto simp: update_where_def)
  then show ?thesis using assms by (simp add: connector_view_def store_connection_def insert_row_def)
qed

lemma ensure_webhook_route_view:
  "t \<noteq> t' \<Longrightarrow> connector_view t (ensure_webhook_route env t' p cid w) = connector_view t w"
  by (auto simp: ensure_webhook_route_def connector_view_def draw_def Let_def insert_row_def split: option.splits)

lemma store_consent_view:
  assumes "store_consent P cfg env t p kind u label scopes caps b cid w = (r, w')"
    and "distinct (map cn_id (connections w))" "t' \<noteq> t_id t"
  shows "connector_view t' w' = connector_view t' w"
proof -
  let ?ctx = "\<lparr>tc_tenant_id = t_id t, tc_slug = t_slug t, tc_role = None\<rparr>"
  let ?u = "if kind = KIND_USER then u else None"
  obtain ur w1 where up: "upsert_connection P cfg env (Some ?ctx) p kind ?u label scopes b cid w = (ur, w1)" by fastforce
  have m: "net_world.more w1 = net_world.more w" by (rule upsert_connection_more [OF up])
  show ?thesis
  proof (cases ur)
    case (Inl e)
    then have "w' = w1" using assms(1) up by (auto simp: store_consent_def Let_def split: exn.splits)
    then show ?thesis using connector_view_more [OF m] by simp
  next
    case (Inr cn)
    obtain c is_new where cn: "cn = (c, is_new)" by (cases cn)
    note row = upsert_connection_row [OF up [unfolded Inr cn]]
    obtain ar w2 where au: "add_audits env (Some ?ctx) [connected_args c p kind caps u label] w1 = (ar, w2)" by fastforce
    note v2 = add_audits_view [OF au, of t']
    have "cn_tenant_id r \<noteq> t'" if old: "\<not> is_new" "r \<in> set (connections w)" "cn_id r = cn_id c" for r
    proof -
      obtain r' where "r' \<in> set (connections w)" "cn_id r' = cn_id c" "cn_tenant_id r' = t_id t"
        using row old(1) by auto
      then have "r = r'" using old assms(2) by (metis inj_on_contraD distinct_map)
      then show ?thesis using \<open>cn_tenant_id r' = t_id t\<close> assms(3) by simp
    qed
    then have "connector_view t' (store_connection c is_new w2) = connector_view t' w2"
      using store_connection_view [of c t' is_new w2] row v2 assms(3) conn_more(2) [OF m] by auto
    then show ?thesis
      using assms(1,3) up Inr cn au v2 connector_view_more [OF m, of t']
      by (auto simp: store_consent_def Let_def simp del: add_audits.simps split: sum.splits)
  qed
qed

lemma complete_consent_view:
  assumes "complete_consent P cfg env t p kind u cid caps code page w = (r, w')"
    and "distinct (map cn_id (connections w))" "t' \<noteq> t_id t"
  shows "connector_view t' w' = connector_view t' w"
proof -
  let ?m = "get_provider p"
  obtain er w1 where ex: "connector_exchange_code env cfg ?m code (connector_redirect_uri p cfg) w = (er, w1)" by fastforce
  note m1 = exchange_code_more [OF ex]
  show ?thesis
  proof (cases er)
    case (Inl e)
    then show ?thesis using assms(1) ex connector_view_more [OF m1] by (simp add: complete_consent_def Let_def)
  next
    case (Inr b)
    obtain lr w2 where lb: "fetch_account_label env ?m (tb_access_token b) w1 = (lr, w2)" by fastforce
    have m2: "net_world.more w2 = net_world.more w" using fetch_account_label_more [OF lb] m1 by simp
    have v2: "connector_view t' w2 = connector_view t' w" by (rule connector_view_more [OF m2])
    have d2: "distinct (map cn_id (connections w2))" using assms(2) conn_more(2) [OF m2] by simp
    have "connector_view t' w3 = connector_view t' w"
      if "store_consent P cfg env t p kind u l scopes caps b cid w2 = (sr, w3)" for l scopes sr w3
      using store_consent_view [OF that d2 assms(3)] v2 by simp
    moreover have "connector_view t' (task_queue_update f v) = connector_view t' v" for f v
      by (simp add: connector_view_def)
    ultimately show ?thesis
      using assms(1,3) ex Inr lb v2 ensure_webhook_route_view [of t' "t_id t"]
      by (auto simp: complete_consent_def Let_def split: sum.splits prod.splits if_splits)
  qed
qed

section \<open>Properties\<close>

text \<open>
  C12 (safety). The signed state is the only authority of the anonymous callback. A callback changes
  nothing at all, or its state was verified and names an active tenant, and then the connections,
  subscriptions, webhook routes and audit events of every other tenant are untouched.
\<close>

theorem callback_confined:
  assumes "connector_oauth_callback P cfg env p state code err w = (r, w')"
    and "distinct (map cn_id (connections w))"
  shows "w' = w \<or>
    (\<exists>payload t. connector_parse_state P cfg (clock w) state p = Inr payload
       \<and> t \<in> set (tenants (cdb w)) \<and> active_tenant t \<and> json_get payload ''t'' = Some (JStr (t_slug t))
       \<and> (\<forall>t'. t' = t_id t \<or> connector_view t' w' = connector_view t' w))"
proof (cases "connector_parse_state P cfg (clock w) state p")
  case (Inl e)
  then show ?thesis using assms(1) by (auto simp: connector_oauth_callback_def split: exn.splits)
next
  case (Inr payload)
  let ?q = "\<lambda>t. Some (JStr (t_slug t)) = json_get payload ''t''"
  show ?thesis
  proof (cases "List.find ?q (tenants (cdb w))")
    case None
    then show ?thesis using assms(1) Inr by (auto simp: connector_oauth_callback_def Let_def split: if_splits)
  next
    case (Some t)
    have "w' = w \<or> (active_tenant t \<and> (\<exists>kind u cid caps code page.
        complete_consent P cfg env t p kind u cid caps code page w = (r, w')))"
      using assms(1) Inr Some
      by (auto simp: connector_oauth_callback_def Let_def split: if_splits option.splits sum.splits)
    moreover have "t \<in> set (tenants (cdb w))" "json_get payload ''t'' = Some (JStr (t_slug t))"
      using find_eq_Some_D [OF Some] by auto
    ultimately show ?thesis using Inr complete_consent_view [OF _ assms(2)] by blast
  qed
qed

theorem callback_confined_witness:
  "snd (connector_oauth_callback sample_primitives sample_cfg token_env GOOGLE ''forged'' (Some ''code'') None sample_conn_world) =
     sample_conn_world"
proof -
  obtain r w' where cb: "connector_oauth_callback sample_primitives sample_cfg token_env GOOGLE ''forged'' (Some ''code'') None
      sample_conn_world = (r, w')" by fastforce
  have d: "distinct (map cn_id (connections sample_conn_world))" by (simp add: sample_conn_world_def)
  have "connector_parse_state sample_primitives sample_cfg now ''forged'' GOOGLE \<noteq> Inr payload" for now payload
    by (simp add: connector_parse_state_def verify_payload_def)
  then show ?thesis using callback_confined [OF cb d] cb by auto
qed

end
