(* ===== verification/Subscriptions.thy ===== *)
theory Subscriptions
  imports ConnectorFlow
begin

text \<open>
  Notification subscriptions at the providers (\<^verbatim>\<open>connectors/subscriptions.py\<close>): Microsoft Graph
  subscriptions, renewed by a \<^verbatim>\<open>PATCH\<close>, and Google Calendar channels, which are replaced. The
  connection a session works on is passed along as the session sees it; a flushed subscription is
  written at once, as every path that follows a flush commits.
\<close>

section \<open>Instants of the providers\<close>

definition url_path :: "string \<Rightarrow> string" where
  \<comment> \<open>\<^verbatim>\<open>httpx.URL(url).path\<close> of an absolute URL\<close>
  "url_path url =
     before_first (CHR ''#'') (before_first (CHR ''?'') (dropWhile (\<lambda>c. c \<noteq> CHR ''/'') (drop 2 (snd (split_scheme url)))))"

definition utc_offset :: "string \<Rightarrow> int option" where
  \<comment> \<open>the zone that ends an ISO text: none, \<open>Z\<close> or \<open>+HH:MM\<close>\<close>
  "utc_offset z =
     (if z = [] \<or> z = ''Z'' then Some 0
      else if length z = 6 \<and> hd z \<in> set ''+-'' \<and> z ! 3 = CHR '':'' then
        (case (field 1 2 z, field 4 2 z) of
           (Some h, Some m) \<Rightarrow>
             if h < 24 \<and> m < 60
             then Some ((if hd z = CHR ''-'' then - 1 else 1) * minutes (int h * 60 + int m)) else None
         | _ \<Rightarrow> None)
      else None)"

definition parse_iso :: "string \<Rightarrow> (instant \<times> int) option" where
  \<comment> \<open>\<^verbatim>\<open>datetime.fromisoformat\<close> of a date and a time, a fraction (cut after six digits) and a zone: the
     wall time, as if in UTC, and the offset of the zone; without a zone the offset is 0\<close>
  "parse_iso s =
     (let tail = drop 19 s;
          digits = (if take 1 tail = ''.'' then takeWhile is_digit (drop 1 tail) else []);
          zone = (if take 1 tail = ''.'' then drop (Suc (length digits)) tail else tail);
          frac = (if take 1 tail = ''.'' \<and> digits = [] then None
                  else parse_dec 0 (take 6 (take 6 digits @ ''000000'')))
      in case (field 0 4 s, field 5 2 s, field 8 2 s, field 11 2 s, field 14 2 s, field 17 2 s, frac, utc_offset zone) of
           (Some y, Some m, Some d, Some hh, Some mm, Some ss, Some f, Some z) \<Rightarrow>
             if s ! 4 = CHR ''-'' \<and> s ! 7 = CHR ''-'' \<and> s ! 10 = CHR ''T''
                \<and> s ! 13 = CHR '':'' \<and> s ! 16 = CHR '':''
             then map_option (\<lambda>t. (t, z)) (of_fields y m d hh mm ss f) else None
         | _ \<Rightarrow> None)"

definition parse_graph_datetime :: "string \<Rightarrow> instant option" where
  \<comment> \<open>a text without a zone is in UTC\<close>
  "parse_graph_datetime s = map_option (\<lambda>(t, z). t - z) (parse_iso s)"

definition graph_stamp :: "instant \<Rightarrow> string" where
  \<comment> \<open>\<^verbatim>\<open>t.strftime("%Y-%m-%dT%H:%M:%SZ")\<close>\<close>
  "graph_stamp t = take 19 (isoformat t) @ ''Z''"

definition parse_expiration :: "json option \<Rightarrow> instant \<Rightarrow> instant result" where
  "parse_expiration v dflt =
     (case v of
        Some (JStr s) \<Rightarrow>
          if s = [] then Inr dflt
          else if list_all is_digit s then
            (case parse_dec 0 s of
               Some n \<Rightarrow> if datetime_range (int n * 1000) then Inr (int n * 1000) else Inl (ValueError ''timestamp'')
             | None \<Rightarrow> Inl (ValueError ''int''))
          else (case parse_graph_datetime s of Some t \<Rightarrow> Inr t | None \<Rightarrow> Inl (ValueError ''isoformat''))
      | _ \<Rightarrow> Inr dflt)"

section \<open>Creating subscriptions\<close>

definition RENEWAL_LEAD :: int where "RENEWAL_LEAD = hours 24"

definition GRAPH_RESOURCES :: "(string \<times> string) list" where
  "GRAPH_RESOURCES = [(CAPABILITY_MAIL, ''/me/messages''), (CAPABILITY_CALENDAR, ''/me/events'')]"

definition graph_resource :: "string \<Rightarrow> string" where
  \<comment> \<open>\<^verbatim>\<open>_GRAPH_RESOURCES[capability]\<close>; only the known capabilities are ever granted\<close>
  "graph_resource capability = (case map_of GRAPH_RESOURCES capability of Some r \<Rightarrow> r | None \<Rightarrow> [])"

definition webhook_url :: "settings \<Rightarrow> connector_provider \<Rightarrow> string \<Rightarrow> string" where
  "webhook_url cfg p route_key =
     connector_webhook_base cfg @ ''/api/v1/webhooks/'' @ provider_str p @ ''/'' @ route_key"

definition json_body :: "http_response \<Rightarrow> (string \<times> json) list result" where
  \<comment> \<open>\<^verbatim>\<open>response.json()\<close>, used as a dictionary\<close>
  "json_body r =
     (case hr_body r of Some (JObj kvs) \<Rightarrow> Inr kvs | Some _ \<Rightarrow> Inl AttributeError | None \<Rightarrow> Inl (ValueError ''json''))"

definition str_field :: "(string \<times> json) list \<Rightarrow> string \<Rightarrow> string" where
  \<comment> \<open>\<^verbatim>\<open>str(payload.get(k, ""))\<close>\<close>
  "str_field payload k = (case json_get payload k of None \<Rightarrow> [] | Some v \<Rightarrow> str_json v)"

definition bearer_call ::
  "primitives \<Rightarrow> settings \<Rightarrow> net_env \<Rightarrow> (conn_world \<Rightarrow> conn_world) \<Rightarrow> context_var \<Rightarrow> connector_connection \<Rightarrow>
   string \<Rightarrow> string \<Rightarrow> json option \<Rightarrow> (string \<times> string) list \<Rightarrow> conn_world \<Rightarrow>
   http_response result \<times> connector_connection \<times> conn_world" where
  \<comment> \<open>\<^verbatim>\<open>fresh_access_token\<close> and the \<^verbatim>\<open>provider_http_request\<close> that uses it\<close>
  "bearer_call P cfg env others cv c meth url body params w =
     (case fresh_access_token P cfg env others cv c w of
        (Inl e, c1, w1) \<Rightarrow> (Inl e, c1, w1)
      | (Inr token, c1, w1) \<Rightarrow>
          (let (r, w2) = provider_http_request env (get_provider (cn_provider c)) (cn_id c)
                 \<lparr>hq_method = meth, hq_url = url, hq_bearer = Some token, hq_form = [],
                  hq_json = body, hq_params = params\<rparr> (url_path url) w1
           in (r, c1, w2)))"

definition api_call ::
  "primitives \<Rightarrow> settings \<Rightarrow> net_env \<Rightarrow> (conn_world \<Rightarrow> conn_world) \<Rightarrow> context_var \<Rightarrow> connector_connection \<Rightarrow>
   string \<Rightarrow> string \<Rightarrow> json \<Rightarrow> conn_world \<Rightarrow> http_response result \<times> connector_connection \<times> conn_world" where
  "api_call P cfg env others cv c meth url body w =
     bearer_call P cfg env others cv c meth url (Some body) [] w"

definition add_subscription ::
  "net_env \<Rightarrow> context_var \<Rightarrow> uuid \<Rightarrow> string \<Rightarrow> string \<Rightarrow> string \<Rightarrow> instant \<Rightarrow> string \<Rightarrow> (string \<times> string) list \<Rightarrow>
   conn_world \<Rightarrow> connector_subscription result \<times> conn_world" where
  "add_subscription env cv cid capability psid resource expires_at state_hash data w =
     (case flush_insert cv of Inl e \<Rightarrow> (Inl e, w)
      | Inr t \<Rightarrow>
          (let (n, w1) = draw w;
               s = \<lparr>sb_id = ne_uuid env n, sb_tenant_id = t, sb_connection_id = cid, sb_capability = capability,
                    sb_provider_subscription_id = psid, sb_resource = resource, sb_expires_at = expires_at,
                    sb_client_state_hash = state_hash, sb_provider_data = data\<rparr>
           in (Inr s, subscriptions_update (insert_row s) w1)))"

definition create_google_channel ::
  "primitives \<Rightarrow> settings \<Rightarrow> net_env \<Rightarrow> (conn_world \<Rightarrow> conn_world) \<Rightarrow> context_var \<Rightarrow> string \<Rightarrow> connector_connection \<Rightarrow>
   conn_world \<Rightarrow> connector_subscription result \<times> connector_connection \<times> conn_world" where
  "create_google_channel P cfg env others cv route_key c w =
     (let m = get_provider (cn_provider c);
          (n1, w1) = draw w; client_state = ne_token env n1;
          (n2, w2) = draw w1; channel_id = str_uuid (ne_uuid env n2);
          ttl_seconds = subscription_ttl_hours m * 3600
      in case api_call P cfg env others cv c ''POST''
                (api_base_url m @ ''/calendar/v3/calendars/primary/events/watch'')
                (JObj [(''id'', JStr channel_id), (''type'', JStr ''web_hook''),
                       (''address'', JStr (webhook_url cfg (cn_provider c) route_key)),
                       (''token'', JStr client_state),
                       (''params'', JObj [(''ttl'', JStr (str_int ttl_seconds))])]) w2 of
           (Inl e, c1, w3) \<Rightarrow> (Inl e, c1, w3)
         | (Inr r, c1, w3) \<Rightarrow>
             (case json_body r of Inl e \<Rightarrow> (Inl e, c1, w3)
              | Inr payload \<Rightarrow>
                  (case parse_expiration (json_get payload ''expiration'') (clock w3 + seconds ttl_seconds) of
                     Inl e \<Rightarrow> (Inl e, c1, w3)
                   | Inr expires_at \<Rightarrow>
                       (let (s, w4) = add_subscription env cv (cn_id c) CAPABILITY_CALENDAR channel_id
                              ''calendar/primary/events'' expires_at (hash_token P client_state)
                              [(''resource_id'', str_field payload ''resourceId'')] w3
                        in (s, c1, w4)))))"

definition stop_google_channel ::
  "primitives \<Rightarrow> settings \<Rightarrow> net_env \<Rightarrow> (conn_world \<Rightarrow> conn_world) \<Rightarrow> context_var \<Rightarrow> connector_connection \<Rightarrow>
   connector_subscription \<Rightarrow> conn_world \<Rightarrow> connector_connection \<times> conn_world" where
  \<comment> \<open>best effort: any failure is logged only\<close>
  "stop_google_channel P cfg env others cv c s w =
     snd (api_call P cfg env others cv c ''POST''
       (api_base_url (get_provider (cn_provider c)) @ ''/calendar/v3/channels/stop'')
       (JObj [(''id'', JStr (sb_provider_subscription_id s)),
              (''resourceId'', JStr (case map_of (sb_provider_data s) ''resource_id'' of Some i \<Rightarrow> i | None \<Rightarrow> []))]) w)"

definition create_graph_subscription ::
  "primitives \<Rightarrow> settings \<Rightarrow> net_env \<Rightarrow> (conn_world \<Rightarrow> conn_world) \<Rightarrow> context_var \<Rightarrow> string \<Rightarrow> string \<Rightarrow>
   connector_connection \<Rightarrow> conn_world \<Rightarrow> connector_subscription result \<times> connector_connection \<times> conn_world" where
  "create_graph_subscription P cfg env others cv route_key capability c w =
     (let m = get_provider (cn_provider c);
          (n1, w1) = draw w; client_state = ne_token env n1;
          expires_at = clock w1 + hours (subscription_ttl_hours m)
      in case api_call P cfg env others cv c ''POST'' (api_base_url m @ ''/subscriptions'')
                (JObj [(''changeType'', JStr ''created,updated''),
                       (''notificationUrl'', JStr (webhook_url cfg (cn_provider c) route_key)),
                       (''resource'', JStr (graph_resource capability)),
                       (''expirationDateTime'', JStr (graph_stamp expires_at)),
                       (''clientState'', JStr client_state)]) w1 of
           (Inl e, c1, w2) \<Rightarrow> (Inl e, c1, w2)
         | (Inr r, c1, w2) \<Rightarrow>
             (case json_body r of Inl e \<Rightarrow> (Inl e, c1, w2)
              | Inr payload \<Rightarrow>
                  (case parse_expiration (json_get payload ''expirationDateTime'') expires_at of
                     Inl e \<Rightarrow> (Inl e, c1, w2)
                   | Inr expiry \<Rightarrow>
                       (let (s, w3) = add_subscription env cv (cn_id c) capability (str_field payload ''id'')
                              (graph_resource capability) expiry (hash_token P client_state) [] w2
                        in (s, c1, w3)))))"

definition scoped_subscriptions :: "context_var \<Rightarrow> conn_world \<Rightarrow> connector_subscription list result" where
  "scoped_subscriptions cv w = scoped_select cv ''connector_subscriptions'' sb_tenant_id (subscriptions w)"

fun ensure_loop ::
  "primitives \<Rightarrow> settings \<Rightarrow> net_env \<Rightarrow> (conn_world \<Rightarrow> conn_world) \<Rightarrow> context_var \<Rightarrow> string \<Rightarrow> string list \<Rightarrow>
   string list \<Rightarrow> connector_connection \<Rightarrow> conn_world \<Rightarrow> unit result \<times> connector_connection \<times> conn_world" where
  "ensure_loop P cfg env others cv route_key existing [] c w = (Inr (), c, w)"
| "ensure_loop P cfg env others cv route_key existing (cap # caps) c w =
     (if cap \<in> set existing \<or> (cn_provider c = GOOGLE \<and> cap = CAPABILITY_MAIL)
      then ensure_loop P cfg env others cv route_key existing caps c w
      else (case (if cn_provider c = GOOGLE
                  then create_google_channel P cfg env others cv route_key c w
                  else create_graph_subscription P cfg env others cv route_key cap c w) of
              (Inl e, c1, w1) \<Rightarrow> (Inl e, c1, w1)
            | (Inr _, c1, w1) \<Rightarrow> ensure_loop P cfg env others cv route_key existing caps c1 w1))"

definition ensure_subscriptions ::
  "primitives \<Rightarrow> settings \<Rightarrow> net_env \<Rightarrow> (conn_world \<Rightarrow> conn_world) \<Rightarrow> context_var \<Rightarrow> string \<Rightarrow>
   connector_connection \<Rightarrow> conn_world \<Rightarrow> unit result \<times> connector_connection \<times> conn_world" where
  "ensure_subscriptions P cfg env others cv route_key c w =
     (case scoped_subscriptions cv w of Inl e \<Rightarrow> (Inl e, c, w)
      | Inr rows \<Rightarrow>
          ensure_loop P cfg env others cv route_key
            (map sb_capability (filter (\<lambda>s. sb_connection_id s = cn_id c) rows))
            (sort (granted_capabilities c)) c w)"

definition renew_subscription ::
  "primitives \<Rightarrow> settings \<Rightarrow> net_env \<Rightarrow> (conn_world \<Rightarrow> conn_world) \<Rightarrow> context_var \<Rightarrow> string \<Rightarrow>
   connector_connection \<Rightarrow> connector_subscription \<Rightarrow> conn_world \<Rightarrow>
   unit result \<times> connector_connection \<times> conn_world" where
  "renew_subscription P cfg env others cv route_key c s w =
     (let m = get_provider (cn_provider c)
      in if cn_provider c = MICROSOFT then
           (let expires_at = clock w + hours (subscription_ttl_hours m)
            in case api_call P cfg env others cv c ''PATCH''
                      (api_base_url m @ ''/subscriptions/'' @ sb_provider_subscription_id s)
                      (JObj [(''expirationDateTime'', JStr (graph_stamp expires_at))]) w of
                 (Inl e, c1, w1) \<Rightarrow> (Inl e, c1, w1)
               | (Inr _, c1, w1) \<Rightarrow>
                   (case flush_touch cv (sb_tenant_id s) of Inl e \<Rightarrow> (Inl e, c1, w1)
                    | Inr _ \<Rightarrow>
                        (Inr (), c1, subscriptions_update
                           (update_where (\<lambda>r. sb_id r = sb_id s) (sb_expires_at_update (\<lambda>_. expires_at))) w1)))
         else
           (case create_google_channel P cfg env others cv route_key c w of
              (Inl e, c1, w1) \<Rightarrow> (Inl e, c1, w1)
            | (Inr _, c1, w1) \<Rightarrow>
                (let (c2, w2) = stop_google_channel P cfg env others cv c1 s w1
                 in case flush_touch cv (sb_tenant_id s) of Inl e \<Rightarrow> (Inl e, c2, w2)
                    | Inr _ \<Rightarrow>
                        (Inr (), c2, subscriptions_update (delete_where (\<lambda>r. sb_id r = sb_id s)) w2))))"

end
