(* ===== verification/ConnectorTasks.thy ===== *)
theory ConnectorTasks
  imports Subscriptions
begin

text \<open>
  The Celery tasks of the connectors (\<^verbatim>\<open>connectors/tasks.py\<close>). Each walks over the active tenants, or
  looks one up, and works under that tenant's context; what is committed before an exception stays.
  A report counts, per tenant, what the walk did.
\<close>

section \<open>Tenants\<close>

definition context_for :: "tenant \<Rightarrow> tenant_context" where
  "context_for t = \<lparr>tc_tenant_id = t_id t, tc_slug = t_slug t, tc_role = None\<rparr>"

definition active_tenants :: "conn_world \<Rightarrow> tenant list" where
  "active_tenants w = filter active_tenant (tenants (cdb w))"

definition route_key_for :: "uuid \<Rightarrow> conn_world \<Rightarrow> string option" where
  "route_key_for cid w =
     map_option wr_route_key (List.find (\<lambda>r. wr_connection_id r = cid) (webhook_routes w))"

section \<open>Refresh of expiring tokens\<close>

record refresh_report =
  rr_refreshed :: nat
  rr_skipped :: nat
  rr_failed :: nat

definition count_refresh :: "bool result \<Rightarrow> refresh_report \<Rightarrow> refresh_report" where
  "count_refresh r rep =
     (case r of Inr True \<Rightarrow> rr_refreshed_update Suc rep | Inr False \<Rightarrow> rr_skipped_update Suc rep
      | Inl _ \<Rightarrow> rr_failed_update Suc rep)"

fun refresh_loop ::
  "primitives \<Rightarrow> settings \<Rightarrow> net_env \<Rightarrow> (conn_world \<Rightarrow> conn_world) \<Rightarrow> context_var \<Rightarrow> int \<Rightarrow>
   connector_connection list \<Rightarrow> refresh_report \<Rightarrow> conn_world \<Rightarrow> refresh_report result \<times> conn_world" where
  "refresh_loop P cfg env others cv lead [] rep w = (Inr rep, w)"
| "refresh_loop P cfg env others cv lead (c # cs) rep w =
     (if \<not> access_token_expiring c lead (clock w) then refresh_loop P cfg env others cv lead cs rep w
      else (case refresh_connection P cfg env others cv False c w of (r, c1, audits, w1) \<Rightarrow>
              (case r of
                 Inl e \<Rightarrow>
                   if recoverable e then
                     (case commit_connection env cv c1 audits w1 of (Inl e', w2) \<Rightarrow> (Inl e', w2)
                      | (Inr _, w2) \<Rightarrow> refresh_loop P cfg env others cv lead cs (count_refresh r rep) w2)
                   else (Inl e, w1)
               | Inr _ \<Rightarrow>
                   (case commit_connection env cv c1 audits w1 of (Inl e', w2) \<Rightarrow> (Inl e', w2)
                    | (Inr _, w2) \<Rightarrow> refresh_loop P cfg env others cv lead cs (count_refresh r rep) w2))))"

fun refresh_tenants ::
  "primitives \<Rightarrow> settings \<Rightarrow> net_env \<Rightarrow> (conn_world \<Rightarrow> conn_world) \<Rightarrow> int \<Rightarrow> tenant list \<Rightarrow>
   (string \<times> refresh_report) list \<Rightarrow> conn_world \<Rightarrow> (string \<times> refresh_report) list result \<times> conn_world" where
  "refresh_tenants P cfg env others lead [] report w = (Inr report, w)"
| "refresh_tenants P cfg env others lead (t # ts) report w =
     (let cv = Some (context_for t)
      in case scoped_connections cv w of Inl e \<Rightarrow> (Inl e, w)
         | Inr rows \<Rightarrow>
             (case refresh_loop P cfg env others cv lead (filter (\<lambda>c. cn_status c = CONN_ACTIVE) rows)
                     \<lparr>rr_refreshed = 0, rr_skipped = 0, rr_failed = 0\<rparr> w of
                (Inl e, w1) \<Rightarrow> (Inl e, w1)
              | (Inr rep, w1) \<Rightarrow> refresh_tenants P cfg env others lead ts (report @ [(t_slug t, rep)]) w1))"

definition refresh_expiring_tokens ::
  "primitives \<Rightarrow> settings \<Rightarrow> net_env \<Rightarrow> (conn_world \<Rightarrow> conn_world) \<Rightarrow> conn_world \<Rightarrow>
   (string \<times> refresh_report) list result \<times> conn_world" where
  "refresh_expiring_tokens P cfg env others w =
     refresh_tenants P cfg env others (minutes (connector_refresh_lead_minutes cfg)) (active_tenants w) [] w"

section \<open>Renewal of expiring subscriptions\<close>

datatype renewal = RENEWED | RENEWAL_FAILED | RENEWAL_SKIPPED

definition renew_lock_name :: "connector_subscription \<Rightarrow> string" where
  "renew_lock_name s = ''renew:'' @ str_uuid (sb_id s)"

definition renewal_failed_args :: "connector_connection \<Rightarrow> connector_subscription \<Rightarrow> audit_args" where
  "renewal_failed_args c s =
     \<lparr>aa_action = ''connector.subscription_renewal_failed'', aa_resource_type = ''connector_subscription'',
      aa_resource_id = str_uuid (sb_id s),
      aa_payload = [(''provider'', JStr (provider_str (cn_provider c))), (''capability'', JStr (sb_capability s))],
      aa_actor_user_id = None, aa_actor_label = SYSTEM_ACTOR_LABEL\<rparr>"

definition failed_renewal :: "exn \<Rightarrow> instant \<Rightarrow> connector_connection \<Rightarrow> connector_connection" where
  "failed_renewal e now c =
     c\<lparr>cn_status := CONN_ERROR,
       cn_last_error := Some (''Renouvellement de subscription echoue : '' @ exn_class e),
       cn_health_checked_at := Some now\<rparr>"

definition renew_one ::
  "primitives \<Rightarrow> settings \<Rightarrow> net_env \<Rightarrow> (conn_world \<Rightarrow> conn_world) \<Rightarrow> context_var \<Rightarrow> connector_subscription \<Rightarrow>
   conn_world \<Rightarrow> renewal result \<times> conn_world" where
  \<comment> \<open>the body of the loop over the expiring subscriptions\<close>
  "renew_one P cfg env others cv s w =
     (case get_connection cv (sb_connection_id s) w of
        Inl e \<Rightarrow> (Inl e, w)
      | Inr None \<Rightarrow> (Inr RENEWAL_SKIPPED, w)
      | Inr (Some c) \<Rightarrow>
          if cn_status c \<noteq> CONN_ACTIVE then (Inr RENEWAL_SKIPPED, w)
          else (case acquire_lock env (renew_lock_name s) LOCK_TTL_SECONDS w of
                  (None, w1) \<Rightarrow> (Inr RENEWAL_SKIPPED, w1)
                | (Some token, w1) \<Rightarrow>
                    (case route_key_for (cn_id c) w1 of
                       None \<Rightarrow> (Inr RENEWAL_SKIPPED, release_lock (renew_lock_name s) token w1)
                     | Some key \<Rightarrow>
                         (let (outcome, c2, audits, w2) =
                                (case renew_subscription P cfg env others cv key c s w1 of
                                   (Inr _, c1, w2) \<Rightarrow>
                                     (RENEWED, c1\<lparr>cn_health_checked_at := Some (clock w2)\<rparr>, [], w2)
                                 | (Inl e, c1, w2) \<Rightarrow>
                                     (RENEWAL_FAILED, failed_renewal e (clock w2) c1, [renewal_failed_args c1 s], w2))
                          in case commit_connection env cv c2 audits (release_lock (renew_lock_name s) token w2) of
                               (Inl e, w3) \<Rightarrow> (Inl e, w3)
                             | (Inr _, w3) \<Rightarrow> (Inr outcome, w3)))))"

record renewal_report =
  rn_renewed :: nat
  rn_failed :: nat

definition count_renewal :: "renewal \<Rightarrow> renewal_report \<Rightarrow> renewal_report" where
  "count_renewal r rep =
     (case r of RENEWED \<Rightarrow> rn_renewed_update Suc rep | RENEWAL_FAILED \<Rightarrow> rn_failed_update Suc rep
      | RENEWAL_SKIPPED \<Rightarrow> rep)"

fun renew_loop ::
  "primitives \<Rightarrow> settings \<Rightarrow> net_env \<Rightarrow> (conn_world \<Rightarrow> conn_world) \<Rightarrow> context_var \<Rightarrow>
   connector_subscription list \<Rightarrow> renewal_report \<Rightarrow> conn_world \<Rightarrow> renewal_report result \<times> conn_world" where
  "renew_loop P cfg env others cv [] rep w = (Inr rep, w)"
| "renew_loop P cfg env others cv (s # ss) rep w =
     (case renew_one P cfg env others cv s w of
        (Inl e, w1) \<Rightarrow> (Inl e, w1)
      | (Inr r, w1) \<Rightarrow> renew_loop P cfg env others cv ss (count_renewal r rep) w1)"

fun renew_tenants ::
  "primitives \<Rightarrow> settings \<Rightarrow> net_env \<Rightarrow> (conn_world \<Rightarrow> conn_world) \<Rightarrow> instant \<Rightarrow> tenant list \<Rightarrow>
   (string \<times> renewal_report) list \<Rightarrow> conn_world \<Rightarrow> (string \<times> renewal_report) list result \<times> conn_world" where
  "renew_tenants P cfg env others horizon [] report w = (Inr report, w)"
| "renew_tenants P cfg env others horizon (t # ts) report w =
     (let cv = Some (context_for t)
      in case scoped_subscriptions cv w of Inl e \<Rightarrow> (Inl e, w)
         | Inr rows \<Rightarrow>
             (case renew_loop P cfg env others cv (filter (\<lambda>s. sb_expires_at s \<le> horizon) rows)
                     \<lparr>rn_renewed = 0, rn_failed = 0\<rparr> w of
                (Inl e, w1) \<Rightarrow> (Inl e, w1)
              | (Inr rep, w1) \<Rightarrow> renew_tenants P cfg env others horizon ts (report @ [(t_slug t, rep)]) w1))"

definition renew_expiring_subscriptions ::
  "primitives \<Rightarrow> settings \<Rightarrow> net_env \<Rightarrow> (conn_world \<Rightarrow> conn_world) \<Rightarrow> conn_world \<Rightarrow>
   (string \<times> renewal_report) list result \<times> conn_world" where
  "renew_expiring_subscriptions P cfg env others w =
     renew_tenants P cfg env others (clock w + RENEWAL_LEAD) (active_tenants w) [] w"

section \<open>Subscriptions after a consent\<close>

definition sync_connection_subscriptions ::
  "primitives \<Rightarrow> settings \<Rightarrow> net_env \<Rightarrow> (conn_world \<Rightarrow> conn_world) \<Rightarrow> string \<Rightarrow> uuid \<Rightarrow> conn_world \<Rightarrow>
   unit result \<times> conn_world" where
  "sync_connection_subscriptions P cfg env others slug cid w =
     (case filter (\<lambda>t. t_slug t = slug) (active_tenants w) of
        [] \<Rightarrow> (Inr (), w)
      | t # _ \<Rightarrow>
          (case route_key_for cid w of
             None \<Rightarrow> (Inr (), w)
           | Some key \<Rightarrow>
               (let cv = Some (context_for t)
                in case get_connection cv cid w of
                     Inl e \<Rightarrow> (Inl e, w)
                   | Inr None \<Rightarrow> (Inr (), w)
                   | Inr (Some c) \<Rightarrow>
                       if cn_status c \<noteq> CONN_ACTIVE then (Inr (), w)
                       else (case ensure_subscriptions P cfg env others cv key c w of
                               (Inr _, c1, w1) \<Rightarrow> commit_connection env cv c1 [] w1
                             | (Inl e, c1, w1) \<Rightarrow>
                                 commit_connection env cv
                                   (c1\<lparr>cn_last_error := Some (''Creation de subscription echouee : '' @ exn_class e)\<rparr>)
                                   [] w1))))"

end
