(* ===== verification/Webhooks.thy ===== *)
theory Webhooks
  imports ConnectorTasks "HOL-Library.AList"
begin

text \<open>
  Notifications from the providers: the anonymous reception route (\<^verbatim>\<open>connectors/webhooks.py\<close>), the task
  that a notification queues and the handlers it reaches (\<^verbatim>\<open>process_connector_event\<close> of
  \<^verbatim>\<open>connectors/tasks.py\<close>). Handlers are named by numbers; the modules register theirs at start-up.
\<close>

section \<open>Reception\<close>

record webhook_request =
  wq_validation_token :: "string option"
  wq_body :: "json option"
  wq_headers :: "(string \<times> string) list"

text \<open>\<open>wq_body\<close> is \<open>None\<close> when \<^verbatim>\<open>request.json()\<close> raises; header names are in lower case.\<close>

type_synonym notification = "connector_subscription \<times> string \<times> string option"

definition header_or :: "webhook_request \<Rightarrow> string \<Rightarrow> string" where
  "header_or rq name = (case map_of (wq_headers rq) name of Some v \<Rightarrow> v | None \<Rightarrow> [])"

definition by_provider_id :: "connector_subscription list \<Rightarrow> string \<Rightarrow> connector_subscription option" where
  \<comment> \<open>the dictionary keyed by \<^verbatim>\<open>provider_subscription_id\<close>: the last row of a key wins\<close>
  "by_provider_id subs = map_of (rev (map (\<lambda>s. (sb_provider_subscription_id s, s)) subs))"

definition graph_notification ::
  "primitives \<Rightarrow> connector_subscription list \<Rightarrow> json \<Rightarrow> notification option" where
  \<comment> \<open>one item of a Graph notification; \<open>None\<close> when it is skipped\<close>
  "graph_notification P subs item =
     (case item of
        JObj n \<Rightarrow>
          (case (by_provider_id subs (str_field n ''subscriptionId''), json_get n ''clientState'') of
             (Some s, Some (JStr client_state)) \<Rightarrow>
               if hash_token P client_state \<noteq> sb_client_state_hash s then None
               else Some (s, (case json_get n ''changeType'' of None \<Rightarrow> ''updated'' | Some v \<Rightarrow> str_json v),
                          (case json_get n ''resourceData'' of
                             Some (JObj rd) \<Rightarrow>
                               Some (case json_get rd ''id'' of None \<Rightarrow> str_json JNull | Some v \<Rightarrow> str_json v)
                           | _ \<Rightarrow> None))
           | _ \<Rightarrow> None)
      | _ \<Rightarrow> None)"

definition validated_notifications ::
  "primitives \<Rightarrow> connector_provider \<Rightarrow> connector_subscription list \<Rightarrow> webhook_request \<Rightarrow> notification list" where
  \<comment> \<open>\<open>subs\<close>: the subscriptions of the connection the session selects\<close>
  "validated_notifications P p subs rq =
     (case p of
        MICROSOFT \<Rightarrow>
          (case wq_body rq of
             Some (JObj body) \<Rightarrow>
               (case (case json_get body ''value'' of None \<Rightarrow> JList [] | Some v \<Rightarrow> v) of
                  JList items \<Rightarrow> List.map_filter (graph_notification P subs) items
                | _ \<Rightarrow> [])
           | _ \<Rightarrow> [])
      | GOOGLE \<Rightarrow>
          (let channel_token = header_or rq ''x-goog-channel-token'';
               resource_state = header_or rq ''x-goog-resource-state''
           in case by_provider_id subs (header_or rq ''x-goog-channel-id'') of
                None \<Rightarrow> []
              | Some s \<Rightarrow>
                  if channel_token = [] \<or> hash_token P channel_token \<noteq> sb_client_state_hash s then []
                  else if resource_state = ''sync'' then []
                  else [(s, if resource_state = [] then ''updated'' else resource_state,
                         map_of (wq_headers rq) ''x-goog-resource-id'')]))"

datatype webhook_response = PlainText string | NeutralResponse

definition notified_connection ::
  "connector_provider \<Rightarrow> string \<Rightarrow> conn_world \<Rightarrow> (tenant \<times> uuid) option" where
  \<comment> \<open>the active tenant and the connection a route key leads to\<close>
  "notified_connection p route_key w =
     (case List.find (\<lambda>r. wr_route_key r = route_key \<and> wr_provider r = provider_str p) (webhook_routes w) of
        None \<Rightarrow> None
      | Some r \<Rightarrow>
          (case List.find (\<lambda>t. t_id t = wr_tenant_id r) (tenants (cdb w)) of
             None \<Rightarrow> None
           | Some t \<Rightarrow> if active_tenant t then Some (t, wr_connection_id r) else None))"

definition event_task :: "tenant \<Rightarrow> uuid \<Rightarrow> connector_provider \<Rightarrow> notification \<Rightarrow> queued_task" where
  "event_task t cid p n =
     (case n of (s, change_type, resource_id) \<Rightarrow>
        EventReceived (t_slug t) cid (provider_str p) (sb_capability s) change_type resource_id)"

definition receive_webhook ::
  "primitives \<Rightarrow> connector_provider \<Rightarrow> string \<Rightarrow> webhook_request \<Rightarrow> conn_world \<Rightarrow>
   webhook_response result \<times> conn_world" where
  "receive_webhook P p route_key rq w =
     (case wq_validation_token rq of
        Some token \<Rightarrow> (Inr (PlainText token), w)
      | None \<Rightarrow>
          (case notified_connection p route_key w of
             None \<Rightarrow> (Inr NeutralResponse, w)
           | Some (t, cid) \<Rightarrow>
               (case scoped_subscriptions (Some (context_for t)) w of
                  Inl e \<Rightarrow> (Inl e, w)
                | Inr rows \<Rightarrow>
                    (let notifications = validated_notifications P p
                           (filter (\<lambda>s. sb_connection_id s = cid) rows) rq
                     in (Inr NeutralResponse,
                         task_queue_update (\<lambda>q. q @ map (event_task t cid p) notifications) w)))))"

section \<open>Events\<close>

record connector_event =
  ce_provider :: connector_provider
  ce_capability :: string
  ce_connection_id :: uuid
  ce_change_type :: string
  ce_resource_id :: "string option"

type_synonym handler_registry = "(string \<times> nat list) list"

definition event_handlers :: "string \<Rightarrow> handler_registry \<Rightarrow> nat list" where
  "event_handlers capability reg = (case map_of reg capability of Some hs \<Rightarrow> hs | None \<Rightarrow> [])"

definition on_connector_event :: "string \<Rightarrow> nat \<Rightarrow> handler_registry \<Rightarrow> handler_registry" where
  "on_connector_event capability handler reg =
     AList.update capability (event_handlers capability reg @ [handler]) reg"

definition reset_event_handlers :: "handler_registry \<Rightarrow> handler_registry" where
  "reset_event_handlers reg = []"

definition provider_of_str :: "string \<Rightarrow> connector_provider option" where
  "provider_of_str s = (if s = ''google'' then Some GOOGLE else if s = ''microsoft'' then Some MICROSOFT else None)"

definition event_received_args :: "uuid \<Rightarrow> string \<Rightarrow> string \<Rightarrow> string \<Rightarrow> string option \<Rightarrow> audit_args" where
  "event_received_args cid provider capability change_type resource_id =
     \<lparr>aa_action = ''connector.event_received'', aa_resource_type = ''connector_connection'',
      aa_resource_id = str_uuid cid,
      aa_payload = [(''provider'', JStr provider), (''capability'', JStr capability),
                    (''change_type'', JStr change_type), (''resource_id'', json_opt_str resource_id)],
      aa_actor_user_id = None, aa_actor_label = SYSTEM_ACTOR_LABEL\<rparr>"

definition process_connector_event ::
  "net_env \<Rightarrow> handler_registry \<Rightarrow> string \<Rightarrow> uuid \<Rightarrow> string \<Rightarrow> string \<Rightarrow> string \<Rightarrow> string option \<Rightarrow> conn_world \<Rightarrow>
   (nat \<times> connector_event) list result \<times> conn_world" where
  \<comment> \<open>the result: which handlers are called with which event, in order\<close>
  "process_connector_event env reg slug cid provider capability change_type resource_id w =
     (case filter (\<lambda>t. t_slug t = slug) (active_tenants w) of
        [] \<Rightarrow> (Inr [], w)
      | t # _ \<Rightarrow>
          (case provider_of_str provider of
             None \<Rightarrow> (Inl (ValueError ''provider''), w)
           | Some p \<Rightarrow>
               (let cv = Some (context_for t);
                    ev = \<lparr>ce_provider = p, ce_capability = capability, ce_connection_id = cid,
                          ce_change_type = change_type, ce_resource_id = resource_id\<rparr>
                in case get_connection cv cid w of
                     Inl e \<Rightarrow> (Inl e, w)
                   | Inr None \<Rightarrow> (Inr [], w)
                   | Inr (Some c) \<Rightarrow>
                       (case commit_connection env cv (c\<lparr>cn_health_checked_at := Some (clock w)\<rparr>)
                               [event_received_args cid provider capability change_type resource_id] w of
                          (Inl e, w1) \<Rightarrow> (Inl e, w1)
                        | (Inr _, w1) \<Rightarrow> (Inr (map (\<lambda>h. (h, ev)) (event_handlers capability reg)), w1)))))"

section \<open>Lemmas\<close>

text \<open>The secret a notification presents: the \<^verbatim>\<open>clientState\<close> of an item, or the token of a channel.\<close>

definition presents :: "connector_provider \<Rightarrow> webhook_request \<Rightarrow> string \<Rightarrow> bool" where
  "presents p rq secret \<longleftrightarrow>
     (case p of
        MICROSOFT \<Rightarrow> (\<exists>body items n. wq_body rq = Some (JObj body) \<and> json_get body ''value'' = Some (JList items)
                        \<and> JObj n \<in> set items \<and> json_get n ''clientState'' = Some (JStr secret))
      | GOOGLE \<Rightarrow> secret \<noteq> [] \<and> map_of (wq_headers rq) ''x-goog-channel-token'' = Some secret)"

lemma by_provider_id_D:
  "by_provider_id subs i = Some s \<Longrightarrow> s \<in> set subs \<and> sb_provider_subscription_id s = i"
  by (auto simp: by_provider_id_def dest!: map_of_SomeD)

lemma by_provider_id_last:
  "sb_provider_subscription_id s = i \<Longrightarrow> by_provider_id (subs @ [s]) i = Some s"
  by (simp add: by_provider_id_def)

lemma map_filter_D: "y \<in> set (List.map_filter f xs) \<Longrightarrow> \<exists>x\<in>set xs. f x = Some y"
  by (auto simp: List.map_filter_def)

lemma graph_notification_D:
  "graph_notification P subs item = Some (s, change, rid) \<Longrightarrow>
   \<exists>n secret. item = JObj n \<and> json_get n ''clientState'' = Some (JStr secret)
     \<and> hash_token P secret = sb_client_state_hash s \<and> s \<in> set subs"
  by (auto simp: graph_notification_def dest!: by_provider_id_D
      split: json.splits option.splits if_splits)

lemma validated_notifications_D:
  assumes "(s, change, rid) \<in> set (validated_notifications P p subs rq)"
  shows "s \<in> set subs \<and> (\<exists>secret. presents p rq secret \<and> hash_token P secret = sb_client_state_hash s)"
proof (cases p)
  case GOOGLE
  then show ?thesis
    using assms
    by (auto simp: validated_notifications_def presents_def header_or_def Let_def dest!: by_provider_id_D [OF sym]
        split: option.splits if_splits)
next
  case MICROSOFT
  obtain body items where b: "wq_body rq = Some (JObj body)" "json_get body ''value'' = Some (JList items)"
    and m: "(s, change, rid) \<in> set (List.map_filter (graph_notification P subs) items)"
    using assms MICROSOFT
    by (cases "wq_body rq")
      (auto simp: validated_notifications_def List.map_filter_simps split: option.splits json.splits)
  obtain item where "item \<in> set items" "graph_notification P subs item = Some (s, change, rid)"
    using map_filter_D [OF m] by blast
  then show ?thesis using graph_notification_D [of P subs item s change rid] b MICROSOFT
    by (auto simp: presents_def)
qed

lemma scoped_subscriptions_eq:
  "scoped_subscriptions (Some ctx) w = Inr (filter (\<lambda>s. sb_tenant_id s = tc_tenant_id ctx) (subscriptions w))"
  by (simp add: scoped_subscriptions_def handler_simps)

text \<open>A Graph notification with one item.\<close>

definition graph_post :: "string \<Rightarrow> string \<Rightarrow> string \<Rightarrow> (string \<times> string) list \<Rightarrow> webhook_request" where
  "graph_post psid state change hs =
     \<lparr>wq_validation_token = None,
      wq_body = Some (JObj [(''value'', JList [JObj [(''subscriptionId'', JStr psid), (''clientState'', JStr state),
        (''changeType'', JStr change)]])]), wq_headers = hs\<rparr>"

lemma graph_post_sel: "wq_validation_token (graph_post psid state change hs) = None"
  by (simp add: graph_post_def)

lemma backoff_sent:
  "backoff_loop env m cid (request_attempt env rq out) ns w = (Inr r, w') \<Longrightarrow> rq \<in> set (http_log w')"
proof (induction ns arbitrary: w)
  case (Cons n ns)
  then show ?case
    by (auto simp: request_attempt_def send_def Let_def split: sum.splits prod.splits exn.splits if_splits)
qed simp

lemma api_call_sent:
  assumes "api_call P cfg env others cv c meth url body w = (Inr r, c', w')"
  shows "\<exists>rq\<in>set (http_log w'). hq_method rq = meth \<and> hq_url rq = url \<and> hq_json rq = Some body"
proof -
  obtain token c1 w1 where f: "fresh_access_token P cfg env others cv c w = (Inr token, c1, w1)"
    using assms by (auto simp: api_call_def bearer_call_def split: sum.splits prod.splits)
  let ?rq = "\<lparr>hq_method = meth, hq_url = url, hq_bearer = Some token, hq_form = [], hq_json = Some body, hq_params = []\<rparr>"
  have "provider_http_request env (get_provider (cn_provider c)) (cn_id c) ?rq (url_path url) w1 = (Inr r, w')"
    using assms f by (auto simp: api_call_def bearer_call_def Let_def split: prod.splits)
  then obtain r' where "backoff_loop env (get_provider (cn_provider c)) (cn_id c) (request_attempt env ?rq call_outcome)
      [0..<MAX_ATTEMPTS] w1 = (Inr r', w')"
    by (auto simp: provider_http_request_def run_with_backoff_def split: sum.splits prod.splits if_splits)
  then have "?rq \<in> set (http_log w')" by (rule backoff_sent)
  then show ?thesis by (intro bexI [of _ ?rq]) simp_all
qed

text \<open>What the provider is told when a Graph subscription is created, and the row that remembers it.\<close>

lemma create_graph_subscription_D:
  assumes "create_graph_subscription P cfg env others (Some ctx) key cap c w = (Inr s, c', w')"
  shows "(\<exists>rq\<in>set (http_log w'). \<exists>kvs. hq_json rq = Some (JObj kvs)
            \<and> json_get kvs ''notificationUrl'' = Some (JStr (webhook_url cfg (cn_provider c) key))
            \<and> json_get kvs ''clientState'' = Some (JStr (ne_token env (drawn w))))
    \<and> (\<exists>subs. subscriptions w' = subs @ [s])
    \<and> sb_tenant_id s = tc_tenant_id ctx \<and> sb_connection_id s = cn_id c \<and> sb_capability s = cap
    \<and> sb_client_state_hash s = hash_token P (ne_token env (drawn w))"
proof -
  obtain n w1 where d: "draw w = (n, w1)" by fastforce
  then have n: "n = drawn w" by (simp add: draw_def)
  let ?body = "JObj [(''changeType'', JStr ''created,updated''),
      (''notificationUrl'', JStr (webhook_url cfg (cn_provider c) key)),
      (''resource'', JStr (graph_resource cap)),
      (''expirationDateTime'', JStr (graph_stamp (clock w1 + hours (subscription_ttl_hours (get_provider (cn_provider c)))))),
      (''clientState'', JStr (ne_token env n))]"
  let ?url = "api_base_url (get_provider (cn_provider c)) @ ''/subscriptions''"
  obtain r c1 w2 where call: "api_call P cfg env others (Some ctx) c ''POST'' ?url ?body w1 = (Inr r, c1, w2)"
    using assms d by (auto simp: create_graph_subscription_def Let_def split: sum.splits prod.splits)
  obtain psid res exp data where sub: "add_subscription env (Some ctx) (cn_id c) cap psid res exp
      (hash_token P (ne_token env n)) data w2 = (Inr s, w')"
    using assms d call by (auto simp: create_graph_subscription_def Let_def split: sum.splits prod.splits)
  have row: "http_log w' = http_log w2" "subscriptions w' = subscriptions w2 @ [s]"
    "sb_tenant_id s = tc_tenant_id ctx" "sb_connection_id s = cn_id c" "sb_capability s = cap"
    "sb_client_state_hash s = hash_token P (ne_token env n)"
    using sub by (auto simp: add_subscription_def flush_insert_eq draw_def Let_def insert_row_def)
  obtain rq where "rq \<in> set (http_log w2)" "hq_json rq = Some ?body" using api_call_sent [OF call] by blast
  then show ?thesis using row n by (auto simp: json_get_def intro!: bexI [of _ rq])
qed

section \<open>Properties\<close>

text \<open>
  C10 (safety). Only authenticated notifications have an effect, and the answer tells nothing. The
  answer depends on the validation token of the request alone. All a reception changes is the task
  queue, and every task it adds stands for a subscription of the connection the route key leads to,
  in the active tenant that owns the route, whose stored hash is the hash of the secret presented.
\<close>

theorem webhook_authenticated:
  "\<exists>new. receive_webhook P p key rq w =
       (Inr (case wq_validation_token rq of Some token \<Rightarrow> PlainText token | None \<Rightarrow> NeutralResponse),
        task_queue_update (\<lambda>q. q @ new) w)
     \<and> list_all (\<lambda>task. wq_validation_token rq = None \<and>
         (\<exists>r t s secret change rid.
            r \<in> set (webhook_routes w) \<and> wr_route_key r = key \<and> wr_provider r = provider_str p
            \<and> t \<in> set (tenants (cdb w)) \<and> t_id t = wr_tenant_id r \<and> active_tenant t
            \<and> s \<in> set (subscriptions w) \<and> sb_tenant_id s = t_id t \<and> sb_connection_id s = wr_connection_id r
            \<and> presents p rq secret \<and> hash_token P secret = sb_client_state_hash s
            \<and> task = EventReceived (t_slug t) (wr_connection_id r) (provider_str p) (sb_capability s) change rid)) new"
proof (cases "wq_validation_token rq = None \<and> notified_connection p key w \<noteq> None")
  case False
  then have "receive_webhook P p key rq w =
      (Inr (case wq_validation_token rq of Some token \<Rightarrow> PlainText token | None \<Rightarrow> NeutralResponse), w)"
    by (auto simp: receive_webhook_def split: option.splits)
  then show ?thesis by (intro exI [of _ "[]"]) simp
next
  case True
  then obtain t cid where nc: "notified_connection p key w = Some (t, cid)" by auto
  obtain r where r: "r \<in> set (webhook_routes w)" "wr_route_key r = key" "wr_provider r = provider_str p"
    "wr_connection_id r = cid" "t \<in> set (tenants (cdb w))" "t_id t = wr_tenant_id r" "active_tenant t"
    using nc by (auto simp: notified_connection_def dest!: find_eq_Some_D split: option.splits if_splits)
  let ?subs = "filter (\<lambda>s. sb_connection_id s = cid) (filter (\<lambda>s. sb_tenant_id s = t_id t) (subscriptions w))"
  let ?ns = "validated_notifications P p ?subs rq"
  have run: "receive_webhook P p key rq w =
      (Inr NeutralResponse, task_queue_update (\<lambda>q. q @ map (event_task t cid p) ?ns) w)"
    using True nc
    by (simp add: receive_webhook_def scoped_subscriptions_eq context_for_def Let_def del: filter_filter)
  have "\<exists>r t s secret change rid.
      r \<in> set (webhook_routes w) \<and> wr_route_key r = key \<and> wr_provider r = provider_str p
      \<and> t \<in> set (tenants (cdb w)) \<and> t_id t = wr_tenant_id r \<and> active_tenant t
      \<and> s \<in> set (subscriptions w) \<and> sb_tenant_id s = t_id t \<and> sb_connection_id s = wr_connection_id r
      \<and> presents p rq secret \<and> hash_token P secret = sb_client_state_hash s
      \<and> task = EventReceived (t_slug t) (wr_connection_id r) (provider_str p) (sb_capability s) change rid"
    if new: "task \<in> set (map (event_task t cid p) ?ns)" for task
  proof -
    obtain e where e: "e \<in> set ?ns" "task = event_task t cid p e"
      using new unfolding set_map by (elim imageE)
    obtain s change rid where "e = (s, change, rid)" by (cases e)
    with e have n: "(s, change, rid) \<in> set ?ns" and task: "task = event_task t cid p (s, change, rid)" by simp_all
    obtain secret where "presents p rq secret" "hash_token P secret = sb_client_state_hash s" "s \<in> set ?subs"
      using validated_notifications_D [OF n] by blast
    then show ?thesis
      using r task
      by (intro exI [of _ r] exI [of _ t] exI [of _ s] exI [of _ secret] exI [of _ change] exI [of _ rid])
        (simp add: event_task_def)
  qed
  then show ?thesis
    using run True by (intro exI [of _ "map (event_task t cid p) ?ns"]) (simp add: list_all_iff)
qed

text \<open>
  C32 (roundtrip). A subscription comes back as an event. When a Graph subscription has been created,
  the provider was given a notification address and a client state such that a notification posted
  to that address with that state and the subscription's identifier is accepted and queues exactly
  the event of this connection and capability.
\<close>

theorem subscription_notified:
  assumes "create_graph_subscription P cfg env others (Some ctx) key cap c w = (Inr s, c', w')"
    and "cn_provider c = MICROSOFT" "notified_connection MICROSOFT key w' = Some (t, cn_id c)"
    and "t_id t = tc_tenant_id ctx"
  shows "\<exists>rq\<in>set (http_log w'). \<exists>kvs state. hq_json rq = Some (JObj kvs)
      \<and> json_get kvs ''notificationUrl'' = Some (JStr (webhook_url cfg MICROSOFT key))
      \<and> json_get kvs ''clientState'' = Some (JStr state)
      \<and> receive_webhook P MICROSOFT key
          (graph_post (sb_provider_subscription_id s) state change hs) w' =
        (Inr NeutralResponse, task_queue_update (\<lambda>q. q @ [EventReceived (t_slug t) (cn_id c) ''microsoft'' cap change None]) w')"
proof -
  note d = create_graph_subscription_D [OF assms(1)]
  let ?state = "ne_token env (drawn w)"
  obtain rq kvs where rq: "rq \<in> set (http_log w')" "hq_json rq = Some (JObj kvs)"
    "json_get kvs ''notificationUrl'' = Some (JStr (webhook_url cfg MICROSOFT key))"
    "json_get kvs ''clientState'' = Some (JStr ?state)" using d assms(2) by auto
  obtain subs where subs: "subscriptions w' = subs @ [s]" using d by blast
  let ?own = "filter (\<lambda>x. sb_connection_id x = cn_id c) (filter (\<lambda>x. sb_tenant_id x = t_id t) (subscriptions w'))"
  have own: "?own = filter (\<lambda>x. sb_connection_id x = cn_id c) (filter (\<lambda>x. sb_tenant_id x = t_id t) subs) @ [s]"
    using subs d assms(4) by simp
  have "by_provider_id ?own (sb_provider_subscription_id s) = Some s"
    unfolding own by (rule by_provider_id_last) (rule refl)
  then have "validated_notifications P MICROSOFT ?own
      (graph_post (sb_provider_subscription_id s) ?state change hs) = [(s, change, None)]"
    using d
    by (simp add: validated_notifications_def graph_post_def graph_notification_def str_field_def str_json_def json_get_def
        List.map_filter_simps del: filter_filter)
  then show ?thesis
    using rq assms(3) d
    by (intro bexI [of _ rq] exI [of _ kvs] exI [of _ ?state])
      (simp_all add: receive_webhook_def graph_post_sel scoped_subscriptions_eq context_for_def event_task_def provider_str_def Let_def
        del: filter_filter)
qed

definition acme_tenant :: tenant where
  "acme_tenant = \<lparr>t_id = 7, t_slug = ''acme'', t_name = ''Acme'', t_state = T_ACTIVE, t_plan = ''standard'', t_deleted_at = None\<rparr>"

definition graph_connection :: connector_connection where
  "graph_connection = sample_connection
     \<lparr>cn_provider := MICROSOFT, cn_access_token_enc := kp_encrypt sample_primitives sample_key (replicate 12 (CHR ''n'')) ''at'',
      cn_access_token_expires_at := 1000000000\<rparr>"

definition graph_world :: conn_world where
  "graph_world = sample_conn_world\<lparr>cdb := empty_db\<lparr>tenants := [acme_tenant]\<rparr>, connections := [graph_connection],
     webhook_routes := [\<lparr>wr_id = 62, wr_route_key = ''rk'', wr_provider = ''microsoft'', wr_tenant_id = 7, wr_connection_id = 5\<rparr>]\<rparr>"

lemma token_env_answers:
  assumes "budget_ok m cid (vk w)"
  shows "\<exists>w'. provider_http_request token_env m cid rq path w =
      (Inr \<lparr>hr_status = 200, hr_retry_after = None, hr_body = Some sample_token_body\<rparr>, w')
    \<and> net_world.more w' = net_world.more w"
proof -
  let ?r = "\<lparr>hr_status = 200, hr_retry_after = None, hr_body = Some sample_token_body\<rparr>"
  have "first_settled u (\<lambda>i. call_outcome (ne_http token_env i rq)) k (length [0..<MAX_ATTEMPTS]) = (Inr ?r, 1)" for u k
    by (simp add: token_env_def call_outcome_def retryable_def retry_def MAX_ATTEMPTS_def eval_nat_numeral)
  then obtain w' where "run_with_backoff token_env m cid (request_attempt token_env rq call_outcome) w = (Inr ?r, w')"
    using backoff_loop_settles [OF one_request_attempt [of token_env rq call_outcome] assms, of "[0..<MAX_ATTEMPTS]"]
    by (auto simp: run_with_backoff_def)
  then show ?thesis
    using backoff_loop_frame [OF plain_request_attempt, of token_env m cid token_env rq call_outcome "[0..<MAX_ATTEMPTS]" w]
    by (auto simp: provider_http_request_def run_with_backoff_def)
qed

lemma graph_token:
  "decrypt_token sample_primitives sample_cfg (cn_access_token_enc graph_connection) = Inr ''at''"
  "\<not> access_token_expiring graph_connection (seconds EXPIRY_SKEW_SECONDS) 10"
  using kp_decrypt_encrypt [OF sample_aead, of "replicate 12 (CHR ''n'')" sample_key "''at''"]
  by (simp_all add: decrypt_token_def sample_key_provider NONCE_SIZE_def graph_connection_def
      access_token_expiring_def seconds_def EXPIRY_SKEW_SECONDS_def)

lemma graph_created:
  "\<exists>s c' w'. create_graph_subscription sample_primitives sample_cfg token_env id (Some (context_for acme_tenant)) ''rk'' CAPABILITY_MAIL
      graph_connection graph_world = (Inr s, c', w') \<and> notified_connection MICROSOFT ''rk'' w' = Some (acme_tenant, 5)"
proof -
  obtain n w1 where d: "draw graph_world = (n, w1)" by fastforce
  then have w1: "clock w1 = 10" "vk w1 = Map.empty" "net_world.more w1 = net_world.more graph_world"
    by (auto simp: draw_def graph_world_def sample_conn_world_def)
  have "cn_status graph_connection = CONN_ACTIVE"
    by (simp add: graph_connection_def sample_connection_def)
  with graph_token have f: "fresh_access_token sample_primitives sample_cfg token_env id cv graph_connection w1 =
      (Inr ''at'', graph_connection, w1)" for cv
    using w1 by (simp add: fresh_access_token_def)
  have "budget_ok m i (vk w1)" for m i using w1 by (simp add: budget_ok_def)
  then have "\<exists>w2. api_call sample_primitives sample_cfg token_env id cv graph_connection meth url body w1 =
      (Inr \<lparr>hr_status = 200, hr_retry_after = None, hr_body = Some sample_token_body\<rparr>, graph_connection, w2)
      \<and> net_world.more w2 = net_world.more w1" for cv meth url body
    using token_env_answers [of "get_provider (cn_provider graph_connection)" "cn_id graph_connection" w1
        "\<lparr>hq_method = meth, hq_url = url, hq_bearer = Some ''at'', hq_form = [], hq_json = Some body, hq_params = []\<rparr>"
        "url_path url"] f
    by (auto simp: api_call_def bearer_call_def)
  then obtain W where call: "\<And>cv meth url body.
      api_call sample_primitives sample_cfg token_env id cv graph_connection meth url body w1 =
      (Inr \<lparr>hr_status = 200, hr_retry_after = None, hr_body = Some sample_token_body\<rparr>, graph_connection, W cv meth url body)
      \<and> net_world.more (W cv meth url body) = net_world.more w1" by metis
  then have cv: "webhook_routes (W cv meth url body) = webhook_routes graph_world" "cdb (W cv meth url body) = cdb graph_world"
    for cv meth url body using conn_more [of "W cv meth url body" graph_world] w1(3) by simp_all
  have nc: "notified_connection MICROSOFT ''rk'' w = Some (acme_tenant, 5)"
    if "webhook_routes w = webhook_routes graph_world" "cdb w = cdb graph_world" for w
    using that by (simp add: notified_connection_def graph_world_def provider_str_def acme_tenant_def active_tenant_def)
  show ?thesis
    unfolding create_graph_subscription_def d
    by (simp add: call Let_def json_body_def sample_token_body_def parse_expiration_def json_get_def add_subscription_def
        flush_insert_eq draw_def nc cv)
qed

theorem subscription_notified_witness:
  "\<exists>s c' w' state. create_graph_subscription sample_primitives sample_cfg token_env id (Some (context_for acme_tenant)) ''rk'' CAPABILITY_MAIL
      graph_connection graph_world = (Inr s, c', w')
    \<and> receive_webhook sample_primitives MICROSOFT ''rk'' (graph_post (sb_provider_subscription_id s) state ''created'' []) w' =
       (Inr NeutralResponse,
        task_queue_update (\<lambda>q. q @ [EventReceived ''acme'' 5 ''microsoft'' CAPABILITY_MAIL ''created'' None]) w')"
proof -
  obtain s c' w' where c: "create_graph_subscription sample_primitives sample_cfg token_env id (Some (context_for acme_tenant))
      ''rk'' CAPABILITY_MAIL graph_connection graph_world = (Inr s, c', w')"
    and n: "notified_connection MICROSOFT ''rk'' w' = Some (acme_tenant, cn_id graph_connection)"
    using graph_created by (auto simp: graph_connection_def sample_connection_def)
  have m: "cn_provider graph_connection = MICROSOFT" by (simp add: graph_connection_def)
  have t: "t_id acme_tenant = tc_tenant_id (context_for acme_tenant)" by (simp add: context_for_def)
  from subscription_notified [OF c m n t, of "''created''" "[]"] c show ?thesis
    by (auto simp: graph_connection_def sample_connection_def acme_tenant_def)
qed

end
