(* ===== verification/ModuleRegistry.thy ===== *)
theory ModuleRegistry
  imports Access Webhooks
begin

text \<open>
  Business modules: the manifest (\<^verbatim>\<open>automation/contract.py\<close>), the registry with its start-up
  validation (\<^verbatim>\<open>automation/registry.py\<close>), the attachment of permissions and event handlers
  (\<^verbatim>\<open>automation/mounting.py\<close>) and the manifest of the one module of the repository. A route is
  represented by the tree of its dependencies, each with the permission it requires, if any.
\<close>

section \<open>The contract\<close>

datatype dependant = Dependant (required_permission: "string option") (dependencies: "dependant list")

record api_route =
  ar_path :: string
  ar_dependencies :: "dependant list"

datatype router_entry = ApiRoute api_route | OtherRoute

record module_permission =
  mperm_name :: string
  mperm_roles :: "string list"

record periodic_task =
  pt_name :: string
  pt_schedule_seconds :: nat

text \<open>A manifest without its title and description, which are only displayed.\<close>

record module_manifest =
  mm_name :: string
  mm_version :: string
  mm_router :: "router_entry list"
  mm_permissions :: "module_permission list"
  mm_periodic_tasks :: "periodic_task list"
  mm_connector_events :: "(string \<times> nat) list"
  mm_required_capabilities :: "capability_type list"
  mm_audit_actions :: "string list"

definition module_name_fullmatch :: "string \<Rightarrow> bool" where
  "module_name_fullmatch s =
     (case s of [] \<Rightarrow> False
      | c # cs \<Rightarrow> is_lower c \<and> list_all name_char cs \<and> 1 \<le> length cs \<and> length cs \<le> 30)"

section \<open>Validation\<close>

function permission_loop :: "dependant list \<Rightarrow> string list \<Rightarrow> string list" where
  \<comment> \<open>\<^verbatim>\<open>while stack\<close>: the last element is popped, its dependencies are pushed\<close>
  "permission_loop stack found =
     (if stack = [] then found
      else permission_loop (butlast stack @ dependencies (last stack))
             (case required_permission (last stack) of Some p \<Rightarrow> List.insert p found | None \<Rightarrow> found))"
  by auto

lemma size_butlast_last:
  "stack \<noteq> [] \<Longrightarrow>
   sum_list (map size (butlast stack @ dependencies (last stack))) < sum_list (map (size :: dependant \<Rightarrow> nat) stack)"
proof -
  assume ne: "stack \<noteq> []"
  have "sum_list (map (size :: dependant \<Rightarrow> nat) ds) \<le> size_list size ds" for ds
    by (induction ds) auto
  then have "sum_list (map size (dependencies d)) < size d" for d :: dependant
    by (cases d) (simp add: less_Suc_eq_le trans_le_add1)
  then have "sum_list (map size (butlast stack)) + sum_list (map size (dependencies (last stack)))
      < sum_list (map size (butlast stack)) + size (last stack)" by simp
  also have "\<dots> = sum_list (map size (butlast stack @ [last stack]))" by simp
  also have "butlast stack @ [last stack] = stack" using ne by simp
  finally show ?thesis by simp
qed

termination permission_loop
  by (relation "measure (\<lambda>(stack, found). sum_list (map size stack))")
    (use size_butlast_last in \<open>auto simp del: map_append sum_list_append\<close>)

declare permission_loop.simps [simp del]

definition route_permissions :: "api_route \<Rightarrow> string list" where
  "route_permissions r = permission_loop (ar_dependencies r) []"

definition api_routes :: "module_manifest \<Rightarrow> api_route list" where
  \<comment> \<open>the entries that are \<^verbatim>\<open>APIRoute\<close>s\<close>
  "api_routes m = List.map_filter (\<lambda>e. case e of ApiRoute r \<Rightarrow> Some r | OtherRoute \<Rightarrow> None) (mm_router m)"

definition validate_manifest :: "module_manifest \<Rightarrow> unit result" where
  "validate_manifest m =
     (let name = mm_name m; prefix = name @ ''.'';
          outside = (\<lambda>s. \<not> startswith s prefix);
          err = (\<lambda>msg. Inl (ModuleRegistryError (''Module '' @ repr_str name @ '' : '' @ msg)))
      in if \<not> module_name_fullmatch name
         then Inl (ModuleRegistryError (''Nom de module invalide : '' @ repr_str name))
         else case List.find outside (map mperm_name (mm_permissions m)) of
                Some p \<Rightarrow> err (''permission '' @ repr_str p @ '' hors namespace '' @ repr_str prefix)
              | None \<Rightarrow>
         (case List.find outside (map pt_name (mm_periodic_tasks m)) of
            Some t \<Rightarrow> err (''tache '' @ repr_str t @ '' hors namespace '' @ repr_str prefix)
          | None \<Rightarrow>
         (case List.find outside (mm_audit_actions m) of
            Some a \<Rightarrow> err (''action d audit '' @ repr_str a @ '' hors namespace '' @ repr_str prefix)
          | None \<Rightarrow>
         (case List.find (\<lambda>r. \<not> list_ex (\<lambda>p. startswith p prefix) (route_permissions r)) (api_routes m) of
            Some r \<Rightarrow> err (''la route '' @ repr_str (ar_path r) @ '' ne porte aucune dependance'')
          | None \<Rightarrow> Inr ()))))"

fun validate_loop :: "string list \<Rightarrow> module_manifest list \<Rightarrow> unit result" where
  "validate_loop seen [] = Inr ()"
| "validate_loop seen (m # ms) =
     (if mm_name m \<in> set seen
      then Inl (ModuleRegistryError (''Nom de module en collision au registre : '' @ repr_str (mm_name m)))
      else (case validate_manifest m of Inl e \<Rightarrow> Inl e | Inr _ \<Rightarrow> validate_loop (mm_name m # seen) ms))"

definition validate_registry :: "module_manifest list \<Rightarrow> unit result" where
  "validate_registry modules = validate_loop [] modules"

definition get_module :: "module_manifest list \<Rightarrow> string \<Rightarrow> module_manifest option" where
  "get_module modules name = List.find (\<lambda>m. mm_name m = name) modules"

definition module_names :: "module_manifest list \<Rightarrow> string list" where
  "module_names modules = map mm_name modules"

section \<open>Mounting\<close>

fun register_permissions ::
  "module_permission list \<Rightarrow> permission_registry \<Rightarrow> unit result \<times> permission_registry" where
  "register_permissions [] st = (Inr (), st)"
| "register_permissions (p # ps) st =
     (case register_module_permission (mperm_name p) (mperm_roles p) st of
        (Inl e, st') \<Rightarrow> (Inl e, st')
      | (Inr _, st') \<Rightarrow> register_permissions ps st')"

definition register_events :: "(string \<times> nat) list \<Rightarrow> handler_registry \<Rightarrow> handler_registry" where
  "register_events evs reg = fold (\<lambda>(capability, handler). on_connector_event capability handler) evs reg"

fun register_modules ::
  "module_manifest list \<Rightarrow> permission_registry \<times> handler_registry \<Rightarrow>
   unit result \<times> permission_registry \<times> handler_registry" where
  "register_modules [] (st, reg) = (Inr (), st, reg)"
| "register_modules (m # ms) (st, reg) =
     (case register_permissions (mm_permissions m) st of
        (Inl e, st') \<Rightarrow> (Inl e, st', reg)
      | (Inr _, st') \<Rightarrow> register_modules ms (st', register_events (mm_connector_events m) reg))"

definition register_runtime ::
  "module_manifest list \<Rightarrow> permission_registry \<times> handler_registry \<Rightarrow>
   unit result \<times> permission_registry \<times> handler_registry" where
  "register_runtime modules s =
     (case validate_registry modules of Inl e \<Rightarrow> (Inl e, s)
      | Inr _ \<Rightarrow> register_modules modules (reset_module_permissions (fst s), reset_event_handlers (snd s)))"

definition mount_prefix :: "module_manifest \<Rightarrow> string" where
  "mount_prefix m = ''/api/v1/modules/'' @ mm_name m"

section \<open>The module of the repository\<close>

definition PERM_READ :: string where "PERM_READ = ''sample_digest.read''"
definition PERM_MANAGE :: string where "PERM_MANAGE = ''sample_digest.manage''"
definition TASK_NAME :: string where "TASK_NAME = ''sample_digest.daily_digest''"
definition DIGEST_ACTION :: string where "DIGEST_ACTION = ''sample_digest.digest_generated''"

definition resolve_tenant_dependant :: dependant where
  \<comment> \<open>\<^verbatim>\<open>resolve_tenant\<close>: the control session and the authentication, which needs that session too\<close>
  "resolve_tenant_dependant = Dependant None [Dependant None [], Dependant None [Dependant None []]]"

definition permission_dependant :: "string \<Rightarrow> dependant" where
  "permission_dependant permission = Dependant (Some permission) [resolve_tenant_dependant]"

definition sample_digest_router :: "router_entry list" where
  "sample_digest_router =
     [ApiRoute \<lparr>ar_path = ''/digests'', ar_dependencies = [permission_dependant PERM_READ, Dependant None []]\<rparr>,
      ApiRoute \<lparr>ar_path = ''/run'', ar_dependencies = [permission_dependant PERM_MANAGE]\<rparr>]"

definition sample_digest_manifest :: module_manifest where
  \<comment> \<open>handler 0 is \<^verbatim>\<open>on_mail_event\<close>\<close>
  "sample_digest_manifest =
     \<lparr>mm_name = ''sample_digest'', mm_version = ''1.0.0'', mm_router = sample_digest_router,
      mm_permissions = [\<lparr>mperm_name = PERM_READ, mperm_roles = [ROLE_MEMBER, ROLE_ADMIN, ROLE_OWNER]\<rparr>,
                        \<lparr>mperm_name = PERM_MANAGE, mperm_roles = [ROLE_ADMIN, ROLE_OWNER]\<rparr>],
      mm_periodic_tasks = [\<lparr>pt_name = TASK_NAME, pt_schedule_seconds = 86400\<rparr>],
      mm_connector_events = [(CAPABILITY_MAIL, 0)],
      mm_required_capabilities = [MailCapability], mm_audit_actions = [DIGEST_ACTION]\<rparr>"

definition MODULES :: "module_manifest list" where
  "MODULES = [sample_digest_manifest]"

section \<open>Lemmas\<close>

fun tree_permissions :: "dependant \<Rightarrow> string set" where
  "tree_permissions (Dependant p ds) = set_option p \<union> (\<Union>d\<in>set ds. tree_permissions d)"

lemma tree_permissions_unfold:
  "tree_permissions d = set_option (required_permission d) \<union> (\<Union>e\<in>set (dependencies d). tree_permissions e)"
  by (cases d) simp

lemma permission_loop_set:
  "set (permission_loop stack found) = set found \<union> (\<Union>d\<in>set stack. tree_permissions d)"
proof (induction stack found rule: permission_loop.induct)
  case (1 stack found)
  show ?case
  proof (cases "stack = []")
    case False
    have "set stack = insert (last stack) (set (butlast stack))"
      using False by (metis append_butlast_last_id list.simps(15) rotate1.simps(2) set_rotate1)
    then have st: "(\<Union>d\<in>set stack. tree_permissions d) =
        tree_permissions (last stack) \<union> (\<Union>d\<in>set (butlast stack). tree_permissions d)" by simp
    show ?thesis
      unfolding permission_loop.simps [of stack found] st tree_permissions_unfold [of "last stack"]
      using 1 [OF False] False by (auto split: option.splits)
  qed (simp add: permission_loop.simps [of "[]" found])
qed

lemma prefix_dot_unique:
  assumes "startswith s (a @ ''.'')" "startswith s (b @ ''.'')" "CHR ''.'' \<notin> set a" "CHR ''.'' \<notin> set b"
  shows "a = b"
proof -
  obtain r where r: "s = a @ CHR ''.'' # r" using assms(1) by (auto simp: startswith_iff)
  obtain q where q: "s = b @ CHR ''.'' # q" using assms(2) by (auto simp: startswith_iff)
  have "takeWhile (\<lambda>c. c \<noteq> CHR ''.'') (x @ CHR ''.'' # y) = x" if "CHR ''.'' \<notin> set x" for x y
    using that by (subst takeWhile_append2) auto
  then have "takeWhile (\<lambda>c. c \<noteq> CHR ''.'') s = a" "takeWhile (\<lambda>c. c \<noteq> CHR ''.'') s = b"
    using assms(3) r assms(4) q by metis+
  then show ?thesis by simp
qed

lemma module_name_no_dot: "module_name_fullmatch s \<Longrightarrow> CHR ''.'' \<notin> set s"
  by (auto simp: module_name_fullmatch_def name_char_def list_all_iff is_lower_def is_digit_def split: list.splits)

lemma validate_loop_ok:
  "validate_loop seen ms = Inr () \<Longrightarrow>
   (\<forall>m\<in>set ms. validate_manifest m = Inr () \<and> mm_name m \<notin> set seen) \<and> distinct (map mm_name ms)"
  by (induction ms arbitrary: seen) (auto split: if_splits sum.splits, fastforce+)

lemma validate_manifest_ok:
  assumes "validate_manifest m = Inr ()"
  shows "module_name_fullmatch (mm_name m)"
    and "\<forall>p\<in>set (mm_permissions m). startswith (mperm_name p) (mm_name m @ ''.'')"
    and "\<forall>t\<in>set (mm_periodic_tasks m). startswith (pt_name t) (mm_name m @ ''.'')"
    and "\<forall>r\<in>set (api_routes m). \<exists>p\<in>set (route_permissions r). startswith p (mm_name m @ ''.'')"
  using assms
  by (auto simp: validate_manifest_def Let_def find_eq_None_iff list_ex_iff split: if_splits option.splits)

lemma MODULES_valid: "validate_registry MODULES = Inr ()"
  by code_simp

section \<open>Properties\<close>

text \<open>
  C34 (safety). After the start-up validation every API route of a module demands, somewhere in its
  tree of dependencies, a permission of the module's own namespace, and no other module of the
  registry declares that permission: a role obtains access to a module's routes from that module
  only. Names, tasks and permissions of two modules never collide.
\<close>

theorem module_routes_guarded:
  assumes "validate_registry modules = Inr ()" "m \<in> set modules" "r \<in> set (api_routes m)"
  shows "\<exists>d\<in>set (ar_dependencies r). \<exists>p\<in>tree_permissions d. startswith p (mm_name m @ ''.'')
    \<and> list_all (\<lambda>m'. p \<in> mperm_name ` set (mm_permissions m') \<longrightarrow> m' = m) modules
    \<and> distinct (map mm_name modules)"
proof -
  note ok = validate_loop_ok [OF assms(1) [unfolded validate_registry_def]]
  have v: "validate_manifest m' = Inr ()" if "m' \<in> set modules" for m' using ok that by blast
  obtain p where p: "p \<in> set (route_permissions r)" "startswith p (mm_name m @ ''.'')"
    using validate_manifest_ok(4) [OF v [OF assms(2)]] assms(3) by blast
  obtain d where d: "d \<in> set (ar_dependencies r)" "p \<in> tree_permissions d"
    using p(1) by (auto simp: route_permissions_def permission_loop_set)
  have "m' = m" if m': "m' \<in> set modules" "p \<in> mperm_name ` set (mm_permissions m')" for m'
  proof -
    have "startswith p (mm_name m' @ ''.'')" using validate_manifest_ok(2) [OF v [OF m'(1)]] m'(2) by auto
    then have "mm_name m' = mm_name m"
      using prefix_dot_unique [OF _ p(2)] module_name_no_dot validate_manifest_ok(1) v assms(2) m'(1) by blast
    then show ?thesis using ok assms(2) m'(1) by (metis inj_on_contraD distinct_map)
  qed
  then show ?thesis using d p(2) ok by (auto simp: list_all_iff)
qed

theorem module_routes_guarded_witness:
  "\<exists>d p. p \<in> tree_permissions d \<and> startswith p ''sample_digest.'' \<and> validate_registry MODULES = Inr ()"
proof -
  have r: "\<lparr>ar_path = ''/run'', ar_dependencies = [permission_dependant PERM_MANAGE]\<rparr> \<in> set (api_routes sample_digest_manifest)"
    by (simp add: api_routes_def sample_digest_manifest_def sample_digest_router_def List.map_filter_simps)
  have m: "sample_digest_manifest \<in> set MODULES" by (simp add: MODULES_def)
  have "mm_name sample_digest_manifest @ ''.'' = ''sample_digest.''" by (simp add: sample_digest_manifest_def)
  then show ?thesis using module_routes_guarded [OF MODULES_valid m r] MODULES_valid by metis
qed

end
