(* ===== verification/Migration.thy ===== *)
theory Migration
  imports Metadata ModuleRegistry
begin

text \<open>
  The baseline migration (\<^verbatim>\<open>migrations/versions/0001_baseline.py\<close>): its operations as data, and what they
  do to the tables of a database. An operation is refused as PostgreSQL refuses it: a name already
  taken (tables and indexes share their names), a column or table that does not exist, a foreign key
  to columns that are no key, the removal of a table that others refer to. The names the server
  itself gives to unnamed constraints are left out.
\<close>

section \<open>Operations\<close>

datatype table_item =
  Column string sa_type "sql_default option" bool
| PrimaryKeyConstraint "string list"
| UniqueConstraint "string option" "string list"
| ForeignKeyConstraint "string list" string "string list" string

datatype ddl =
  CreateTable string "table_item list"
| CreateIndex string string "index_term list" bool
| DropIndex string string
| DropTable string

datatype ddl_error =
  DuplicateRelation string | DuplicateColumn string | UndefinedColumn string | UndefinedTable string
| UndefinedIndex string | InvalidForeignKey string | DependentObjects string

definition create_tenants :: "ddl list" where
  "create_tenants =
     [CreateTable ''tenants''
        [Column ''id'' Uuid None False,
         Column ''slug'' (String 40) None False,
         Column ''name'' (String 255) None False,
         Column ''state'' (Enum [''active'', ''suspended''] ''tenant_state'' 20) None False,
         Column ''plan'' (String 50) (Some (LiteralDefault ''standard'')) False,
         Column ''deleted_at'' (DateTime True) None True,
         Column ''created_at'' (DateTime True) (Some (SqlDefault ''now()'')) False,
         Column ''updated_at'' (DateTime True) (Some (SqlDefault ''now()'')) False,
         PrimaryKeyConstraint [''id''],
         UniqueConstraint None [''slug'']]]"

definition create_users :: "ddl list" where
  "create_users =
     [CreateTable ''users''
        [Column ''id'' Uuid None False,
         Column ''email'' (String 320) None False,
         Column ''display_name'' (String 255) None True,
         Column ''created_at'' (DateTime True) (Some (SqlDefault ''now()'')) False,
         Column ''updated_at'' (DateTime True) (Some (SqlDefault ''now()'')) False,
         PrimaryKeyConstraint [''id'']],
      CreateIndex ''ux_users_email_lower'' ''users'' [SqlTerm ''lower(email)''] True]"

definition create_ai_usage_daily :: "ddl list" where
  "create_ai_usage_daily =
     [CreateTable ''ai_usage_daily''
        [Column ''day'' Date None False,
         Column ''tenant_id'' Uuid None False,
         Column ''provider'' (String 20) None False,
         Column ''model'' (String 100) None False,
         Column ''input_tokens'' BigInteger None False,
         Column ''output_tokens'' BigInteger None False,
         Column ''cached_tokens'' BigInteger None False,
         Column ''request_count'' Integer None False,
         Column ''error_count'' Integer None False,
         Column ''estimated_cost_microeur'' BigInteger None False,
         ForeignKeyConstraint [''tenant_id''] ''tenants'' [''id''] ''CASCADE'',
         PrimaryKeyConstraint [''day'', ''tenant_id'', ''provider'', ''model'']]]"

definition create_ai_usage_events :: "ddl list" where
  "create_ai_usage_events =
     [CreateTable ''ai_usage_events''
        [Column ''id'' Uuid None False,
         Column ''occurred_at'' (DateTime True) (Some (SqlDefault ''now()'')) False,
         Column ''tenant_id'' Uuid None False,
         Column ''user_id'' Uuid None True,
         Column ''module'' (String 50) None False,
         Column ''provider'' (String 20) None False,
         Column ''model'' (String 100) None False,
         Column ''input_tokens'' Integer None False,
         Column ''output_tokens'' Integer None False,
         Column ''cached_tokens'' Integer None False,
         Column ''latency_ms'' Integer None False,
         Column ''estimated_cost_microeur'' BigInteger None False,
         Column ''price_version'' (String 20) None False,
         Column ''status'' (Enum [''ok'', ''error'', ''timeout''] ''ai_usage_status'' 10) None False,
         Column ''error_kind'' (String 50) None True,
         ForeignKeyConstraint [''tenant_id''] ''tenants'' [''id''] ''CASCADE'',
         PrimaryKeyConstraint [''id'']],
      CreateIndex ''ix_ai_usage_events_occurred_at'' ''ai_usage_events'' [ColumnTerm ''occurred_at''] False,
      CreateIndex ''ix_ai_usage_events_tenant_id'' ''ai_usage_events'' [ColumnTerm ''tenant_id''] False]"

definition create_audit_events :: "ddl list" where
  "create_audit_events =
     [CreateTable ''audit_events''
        [Column ''id'' Uuid None False,
         Column ''occurred_at'' (DateTime True) (Some (SqlDefault ''now()'')) False,
         Column ''actor_user_id'' Uuid None True,
         Column ''actor_label'' (String 320) None False,
         Column ''action'' (String 100) None False,
         Column ''resource_type'' (String 100) None False,
         Column ''resource_id'' (String 100) None False,
         Column ''payload'' JSON None False,
         Column ''tenant_id'' Uuid None False,
         ForeignKeyConstraint [''tenant_id''] ''tenants'' [''id''] ''CASCADE'',
         PrimaryKeyConstraint [''id'']],
      CreateIndex ''ix_audit_events_tenant_action'' ''audit_events'' [ColumnTerm ''tenant_id'', ColumnTerm ''action''] False,
      CreateIndex ''ix_audit_events_tenant_cursor'' ''audit_events'' [ColumnTerm ''tenant_id'', ColumnTerm ''occurred_at'', ColumnTerm ''id''] False,
      CreateIndex ''ix_audit_events_tenant_id'' ''audit_events'' [ColumnTerm ''tenant_id''] False]"

definition create_auth_recovery_codes :: "ddl list" where
  "create_auth_recovery_codes =
     [CreateTable ''auth_recovery_codes''
        [Column ''id'' Uuid None False,
         Column ''user_id'' Uuid None False,
         Column ''code_hash'' (String 64) None False,
         Column ''used_at'' (DateTime True) None True,
         Column ''created_at'' (DateTime True) (Some (SqlDefault ''now()'')) False,
         ForeignKeyConstraint [''user_id''] ''users'' [''id''] ''CASCADE'',
         PrimaryKeyConstraint [''id''],
         UniqueConstraint None [''code_hash'']]]"

definition create_connector_connections :: "ddl list" where
  "create_connector_connections =
     [CreateTable ''connector_connections''
        [Column ''id'' Uuid None False,
         Column ''provider'' (Enum [''google'', ''microsoft''] ''connector_provider'' 20) None False,
         Column ''kind'' (Enum [''tenant'', ''user''] ''connection_kind'' 10) None False,
         Column ''user_id'' Uuid None True,
         Column ''account_label'' (String 320) None False,
         Column ''scopes'' JSON None False,
         Column ''access_token_enc'' LargeBinary None False,
         Column ''refresh_token_enc'' LargeBinary None False,
         Column ''access_token_expires_at'' (DateTime True) None False,
         Column ''status'' (Enum [''active'', ''needs_reconsent'', ''revoked'', ''error''] ''connection_status'' 20) None False,
         Column ''last_error'' Text None True,
         Column ''health_checked_at'' (DateTime True) None True,
         Column ''created_at'' (DateTime True) (Some (SqlDefault ''now()'')) False,
         Column ''updated_at'' (DateTime True) (Some (SqlDefault ''now()'')) False,
         Column ''tenant_id'' Uuid None False,
         ForeignKeyConstraint [''tenant_id''] ''tenants'' [''id''] ''CASCADE'',
         PrimaryKeyConstraint [''id'']],
      CreateIndex ''ix_connector_connections_tenant_id'' ''connector_connections'' [ColumnTerm ''tenant_id''] False]"

definition create_invitations :: "ddl list" where
  "create_invitations =
     [CreateTable ''invitations''
        [Column ''id'' Uuid None False,
         Column ''email'' (String 320) None False,
         Column ''tenant_id'' Uuid None False,
         Column ''role'' (String 50) None False,
         Column ''token_hash'' (String 64) None False,
         Column ''expires_at'' (DateTime True) None False,
         Column ''accepted_at'' (DateTime True) None True,
         Column ''invited_by_user_id'' Uuid None True,
         Column ''created_at'' (DateTime True) (Some (SqlDefault ''now()'')) False,
         ForeignKeyConstraint [''invited_by_user_id''] ''users'' [''id''] ''SET NULL'',
         ForeignKeyConstraint [''tenant_id''] ''tenants'' [''id''] ''CASCADE'',
         PrimaryKeyConstraint [''id''],
         UniqueConstraint None [''token_hash'']]]"

definition create_login_challenges :: "ddl list" where
  "create_login_challenges =
     [CreateTable ''login_challenges''
        [Column ''id'' Uuid None False,
         Column ''user_id'' Uuid None False,
         Column ''token_hash'' (String 64) None False,
         Column ''expires_at'' (DateTime True) None False,
         Column ''consumed_at'' (DateTime True) None True,
         Column ''created_at'' (DateTime True) (Some (SqlDefault ''now()'')) False,
         ForeignKeyConstraint [''user_id''] ''users'' [''id''] ''CASCADE'',
         PrimaryKeyConstraint [''id''],
         UniqueConstraint None [''token_hash'']]]"

definition create_memberships :: "ddl list" where
  "create_memberships =
     [CreateTable ''memberships''
        [Column ''id'' Uuid None False,
         Column ''user_id'' Uuid None False,
         Column ''tenant_id'' Uuid None False,
         Column ''role'' (String 50) None False,
         Column ''created_at'' (DateTime True) (Some (SqlDefault ''now()'')) False,
         ForeignKeyConstraint [''tenant_id''] ''tenants'' [''id''] ''CASCADE'',
         ForeignKeyConstraint [''user_id''] ''users'' [''id''] ''CASCADE'',
         PrimaryKeyConstraint [''id''],
         UniqueConstraint (Some ''ux_memberships_user_tenant'') [''user_id'', ''tenant_id'']]]"

definition create_oauth_identities :: "ddl list" where
  "create_oauth_identities =
     [CreateTable ''oauth_identities''
        [Column ''id'' Uuid None False,
         Column ''provider'' (Enum [''google'', ''microsoft''] ''oauth_provider'' 20) None False,
         Column ''subject'' (String 255) None False,
         Column ''user_id'' Uuid None False,
         Column ''created_at'' (DateTime True) (Some (SqlDefault ''now()'')) False,
         ForeignKeyConstraint [''user_id''] ''users'' [''id''] ''CASCADE'',
         PrimaryKeyConstraint [''id''],
         UniqueConstraint (Some ''ux_oauth_identities_provider_subject'') [''provider'', ''subject''],
         UniqueConstraint (Some ''ux_oauth_identities_provider_user'') [''provider'', ''user_id'']]]"

definition create_sample_digest_digests :: "ddl list" where
  "create_sample_digest_digests =
     [CreateTable ''sample_digest_digests''
        [Column ''id'' Uuid None False,
         Column ''generated_at'' (DateTime True) (Some (SqlDefault ''now()'')) False,
         Column ''message_count'' Integer None False,
         Column ''summary'' Text None False,
         Column ''tenant_id'' Uuid None False,
         ForeignKeyConstraint [''tenant_id''] ''tenants'' [''id''] ''CASCADE'',
         PrimaryKeyConstraint [''id'']],
      CreateIndex ''ix_sample_digest_digests_tenant_generated'' ''sample_digest_digests'' [ColumnTerm ''tenant_id'', ColumnTerm ''generated_at''] False,
      CreateIndex ''ix_sample_digest_digests_tenant_id'' ''sample_digest_digests'' [ColumnTerm ''tenant_id''] False]"

definition create_sessions :: "ddl list" where
  "create_sessions =
     [CreateTable ''sessions''
        [Column ''id'' Uuid None False,
         Column ''user_id'' Uuid None False,
         Column ''token_hash'' (String 64) None False,
         Column ''created_at'' (DateTime True) (Some (SqlDefault ''now()'')) False,
         Column ''expires_at'' (DateTime True) None False,
         Column ''last_seen_at'' (DateTime True) (Some (SqlDefault ''now()'')) False,
         Column ''revoked_at'' (DateTime True) None True,
         ForeignKeyConstraint [''user_id''] ''users'' [''id''] ''CASCADE'',
         PrimaryKeyConstraint [''id''],
         UniqueConstraint None [''token_hash'']]]"

definition create_teams :: "ddl list" where
  "create_teams =
     [CreateTable ''teams''
        [Column ''id'' Uuid None False,
         Column ''name'' (String 120) None False,
         Column ''description'' Text None True,
         Column ''created_at'' (DateTime True) (Some (SqlDefault ''now()'')) False,
         Column ''tenant_id'' Uuid None False,
         ForeignKeyConstraint [''tenant_id''] ''tenants'' [''id''] ''CASCADE'',
         PrimaryKeyConstraint [''id''],
         UniqueConstraint (Some ''ux_teams_tenant_name'') [''tenant_id'', ''name'']],
      CreateIndex ''ix_teams_tenant_id'' ''teams'' [ColumnTerm ''tenant_id''] False]"

definition create_tenant_ai_policies :: "ddl list" where
  "create_tenant_ai_policies =
     [CreateTable ''tenant_ai_policies''
        [Column ''tenant_id'' Uuid None False,
         Column ''default_provider'' (String 20) None True,
         Column ''default_model'' (String 100) None True,
         Column ''allowed_providers'' JSON None False,
         Column ''zero_retention'' Boolean None False,
         Column ''monthly_token_quota'' BigInteger None True,
         Column ''hard_limit_enabled'' Boolean None False,
         Column ''fallback_provider'' (String 20) None True,
         Column ''fallback_model'' (String 100) None True,
         Column ''byok_keys_enc'' LargeBinary None True,
         Column ''created_at'' (DateTime True) (Some (SqlDefault ''now()'')) False,
         Column ''updated_at'' (DateTime True) (Some (SqlDefault ''now()'')) False,
         ForeignKeyConstraint [''tenant_id''] ''tenants'' [''id''] ''CASCADE'',
         PrimaryKeyConstraint [''tenant_id'']]]"

definition create_tenant_modules :: "ddl list" where
  "create_tenant_modules =
     [CreateTable ''tenant_modules''
        [Column ''id'' Uuid None False,
         Column ''tenant_id'' Uuid None False,
         Column ''module_name'' (String 32) None False,
         Column ''enabled'' Boolean None False,
         Column ''created_at'' (DateTime True) (Some (SqlDefault ''now()'')) False,
         Column ''updated_at'' (DateTime True) (Some (SqlDefault ''now()'')) False,
         ForeignKeyConstraint [''tenant_id''] ''tenants'' [''id''] ''CASCADE'',
         PrimaryKeyConstraint [''id''],
         UniqueConstraint (Some ''uq_tenant_module'') [''tenant_id'', ''module_name'']],
      CreateIndex ''ix_tenant_modules_tenant_id'' ''tenant_modules'' [ColumnTerm ''tenant_id''] False]"

definition create_user_credentials :: "ddl list" where
  "create_user_credentials =
     [CreateTable ''user_credentials''
        [Column ''user_id'' Uuid None False,
         Column ''password_hash'' Text None True,
         Column ''totp_secret_encrypted'' LargeBinary None True,
         Column ''totp_enabled'' Boolean (Some (LiteralDefault ''false'')) False,
         Column ''totp_last_counter'' BigInteger None True,
         Column ''created_at'' (DateTime True) (Some (SqlDefault ''now()'')) False,
         Column ''updated_at'' (DateTime True) (Some (SqlDefault ''now()'')) False,
         ForeignKeyConstraint [''user_id''] ''users'' [''id''] ''CASCADE'',
         PrimaryKeyConstraint [''user_id'']]]"

definition create_webhook_routes :: "ddl list" where
  "create_webhook_routes =
     [CreateTable ''webhook_routes''
        [Column ''id'' Uuid None False,
         Column ''route_key'' (String 64) None False,
         Column ''provider'' (String 20) None False,
         Column ''tenant_id'' Uuid None False,
         Column ''connection_id'' Uuid None False,
         Column ''created_at'' (DateTime True) (Some (SqlDefault ''now()'')) False,
         ForeignKeyConstraint [''tenant_id''] ''tenants'' [''id''] ''CASCADE'',
         PrimaryKeyConstraint [''id''],
         UniqueConstraint None [''route_key'']]]"

definition create_connector_subscriptions :: "ddl list" where
  "create_connector_subscriptions =
     [CreateTable ''connector_subscriptions''
        [Column ''id'' Uuid None False,
         Column ''connection_id'' Uuid None False,
         Column ''capability'' (String 20) None False,
         Column ''provider_subscription_id'' (String 255) None False,
         Column ''resource'' (String 255) None False,
         Column ''expires_at'' (DateTime True) None False,
         Column ''client_state_hash'' (String 64) None False,
         Column ''provider_data'' JSON None False,
         Column ''created_at'' (DateTime True) (Some (SqlDefault ''now()'')) False,
         Column ''tenant_id'' Uuid None False,
         ForeignKeyConstraint [''connection_id''] ''connector_connections'' [''id''] ''CASCADE'',
         ForeignKeyConstraint [''tenant_id''] ''tenants'' [''id''] ''CASCADE'',
         PrimaryKeyConstraint [''id'']],
      CreateIndex ''ix_connector_subscriptions_tenant_id'' ''connector_subscriptions'' [ColumnTerm ''tenant_id''] False]"

definition create_team_members :: "ddl list" where
  "create_team_members =
     [CreateTable ''team_members''
        [Column ''id'' Uuid None False,
         Column ''team_id'' Uuid None False,
         Column ''user_id'' Uuid None False,
         Column ''created_at'' (DateTime True) (Some (SqlDefault ''now()'')) False,
         Column ''tenant_id'' Uuid None False,
         ForeignKeyConstraint [''team_id''] ''teams'' [''id''] ''CASCADE'',
         ForeignKeyConstraint [''tenant_id''] ''tenants'' [''id''] ''CASCADE'',
         PrimaryKeyConstraint [''id''],
         UniqueConstraint (Some ''ux_team_members_team_user'') [''team_id'', ''user_id'']],
      CreateIndex ''ix_team_members_tenant_id'' ''team_members'' [ColumnTerm ''tenant_id''] False]"

definition baseline_upgrade :: "ddl list" where
  "baseline_upgrade =
     create_tenants @ create_users @ create_ai_usage_daily @ create_ai_usage_events @ create_audit_events @
     create_auth_recovery_codes @ create_connector_connections @ create_invitations @ create_login_challenges @
     create_memberships @ create_oauth_identities @ create_sample_digest_digests @ create_sessions @ create_teams @
     create_tenant_ai_policies @ create_tenant_modules @ create_user_credentials @ create_webhook_routes @
     create_connector_subscriptions @ create_team_members"

definition baseline_downgrade :: "ddl list" where
  "baseline_downgrade =
     [DropIndex ''ix_team_members_tenant_id'' ''team_members'',
      DropTable ''team_members'',
      DropIndex ''ix_connector_subscriptions_tenant_id'' ''connector_subscriptions'',
      DropTable ''connector_subscriptions'',
      DropTable ''webhook_routes'',
      DropTable ''user_credentials'',
      DropIndex ''ix_tenant_modules_tenant_id'' ''tenant_modules'',
      DropTable ''tenant_modules'',
      DropTable ''tenant_ai_policies'',
      DropIndex ''ix_teams_tenant_id'' ''teams'',
      DropTable ''teams'',
      DropTable ''sessions'',
      DropIndex ''ix_sample_digest_digests_tenant_id'' ''sample_digest_digests'',
      DropIndex ''ix_sample_digest_digests_tenant_generated'' ''sample_digest_digests'',
      DropTable ''sample_digest_digests'',
      DropTable ''oauth_identities'',
      DropTable ''memberships'',
      DropTable ''login_challenges'',
      DropTable ''invitations'',
      DropIndex ''ix_connector_connections_tenant_id'' ''connector_connections'',
      DropTable ''connector_connections'',
      DropTable ''auth_recovery_codes'',
      DropIndex ''ix_audit_events_tenant_id'' ''audit_events'',
      DropIndex ''ix_audit_events_tenant_cursor'' ''audit_events'',
      DropIndex ''ix_audit_events_tenant_action'' ''audit_events'',
      DropTable ''audit_events'',
      DropIndex ''ix_ai_usage_events_tenant_id'' ''ai_usage_events'',
      DropIndex ''ix_ai_usage_events_occurred_at'' ''ai_usage_events'',
      DropTable ''ai_usage_events'',
      DropTable ''ai_usage_daily'',
      DropIndex ''ux_users_email_lower'' ''users'',
      DropTable ''users'',
      DropTable ''tenants'']"

section \<open>Effect on a database\<close>

type_synonym schema = "table list"

fun item_column :: "table_item \<Rightarrow> column option" where
  "item_column (Column n t d b) = Some \<lparr>col_name = n, col_type = t, col_default = d, col_nullable = b\<rparr>"
| "item_column _ = None"

fun item_key :: "table_item \<Rightarrow> string list option" where
  "item_key (PrimaryKeyConstraint cols) = Some cols"
| "item_key _ = None"

fun item_unique :: "table_item \<Rightarrow> (string option \<times> string list) option" where
  "item_unique (UniqueConstraint n cols) = Some (n, cols)"
| "item_unique _ = None"

fun item_foreign_key :: "table_item \<Rightarrow> foreign_key option" where
  "item_foreign_key (ForeignKeyConstraint cols t refs del) =
     Some \<lparr>fk_columns = cols, fk_table = t, fk_referred = refs, fk_ondelete = del\<rparr>"
| "item_foreign_key _ = None"

definition new_table :: "string \<Rightarrow> table_item list \<Rightarrow> table" where
  "new_table name items =
     \<lparr>tb_name = name, tb_columns = List.map_filter item_column items,
      tb_primary_key = concat (List.map_filter item_key items), tb_uniques = List.map_filter item_unique items,
      tb_foreign_keys = List.map_filter item_foreign_key items, tb_indexes = []\<rparr>"

definition relation_names :: "schema \<Rightarrow> string list" where
  "relation_names cat = concat (map (\<lambda>t. tb_name t # map ix_name (tb_indexes t)) cat)"

definition column_names :: "table \<Rightarrow> string list" where
  "column_names t = map col_name (tb_columns t)"

definition keys_of :: "table \<Rightarrow> string list list" where
  "keys_of t = tb_primary_key t # map snd (tb_uniques t)"

definition constrained_columns :: "table \<Rightarrow> string list" where
  "constrained_columns t = concat (keys_of t) @ concat (map fk_columns (tb_foreign_keys t))"

definition reference_ok :: "schema \<Rightarrow> foreign_key \<Rightarrow> bool" where
  "reference_ok cat fk =
     list_ex (\<lambda>t. tb_name t = fk_table fk \<and> list_ex (\<lambda>k. set k = set (fk_referred fk)) (keys_of t)) cat"

definition term_ok :: "table \<Rightarrow> index_term \<Rightarrow> bool" where
  "term_ok t x = (case x of ColumnTerm c \<Rightarrow> c \<in> set (column_names t) | SqlTerm _ \<Rightarrow> True)"

definition create_table :: "table \<Rightarrow> schema \<Rightarrow> ddl_error + schema" where
  "create_table t cat =
     (if tb_name t \<in> set (relation_names cat) then Inl (DuplicateRelation (tb_name t))
      else if \<not> distinct (column_names t) then Inl (DuplicateColumn (tb_name t))
      else if \<not> list_all (\<lambda>c. c \<in> set (column_names t)) (constrained_columns t) then Inl (UndefinedColumn (tb_name t))
      else if \<not> list_all (reference_ok (cat @ [t])) (tb_foreign_keys t) then Inl (InvalidForeignKey (tb_name t))
      else Inr (cat @ [t]))"

definition create_index :: "string \<Rightarrow> string \<Rightarrow> index_term list \<Rightarrow> bool \<Rightarrow> schema \<Rightarrow> ddl_error + schema" where
  "create_index name table terms u cat =
     (if name \<in> set (relation_names cat) then Inl (DuplicateRelation name)
      else case List.find (\<lambda>t. tb_name t = table) cat of
             None \<Rightarrow> Inl (UndefinedTable table)
           | Some t \<Rightarrow>
               if \<not> list_all (term_ok t) terms then Inl (UndefinedColumn table)
               else Inr (map (\<lambda>t. if tb_name t = table
                                  then t\<lparr>tb_indexes := tb_indexes t @ [\<lparr>ix_name = name, ix_terms = terms, ix_unique = u\<rparr>]\<rparr>
                                  else t) cat))"

definition drop_index :: "string \<Rightarrow> schema \<Rightarrow> ddl_error + schema" where
  \<comment> \<open>an index is named in the schema, not in its table\<close>
  "drop_index name cat =
     (if \<not> list_ex (\<lambda>t. name \<in> set (map ix_name (tb_indexes t))) cat then Inl (UndefinedIndex name)
      else Inr (map (\<lambda>t. t\<lparr>tb_indexes := filter (\<lambda>i. ix_name i \<noteq> name) (tb_indexes t)\<rparr>) cat))"

definition drop_table :: "string \<Rightarrow> schema \<Rightarrow> ddl_error + schema" where
  "drop_table name cat =
     (if \<not> list_ex (\<lambda>t. tb_name t = name) cat then Inl (UndefinedTable name)
      else if list_ex (\<lambda>t. tb_name t \<noteq> name \<and> list_ex (\<lambda>fk. fk_table fk = name) (tb_foreign_keys t)) cat
      then Inl (DependentObjects name)
      else Inr (filter (\<lambda>t. tb_name t \<noteq> name) cat))"

fun apply_ddl :: "ddl \<Rightarrow> schema \<Rightarrow> ddl_error + schema" where
  "apply_ddl (CreateTable name items) cat = create_table (new_table name items) cat"
| "apply_ddl (CreateIndex name table terms u) cat = create_index name table terms u cat"
| "apply_ddl (DropIndex name table) cat = drop_index name cat"
| "apply_ddl (DropTable name) cat = drop_table name cat"

fun run_migration :: "ddl list \<Rightarrow> schema \<Rightarrow> ddl_error + schema" where
  "run_migration [] cat = Inr cat"
| "run_migration (s # ss) cat = (case apply_ddl s cat of Inl e \<Rightarrow> Inl e | Inr cat' \<Rightarrow> run_migration ss cat')"

section \<open>The upgrade command\<close>

text \<open>
  \<^verbatim>\<open>alembic upgrade head\<close> is a parameter: from the URL and the database, its outcome and the database it
  leaves. The table \<^verbatim>\<open>alembic_version\<close> is kept apart from the schema: its rows, if it exists.
\<close>

record database =
  db_schema :: schema
  db_version :: "string list option"

definition read_schema_revision :: "bool \<Rightarrow> database \<Rightarrow> string option" where
  \<comment> \<open>\<open>None\<close> too when the server cannot be reached\<close>
  "read_schema_revision reachable d =
     (if \<not> reachable then None
      else case db_version d of None \<Rightarrow> None | Some [] \<Rightarrow> None | Some (v # _) \<Rightarrow> Some v)"

definition db_upgrade ::
  "(string \<Rightarrow> database \<Rightarrow> unit result \<times> database) \<Rightarrow> bool \<Rightarrow> string \<Rightarrow> database \<Rightarrow> string result \<times> database" where
  \<comment> \<open>the line printed, or the error after which the command exits with status 1\<close>
  "db_upgrade upgrade_head reachable url d =
     (case upgrade_head url d of
        (Inl e, d1) \<Rightarrow> (Inl e, d1)
      | (Inr _, d1) \<Rightarrow>
          (Inr (''Base migree - revision ''
                @ (case read_schema_revision reachable d1 of None \<Rightarrow> ''?'' | Some v \<Rightarrow> if v = [] then ''?'' else v)
                @ ''.''), d1))"

section \<open>Undoing operations\<close>

fun undo :: "ddl \<Rightarrow> ddl option" where
  \<comment> \<open>the operation that removes what another created\<close>
  "undo (CreateTable name items) = Some (DropTable name)"
| "undo (CreateIndex name table terms u) = Some (DropIndex name table)"
| "undo _ = None"

definition closed_schema :: "schema \<Rightarrow> bool" where
  \<comment> \<open>foreign keys refer to tables of the schema\<close>
  "closed_schema cat = list_all (\<lambda>t. list_all (\<lambda>fk. fk_table fk \<in> set (map tb_name cat)) (tb_foreign_keys t)) cat"

lemma run_migration_append:
  "run_migration (a @ b) cat = (case run_migration a cat of Inl e \<Rightarrow> Inl e | Inr cat' \<Rightarrow> run_migration b cat')"
  by (induction a arbitrary: cat) (auto split: sum.split)

lemma relation_names_D:
  "name \<notin> set (relation_names cat) \<Longrightarrow> t \<in> set cat \<Longrightarrow> tb_name t \<noteq> name \<and> name \<notin> ix_name ` set (tb_indexes t)"
  by (auto simp: relation_names_def)

lemma reference_ok_table: "reference_ok cat fk \<Longrightarrow> fk_table fk \<in> tb_name ` set cat"
  by (force simp: reference_ok_def list_ex_iff)

lemma create_table_undone:
  assumes "closed_schema cat" "create_table t cat = Inr cat'"
  shows "drop_table (tb_name t) cat' = Inr cat \<and> closed_schema cat'"
proof -
  have cat': "cat' = cat @ [t]" and fresh: "\<And>x. x \<in> set cat \<Longrightarrow> tb_name x \<noteq> tb_name t"
    and refs: "list_all (reference_ok (cat @ [t])) (tb_foreign_keys t)"
    using assms(2) relation_names_D by (auto simp: create_table_def split: if_splits)
  have "fk_table fk \<noteq> tb_name t" if "x \<in> set cat" "fk \<in> set (tb_foreign_keys x)" for x fk
    using that assms(1) fresh by (fastforce simp: closed_schema_def list_all_iff)
  then have "drop_table (tb_name t) cat' = Inr cat"
    using fresh by (auto simp: drop_table_def cat' list_ex_iff filter_id_conv)
  moreover have "closed_schema cat'"
    using assms(1) refs reference_ok_table by (fastforce simp: closed_schema_def cat' list_all_iff)
  ultimately show ?thesis by blast
qed

lemma create_index_undone:
  assumes "closed_schema cat" "create_index name table terms u cat = Inr cat'"
  shows "drop_index name cat' = Inr cat \<and> closed_schema cat'"
proof -
  let ?i = "\<lparr>ix_name = name, ix_terms = terms, ix_unique = u\<rparr>"
  let ?f = "\<lambda>t. if tb_name t = table then t\<lparr>tb_indexes := tb_indexes t @ [?i]\<rparr> else t"
  let ?g = "\<lambda>t. t\<lparr>tb_indexes := filter (\<lambda>i. ix_name i \<noteq> name) (tb_indexes t)\<rparr>"
  have cat': "cat' = map ?f cat" and fresh: "\<And>x. x \<in> set cat \<Longrightarrow> name \<notin> ix_name ` set (tb_indexes x)"
    and ex: "\<exists>t\<in>set cat. tb_name t = table"
    using assms(2) relation_names_D
    by (auto simp: create_index_def split: if_splits option.splits dest!: find_eq_Some_D)
  have "map ?g cat' = cat"
    unfolding cat' map_map
  proof (rule map_idI)
    fix x
    assume "x \<in> set cat"
    then have "filter (\<lambda>i. ix_name i \<noteq> name) (tb_indexes x) = tb_indexes x"
      using fresh by (force simp: filter_id_conv)
    then show "(?g \<circ> ?f) x = x" by simp
  qed
  moreover have "list_ex (\<lambda>t. name \<in> set (map ix_name (tb_indexes t))) cat'"
  proof -
    obtain t where "t \<in> set cat" "tb_name t = table" using ex by blast
    then have "?f t \<in> set cat'" "name \<in> set (map ix_name (tb_indexes (?f t)))" by (auto simp: cat')
    then show ?thesis unfolding list_ex_iff by blast
  qed
  moreover have "map tb_name cat' = map tb_name cat" by (simp add: cat')
  then have "closed_schema cat'"
    using assms(1) by (auto simp: closed_schema_def cat' list_all_iff)
  ultimately show ?thesis by (simp add: drop_index_def)
qed

lemma apply_undone:
  assumes "closed_schema cat" "apply_ddl s cat = Inr cat'" "undo s = Some u"
  shows "apply_ddl u cat' = Inr cat \<and> closed_schema cat'"
  using assms create_table_undone [of cat "new_table n items" cat' for n items] create_index_undone
  by (cases s) (fastforce simp: new_table_def)+

lemma run_undone:
  "closed_schema cat \<Longrightarrow> run_migration ops cat = Inr cat' \<Longrightarrow> those (map undo ops) = Some us \<Longrightarrow>
   run_migration (rev us) cat' = Inr cat"
proof (induction ops arbitrary: cat us)
  case (Cons s ops)
  obtain cat1 where a: "apply_ddl s cat = Inr cat1" "run_migration ops cat1 = Inr cat'"
    using Cons.prems(2) by (auto split: sum.splits)
  obtain u us' where u: "undo s = Some u" "those (map undo ops) = Some us'" "us = u # us'"
    using Cons.prems(3) by (auto split: option.splits)
  note und = apply_undone [OF Cons.prems(1) a(1) u(1)]
  have "run_migration (rev us') cat' = Inr cat1" by (rule Cons.IH [OF _ a(2) u(2)]) (use und in blast)
  then show ?case using und u(3) by (simp add: run_migration_append)
qed simp

lemma downgrade_mirrors: "those (map undo baseline_upgrade) = Some (rev baseline_downgrade)"
  by code_simp

section \<open>Agreement with the mapped classes\<close>

definition same_table :: "table \<Rightarrow> table \<Rightarrow> bool" where
  \<comment> \<open>up to the order of columns, constraints and indexes\<close>
  "same_table a b \<longleftrightarrow>
     tb_name a = tb_name b \<and> set (tb_columns a) = set (tb_columns b) \<and> set (tb_primary_key a) = set (tb_primary_key b)
     \<and> set (tb_uniques a) = set (tb_uniques b) \<and> set (tb_foreign_keys a) = set (tb_foreign_keys b)
     \<and> set (tb_indexes a) = set (tb_indexes b)"

definition same_schema :: "schema \<Rightarrow> schema \<Rightarrow> bool" where
  "same_schema a b \<longleftrightarrow> length a = length b \<and> list_all (\<lambda>t. list_ex (same_table t) b) a \<and> list_all (\<lambda>t. list_ex (same_table t) a) b"

definition keeps_tenant :: "table \<Rightarrow> bool" where
  \<comment> \<open>a mandatory, indexed reference to the tenant, removed with it\<close>
  "keeps_tenant t \<longleftrightarrow>
     \<lparr>col_name = ''tenant_id'', col_type = Uuid, col_default = None, col_nullable = False\<rparr> \<in> set (tb_columns t)
     \<and> \<lparr>fk_columns = [''tenant_id''], fk_table = ''tenants'', fk_referred = [''id''], fk_ondelete = ''CASCADE''\<rparr> \<in> set (tb_foreign_keys t)
     \<and> list_ex (\<lambda>i. ix_terms i = [ColumnTerm ''tenant_id'']) (tb_indexes t)"

definition refers_to_scoped :: "table \<Rightarrow> bool" where
  "refers_to_scoped t = list_ex (\<lambda>fk. fk_table fk \<in> set scoped_tables) (tb_foreign_keys t)"

definition column_limit :: "schema \<Rightarrow> string \<Rightarrow> string \<Rightarrow> nat option" where
  \<comment> \<open>the number of characters a column can hold\<close>
  "column_limit cat table col =
     (case List.find (\<lambda>t. tb_name t = table) cat of None \<Rightarrow> None
      | Some t \<Rightarrow> (case List.find (\<lambda>c. col_name c = col) (tb_columns t) of None \<Rightarrow> None
                   | Some c \<Rightarrow> (case col_type c of String n \<Rightarrow> Some n | Enum vs nm n \<Rightarrow> Some n | _ \<Rightarrow> None)))"

definition baseline_schema :: schema where
  "baseline_schema = (case run_migration baseline_upgrade [] of Inl _ \<Rightarrow> [] | Inr cat \<Rightarrow> cat)"

lemma baseline_upgrade_ok: "run_migration baseline_upgrade [] = Inr baseline_schema"
proof -
  have "case run_migration baseline_upgrade [] of Inl _ \<Rightarrow> False | Inr _ \<Rightarrow> True" by code_simp
  then show ?thesis by (auto simp: baseline_schema_def split: sum.splits)
qed

lemma baseline_limits:
  "list_all (\<lambda>(table, col, n). column_limit baseline_schema table col = Some n)
     [(''tenants'', ''slug'', 40), (''memberships'', ''role'', 50), (''invitations'', ''role'', 50),
      (''tenant_modules'', ''module_name'', 32), (''audit_events'', ''resource_id'', 100), (''sessions'', ''token_hash'', 64),
      (''login_challenges'', ''token_hash'', 64), (''invitations'', ''token_hash'', 64),
      (''auth_recovery_codes'', ''code_hash'', 64), (''connector_subscriptions'', ''client_state_hash'', 64)]"
  by code_simp

lemma hash_token_length: "(\<And>bs. length (sha256 P bs) = 32) \<Longrightarrow> length (hash_token P token) = 64"
  by (simp add: hash_token_def hexdigest_def length_concat comp_def sum_list_triv)

lemma module_name_length: "validate_manifest m = Inr () \<Longrightarrow> length (mm_name m) \<le> 32"
  by (auto simp: validate_manifest_def module_name_fullmatch_def Let_def split: if_splits list.splits)

section \<open>Properties\<close>

text \<open>
  The baseline migration applies to an empty database, and wherever it applies to a
  database with consistent foreign keys, its downgrade applies to the result and gives back exactly
  that database: every object is removed once, and after the objects that depend on it.
\<close>

theorem baseline_undone:
  "(\<exists>cat. run_migration baseline_upgrade [] = Inr cat)
   \<and> (closed_schema before \<longrightarrow> run_migration baseline_upgrade before = Inr after \<longrightarrow>
      run_migration baseline_downgrade after = Inr before)"
  using baseline_upgrade_ok run_undone [OF _ _ downgrade_mirrors] by auto

theorem baseline_undone_witness:
  "run_migration baseline_downgrade baseline_schema = Inr []"
  using baseline_undone [of "[]" baseline_schema] baseline_upgrade_ok by (simp add: closed_schema_def)

text \<open>
  C20 (equivalence). The schema that the hand-kept migration builds is the schema that the mapped classes
  declare: the same tables, and for each the same columns with their types, nullability and server
  defaults, the same primary key, unique constraints, foreign keys and indexes, up to their order.
\<close>

theorem baseline_matches_models:
  "\<exists>cat md. run_migration baseline_upgrade [] = Inr cat \<and> metadata = Some md \<and> same_schema cat md"
proof -
  have "case (run_migration baseline_upgrade [], metadata) of (Inr cat, Some md) \<Rightarrow> same_schema cat md | _ \<Rightarrow> False"
    by code_simp
  then show ?thesis by (auto split: sum.splits option.splits)
qed


text \<open>
  C40 (bounds). Texts that pass the checks of the code fit the columns they are stored in, so that the
  database refuses none of them: the slug of a tenant, the role of a membership and of an
  invitation, the name of a registered module, the identifiers in the audit log, and the digests of
  session, challenge, invitation and webhook tokens and of recovery codes.
\<close>

theorem stored_texts_fit:
  assumes "validate_slug slug = Inr slug'" "validate_role role = Inr role'" "validate_manifest m = Inr ()"
    and "\<And>bs. length (sha256 P bs) = 32"
  shows "(\<exists>n. column_limit baseline_schema ''tenants'' ''slug'' = Some n \<and> length slug' \<le> n)
    \<and> (\<exists>n. column_limit baseline_schema ''memberships'' ''role'' = Some n
         \<and> column_limit baseline_schema ''invitations'' ''role'' = Some n \<and> length role' \<le> n)
    \<and> (\<exists>n. column_limit baseline_schema ''tenant_modules'' ''module_name'' = Some n \<and> length (mm_name m) \<le> n)
    \<and> (\<exists>n. column_limit baseline_schema ''audit_events'' ''resource_id'' = Some n \<and> length (str_uuid u) \<le> n)
    \<and> list_all (\<lambda>(table, col). \<exists>n. column_limit baseline_schema table col = Some n \<and> length (hash_token P token) \<le> n)
       [(''sessions'', ''token_hash''), (''login_challenges'', ''token_hash''), (''invitations'', ''token_hash''),
        (''auth_recovery_codes'', ''code_hash''), (''connector_subscriptions'', ''client_state_hash'')]"
proof -
  have slug: "length slug' \<le> 40"
    using assms(1) slug_fullmatch_length [of slug'] by (auto simp: validate_slug_def split: if_splits)
  have role: "length role' \<le> 50"
    using assms(2) by (auto simp: validate_role_def ROLES_def ROLE_PERMISSIONS_def ROLE_OWNER_def ROLE_ADMIN_def ROLE_MEMBER_def
        split: if_splits)
  show ?thesis
    using baseline_limits slug role module_name_length [OF assms(3)] hash_token_length [OF assms(4)] by simp
qed

theorem stored_texts_fit_witness:
  "\<exists>n. column_limit baseline_schema ''tenant_modules'' ''module_name'' = Some n \<and> length ''sample_digest'' \<le> n"
proof -
  have m: "validate_manifest sample_digest_manifest = Inr ()" by code_simp
  have s: "validate_slug ''acme'' = Inr ''acme''" by code_simp
  have r: "validate_role ''owner'' = Inr ''owner''" by code_simp
  have h: "length (sha256 sample_primitives bs) = 32" for bs by (simp add: sample_primitives_def)
  have "mm_name sample_digest_manifest = ''sample_digest''" by (simp add: sample_digest_manifest_def)
  with stored_texts_fit [OF s r m h] show ?thesis by auto
qed

end
