(* ===== verification/Process.thy ===== *)
theory Process
  imports Tenancy
begin

text \<open>
  What a process keeps between requests and tasks: the engine and its session factory
  (\<^verbatim>\<open>core/db.py\<close>), the Valkey clients (\<^verbatim>\<open>connectors/throttle.py\<close>, \<^verbatim>\<open>ai/quota.py\<close>, \<^verbatim>\<open>auth/rate_limit.py\<close>), the
  gateway (\<^verbatim>\<open>ai/gateway.py\<close>) and the listeners of the session class (\<^verbatim>\<open>tenancy/tenant_base.py\<close>). Each task of the
  worker runs in an event loop of its own; an engine or a client is identified with the loop in which
  it was made, to which its connections belong.
\<close>

section \<open>State\<close>

type_synonym event_loop = nat

record process =
  running :: event_loop
  engine :: "event_loop option"
  sessionmaker :: "event_loop option"  \<comment> \<open>the engine it is bound to\<close>
  throttle_client :: "event_loop option"
  quota_client :: "event_loop option"
  rate_limit_client :: "event_loop option"
  gateway_instance :: "event_loop option"
  guards_installed :: bool
  session_listeners :: "(string \<times> string) list"

definition fresh_process :: process where
  "fresh_process =
     \<lparr>running = 0, engine = None, sessionmaker = None, throttle_client = None, quota_client = None,
      rate_limit_client = None, gateway_instance = None, guards_installed = False, session_listeners = []\<rparr>"

section \<open>The engine\<close>

definition get_control_engine :: "process \<Rightarrow> event_loop \<times> process" where
  "get_control_engine p =
     (case engine p of Some e \<Rightarrow> (e, p) | None \<Rightarrow> (running p, p\<lparr>engine := Some (running p)\<rparr>))"

definition get_control_sessionmaker :: "process \<Rightarrow> event_loop \<times> process" where
  "get_control_sessionmaker p =
     (case sessionmaker p of Some m \<Rightarrow> (m, p)
      | None \<Rightarrow> (let (e, p1) = get_control_engine p in (e, p1\<lparr>sessionmaker := Some e\<rparr>)))"

definition dispose_control_engine :: "process \<Rightarrow> process" where
  "dispose_control_engine p = p\<lparr>engine := None, sessionmaker := None\<rparr>"

definition get_control_session :: "process \<Rightarrow> event_loop \<times> process" where
  "get_control_session p = get_control_sessionmaker p"

definition get_tenant_session :: "context_var \<Rightarrow> process \<Rightarrow> event_loop result \<times> process" where
  "get_tenant_session cv p =
     (case current_tenant cv of Inl e \<Rightarrow> (Inl e, p)
      | Inr _ \<Rightarrow> (let (m, p1) = get_control_sessionmaker p in (Inr m, p1)))"

section \<open>Clients\<close>

definition get_throttle_client :: "process \<Rightarrow> event_loop \<times> process" where
  "get_throttle_client p =
     (case throttle_client p of Some c \<Rightarrow> (c, p) | None \<Rightarrow> (running p, p\<lparr>throttle_client := Some (running p)\<rparr>))"

definition get_quota_client :: "process \<Rightarrow> event_loop \<times> process" where
  "get_quota_client p =
     (case quota_client p of Some c \<Rightarrow> (c, p) | None \<Rightarrow> (running p, p\<lparr>quota_client := Some (running p)\<rparr>))"

definition get_rate_limit_client :: "process \<Rightarrow> event_loop \<times> process" where
  "get_rate_limit_client p =
     (case rate_limit_client p of Some c \<Rightarrow> (c, p)
      | None \<Rightarrow> (running p, p\<lparr>rate_limit_client := Some (running p)\<rparr>))"

definition get_gateway :: "process \<Rightarrow> event_loop \<times> process" where
  "get_gateway p =
     (case gateway_instance p of Some g \<Rightarrow> (g, p) | None \<Rightarrow> (running p, p\<lparr>gateway_instance := Some (running p)\<rparr>))"

section \<open>The guards\<close>

definition install_tenant_guards :: "process \<Rightarrow> process" where
  "install_tenant_guards p =
     (if guards_installed p then p
      else p\<lparr>session_listeners := session_listeners p
               @ [(''do_orm_execute'', ''_guard_orm_execute''), (''before_flush'', ''_guard_flush'')],
             guards_installed := True\<rparr>)"

section \<open>Tasks\<close>

text \<open>What the code of a task asks the process for.\<close>

datatype process_op =
    ControlSession
  | TenantSession context_var
  | ThrottleClient
  | QuotaClient
  | RateLimitClient
  | Gateway

fun process_step :: "process_op \<Rightarrow> process \<Rightarrow> event_loop result \<times> process" where
  "process_step ControlSession p = map_prod Inr id (get_control_session p)"
| "process_step (TenantSession cv) p = get_tenant_session cv p"
| "process_step ThrottleClient p = map_prod Inr id (get_throttle_client p)"
| "process_step QuotaClient p = map_prod Inr id (get_quota_client p)"
| "process_step RateLimitClient p = map_prod Inr id (get_rate_limit_client p)"
| "process_step Gateway p = map_prod Inr id (get_gateway p)"

fun task_body :: "process_op list \<Rightarrow> process \<Rightarrow> (process_op \<times> event_loop result) list \<times> process" where
  \<comment> \<open>a request that fails ends the task\<close>
  "task_body [] p = ([], p)"
| "task_body (op # ops) p =
     (case process_step op p of
        (Inl e, p1) \<Rightarrow> ([(op, Inl e)], p1)
      | (Inr x, p1) \<Rightarrow> (let (got, p2) = task_body ops p1 in ((op, Inr x) # got, p2)))"

definition run_in_loop :: "process_op list \<Rightarrow> process \<Rightarrow> (process_op \<times> event_loop result) list \<times> process" where
  \<comment> \<open>\<^verbatim>\<open>asyncio.run\<close> of a task whose \<^verbatim>\<open>finally\<close> clause disposes of the engine\<close>
  "run_in_loop ops p =
     (let (got, p1) = task_body ops (p\<lparr>running := Suc (running p)\<rparr>) in (got, dispose_control_engine p1))"

fun run_worker :: "process_op list list \<Rightarrow> process \<Rightarrow> (event_loop \<times> (process_op \<times> event_loop result) list) list \<times> process" where
  \<comment> \<open>the tasks of a worker process, each with its loop and what it was given\<close>
  "run_worker [] p = ([], p)"
| "run_worker (ops # tasks) p =
     (let (got, p1) = run_in_loop ops p; (rest, p2) = run_worker tasks p1 in ((running p1, got) # rest, p2))"

section \<open>Lemmas\<close>

definition own_engine :: "process \<Rightarrow> bool" where
  \<comment> \<open>the engine and the session factory, if any, are of the loop that runs\<close>
  "own_engine p \<longleftrightarrow> engine p \<in> {None, Some (running p)} \<and> sessionmaker p \<in> {None, Some (running p)}"

fun asks_session :: "process_op \<Rightarrow> bool" where
  "asks_session ControlSession = True"
| "asks_session (TenantSession cv) = True"
| "asks_session op = False"

lemmas process_defs = get_control_engine_def get_control_sessionmaker_def get_control_session_def get_tenant_session_def
  get_throttle_client_def get_quota_client_def get_rate_limit_client_def get_gateway_def

lemma process_step_own:
  assumes "own_engine p" "process_step op p = (r, p')"
  shows "own_engine p' \<and> running p' = running p \<and> (asks_session op \<longrightarrow> r = Inr (running p) \<or> \<not> is_ok r)"
  using assms by (cases op) (auto simp: process_defs own_engine_def split: option.splits sum.splits)

lemma task_body_own:
  "own_engine p \<Longrightarrow> task_body ops p = (got, p') \<Longrightarrow>
   running p' = running p \<and> list_all (\<lambda>(op, r). asks_session op \<longrightarrow> r = Inr (running p) \<or> \<not> is_ok r) got"
proof (induction ops arbitrary: p got)
  case (Cons op ops)
  obtain r p1 where s: "process_step op p = (r, p1)" by fastforce
  note own = process_step_own [OF Cons.prems(1) s]
  show ?case
  proof (cases r)
    case (Inl e)
    then show ?thesis using Cons.prems(2) s own by auto
  next
    case (Inr x)
    obtain got' where g: "task_body ops p1 = (got', p')" "got = (op, r) # got'"
      using Cons.prems(2) s Inr by (auto simp: Let_def split: prod.splits)
    show ?thesis using Cons.IH [OF _ g(1)] own g(2) by auto
  qed
qed simp

lemma run_in_loop_own:
  assumes "engine p = None" "sessionmaker p = None" "run_in_loop ops p = (got, p')"
  shows "engine p' = None \<and> sessionmaker p' = None \<and> running p' = Suc (running p)
    \<and> list_all (\<lambda>(op, r). asks_session op \<longrightarrow> r = Inr (running p') \<or> \<not> is_ok r) got"
proof -
  let ?p0 = "p\<lparr>running := Suc (running p)\<rparr>"
  obtain p1 where b: "task_body ops ?p0 = (got, p1)" "p' = dispose_control_engine p1"
    using assms(3) by (auto simp: run_in_loop_def Let_def split: prod.splits)
  have "own_engine ?p0" using assms(1,2) by (simp add: own_engine_def)
  from task_body_own [OF this b(1)] b(2) show ?thesis by (simp add: dispose_control_engine_def)
qed

lemma install_tenant_guards_again [simp]: "install_tenant_guards (install_tenant_guards p) = install_tenant_guards p"
  by (simp add: install_tenant_guards_def)

lemma guards_registered_once:
  assumes "0 < n" "\<not> guards_installed p"
  shows "session_listeners ((install_tenant_guards ^^ n) p) =
     session_listeners p @ [(''do_orm_execute'', ''_guard_orm_execute''), (''before_flush'', ''_guard_flush'')]"
proof -
  have again: "(install_tenant_guards ^^ Suc k) q = install_tenant_guards q" for k q
    by (induction k) simp_all
  obtain k where "n = Suc k" using assms(1) gr0_implies_Suc by blast
  then show ?thesis unfolding \<open>n = Suc k\<close> again using assms(2) by (simp add: install_tenant_guards_def)
qed

section \<open>Properties\<close>

text \<open>
  C37 (safety). In a worker process every session a task is given is bound to an engine made in the event
  loop of that task, however many tasks ran before it and whatever they asked for or failed at: no
  task works on the connections of a loop that is closed.
\<close>

theorem sessions_on_own_loop:
  assumes "engine p = None" "sessionmaker p = None" "run_worker tasks p = (runs, p')"
    and "(l, got) \<in> set runs" "(op, Inr e) \<in> set got" "asks_session op"
  shows "e = l"
  using assms(1,2,3,4)
proof (induction tasks arbitrary: p runs)
  case (Cons ops tasks)
  obtain got1 p1 where r: "run_in_loop ops p = (got1, p1)" by fastforce
  obtain rest where w: "run_worker tasks p1 = (rest, p')" "runs = (running p1, got1) # rest"
    using Cons.prems(3) r by (auto simp: Let_def split: prod.splits)
  note own = run_in_loop_own [OF Cons.prems(1,2) r]
  show ?case
  proof (cases "(l, got) \<in> set rest")
    case True
    then show ?thesis using Cons.IH own w(1) by blast
  next
    case False
    then have "l = running p1" "got = got1" using Cons.prems(4) w(2) by auto
    then show ?thesis using own assms(5,6) by (fastforce simp: list_all_iff)
  qed
qed simp

theorem sessions_on_own_loop_witness:
  "\<exists>runs p e. run_worker [[ControlSession, ThrottleClient], [ControlSession]] fresh_process = (runs, p)
     \<and> (2, [(ControlSession, Inr e)]) \<in> set runs \<and> e = 2"
proof -
  obtain runs p where r: "run_worker [[ControlSession, ThrottleClient], [ControlSession]] fresh_process = (runs, p)"
    by fastforce
  then have g: "(2, [(ControlSession, Inr 2)]) \<in> set runs"
    by (auto simp: run_in_loop_def fresh_process_def process_defs dispose_control_engine_def)
  have "engine fresh_process = None" "sessionmaker fresh_process = None" by (simp_all add: fresh_process_def)
  from sessions_on_own_loop [OF this r g, of ControlSession 2] g r show ?thesis by auto
qed

text \<open>
  C38 (error). The Valkey clients of a worker process do outlive their loop: once a task has used the throttle,
  every later task that uses it is given the client made in the loop of the first one, which is
  closed, although the engine is disposed of for that very reason.
\<close>

theorem valkey_client_outlives_loop:
  assumes "throttle_client p = None" "run_in_loop [ThrottleClient] p = (got, p1)"
    and "run_worker tasks p1 = (runs, p2)" "(l, later) \<in> set runs" "(ThrottleClient, r) \<in> set later"
  shows "r = Inr (running p1) \<and> running p1 < l"
proof -
  have client: "throttle_client p1 = Some (running p1)"
    using assms(1,2) by (auto simp: run_in_loop_def get_throttle_client_def dispose_control_engine_def)
  have step: "throttle_client q' = Some c \<and> running q' = running q \<and> (op = ThrottleClient \<longrightarrow> x = Inr c)"
    if "throttle_client q = Some c" "process_step op q = (x, q')" for q q' op x c
    using that by (cases op) (auto simp: process_defs split: option.splits sum.splits)
  have body: "throttle_client q' = Some c \<and> running q' = running q \<and> (\<forall>x. (ThrottleClient, x) \<in> set got \<longrightarrow> x = Inr c)"
    if "throttle_client q = Some c" "task_body ops q = (got, q')" for q q' ops got c
    using that
  proof (induction ops arbitrary: q got)
    case (Cons op ops)
    obtain x q1 where s: "process_step op q = (x, q1)" by fastforce
    note k = step [OF Cons.prems(1) s]
    then show ?case using Cons.IH [of q1] Cons.prems(2) s by (auto simp: Let_def split: sum.splits prod.splits)
  qed auto
  have "r = Inr c \<and> n < l"
    if "throttle_client q = Some c" "running q = n" "run_worker tasks q = (runs', q')" "(l, later) \<in> set runs'" for q q' runs' c n
    using that
  proof (induction tasks arbitrary: q n runs')
    case (Cons ops tasks)
    obtain got1 q1 where t: "task_body ops (q\<lparr>running := Suc n\<rparr>) = (got1, q1)" by fastforce
    have k: "throttle_client q1 = Some c \<and> running q1 = Suc n \<and> (\<forall>x. (ThrottleClient, x) \<in> set got1 \<longrightarrow> x = Inr c)"
      using body [OF _ t] Cons.prems(1) by simp
    obtain rest where w: "run_worker tasks (dispose_control_engine q1) = (rest, q')" "runs' = (Suc n, got1) # rest"
      using Cons.prems(2,3) t k by (auto simp: run_in_loop_def Let_def dispose_control_engine_def split: prod.splits)
    show ?case
    proof (cases "(l, later) \<in> set rest")
      case True
      then show ?thesis using Cons.IH [of "dispose_control_engine q1" "Suc n"] w(1) k by (simp add: dispose_control_engine_def)
    next
      case False
      then show ?thesis using Cons.prems(4) w(2) k assms(5) by auto
    qed
  qed simp
  from this [OF client refl assms(3,4)] show ?thesis .
qed

theorem valkey_client_outlives_loop_witness:
  "\<exists>got p1 runs p2. run_in_loop [ThrottleClient] fresh_process = (got, p1)
     \<and> run_worker [[ControlSession], [ThrottleClient]] p1 = (runs, p2)
     \<and> (3, [(ThrottleClient, Inr 1)]) \<in> set runs \<and> (1 :: nat) < 3"
proof -
  obtain got p1 where f: "run_in_loop [ThrottleClient] fresh_process = (got, p1)" by fastforce
  obtain runs p2 where r: "run_worker [[ControlSession], [ThrottleClient]] p1 = (runs, p2)" by fastforce
  have p1: "p1 = fresh_process\<lparr>running := 1, throttle_client := Some 1\<rparr>"
    using f by (simp add: run_in_loop_def fresh_process_def process_defs dispose_control_engine_def)
  then have g: "(3, [(ThrottleClient, Inr 1)]) \<in> set runs"
    using r by (auto simp: run_in_loop_def fresh_process_def process_defs dispose_control_engine_def)
  have "throttle_client fresh_process = None" by (simp add: fresh_process_def)
  from valkey_client_outlives_loop [OF this f r g, of "Inr 1"] f r g show ?thesis by auto
qed

end
