(* ===== verification/Mailbox.thy ===== *)
theory Mailbox
  imports Webhooks
begin

text \<open>
  The normalised messages and events every provider client produces (\<^verbatim>\<open>connectors/capabilities.py\<close>),
  and the Python operations on JSON values the clients share: iteration, item access and the
  exceptions they raise on a value of the wrong shape.
\<close>

section \<open>Normalised models\<close>

record email_message =
  em_provider_raw_id :: string
  em_subject :: string
  em_sender :: string
  em_recipients :: "string list"
  em_snippet :: string
  em_received_at :: "instant option"

record email_draft =
  ed_to :: "string list"
  ed_cc :: "string list"
  ed_subject :: string
  ed_body_text :: string

record calendar_event =
  ce_provider_raw_id :: string
  ce_title :: string
  ce_description :: "string option"
  ce_location :: "string option"
  ce_starts_at :: instant
  ce_ends_at :: instant
  ce_attendees :: "string list"

record calendar_event_draft =
  cd_title :: string
  cd_description :: "string option"
  cd_location :: "string option"
  cd_starts_at :: instant
  cd_ends_at :: instant
  cd_attendees :: "string list"

section \<open>JSON values in Python\<close>

definition and_then :: "'a result \<Rightarrow> ('a \<Rightarrow> 'b result) \<Rightarrow> 'b result" where
  "and_then r f = (case r of Inl e \<Rightarrow> Inl e | Inr x \<Rightarrow> f x)"

fun map_result :: "('a \<Rightarrow> 'b result) \<Rightarrow> 'a list \<Rightarrow> 'b list result" where
  \<comment> \<open>\<^verbatim>\<open>[f(x) for x in xs]\<close>\<close>
  "map_result f [] = Inr []"
| "map_result f (x # xs) = and_then (f x) (\<lambda>y. and_then (map_result f xs) (\<lambda>ys. Inr (y # ys)))"

definition iter_json :: "json \<Rightarrow> json list result" where
  \<comment> \<open>\<^verbatim>\<open>iter(v)\<close>: characters of a text, keys of an object\<close>
  "iter_json v =
     (case v of JList xs \<Rightarrow> Inr xs | JStr s \<Rightarrow> Inr (map (\<lambda>ch. JStr [ch]) s)
      | JObj kvs \<Rightarrow> Inr (map (\<lambda>kv. JStr (fst kv)) kvs) | _ \<Rightarrow> Inl TypeError)"

definition get_or :: "(string \<times> json) list \<Rightarrow> string \<Rightarrow> json \<Rightarrow> json" where
  \<comment> \<open>\<^verbatim>\<open>payload.get(k, d)\<close>\<close>
  "get_or kvs k d = (case json_get kvs k of None \<Rightarrow> d | Some v \<Rightarrow> v)"

definition obj_of :: "json \<Rightarrow> (string \<times> json) list result" where
  \<comment> \<open>a value on which \<^verbatim>\<open>.get\<close> is called\<close>
  "obj_of v = (case v of JObj kvs \<Rightarrow> Inr kvs | _ \<Rightarrow> Inl AttributeError)"

definition json_item :: "(string \<times> json) list \<Rightarrow> string \<Rightarrow> json result" where
  \<comment> \<open>\<^verbatim>\<open>payload[k]\<close>\<close>
  "json_item kvs k = (case json_get kvs k of None \<Rightarrow> Inl (KeyError k) | Some v \<Rightarrow> Inr v)"

definition upper_char :: "char \<Rightarrow> char" where
  "upper_char c = (if is_lower c then char_of (of_char c - 32 :: nat) else c)"

definition py_upper :: "string \<Rightarrow> string" where
  "py_upper s = map upper_char s"

definition removeprefix :: "string \<Rightarrow> string \<Rightarrow> string" where
  "removeprefix s p = (if startswith s p then drop (length p) s else s)"

section \<open>Lemmas\<close>

named_theorems payload_simps \<open>evaluation of the mappings from payloads\<close>

lemmas [payload_simps] = and_then_def iter_json_def get_or_def obj_of_def json_item_def json_get_def

lemma and_then_Inr: "and_then r f = Inr y \<longleftrightarrow> (\<exists>x. r = Inr x \<and> f x = Inr y)"
  by (auto simp: and_then_def split: sum.splits)

lemma obj_of_Inr [simp]: "obj_of v = Inr kvs \<longleftrightarrow> v = JObj kvs"
  by (cases v) (auto simp: obj_of_def)

lemma map_result_length: "map_result f xs = Inr ys \<Longrightarrow> length ys = length xs"
  by (induction xs arbitrary: ys) (auto simp: and_then_Inr)

lemma map_result_Inr: "(\<And>x. x \<in> set xs \<Longrightarrow> f x = Inr (g x)) \<Longrightarrow> map_result f xs = Inr (map g xs)"
  by (induction xs) (auto simp: and_then_def)

text \<open>What comes through the retry envelope is what one of the attempts returned.\<close>

lemma backoff_loop_Inr:
  "backoff_loop env m cid attempt ns w = (Inr r, w') \<Longrightarrow> \<exists>w1. fst (attempt w1) = Inr r"
proof (induction ns arbitrary: w)
  case (Cons n ns)
  obtain d w1 where b: "budget_delay m cid w = (d, w1)" by fastforce
  obtain delay where d: "d = Inr delay" using Cons.prems b by (cases d) auto
  let ?w2 = "case delay of None \<Rightarrow> w1 | Some d \<Rightarrow> sleep d w1"
  obtain res w3 where a: "attempt ?w2 = (res, w3)" by fastforce
  show ?case
  proof (cases res)
    case (Inr x)
    then have "x = r" using Cons.prems b d a by simp
    then show ?thesis using a Inr by (intro exI [of _ ?w2]) simp
  next
    case (Inl e)
    then obtain w4 where "backoff_loop env m cid attempt ns w4 = (Inr r, w')"
      using Cons.prems b d a by (auto split: exn.splits if_splits prod.splits)
    then show ?thesis by (rule Cons.IH)
  qed
qed simp

lemma provider_http_request_answer:
  assumes "provider_http_request env m cid rq path w = (Inr r, w')"
  shows "\<exists>n. ne_http env n rq = Answered r"
proof -
  obtain w1 where "run_with_backoff env m cid (request_attempt env rq call_outcome) w = (Inr r, w1)"
    using assms by (auto simp: provider_http_request_def split: sum.splits prod.splits if_splits)
  from backoff_loop_Inr [OF this [unfolded run_with_backoff_def]] show ?thesis
    by (auto simp: request_attempt_def send_def call_outcome_def split: http_outcome.splits if_splits)
      (metis http_outcome.exhaust)
qed

lemma bearer_call_answer:
  assumes "bearer_call P cfg env others cv c meth url body params w = (Inr r, c', w')"
  shows "\<exists>n rq. ne_http env n rq = Answered r"
  using assms provider_http_request_answer
  by (auto simp: bearer_call_def Let_def split: sum.splits prod.splits) blast

end
