(* ===== verification/Http.thy ===== *)
theory Http
  imports AuthRouter Directory Mailbox
begin

text \<open>
  What surrounds the routes: the technical log and the request identifier (\<^verbatim>\<open>core/logging.py\<close>), the
  session cookie (\<^verbatim>\<open>auth/router.py\<close>), the transactional mailers (\<^verbatim>\<open>core/mailer.py\<close>) and the health probe
  (\<^verbatim>\<open>health/router.py\<close>). The mail server is a parameter: it answers each command of the conversation
  \<^verbatim>\<open>smtplib\<close> holds with it.
\<close>

section \<open>The technical log\<close>

text \<open>A line carries its event, the context variables bound when it was written, and its own fields.\<close>

record log_line =
  ll_event :: string
  ll_context :: "(string \<times> string) list"
  ll_fields :: "(string \<times> string) list"

record log_state =
  min_level :: nat
  contextvars :: "(string \<times> string) list"
  log_lines :: "log_line list"

definition LEVEL_NAMES :: "(string \<times> nat) list" where
  \<comment> \<open>\<^verbatim>\<open>logging.getLevelNamesMapping()\<close>\<close>
  "LEVEL_NAMES =
     [(''CRITICAL'', 50), (''FATAL'', 50), (''ERROR'', 40), (''WARN'', 30), (''WARNING'', 30),
      (''INFO'', 20), (''DEBUG'', 10), (''NOTSET'', 0)]"

definition configure_logging :: "string \<Rightarrow> log_state \<Rightarrow> log_state result" where
  "configure_logging level ls =
     (case map_of LEVEL_NAMES (py_upper level) of None \<Rightarrow> Inl (KeyError (py_upper level))
      | Some n \<Rightarrow> Inr (ls\<lparr>min_level := n\<rparr>))"

definition log_info :: "string \<Rightarrow> (string \<times> string) list \<Rightarrow> log_state \<Rightarrow> log_state" where
  \<comment> \<open>the filtering logger drops what is below the level; the bound context is merged in\<close>
  "log_info event kvs ls =
     (if 20 < min_level ls then ls
      else log_lines_update (\<lambda>lines. lines @ [\<lparr>ll_event = event, ll_context = contextvars ls, ll_fields = kvs\<rparr>]) ls)"

definition bind_contextvars :: "string \<Rightarrow> string \<Rightarrow> log_state \<Rightarrow> log_state" where
  "bind_contextvars k v ls = contextvars_update (AList.update k v) ls"

definition unbind_contextvars :: "string \<Rightarrow> log_state \<Rightarrow> log_state" where
  "unbind_contextvars k ls = contextvars_update (AList.delete k) ls"

section \<open>Responses\<close>

record cookie =
  ck_key :: string
  ck_value :: string
  ck_max_age :: int
  ck_httponly :: bool
  ck_secure :: bool
  ck_samesite :: string
  ck_domain :: "string option"
  ck_path :: string

datatype 'b content = Content 'b | Detail string | InternalServerError

record 'b web_response =
  res_status :: nat
  res_headers :: "(string \<times> string) list"
  res_cookies :: "cookie list"
  res_content :: "'b content"

definition set_session_cookie :: "string \<Rightarrow> settings \<Rightarrow> 'b web_response \<Rightarrow> 'b web_response" where
  "set_session_cookie token cfg resp =
     res_cookies_update (\<lambda>cs. cs @
       [\<lparr>ck_key = session_cookie_name cfg, ck_value = token, ck_max_age = session_ttl_hours cfg * 3600,
         ck_httponly = True, ck_secure = session_cookie_secure cfg, ck_samesite = ''lax'',
         ck_domain = (if session_cookie_domain cfg = [] then None else Some (session_cookie_domain cfg)),
         ck_path = ''/''\<rparr>]) resp"

definition clear_session_cookie :: "settings \<Rightarrow> 'b web_response \<Rightarrow> 'b web_response" where
  \<comment> \<open>\<^verbatim>\<open>delete_cookie\<close>: an empty value that expires at once\<close>
  "clear_session_cookie cfg resp =
     res_cookies_update (\<lambda>cs. cs @
       [\<lparr>ck_key = session_cookie_name cfg, ck_value = [], ck_max_age = 0,
         ck_httponly = False, ck_secure = False, ck_samesite = ''lax'',
         ck_domain = (if session_cookie_domain cfg = [] then None else Some (session_cookie_domain cfg)),
         ck_path = ''/''\<rparr>]) resp"

fun http_answer :: "nat \<Rightarrow> ('b web_response \<Rightarrow> 'b web_response) \<Rightarrow> 'b result \<Rightarrow> 'b web_response result" where
  \<comment> \<open>the response of a route: its status, what the handler does to the response, and the exceptions
     that are answers; any other exception goes on to the middlewares\<close>
  "http_answer status f (Inr b) = Inr (f \<lparr>res_status = status, res_headers = [], res_cookies = [], res_content = Content b\<rparr>)"
| "http_answer status f (Inl (HTTPException code msg)) =
     Inr \<lparr>res_status = code, res_headers = [], res_cookies = [], res_content = Detail msg\<rparr>"
| "http_answer status f (Inl e) = Inl e"

fun server_answer :: "'b web_response result \<Rightarrow> 'b web_response" where
  \<comment> \<open>what the server sends: the response of a middleware, or 500 for an exception nothing has caught\<close>
  "server_answer (Inr resp) = resp"
| "server_answer (Inl (HTTPException code msg)) =
     \<lparr>res_status = code, res_headers = [], res_cookies = [], res_content = Detail msg\<rparr>"
| "server_answer (Inl e) = \<lparr>res_status = 500, res_headers = [], res_cookies = [], res_content = InternalServerError\<rparr>"

section \<open>The request identifier\<close>

definition REQUEST_ID_HEADER :: string where "REQUEST_ID_HEADER = ''X-Request-ID''"

definition request_id_of :: "string option \<Rightarrow> string \<Rightarrow> string" where
  \<comment> \<open>the header if it is not empty, else a fresh identifier\<close>
  "request_id_of header fresh = (case header of None \<Rightarrow> fresh | Some h \<Rightarrow> if h = [] then fresh else h)"

definition request_id_dispatch ::
  "string option \<Rightarrow> string \<Rightarrow> string \<Rightarrow> string \<Rightarrow> string \<Rightarrow>
   (log_state \<Rightarrow> 's \<Rightarrow> 'b web_response result \<times> log_state \<times> 's) \<Rightarrow> log_state \<Rightarrow> 's \<Rightarrow>
   'b web_response result \<times> log_state \<times> 's" where
  \<comment> \<open>\<open>duration\<close>: the milliseconds measured\<close>
  "request_id_dispatch header fresh verb path duration call_next ls s =
     (let rid = request_id_of header fresh;
          (r, ls1, s1) = call_next (bind_contextvars ''request_id'' rid ls) s
      in case r of
           Inl e \<Rightarrow> (Inl e, unbind_contextvars ''request_id'' ls1, s1)
         | Inr resp \<Rightarrow>
             (Inr (res_headers_update (\<lambda>hs. hs @ [(REQUEST_ID_HEADER, rid)]) resp),
              unbind_contextvars ''request_id''
                (log_info ''http_request''
                   [(''method'', verb), (''path'', path), (''status'', str_nat (res_status resp)), (''duration_ms'', duration)] ls1),
              s1))"

section \<open>Transactional mail\<close>

record smtp_message =
  sm_from :: string
  sm_to :: string
  sm_subject :: string
  sm_body :: string

datatype smtp_command =
    SmtpConnect string int
  | SmtpStartTls
  | SmtpLogin string string
  | SmtpSend smtp_message
  | SmtpQuit

text \<open>The answer of the server to the last command of a conversation.\<close>

type_synonym smtp_server = "smtp_command list \<Rightarrow> unit result"

fun smtp_run :: "smtp_server \<Rightarrow> smtp_command list \<Rightarrow> smtp_command list \<Rightarrow> unit result \<times> smtp_command list" where
  "smtp_run srv [] said = (Inr (), said)"
| "smtp_run srv (c # cs) said =
     (case srv (said @ [c]) of Inl e \<Rightarrow> (Inl e, said @ [c]) | Inr _ \<Rightarrow> smtp_run srv cs (said @ [c]))"

definition has_line_break :: "string \<Rightarrow> bool" where
  "has_line_break s \<longleftrightarrow> CHR 0x0A \<in> set s \<or> CHR 0x0D \<in> set s"

definition send_sync ::
  "settings \<Rightarrow> smtp_server \<Rightarrow> string \<Rightarrow> string \<Rightarrow> string \<Rightarrow> unit result \<times> smtp_command list" where
  \<comment> \<open>the second component is what was said to the server; leaving the \<^verbatim>\<open>with\<close> block says QUIT\<close>
  "send_sync cfg srv to subject body =
     (let from = (if smtp_sender cfg \<noteq> [] then smtp_sender cfg else smtp_user cfg)
      in if has_line_break from \<or> has_line_break to \<or> has_line_break subject
         then (Inl (ValueError ''Header values may not contain linefeed or carriage return characters''), [])
         else case smtp_run srv [SmtpConnect (smtp_host cfg) (smtp_port cfg)] [] of
                (Inl e, said) \<Rightarrow> (Inl e, said)
              | (Inr _, said) \<Rightarrow>
                  (let (r, said1) = smtp_run srv
                         (SmtpStartTls
                          # (if smtp_user cfg \<noteq> [] then [SmtpLogin (smtp_user cfg) (smtp_password cfg)] else [])
                          @ [SmtpSend \<lparr>sm_from = from, sm_to = to, sm_subject = subject, sm_body = body\<rparr>]) said
                   in case smtp_run srv [SmtpQuit] said1 of
                        (Inl e, said2) \<Rightarrow> (Inl e, said2)
                      | (Inr _, said2) \<Rightarrow> (r, said2)))"

definition null_mailer_send :: "string \<Rightarrow> string \<Rightarrow> string \<Rightarrow> log_state \<Rightarrow> unit result \<times> log_state" where
  "null_mailer_send to subject body ls = (Inr (), log_info ''email_skipped_no_smtp'' [] ls)"

definition smtp_mailer_send ::
  "settings \<Rightarrow> smtp_server \<Rightarrow> string \<Rightarrow> string \<Rightarrow> string \<Rightarrow> log_state \<Rightarrow> unit result \<times> log_state" where
  "smtp_mailer_send cfg srv to subject body ls =
     (case fst (send_sync cfg srv to subject body) of
        Inl e \<Rightarrow> (Inl e, ls)
      | Inr _ \<Rightarrow> (Inr (), log_info ''email_sent'' [] ls))"

definition get_mailer ::
  "settings \<Rightarrow> smtp_server \<Rightarrow> string \<Rightarrow> string \<Rightarrow> string \<Rightarrow> log_state \<Rightarrow> unit result \<times> log_state" where
  "get_mailer cfg srv = (if smtp_host cfg \<noteq> [] then smtp_mailer_send cfg srv else null_mailer_send)"

definition mailer_of :: "settings \<Rightarrow> smtp_server \<Rightarrow> mailer" where
  \<comment> \<open>the mailer as the routes see it; a mailer logs one line and decides nothing from the log\<close>
  "mailer_of cfg srv to subject body =
     fst (get_mailer cfg srv to subject body \<lparr>min_level = 0, contextvars = [], log_lines = []\<rparr>)"

section \<open>The health probe\<close>

record health_response =
  he_status :: string
  he_version :: string
  he_env :: string

definition get_health :: "settings \<Rightarrow> health_response" where
  "get_health cfg = \<lparr>he_status = ''ok'', he_version = app_version cfg, he_env = app_env cfg\<rparr>"

section \<open>Lemmas\<close>

definition logs_in_context ::
  "(log_state \<Rightarrow> 's \<Rightarrow> 'b web_response result \<times> log_state \<times> 's) \<Rightarrow> bool" where
  \<comment> \<open>an application that only appends lines, through the logger, and leaves the context as it is\<close>
  "logs_in_context call_next \<longleftrightarrow>
     (\<forall>ls s r ls' s'. call_next ls s = (r, ls', s') \<longrightarrow> contextvars ls' = contextvars ls
        \<and> (\<exists>new. log_lines ls' = log_lines ls @ new \<and> list_all (\<lambda>l. ll_context l = contextvars ls) new))"

lemma log_info_fields [simp]: "contextvars (log_info event kvs ls) = contextvars ls"
  by (simp add: log_info_def)

lemma log_info_lines:
  "\<exists>new. log_lines (log_info event kvs ls) = log_lines ls @ new \<and> list_all (\<lambda>l. ll_context l = contextvars ls) new"
  by (simp add: log_info_def)

lemma bind_contextvars_fields [simp]:
  "contextvars (bind_contextvars k v ls) = AList.update k v (contextvars ls)"
  "log_lines (bind_contextvars k v ls) = log_lines ls"
  by (simp_all add: bind_contextvars_def)

lemma unbind_contextvars_fields [simp]:
  "contextvars (unbind_contextvars k ls) = AList.delete k (contextvars ls)"
  "log_lines (unbind_contextvars k ls) = log_lines ls"
  by (simp_all add: unbind_contextvars_def)

lemma delete_update_unbound: "k \<notin> fst ` set kvs \<Longrightarrow> AList.delete k (AList.update k v kvs) = kvs"
  by (induction kvs) (auto simp: AList.delete_eq)

lemma smtp_run_said:
  "smtp_run srv cs said = (r, said') \<Longrightarrow>
   \<exists>n\<le>length cs. said' = said @ take n cs \<and> (\<forall>i<n - 1. srv (said @ take (Suc i) cs) = Inr ())"
proof (induction cs arbitrary: said)
  case (Cons c cs)
  show ?case
  proof (cases "srv (said @ [c])")
    case (Inl e)
    then show ?thesis using Cons.prems by (intro exI [of _ 1]) auto
  next
    case (Inr u)
    then obtain n where n: "n \<le> length cs" "said' = (said @ [c]) @ take n cs"
      "\<forall>i<n - 1. srv ((said @ [c]) @ take (Suc i) cs) = Inr ()"
      using Cons.IH [of "said @ [c]"] Cons.prems by auto
    have "srv (said @ take (Suc i) (c # cs)) = Inr ()" if "i < Suc n - 1" for i
      using that n(3) Inr by (cases i) (auto simp: old.unit.exhaust)
    then show ?thesis using n by (intro exI [of _ "Suc n"]) auto
  qed
qed simp

lemma mailer_unreachable:
  assumes "smtp_host cfg \<noteq> []" "srv [SmtpConnect (smtp_host cfg) (smtp_port cfg)] = Inl e"
  shows "\<exists>e. mailer_of cfg srv to subject body = Inl e"
  using assms by (simp add: mailer_of_def get_mailer_def smtp_mailer_send_def send_sync_def Let_def)

definition mail_cfg :: settings where
  "mail_cfg = default_settings\<lparr>smtp_host := ''mail.acme.io''\<rparr>"

definition mail_ctx :: tenant_context where
  "mail_ctx = \<lparr>tc_tenant_id = 7, tc_slug = ''acme'', tc_role = Some ''owner''\<rparr>"

section \<open>Properties\<close>

text \<open>
  Every line an application logs while it serves a request carries the identifier of
  that request, the identifier is returned in the header of the response, and nothing of it is left
  bound when the next request is served, also when the application raises.
\<close>

theorem request_log_correlated:
  assumes "request_id_dispatch header fresh verb path duration call_next ls s = (r, ls', s')"
    and "logs_in_context call_next" "''request_id'' \<notin> fst ` set (contextvars ls)"
  shows "contextvars ls' = contextvars ls
    \<and> (\<exists>new. log_lines ls' = log_lines ls @ new
         \<and> list_all (\<lambda>l. map_of (ll_context l) ''request_id'' = Some (request_id_of header fresh)) new)
    \<and> (\<forall>resp. r = Inr resp \<longrightarrow> (REQUEST_ID_HEADER, request_id_of header fresh) \<in> set (res_headers resp))"
proof -
  let ?rid = "request_id_of header fresh"
  let ?ls0 = "bind_contextvars ''request_id'' ?rid ls"
  obtain r1 ls1 s1 where c: "call_next ?ls0 s = (r1, ls1, s1)" by (metis prod_cases3)
  from assms(2) c obtain new where cv: "contextvars ls1 = contextvars ?ls0"
    and new: "log_lines ls1 = log_lines ls @ new" "list_all (\<lambda>l. ll_context l = contextvars ?ls0) new"
    unfolding logs_in_context_def by (metis bind_contextvars_fields(2))
  have rid: "map_of (contextvars ?ls0) ''request_id'' = Some ?rid" by (simp add: update_conv')
  have tagged: "list_all (\<lambda>l. map_of (ll_context l) ''request_id'' = Some ?rid) new"
    using new(2) rid by (auto simp: list_all_iff)
  show ?thesis
  proof (cases r1)
    case (Inl e)
    then show ?thesis using assms(1,3) c cv new tagged
      by (auto simp: request_id_dispatch_def Let_def delete_update_unbound)
  next
    case (Inr resp)
    obtain line where line: "ls' = unbind_contextvars ''request_id'' (log_info ''http_request'' line ls1)"
      and r: "r = Inr (res_headers_update (\<lambda>hs. hs @ [(REQUEST_ID_HEADER, ?rid)]) resp)"
      using assms(1) c Inr by (auto simp: request_id_dispatch_def Let_def)
    obtain last where "log_lines (log_info ''http_request'' line ls1) = log_lines ls1 @ last"
      "list_all (\<lambda>l. ll_context l = contextvars ls1) last" using log_info_lines by blast
    then show ?thesis using line r assms(3) cv new tagged rid
      by (auto simp: delete_update_unbound list_all_iff)
  qed
qed

text \<open>An application that logs one line and raises.\<close>

theorem request_log_correlated_witness:
  "\<exists>r ls'. request_id_dispatch None ''f00d'' ''GET'' ''/api/v1/health'' ''1'' (\<lambda>ls s. (Inl IntegrityError :: unit web_response result, log_info ''boom'' [] ls, s))
       \<lparr>min_level = 20, contextvars = [], log_lines = []\<rparr> (0 :: nat) = (r, ls', 0)
     \<and> contextvars ls' = [] \<and> length (log_lines ls') = 1
     \<and> map_of (ll_context (hd (log_lines ls'))) ''request_id'' = Some ''f00d''"
proof -
  let ?app = "\<lambda>ls s. (Inl IntegrityError :: unit web_response result, log_info ''boom'' [] ls, s :: nat)"
  let ?ls = "\<lparr>min_level = 20, contextvars = [], log_lines = []\<rparr>"
  obtain r ls' where d: "request_id_dispatch None ''f00d'' ''GET'' ''/api/v1/health'' ''1'' ?app ?ls 0 = (r, ls', 0)"
    and n: "length (log_lines ls') = 1"
    by (auto simp: request_id_dispatch_def log_info_def bind_contextvars_def unbind_contextvars_def)
  have app: "logs_in_context ?app" using log_info_lines by (auto simp: logs_in_context_def)
  have "request_id_of None ''f00d'' = ''f00d''" by (simp add: request_id_of_def)
  with request_log_correlated [OF d app] d n show ?thesis
    by (cases "log_lines ls'") auto
qed

text \<open>
  Credentials and messages never reach the mail server in clear: in every conversation,
  however the server answers, they come after a STARTTLS that the server has accepted.
\<close>

theorem mail_encrypted:
  assumes "send_sync cfg srv to subject body = (r, said)" "i < length said"
    and "(\<exists>user pw. said ! i = SmtpLogin user pw) \<or> (\<exists>m. said ! i = SmtpSend m)"
  shows "\<exists>j<i. said ! j = SmtpStartTls \<and> srv (take (Suc j) said) = Inr ()"
proof -
  let ?connect = "SmtpConnect (smtp_host cfg) (smtp_port cfg)"
  define cs where "cs = (if smtp_user cfg \<noteq> [] then [SmtpLogin (smtp_user cfg) (smtp_password cfg)] else [])
    @ [SmtpSend \<lparr>sm_from = (if smtp_sender cfg \<noteq> [] then smtp_sender cfg else smtp_user cfg), sm_to = to,
                 sm_subject = subject, sm_body = body\<rparr>]"
  obtain r1 said1 where run: "smtp_run srv (SmtpStartTls # cs) [?connect] = (r1, said1)" by fastforce
  have "said = [] \<or> said = [?connect] \<or> said = said1 @ [SmtpQuit]"
    using assms(1) run unfolding send_sync_def cs_def [symmetric] Let_def
    by (auto simp del: smtp_run.simps(2) simp: smtp_run.simps(2) [of srv ?connect "[]" "[]"]
        smtp_run.simps(2) [of srv SmtpQuit "[]"] split: if_splits sum.splits)
  then have said: "said = said1 @ [SmtpQuit]" using assms(2,3) by auto
  from smtp_run_said [OF run] obtain n where n: "n \<le> Suc (length cs)"
    "\<forall>k<n - 1. srv ([?connect] @ take (Suc k) (SmtpStartTls # cs)) = Inr ()"
    and said1: "said1 = [?connect] @ take n (SmtpStartTls # cs)" by auto
  have "2 \<le> i" "i < length said1"
    using assms(2,3) said said1 by (auto simp: nth_append less_Suc_eq nth_Cons take_Cons split: nat.splits if_splits)
  then have "2 \<le> n" using said1 by simp
  then show ?thesis
    using n(2) \<open>2 \<le> i\<close> said said1 by (intro exI [of _ 1]) (auto simp: nth_append take_Cons split: nat.splits)
qed

theorem mail_encrypted_witness:
  "\<exists>said j. send_sync mail_cfg (\<lambda>said. Inr ()) ''eve@acme.io'' ''hi'' ''body'' = (Inr (), said)
     \<and> length said = 4 \<and> j < 2 \<and> said ! j = SmtpStartTls"
proof -
  obtain said m where s: "send_sync mail_cfg (\<lambda>said. Inr ()) ''eve@acme.io'' ''hi'' ''body'' = (Inr (), said)"
    and said: "length said = 4" "said ! 2 = SmtpSend m"
    by (auto simp: send_sync_def mail_cfg_def default_settings_def has_line_break_def)
  then have "2 < length said" "\<exists>m. said ! 2 = SmtpSend m" by auto
  with mail_encrypted [OF s, of 2] s said show ?thesis by blast
qed

text \<open>
  C36 (error). When the mail server cannot be reached, an invitation is committed although its route
  raises: the caller does not get the acceptance link, of which only a hash is stored, and no second
  invitation of that address is accepted until the first has expired.
\<close>

theorem undelivered_invitation_blocks:
  assumes "create_invitation P cfg now iid token (tc_tenant_id ctx) email role (tc_role ctx) (Some (u_id (ca_user a))) d = Inr ((i, tok), d1)"
    and "smtp_host cfg \<noteq> []" "srv [SmtpConnect (smtp_host cfg) (smtp_port cfg)] = Inl e" "later < inv_expires_at i"
  shows "\<exists>e' d2. invitation_create P cfg (mailer_of cfg srv) eid now iid token email role a ctx d = (Inl e', d2)
    \<and> i \<in> set (invitations d2) \<and> inv_token_hash i = hash_token P token
    \<and> \<not> is_ok (create_invitation P cfg later iid' token' (tc_tenant_id ctx) email role' actor by d2)"
proof -
  have i: "i \<in> set (invitations d1)" "inv_token_hash i = hash_token P token" "inv_email i = email"
    "inv_tenant_id i = tc_tenant_id ctx" "inv_accepted_at i = None"
    using assms(1) by (auto simp: create_invitation_def insert_row_def Let_def split: sum.splits if_splits)
  obtain d2 ev where d2: "record_audit_event (Some ctx) eid now
      (audit_by a ''core.member.invited'' ''invitation'' (str_uuid (inv_id i))
         [(''email'', JStr (inv_email i)), (''role'', JStr (inv_role i))]) d1 = Inr (ev, d2)"
    and inv: "invitations d2 = invitations d1"
    by (simp add: record_audit_event_eq Let_def)
  obtain e' where "mailer_of cfg srv email INVITATION_SUBJECT (invitation_mail_body (tc_slug ctx) (accept_url_for cfg tok)) = Inl e'"
    using mailer_unreachable [of cfg srv e] assms(2,3) by blast
  then have "invitation_create P cfg (mailer_of cfg srv) eid now iid token email role a ctx d = (Inl e', d2)"
    by (simp add: invitation_create_def assms(1) d2)
  moreover have "List.find (pending_invitation later (tc_tenant_id ctx) email) (invitations d2) \<noteq> None"
    using i inv assms(4) by (auto simp: find_None_iff pending_invitation_def)
  ultimately show ?thesis
    using i inv by (auto simp: create_invitation_def Let_def split: sum.split)
qed

theorem undelivered_invitation_blocks_witness:
  "\<exists>a e d2 i. invitation_create sample_primitives mail_cfg (mailer_of mail_cfg (\<lambda>said. Inl (TransportError ''refused'')))
        90 5 52 ''new'' ''eve@acme.io'' ''member'' a mail_ctx sample_directory = (Inl e, d2)
     \<and> i \<in> set (invitations d2)
     \<and> \<not> is_ok (create_invitation sample_primitives mail_cfg 9 53 ''again'' 7 ''eve@acme.io'' ''member'' None None d2)"
proof -
  fix a :: current_auth
  have "get_user_by_email ''eve@acme.io'' sample_directory = None" by code_simp
  moreover have "py_lower ''bob@acme.io'' \<noteq> py_lower ''eve@acme.io''" by code_simp
  ultimately obtain i tok d1 where c: "create_invitation sample_primitives mail_cfg 5 52 ''new'' (tc_tenant_id mail_ctx)
      ''eve@acme.io'' ''member'' (tc_role mail_ctx) (Some (u_id (ca_user a))) sample_directory = Inr ((i, tok), d1)"
    and i: "inv_expires_at i = 5 + hours 168"
    by (auto simp: create_invitation_def Let_def validate_role_def ROLES_def ROLE_PERMISSIONS_def ROLE_MEMBER_def
        ROLE_OWNER_def sample_directory_def sample_invitation_def pending_invitation_def mail_cfg_def mail_ctx_def default_settings_def)
  have host: "smtp_host mail_cfg \<noteq> []" by (simp add: mail_cfg_def)
  have later: "(9 :: int) < inv_expires_at i" by (simp add: i hours_def minutes_def seconds_def)
  from undelivered_invitation_blocks [OF c host, of "\<lambda>said. Inl (TransportError ''refused'')"
      "TransportError ''refused''" 9 90 53 "''again''" "''member''" None None]
  show ?thesis using later by (auto simp: mail_ctx_def)
qed

end
