(* ===== verification/Teams.thy ===== *)
theory Teams
  imports Directory
begin

text \<open>
  The team routes of \<^verbatim>\<open>directory/router.py\<close>. Teams and their members are tenant-scoped tables:
  every statement goes through the guards of \<^verbatim>\<open>Tenancy\<close>.
\<close>

record team_out =
  to_id :: uuid
  to_name :: string
  to_description :: "string option"

definition to_team_out :: "team \<Rightarrow> team_out" where
  "to_team_out t = \<lparr>to_id = tm_id t, to_name = tm_name t, to_description = tm_description t\<rparr>"

definition select_teams :: "context_var \<Rightarrow> db \<Rightarrow> team list result" where
  "select_teams cv d = scoped_select cv ''teams'' tm_tenant_id (teams d)"

definition select_team_members :: "context_var \<Rightarrow> db \<Rightarrow> team_member list result" where
  "select_team_members cv d = scoped_select cv ''team_members'' tmm_tenant_id (team_members d)"

definition teams_list :: "current_auth \<Rightarrow> tenant_context \<Rightarrow> db \<Rightarrow> team_out list result \<times> db" where
  "teams_list a ctx d =
     (case select_teams (Some ctx) d of Inl e \<Rightarrow> (Inl e, d)
      | Inr ts \<Rightarrow> (Inr (map to_team_out (sort_key tm_name ts)), d))"

definition team_create ::
  "uuid \<Rightarrow> instant \<Rightarrow> uuid \<Rightarrow> string \<Rightarrow> string option \<Rightarrow> current_auth \<Rightarrow> tenant_context \<Rightarrow> db \<Rightarrow>
   team_out result \<times> db" where
  "team_create eid now tid name description a ctx d =
     (if length name < 1 \<or> 120 < length name \<or> (\<exists>x \<in> set_option description. 2000 < length x)
      then (Inl (HTTPException 422 ''validation''), d)
      else case select_teams (Some ctx) d of Inl e \<Rightarrow> (Inl e, d)
      | Inr ts \<Rightarrow>
          if List.find (\<lambda>t. tm_name t = name) ts \<noteq> None
          then (Inl (HTTPException 409 ''Une equipe porte deja ce nom''), d)
          else (case flush_insert (Some ctx) of Inl e \<Rightarrow> (Inl e, d)
                | Inr tenant_id \<Rightarrow>
                    let t = \<lparr>tm_id = tid, tm_tenant_id = tenant_id, tm_name = name,
                             tm_description = description\<rparr>;
                        d1 = teams_update (insert_row t) d
                    in case record_audit_event (Some ctx) eid now
                              (audit_by a ''core.team.created'' ''team'' (str_uuid tid)
                                 [(''name'', JStr name)]) d1 of
                         Inl e \<Rightarrow> (Inl e, d)
                       | Inr (_, d2) \<Rightarrow> (Inr (to_team_out t), d2)))"

definition team_delete ::
  "uuid \<Rightarrow> instant \<Rightarrow> uuid \<Rightarrow> current_auth \<Rightarrow> tenant_context \<Rightarrow> db \<Rightarrow> unit result \<times> db" where
  "team_delete eid now team_id a ctx d =
     (case select_teams (Some ctx) d of Inl e \<Rightarrow> (Inl e, d)
      | Inr ts \<Rightarrow>
          (case List.find (\<lambda>t. tm_id t = team_id) ts of
             None \<Rightarrow> (Inl (HTTPException 404 ''Equipe introuvable''), d)
           | Some t \<Rightarrow>
               (case record_audit_event (Some ctx) eid now
                       (audit_by a ''core.team.deleted'' ''team'' (str_uuid (tm_id t))
                          [(''name'', JStr (tm_name t))]) d of
                  Inl e \<Rightarrow> (Inl e, d)
                | Inr (_, d1) \<Rightarrow>
                    (case flush_touch (Some ctx) (tm_tenant_id t) of Inl e \<Rightarrow> (Inl e, d)
                     | Inr _ \<Rightarrow>
                         (Inr (),
                          team_members_update (delete_where (\<lambda>x. tmm_team_id x = tm_id t))
                            (teams_update (delete_where (\<lambda>x. tm_id x = tm_id t)) d1))))))"

definition team_members_list ::
  "uuid \<Rightarrow> current_auth \<Rightarrow> tenant_context \<Rightarrow> db \<Rightarrow> member_out list result \<times> db" where
  "team_members_list team_id a ctx d =
     (case (select_teams (Some ctx) d, select_team_members (Some ctx) d) of
        (Inr ts, Inr tms) \<Rightarrow>
          if List.find (\<lambda>t. tm_id t = team_id) ts = None
          then (Inl (HTTPException 404 ''Equipe introuvable''), d)
          else let user_ids = map tmm_user_id (filter (\<lambda>x. tmm_team_id x = team_id) tms)
               in (Inr (concat (map (\<lambda>u. map (\<lambda>m. to_member_out u (m_role m))
                           (filter (\<lambda>m. m_user_id m = u_id u \<and> m_tenant_id m = tc_tenant_id ctx)
                              (memberships d)))
                         (filter (\<lambda>u. u_id u \<in> set user_ids) (users d)))), d)
      | (Inl e, _) \<Rightarrow> (Inl e, d)
      | (_, Inl e) \<Rightarrow> (Inl e, d))"

definition team_member_add ::
  "uuid \<Rightarrow> instant \<Rightarrow> uuid \<Rightarrow> uuid \<Rightarrow> uuid \<Rightarrow> current_auth \<Rightarrow> tenant_context \<Rightarrow> db \<Rightarrow> unit result \<times> db" where
  "team_member_add eid now tmid team_id user_id a ctx d =
     (case (select_teams (Some ctx) d, select_team_members (Some ctx) d) of
        (Inr ts, Inr tms) \<Rightarrow>
          (case List.find (\<lambda>t. tm_id t = team_id) ts of
             None \<Rightarrow> (Inl (HTTPException 404 ''Equipe introuvable''), d)
           | Some t \<Rightarrow>
               if membership_of user_id (tc_tenant_id ctx) d = None
               then (Inl (HTTPException 400 ''Cet utilisateur n'est pas membre du tenant''), d)
               else if List.find (\<lambda>x. tmm_team_id x = team_id \<and> tmm_user_id x = user_id) tms \<noteq> None
               then (Inl (HTTPException 409 ''Deja membre de l'equipe''), d)
               else (case flush_insert (Some ctx) of Inl e \<Rightarrow> (Inl e, d)
                     | Inr tenant_id \<Rightarrow>
                         let d1 = team_members_update
                               (insert_row \<lparr>tmm_id = tmid, tmm_tenant_id = tenant_id,
                                            tmm_team_id = team_id, tmm_user_id = user_id\<rparr>) d
                         in case record_audit_event (Some ctx) eid now
                                   (audit_by a ''core.team.member_added'' ''team'' (str_uuid team_id)
                                      [(''team_name'', JStr (tm_name t)),
                                       (''user_id'', JStr (str_uuid user_id))]) d1 of
                              Inl e \<Rightarrow> (Inl e, d) | Inr (_, d2) \<Rightarrow> (Inr (), d2)))
      | (Inl e, _) \<Rightarrow> (Inl e, d)
      | (_, Inl e) \<Rightarrow> (Inl e, d))"

definition team_member_remove ::
  "uuid \<Rightarrow> instant \<Rightarrow> uuid \<Rightarrow> uuid \<Rightarrow> current_auth \<Rightarrow> tenant_context \<Rightarrow> db \<Rightarrow> unit result \<times> db" where
  "team_member_remove eid now team_id user_id a ctx d =
     (case (select_teams (Some ctx) d, select_team_members (Some ctx) d) of
        (Inr ts, Inr tms) \<Rightarrow>
          (case List.find (\<lambda>x. tmm_team_id x = team_id \<and> tmm_user_id x = user_id) tms of
             None \<Rightarrow> (Inl (HTTPException 404 ''Membre d'equipe introuvable''), d)
           | Some tm \<Rightarrow>
               let team_name = map_option tm_name (List.find (\<lambda>t. tm_id t = team_id) ts)
               in case record_audit_event (Some ctx) eid now
                         (audit_by a ''core.team.member_removed'' ''team'' (str_uuid team_id)
                            [(''team_name'', json_opt_str team_name),
                             (''user_id'', JStr (str_uuid user_id))]) d of
                    Inl e \<Rightarrow> (Inl e, d)
                  | Inr (_, d1) \<Rightarrow>
                      (case flush_touch (Some ctx) (tmm_tenant_id tm) of Inl e \<Rightarrow> (Inl e, d)
                       | Inr _ \<Rightarrow>
                           (Inr (), team_members_update (delete_where (\<lambda>x. tmm_id x = tmm_id tm)) d1)))
      | (Inl e, _) \<Rightarrow> (Inl e, d)
      | (_, Inl e) \<Rightarrow> (Inl e, d))"

section \<open>Lemmas\<close>

lemma select_teams_eq [handler_simps]:
  "select_teams (Some ctx) d = Inr (filter (\<lambda>t. tm_tenant_id t = tc_tenant_id ctx) (teams d))"
  by (simp add: select_teams_def scoped_select_eq)

lemma select_team_members_eq [handler_simps]:
  "select_team_members (Some ctx) d = Inr (filter (\<lambda>t. tmm_tenant_id t = tc_tenant_id ctx) (team_members d))"
  by (simp add: select_team_members_def scoped_select_eq)

end
