(* ===== verification/Isolation.thy ===== *)
theory Isolation
  imports Teams
begin

text \<open>
  Tenant isolation of the directory, team and audit routes, as non-interference between
  tenants. The locale states what a family of operations must satisfy (each is confined to
  its tenant and depends only on what that tenant sees) and proves, once, that what a tenant
  observes in any interleaving is what it would observe if the other tenants had done
  nothing. It is interpreted on the routes of the model.
\<close>

section \<open>The unwinding argument\<close>

locale tenant_isolation =
  fixes dom_of :: "'op \<Rightarrow> 't"
    and step :: "'op \<Rightarrow> 's \<Rightarrow> 'o \<times> 's"
    and view :: "'t \<Rightarrow> 's \<Rightarrow> 'v"
    and inv :: "'s \<Rightarrow> bool"
    and fresh :: "'op \<Rightarrow> 's \<Rightarrow> bool"
  assumes inv_step: "inv s \<Longrightarrow> fresh op s \<Longrightarrow> inv (snd (step op s))"
    and confined: "inv s \<Longrightarrow> fresh op s \<Longrightarrow> t \<noteq> dom_of op \<Longrightarrow> view t (snd (step op s)) = view t s"
    and determined: "inv s \<Longrightarrow> inv s' \<Longrightarrow> view (dom_of op) s = view (dom_of op) s' \<Longrightarrow>
      fst (step op s) = fst (step op s')
      \<and> view (dom_of op) (snd (step op s)) = view (dom_of op) (snd (step op s'))"
begin

fun run :: "'op list \<Rightarrow> 's \<Rightarrow> ('t \<times> 'o) list \<times> 's" where
  "run [] s = ([], s)"
| "run (op # ops) s =
     (let (out, s1) = step op s; (outs, s2) = run ops s1 in ((dom_of op, out) # outs, s2))"

fun fresh_run :: "'op list \<Rightarrow> 's \<Rightarrow> bool" where
  "fresh_run [] s = True"
| "fresh_run (op # ops) s = (fresh op s \<and> fresh_run ops (snd (step op s)))"

lemma run_unwinding:
  "inv s \<Longrightarrow> inv s' \<Longrightarrow> view t s = view t s' \<Longrightarrow> fresh_run ops s \<Longrightarrow>
   fresh_run (filter (\<lambda>op. dom_of op = t) ops) s' \<Longrightarrow>
   filter (\<lambda>(u, out). u = t) (fst (run ops s)) = fst (run (filter (\<lambda>op. dom_of op = t) ops) s')
   \<and> view t (snd (run ops s)) = view t (snd (run (filter (\<lambda>op. dom_of op = t) ops) s'))"
proof (induction ops arbitrary: s s')
  case (Cons op ops)
  obtain out s1 where st: "step op s = (out, s1)" by fastforce
  have s1: "inv s1" using inv_step [of s op] Cons.prems st by simp
  show ?case
  proof (cases "dom_of op = t")
    case True
    obtain out' s1' where st': "step op s' = (out', s1')" by fastforce
    have "inv s1'" using inv_step [of s' op] Cons.prems st' True by simp
    moreover have "out = out'" "view t s1 = view t s1'"
      using determined [of s s' op] Cons.prems st st' True by auto
    ultimately show ?thesis
      using Cons.IH [of s1 s1'] Cons.prems s1 st st' True
      by (auto simp: Let_def split: prod.splits)
  next
    case False
    then have "view t s1 = view t s'"
      using confined [of s op t] Cons.prems st by auto
    then show ?thesis
      using Cons.IH [of s1 s'] Cons.prems s1 st False by (auto simp: Let_def split: prod.splits)
  qed
qed simp

end

section \<open>The routes of a tenant\<close>

text \<open>
  One request that has passed its permission check: the user, the context and the arguments
  of the handler, with the identifiers and tokens it draws.
\<close>

datatype tenant_call =
    MembersList
  | MemberChangeRole uuid instant uuid string
  | MemberRemove uuid instant uuid
  | InvitationsList
  | InvitationCreate uuid instant uuid string string string
  | InvitationRevoke uuid instant uuid
  | TeamsList
  | TeamCreate uuid instant uuid string "string option"
  | TeamDelete uuid instant uuid
  | TeamMembersList uuid
  | TeamMemberAdd uuid instant uuid uuid uuid
  | TeamMemberRemove uuid instant uuid uuid
  | AuditEventsList nat "string option" audit_query

record tenant_op =
  op_auth :: current_auth
  op_ctx :: tenant_context
  op_call :: tenant_call

datatype tenant_output =
    OutMembers "member_out list result"
  | OutMember "member_out result"
  | OutUnit "unit result"
  | OutInvitations "pending_invitation_out list result"
  | OutInvitation "invitation_out result"
  | OutTeams "team_out list result"
  | OutTeam "team_out result"
  | OutAudit "audit_event_page result"

fun call_step ::
  "primitives \<Rightarrow> settings \<Rightarrow> mailer \<Rightarrow> current_auth \<Rightarrow> tenant_context \<Rightarrow> tenant_call \<Rightarrow> db \<Rightarrow> tenant_output \<times> db"
where
  "call_step P cfg mail a ctx MembersList d = map_prod OutMembers id (members_list a ctx d)"
| "call_step P cfg mail a ctx (MemberChangeRole eid now uid role) d =
     map_prod OutMember id (member_change_role eid now uid role a ctx d)"
| "call_step P cfg mail a ctx (MemberRemove eid now uid) d =
     map_prod OutUnit id (member_remove eid now uid a ctx d)"
| "call_step P cfg mail a ctx InvitationsList d = map_prod OutInvitations id (invitations_list a ctx d)"
| "call_step P cfg mail a ctx (InvitationCreate eid now iid token email role) d =
     map_prod OutInvitation id (invitation_create P cfg mail eid now iid token email role a ctx d)"
| "call_step P cfg mail a ctx (InvitationRevoke eid now iid) d =
     map_prod OutUnit id (invitation_revoke eid now iid a ctx d)"
| "call_step P cfg mail a ctx TeamsList d = map_prod OutTeams id (teams_list a ctx d)"
| "call_step P cfg mail a ctx (TeamCreate eid now tid name descr) d =
     map_prod OutTeam id (team_create eid now tid name descr a ctx d)"
| "call_step P cfg mail a ctx (TeamDelete eid now tid) d =
     map_prod OutUnit id (team_delete eid now tid a ctx d)"
| "call_step P cfg mail a ctx (TeamMembersList tid) d =
     map_prod OutMembers id (team_members_list tid a ctx d)"
| "call_step P cfg mail a ctx (TeamMemberAdd eid now tmid tid uid) d =
     map_prod OutUnit id (team_member_add eid now tmid tid uid a ctx d)"
| "call_step P cfg mail a ctx (TeamMemberRemove eid now tid uid) d =
     map_prod OutUnit id (team_member_remove eid now tid uid a ctx d)"
| "call_step P cfg mail a ctx (AuditEventsList limit cursor q) d =
     (OutAudit (audit_events_list (Some ctx) limit cursor q d), d)"

definition tenant_step ::
  "primitives \<Rightarrow> settings \<Rightarrow> mailer \<Rightarrow> tenant_op \<Rightarrow> db \<Rightarrow> tenant_output \<times> db" where
  "tenant_step P cfg mail op d = call_step P cfg mail (op_auth op) (op_ctx op) (op_call op) d"

definition op_tenant :: "tenant_op \<Rightarrow> uuid" where
  "op_tenant op = tc_tenant_id (op_ctx op)"

text \<open>What a tenant sees: its rows, and the global table of users.\<close>

record tenant_view =
  tv_users :: "user list"
  tv_memberships :: "membership list"
  tv_invitations :: "invitation list"
  tv_teams :: "team list"
  tv_team_members :: "team_member list"
  tv_audit :: "audit_event list"

definition view_of :: "uuid \<Rightarrow> db \<Rightarrow> tenant_view" where
  "view_of t d =
     \<lparr>tv_users = users d,
      tv_memberships = filter (\<lambda>m. m_tenant_id m = t) (memberships d),
      tv_invitations = filter (\<lambda>i. inv_tenant_id i = t) (invitations d),
      tv_teams = filter (\<lambda>x. tm_tenant_id x = t) (teams d),
      tv_team_members = filter (\<lambda>x. tmm_tenant_id x = t) (team_members d),
      tv_audit = filter (\<lambda>e. ae_tenant_id e = t) (audit_events d)\<rparr>"

text \<open>The constraints of the schema the handlers rely on: primary keys, and teams of one tenant.\<close>

definition keys_ok :: "db \<Rightarrow> bool" where
  "keys_ok d \<longleftrightarrow>
     distinct (map m_id (memberships d)) \<and> distinct (map inv_id (invitations d))
     \<and> distinct (map tm_id (teams d)) \<and> distinct (map tmm_id (team_members d))
     \<and> (\<forall>x\<in>set (team_members d). \<exists>t\<in>set (teams d). tm_id t = tmm_team_id x \<and> tm_tenant_id t = tmm_tenant_id x)"

fun call_fresh :: "tenant_call \<Rightarrow> db \<Rightarrow> bool" where
  "call_fresh (InvitationCreate _ _ iid _ _ _) d = (iid \<notin> inv_id ` set (invitations d))"
| "call_fresh (TeamCreate _ _ tid _ _) d = (tid \<notin> tm_id ` set (teams d))"
| "call_fresh (TeamMemberAdd _ _ tmid _ _) d = (tmid \<notin> tmm_id ` set (team_members d))"
| "call_fresh _ d = True"

definition op_fresh :: "tenant_op \<Rightarrow> db \<Rightarrow> bool" where
  "op_fresh op d = call_fresh (op_call op) d"

section \<open>Lemmas: reads depend on the view only\<close>

lemma membership_of_view:
  "membership_of u t d = List.find (\<lambda>m. m_user_id m = u) (tv_memberships (view_of t d))"
  by (simp add: membership_of_def view_of_def find_filter conj_commute)

lemma count_owners_view:
  "count_owners t d = length (filter (\<lambda>m. m_role m = ROLE_OWNER) (tv_memberships (view_of t d)))"
  by (simp add: count_owners_def view_of_def conj_commute)

lemma list_members_view:
  "list_members t d =
     sort_key (\<lambda>(u, m). py_lower (u_email u))
       (concat (map (\<lambda>u. map (\<lambda>m. (u, m)) (filter (\<lambda>m. m_user_id m = u_id u) (tv_memberships (view_of t d))))
         (tv_users (view_of t d))))"
  by (simp add: list_members_def view_of_def conj_commute)

lemma get_user_view: "get_user u d = List.find (\<lambda>x. u_id x = u) (tv_users (view_of t d))"
  by (simp add: get_user_def view_of_def)

lemma get_user_by_email_view:
  "get_user_by_email e d = List.find (\<lambda>u. py_lower (u_email u) = py_lower e) (tv_users (view_of t d))"
  by (simp add: get_user_by_email_def view_of_def)

lemma pending_view:
  "List.find (pending_invitation now t email) (invitations d) =
   List.find (pending_invitation now t email) (tv_invitations (view_of t d))"
proof -
  have "(\<lambda>i. inv_tenant_id i = t \<and> pending_invitation now t email i) = pending_invitation now t email"
    by (auto simp: pending_invitation_def)
  then show ?thesis by (simp add: view_of_def find_filter)
qed

lemma list_pending_view:
  "list_pending_invitations t d =
     rev (sort_key inv_created_at (filter (\<lambda>i. inv_accepted_at i = None) (tv_invitations (view_of t d))))"
  by (simp add: list_pending_invitations_def view_of_def conj_commute)

lemma select_teams_view: "select_teams (Some ctx) d = Inr (tv_teams (view_of (tc_tenant_id ctx) d))"
  by (simp add: select_teams_eq view_of_def)

lemma select_team_members_view:
  "select_team_members (Some ctx) d = Inr (tv_team_members (view_of (tc_tenant_id ctx) d))"
  by (simp add: select_team_members_eq view_of_def)

lemma audit_events_list_view:
  "audit_events_list (Some ctx) limit cursor q d =
   audit_events_list (Some ctx) limit cursor q
     (empty_db\<lparr>audit_events := tv_audit (view_of (tc_tenant_id ctx) d)\<rparr>)"
  by (simp add: audit_events_list_def scoped_select_eq view_of_def)

lemma team_members_list_view:
  "team_members_list tid a ctx d =
     (let v = view_of (tc_tenant_id ctx) d
      in (if List.find (\<lambda>t. tm_id t = tid) (tv_teams v) = None
          then Inl (HTTPException 404 ''Equipe introuvable'')
          else Inr (concat (map (\<lambda>u. map (\<lambda>m. to_member_out u (m_role m))
                      (filter (\<lambda>m. m_user_id m = u_id u) (tv_memberships v)))
                 (filter (\<lambda>u. u_id u \<in> tmm_user_id ` set (filter (\<lambda>x. tmm_team_id x = tid) (tv_team_members v)))
                    (tv_users v)))), d))"
  by (simp add: team_members_list_def select_teams_eq select_team_members_eq Let_def view_of_def conj_commute)

section \<open>Lemmas: writes through the view\<close>

named_theorems view_simps

lemma view_of_writes [view_simps]:
  "view_of t (memberships_update (delete_where p) d) =
     (view_of t d)\<lparr>tv_memberships := delete_where p (tv_memberships (view_of t d))\<rparr>"
  "view_of t (invitations_update (delete_where p') d) =
     (view_of t d)\<lparr>tv_invitations := delete_where p' (tv_invitations (view_of t d))\<rparr>"
  "view_of t (invitations_update (insert_row i) d) =
     (view_of t d)\<lparr>tv_invitations := tv_invitations (view_of t d) @ (if inv_tenant_id i = t then [i] else [])\<rparr>"
  "view_of t (teams_update (insert_row x) d) =
     (view_of t d)\<lparr>tv_teams := tv_teams (view_of t d) @ (if tm_tenant_id x = t then [x] else [])\<rparr>"
  "view_of t (teams_update (delete_where q) d) =
     (view_of t d)\<lparr>tv_teams := delete_where q (tv_teams (view_of t d))\<rparr>"
  "view_of t (team_members_update (insert_row y) d) =
     (view_of t d)\<lparr>tv_team_members := tv_team_members (view_of t d) @ (if tmm_tenant_id y = t then [y] else [])\<rparr>"
  "view_of t (team_members_update (delete_where r) d) =
     (view_of t d)\<lparr>tv_team_members := delete_where r (tv_team_members (view_of t d))\<rparr>"
  "view_of t (audit_events_update (insert_row e) d) =
     (view_of t d)\<lparr>tv_audit := tv_audit (view_of t d) @ (if ae_tenant_id e = t then [e] else [])\<rparr>"
  by (simp_all add: view_of_def filter_insert_row filter_delete_where_commute)

lemma view_of_role_write [view_simps]:
  "view_of t (memberships_update (update_where p (\<lambda>x. x\<lparr>m_role := r\<rparr>)) d) =
     (view_of t d)\<lparr>tv_memberships := update_where p (\<lambda>x. x\<lparr>m_role := r\<rparr>) (tv_memberships (view_of t d))\<rparr>"
  by (simp add: view_of_def filter_update_where_commute)

lemma keys_ok_writes:
  assumes "keys_ok d"
  shows "keys_ok (audit_events_update f d)"
    and "keys_ok (memberships_update (update_where p (\<lambda>x. x\<lparr>m_role := r\<rparr>)) d)"
    and "keys_ok (memberships_update (delete_where p) d)"
    and "keys_ok (invitations_update (delete_where p') d)"
    and "inv_id i \<notin> inv_id ` set (invitations d) \<Longrightarrow> keys_ok (invitations_update (insert_row i) d)"
    and "tm_id x \<notin> tm_id ` set (teams d) \<Longrightarrow> keys_ok (teams_update (insert_row x) d)"
    and "tmm_id y \<notin> tmm_id ` set (team_members d) \<Longrightarrow>
         \<exists>t\<in>set (teams d). tm_id t = tmm_team_id y \<and> tm_tenant_id t = tmm_tenant_id y \<Longrightarrow>
         keys_ok (team_members_update (insert_row y) d)"
    and "keys_ok (team_members_update (delete_where q) d)"
    and "keys_ok (team_members_update (delete_where (\<lambda>x. tmm_team_id x = k))
           (teams_update (delete_where (\<lambda>x. tm_id x = k)) d))"
  using assms
  by (auto simp: keys_ok_def map_update_where_key distinct_map_delete_where insert_row_def) metis

text \<open>Rows of another tenant do not have the key of a row of this one.\<close>

lemma no_key_elsewhere:
  assumes "distinct (map k rs)" "r \<in> set rs" "tid r = t" "t' \<noteq> t"
  shows "delete_where (\<lambda>x. k x = k r) (filter (\<lambda>x. tid x = t') rs) = filter (\<lambda>x. tid x = t') rs"
    and "update_where (\<lambda>x. k x = k r) f (filter (\<lambda>x. tid x = t') rs) = filter (\<lambda>x. tid x = t') rs"
proof -
  have "k x \<noteq> k r" if "x \<in> set rs" "tid x = t'" for x
    using assms that by (auto simp: distinct_map inj_on_def)
  then show "delete_where (\<lambda>x. k x = k r) (filter (\<lambda>x. tid x = t') rs) = filter (\<lambda>x. tid x = t') rs"
    and "update_where (\<lambda>x. k x = k r) f (filter (\<lambda>x. tid x = t') rs) = filter (\<lambda>x. tid x = t') rs"
    by (auto simp: delete_where_def update_where_def intro!: map_idI filter_cong)
qed

lemma membership_elsewhere:
  assumes "keys_ok d" "membership_of u t d = Some m" "t' \<noteq> t"
  shows "delete_where (\<lambda>x. m_id x = m_id m) (tv_memberships (view_of t' d)) = tv_memberships (view_of t' d)"
    and "update_where (\<lambda>x. m_id x = m_id m) f (tv_memberships (view_of t' d)) = tv_memberships (view_of t' d)"
  using no_key_elsewhere [of m_id "memberships d" m m_tenant_id t t'] membership_of_D [OF assms(2)] assms
  by (simp_all add: keys_ok_def view_of_def)

lemma invitation_elsewhere:
  assumes "keys_ok d" "i \<in> set (invitations d)" "inv_tenant_id i = t" "t' \<noteq> t"
  shows "delete_where (\<lambda>x. inv_id x = inv_id i) (tv_invitations (view_of t' d)) = tv_invitations (view_of t' d)"
  using no_key_elsewhere [of inv_id "invitations d" i inv_tenant_id t t'] assms
  by (simp add: keys_ok_def view_of_def)

lemma team_elsewhere:
  assumes "keys_ok d" "x \<in> set (teams d)" "tm_tenant_id x = t" "t' \<noteq> t"
  shows "delete_where (\<lambda>y. tm_id y = tm_id x) (tv_teams (view_of t' d)) = tv_teams (view_of t' d)"
    and "delete_where (\<lambda>y. tmm_team_id y = tm_id x) (tv_team_members (view_of t' d)) = tv_team_members (view_of t' d)"
proof -
  show "delete_where (\<lambda>y. tm_id y = tm_id x) (tv_teams (view_of t' d)) = tv_teams (view_of t' d)"
    using no_key_elsewhere [of tm_id "teams d" x tm_tenant_id t t'] assms by (simp add: keys_ok_def view_of_def)
  have "tmm_tenant_id y = t" if "y \<in> set (team_members d)" "tmm_team_id y = tm_id x" for y
  proof -
    have "\<exists>z\<in>set (teams d). tm_id z = tmm_team_id y \<and> tm_tenant_id z = tmm_tenant_id y"
      using assms(1) that(1) by (simp add: keys_ok_def)
    then obtain z where z: "z \<in> set (teams d)" "tm_id z = tmm_team_id y" "tm_tenant_id z = tmm_tenant_id y"
      by blast
    then have "z = x" using assms(1,2) that(2) by (auto simp: keys_ok_def distinct_map inj_on_def)
    then show ?thesis using z assms(3) by simp
  qed
  then show "delete_where (\<lambda>y. tmm_team_id y = tm_id x) (tv_team_members (view_of t' d)) = tv_team_members (view_of t' d)"
    using assms(4) by (auto simp: view_of_def delete_where_def intro!: filter_cong)
qed

lemma team_member_elsewhere:
  assumes "keys_ok d" "x \<in> set (team_members d)" "tmm_tenant_id x = t" "t' \<noteq> t"
  shows "delete_where (\<lambda>y. tmm_id y = tmm_id x) (tv_team_members (view_of t' d)) = tv_team_members (view_of t' d)"
  using no_key_elsewhere [of tmm_id "team_members d" x tmm_tenant_id t t'] assms
  by (simp add: keys_ok_def view_of_def)

lemma in_view:
  "x \<in> set (tv_teams (view_of t d)) \<Longrightarrow> x \<in> set (teams d) \<and> tm_tenant_id x = t"
  "y \<in> set (tv_team_members (view_of t d)) \<Longrightarrow> y \<in> set (team_members d) \<and> tmm_tenant_id y = t"
  by (auto simp: view_of_def)

section \<open>The routes are isolated\<close>

lemma record_audit_event_some [simp]:
  "record_audit_event (Some c) eid now a d \<noteq> Inl e"
  by (simp add: record_audit_event_eq Let_def)

lemmas read_views = membership_of_view count_owners_view list_members_view pending_view list_pending_view
  select_teams_view select_team_members_view

lemma change_role_route:
  assumes "keys_ok d"
  shows "keys_ok (snd (member_change_role eid now uid role a ctx d))"
    and "t \<noteq> tc_tenant_id ctx \<Longrightarrow> view_of t (snd (member_change_role eid now uid role a ctx d)) = view_of t d"
  using assms
  by (auto simp: member_change_role_def change_member_role_def Let_def record_audit_event_eq keys_ok_writes
      view_simps membership_elsewhere split: option.split sum.split)

lemma same_view_reads:
  assumes "view_of t d = view_of t d'"
  shows "membership_of u t d = membership_of u t d'" "count_owners t d = count_owners t d'"
    "list_members t d = list_members t d'" "get_user u d = get_user u d'"
    "get_user_by_email e d = get_user_by_email e d'"
    "List.find (pending_invitation now t e) (invitations d) = List.find (pending_invitation now t e) (invitations d')"
    "list_pending_invitations t d = list_pending_invitations t d'"
  using assms
  by (simp_all only: membership_of_view count_owners_view list_members_view get_user_view [where t = t]
      get_user_by_email_view [where t = t] pending_view list_pending_view)

text \<open>Two results agree when they fail alike, or return alike with the same view for the tenant.\<close>

definition agree :: "uuid \<Rightarrow> ('a \<times> db) result \<Rightarrow> ('a \<times> db) result \<Rightarrow> bool" where
  "agree t r r' \<longleftrightarrow>
     (case (r, r') of (Inl e, Inl e') \<Rightarrow> e = e'
      | (Inr (x, d), Inr (x', d')) \<Rightarrow> x = x' \<and> view_of t d = view_of t d'
      | _ \<Rightarrow> False)"

lemma agree_simps [simp]:
  "agree t (Inl e) (Inl e') \<longleftrightarrow> e = e'"
  "agree t (Inr (x, d)) (Inr (x', d')) \<longleftrightarrow> x = x' \<and> view_of t d = view_of t d'"
  by (simp_all add: agree_def)

lemma agree_cases:
  assumes "agree t r r'"
  obtains (err) e where "r = Inl e" "r' = Inl e"
    | (ok) x d d' where "r = Inr (x, d)" "r' = Inr (x, d')" "view_of t d = view_of t d'"
  using assms by (cases r; cases r') (auto simp: agree_def)

lemma change_member_role_agree:
  assumes "view_of t d = view_of t d'"
  shows "agree t (change_member_role t u r actor d) (change_member_role t u r actor d')"
proof (cases "validate_role r")
  case (Inr _)
  then show ?thesis
    using assms same_view_reads(1,2) [OF assms]
    by (cases "membership_of u t d'") (simp_all add: change_member_role_def view_simps)
qed (simp add: change_member_role_def)

lemma change_role_determined:
  assumes "view_of (tc_tenant_id ctx) d = view_of (tc_tenant_id ctx) d'"
  shows "fst (member_change_role eid now uid role a ctx d) = fst (member_change_role eid now uid role a ctx d')
    \<and> view_of (tc_tenant_id ctx) (snd (member_change_role eid now uid role a ctx d)) =
      view_of (tc_tenant_id ctx) (snd (member_change_role eid now uid role a ctx d'))"
proof (cases "tc_role ctx")
  case (Some actor)
  have old: "membership_of uid (tc_tenant_id ctx) d = membership_of uid (tc_tenant_id ctx) d'"
    by (rule same_view_reads(1) [OF assms])
  from change_member_role_agree [OF assms, of uid role actor] show ?thesis
  proof (cases rule: agree_cases)
    case (err e)
    then show ?thesis using Some assms by (simp add: member_change_role_def Let_def)
  next
    case (ok m d1 d1')
    then show ?thesis
      using Some assms old same_view_reads(4) [OF ok(3), of uid]
      by (cases "get_user uid d1'") (simp_all add: member_change_role_def Let_def record_audit_event_eq view_simps)
  qed
qed (simp add: member_change_role_def assms)

lemma remove_route:
  assumes "keys_ok d"
  shows "keys_ok (snd (member_remove eid now uid a ctx d))"
    and "t \<noteq> tc_tenant_id ctx \<Longrightarrow> view_of t (snd (member_remove eid now uid a ctx d)) = view_of t d"
  using assms
  by (auto simp: member_remove_def remove_member_def Let_def record_audit_event_eq keys_ok_writes
      view_simps membership_elsewhere split: option.split sum.split)

lemma remove_determined:
  assumes "view_of (tc_tenant_id ctx) d = view_of (tc_tenant_id ctx) d'"
  shows "fst (member_remove eid now uid a ctx d) = fst (member_remove eid now uid a ctx d')
    \<and> view_of (tc_tenant_id ctx) (snd (member_remove eid now uid a ctx d)) =
      view_of (tc_tenant_id ctx) (snd (member_remove eid now uid a ctx d'))"
proof (cases "tc_role ctx")
  case (Some actor)
  note reads = same_view_reads [OF assms]
  show ?thesis
    using Some assms reads(1,2,4)
    by (cases "membership_of uid (tc_tenant_id ctx) d'"; cases "get_user uid d'")
      (simp_all add: member_remove_def remove_member_def Let_def record_audit_event_eq view_simps)
qed (simp add: member_remove_def assms)

lemma invite_route:
  assumes "keys_ok d" "iid \<notin> inv_id ` set (invitations d)"
  shows "keys_ok (snd (invitation_create P cfg mail eid now iid token email role a ctx d))"
    and "t \<noteq> tc_tenant_id ctx \<Longrightarrow>
      view_of t (snd (invitation_create P cfg mail eid now iid token email role a ctx d)) = view_of t d"
proof -
  let ?r = "create_invitation P cfg now iid token (tc_tenant_id ctx) email role (tc_role ctx) (Some (u_id (ca_user a))) d"
  have "(snd (invitation_create P cfg mail eid now iid token email role a ctx d) = d) \<or>
    (\<exists>i e. inv_id i = iid \<and> inv_tenant_id i = tc_tenant_id ctx \<and> ae_tenant_id e = tc_tenant_id ctx
      \<and> snd (invitation_create P cfg mail eid now iid token email role a ctx d) =
          audit_events_update (insert_row e) (invitations_update (insert_row i) d))"
  proof (cases ?r)
    case (Inr x)
    obtain i tok d1 where x: "x = ((i, tok), d1)" by (metis prod.exhaust)
    with Inr have "inv_id i = iid \<and> inv_tenant_id i = tc_tenant_id ctx \<and> d1 = invitations_update (insert_row i) d"
      by (auto simp: create_invitation_def Let_def split: sum.splits option.splits if_splits)
    moreover obtain ev where "record_audit_event (Some ctx) eid now
        (audit_by a ''core.member.invited'' ''invitation'' (str_uuid (inv_id i))
           [(''email'', JStr (inv_email i)), (''role'', JStr (inv_role i))]) d1 =
        Inr (ev, audit_events_update (insert_row ev) d1)" "ae_tenant_id ev = tc_tenant_id ctx"
      by (rule record_audit_event_ok)
    ultimately show ?thesis
      using Inr x by (simp add: invitation_create_def split: sum.split) blast
  qed (simp add: invitation_create_def)
  then show "keys_ok (snd (invitation_create P cfg mail eid now iid token email role a ctx d))"
    and "t \<noteq> tc_tenant_id ctx \<Longrightarrow>
      view_of t (snd (invitation_create P cfg mail eid now iid token email role a ctx d)) = view_of t d"
    using assms by (auto simp: keys_ok_writes view_simps)
qed

lemma create_invitation_agree:
  assumes "view_of t d = view_of t d'"
  shows "agree t (create_invitation P cfg now iid token t email role actor by d)
    (create_invitation P cfg now iid token t email role actor by d')"
proof (cases "validate_role role")
  case (Inr _)
  note reads = same_view_reads [OF assms]
  show ?thesis
    using Inr assms reads(1,5,6)
    by (cases "get_user_by_email email d'") (auto simp: create_invitation_def Let_def view_simps)
qed (simp add: create_invitation_def)

lemma invite_determined:
  assumes "view_of (tc_tenant_id ctx) d = view_of (tc_tenant_id ctx) d'"
  shows "fst (invitation_create P cfg mail eid now iid token email role a ctx d) =
      fst (invitation_create P cfg mail eid now iid token email role a ctx d')
    \<and> view_of (tc_tenant_id ctx) (snd (invitation_create P cfg mail eid now iid token email role a ctx d)) =
      view_of (tc_tenant_id ctx) (snd (invitation_create P cfg mail eid now iid token email role a ctx d'))"
  using create_invitation_agree [OF assms]
proof (cases rule: agree_cases
    [of "tc_tenant_id ctx"
        "create_invitation P cfg now iid token (tc_tenant_id ctx) email role (tc_role ctx) (Some (u_id (ca_user a))) d"
        "create_invitation P cfg now iid token (tc_tenant_id ctx) email role (tc_role ctx) (Some (u_id (ca_user a))) d'"])
  case (err e)
  then show ?thesis using assms by (simp add: invitation_create_def)
next
  case (ok x d1 d1')
  obtain i tok where x: "x = (i, tok)" by fastforce
  show ?thesis
    using ok unfolding x
    by (simp add: invitation_create_def record_audit_event_eq Let_def view_simps split: sum.split)
qed

lemma revoke_route:
  assumes "keys_ok d"
  shows "keys_ok (snd (invitation_revoke eid now iid a ctx d))"
    and "t \<noteq> tc_tenant_id ctx \<Longrightarrow> view_of t (snd (invitation_revoke eid now iid a ctx d)) = view_of t d"
  using assms
  by (auto simp: invitation_revoke_def revoke_invitation_def Let_def record_audit_event_eq keys_ok_writes
      view_simps invitation_elsewhere split: option.split sum.split dest!: find_eq_Some_D)

text \<open>A foreign or missing invitation is reported alike.\<close>

lemma revoke_invitation_view:
  assumes "keys_ok d"
  shows "revoke_invitation t iid d =
    (case List.find (\<lambda>i. inv_id i = iid) (tv_invitations (view_of t d)) of
       None \<Rightarrow> Inl (DirectoryError ''Invitation introuvable.'')
     | Some i \<Rightarrow>
         if inv_accepted_at i \<noteq> None
         then Inl (DirectoryError ''Invitation deja acceptee - retirez plutot le membre.'')
         else Inr (i, invitations_update (delete_where (\<lambda>x. inv_id x = inv_id i)) d))"
proof (cases "List.find (\<lambda>i. inv_id i = iid) (invitations d)")
  case None
  then have "List.find (\<lambda>i. inv_id i = iid) (tv_invitations (view_of t d)) = None"
    by (simp add: view_of_def find_eq_None_iff)
  with None show ?thesis by (simp add: revoke_invitation_def)
next
  case (Some i)
  note i = find_eq_Some_D [OF Some]
  show ?thesis
  proof (cases "inv_tenant_id i = t")
    case True
    have "List.find (\<lambda>i. inv_id i = iid) (tv_invitations (view_of t d)) = Some i"
      unfolding view_of_def tenant_view.simps find_filter using assms i True
      by (intro find_unique [where k = inv_id]) (auto simp: keys_ok_def)
    with Some True show ?thesis by (simp add: revoke_invitation_def)
  next
    case False
    have "inv_id j \<noteq> iid" if "j \<in> set (invitations d)" "inv_tenant_id j = t" for j
      using assms i False that by (auto simp: keys_ok_def distinct_map inj_on_def)
    then have "List.find (\<lambda>i. inv_id i = iid) (tv_invitations (view_of t d)) = None"
      by (auto simp: view_of_def find_eq_None_iff)
    with Some False show ?thesis by (simp add: revoke_invitation_def)
  qed
qed

lemma revoke_determined:
  assumes "keys_ok d" "keys_ok d'" "view_of (tc_tenant_id ctx) d = view_of (tc_tenant_id ctx) d'"
  shows "fst (invitation_revoke eid now iid a ctx d) = fst (invitation_revoke eid now iid a ctx d')
    \<and> view_of (tc_tenant_id ctx) (snd (invitation_revoke eid now iid a ctx d)) =
      view_of (tc_tenant_id ctx) (snd (invitation_revoke eid now iid a ctx d'))"
  using assms(3)
  by (cases "List.find (\<lambda>i. inv_id i = iid) (tv_invitations (view_of (tc_tenant_id ctx) d'))")
    (simp_all add: invitation_revoke_def revoke_invitation_view [OF assms(1)] revoke_invitation_view [OF assms(2)]
      record_audit_event_eq Let_def view_simps)

lemma team_create_route:
  assumes "keys_ok d" "tid \<notin> tm_id ` set (teams d)"
  shows "keys_ok (snd (team_create eid now tid name descr a ctx d))"
    and "t \<noteq> tc_tenant_id ctx \<Longrightarrow> view_of t (snd (team_create eid now tid name descr a ctx d)) = view_of t d"
  using assms
  by (auto simp: team_create_def select_teams_view flush_insert_eq Let_def record_audit_event_eq keys_ok_writes
      view_simps)

lemma team_create_determined:
  assumes "view_of (tc_tenant_id ctx) d = view_of (tc_tenant_id ctx) d'"
  shows "fst (team_create eid now tid name descr a ctx d) = fst (team_create eid now tid name descr a ctx d')
    \<and> view_of (tc_tenant_id ctx) (snd (team_create eid now tid name descr a ctx d)) =
      view_of (tc_tenant_id ctx) (snd (team_create eid now tid name descr a ctx d'))"
  using assms
  by (simp add: team_create_def select_teams_view flush_insert_eq Let_def record_audit_event_eq view_simps)

lemma find_team_view:
  "List.find p (tv_teams (view_of t d)) = Some x \<Longrightarrow> x \<in> set (teams d) \<and> tm_tenant_id x = t \<and> p x"
  using find_eq_Some_D in_view(1) by metis

lemma find_team_member_view:
  "List.find p (tv_team_members (view_of t d)) = Some x \<Longrightarrow>
   x \<in> set (team_members d) \<and> tmm_tenant_id x = t \<and> p x"
  using find_eq_Some_D in_view(2) by metis

lemma team_delete_route:
  assumes "keys_ok d"
  shows "keys_ok (snd (team_delete eid now tid a ctx d))"
    and "t \<noteq> tc_tenant_id ctx \<Longrightarrow> view_of t (snd (team_delete eid now tid a ctx d)) = view_of t d"
  using assms
  by (auto simp: team_delete_def select_teams_view flush_touch_eq Let_def record_audit_event_eq keys_ok_writes
      view_simps team_elsewhere split: option.split dest!: find_team_view)

lemma team_delete_determined:
  assumes "view_of (tc_tenant_id ctx) d = view_of (tc_tenant_id ctx) d'"
  shows "fst (team_delete eid now tid a ctx d) = fst (team_delete eid now tid a ctx d')
    \<and> view_of (tc_tenant_id ctx) (snd (team_delete eid now tid a ctx d)) =
      view_of (tc_tenant_id ctx) (snd (team_delete eid now tid a ctx d'))"
  using assms
  by (cases "List.find (\<lambda>t. tm_id t = tid) (tv_teams (view_of (tc_tenant_id ctx) d'))")
    (simp_all add: team_delete_def select_teams_view flush_touch_eq Let_def record_audit_event_eq view_simps)

lemma team_member_add_route:
  assumes "keys_ok d" "tmid \<notin> tmm_id ` set (team_members d)"
  shows "keys_ok (snd (team_member_add eid now tmid tid uid a ctx d))"
    and "t \<noteq> tc_tenant_id ctx \<Longrightarrow> view_of t (snd (team_member_add eid now tmid tid uid a ctx d)) = view_of t d"
  using assms
  by (auto simp: team_member_add_def select_teams_view select_team_members_view flush_insert_eq Let_def
      record_audit_event_eq view_simps split: option.split dest!: find_team_view
      intro!: keys_ok_writes(1) keys_ok_writes(7))

lemma team_member_add_determined:
  assumes "view_of (tc_tenant_id ctx) d = view_of (tc_tenant_id ctx) d'"
  shows "fst (team_member_add eid now tmid tid uid a ctx d) = fst (team_member_add eid now tmid tid uid a ctx d')
    \<and> view_of (tc_tenant_id ctx) (snd (team_member_add eid now tmid tid uid a ctx d)) =
      view_of (tc_tenant_id ctx) (snd (team_member_add eid now tmid tid uid a ctx d'))"
  using assms same_view_reads(1) [OF assms, of uid]
  by (cases "List.find (\<lambda>t. tm_id t = tid) (tv_teams (view_of (tc_tenant_id ctx) d'))")
    (simp_all add: team_member_add_def select_teams_view select_team_members_view flush_insert_eq Let_def
      record_audit_event_eq view_simps)

lemma team_member_remove_route:
  assumes "keys_ok d"
  shows "keys_ok (snd (team_member_remove eid now tid uid a ctx d))"
    and "t \<noteq> tc_tenant_id ctx \<Longrightarrow> view_of t (snd (team_member_remove eid now tid uid a ctx d)) = view_of t d"
  using assms
  by (auto simp: team_member_remove_def select_teams_view select_team_members_view flush_touch_eq Let_def
      record_audit_event_eq keys_ok_writes view_simps team_member_elsewhere split: option.split
      dest!: find_team_member_view)

lemma team_member_remove_determined:
  assumes "view_of (tc_tenant_id ctx) d = view_of (tc_tenant_id ctx) d'"
  shows "fst (team_member_remove eid now tid uid a ctx d) = fst (team_member_remove eid now tid uid a ctx d')
    \<and> view_of (tc_tenant_id ctx) (snd (team_member_remove eid now tid uid a ctx d)) =
      view_of (tc_tenant_id ctx) (snd (team_member_remove eid now tid uid a ctx d'))"
  using assms
  by (cases "List.find (\<lambda>x. tmm_team_id x = tid \<and> tmm_user_id x = uid)
        (tv_team_members (view_of (tc_tenant_id ctx) d'))")
    (simp_all add: team_member_remove_def select_teams_view select_team_members_view flush_touch_eq Let_def
      record_audit_event_eq view_simps)

lemmas routes_confined = change_role_route remove_route invite_route revoke_route team_create_route
  team_delete_route team_member_add_route team_member_remove_route

lemmas routes_determined = change_role_determined remove_determined invite_determined revoke_determined
  team_create_determined team_delete_determined team_member_add_determined team_member_remove_determined

lemmas read_only_routes = members_list_def invitations_list_def teams_list_def team_members_list_view

lemma tenant_step_inv: "keys_ok d \<Longrightarrow> op_fresh op d \<Longrightarrow> keys_ok (snd (tenant_step P cfg mail op d))"
  by (cases "op_call op")
    (auto simp: tenant_step_def op_fresh_def routes_confined read_only_routes select_teams_view Let_def)

lemma tenant_step_confined:
  "keys_ok d \<Longrightarrow> op_fresh op d \<Longrightarrow> t \<noteq> op_tenant op \<Longrightarrow> view_of t (snd (tenant_step P cfg mail op d)) = view_of t d"
  by (cases "op_call op")
    (auto simp: tenant_step_def op_fresh_def op_tenant_def routes_confined read_only_routes select_teams_view Let_def)

lemma tenant_step_determined:
  assumes "keys_ok d" "keys_ok d'" "view_of (op_tenant op) d = view_of (op_tenant op) d'"
  shows "fst (tenant_step P cfg mail op d) = fst (tenant_step P cfg mail op d')
    \<and> view_of (op_tenant op) (snd (tenant_step P cfg mail op d)) =
      view_of (op_tenant op) (snd (tenant_step P cfg mail op d'))"
proof -
  let ?ctx = "op_ctx op"
  have v: "view_of (tc_tenant_id ?ctx) d = view_of (tc_tenant_id ?ctx) d'" using assms(3) by (simp add: op_tenant_def)
  note det = routes_determined(1-3,5-8) [OF v] revoke_determined [OF assms(1,2) v]
  show ?thesis
    using v same_view_reads(3,7) [OF v]
    by (cases "op_call op")
      (simp_all add: tenant_step_def op_tenant_def det members_list_def invitations_list_def teams_list_def
        team_members_list_view Let_def select_teams_view audit_events_list_view [of ?ctx _ _ _ d]
        audit_events_list_view [of ?ctx _ _ _ d'])
qed

interpretation routes: tenant_isolation op_tenant "tenant_step P cfg mail" view_of keys_ok op_fresh
  for P cfg mail
  by unfold_locales (use tenant_step_inv tenant_step_confined tenant_step_determined in blast)+

section \<open>Every change is audited\<close>

definition audited_change :: "current_auth \<Rightarrow> tenant_context \<Rightarrow> db \<Rightarrow> db \<Rightarrow> bool" where
  \<comment> \<open>nothing changed, or one event of this actor and tenant was appended with the change\<close>
  "audited_change a ctx d d' \<longleftrightarrow>
     d' = d \<or>
     (\<exists>ev. audit_events d' = audit_events d @ [ev] \<and> ae_tenant_id ev = tc_tenant_id ctx
        \<and> ae_actor_user_id ev = Some (u_id (ca_user a)) \<and> ae_actor_label ev = actor_label (ca_user a))"

lemma audited_by [simp]:
  "aa_actor_user_id (audit_by a act rt rid pl) = Some (u_id (ca_user a))"
  "aa_actor_label (audit_by a act rt rid pl) = actor_label (ca_user a)"
  by (simp_all add: audit_by_def)

lemma change_member_role_log: "change_member_role t u r actor d = Inr (m, d') \<Longrightarrow> audit_events d' = audit_events d"
  by (auto simp: change_member_role_def split: sum.splits option.splits if_splits)

lemma remove_member_log: "remove_member t u actor d = Inr d' \<Longrightarrow> audit_events d' = audit_events d"
  by (auto simp: remove_member_def split: option.splits if_splits)

lemma create_invitation_log:
  "create_invitation P cfg now iid token t email role actor by d = Inr (x, d') \<Longrightarrow> audit_events d' = audit_events d"
  by (auto simp: create_invitation_def Let_def split: sum.splits option.splits if_splits)

lemma revoke_invitation_log: "revoke_invitation t iid d = Inr (x, d') \<Longrightarrow> audit_events d' = audit_events d"
  by (auto simp: revoke_invitation_def split: option.splits if_splits)

lemma directory_routes_audited:
  "audited_change a ctx d (snd (member_change_role eid now uid role a ctx d))"
  "audited_change a ctx d (snd (member_remove eid now uid a ctx d))"
  "audited_change a ctx d (snd (invitation_create P cfg mail eid now iid token email role a ctx d))"
  "audited_change a ctx d (snd (invitation_revoke eid now iid a ctx d))"
  by (auto simp: audited_change_def member_change_role_def member_remove_def invitation_create_def
      invitation_revoke_def record_audit_event_eq Let_def insert_row_def
      split: option.split sum.split
      dest: change_member_role_log remove_member_log create_invitation_log revoke_invitation_log)

lemma team_routes_audited:
  "audited_change a ctx d (snd (team_create eid now tid name descr a ctx d))"
  "audited_change a ctx d (snd (team_delete eid now tid a ctx d))"
  "audited_change a ctx d (snd (team_member_add eid now tmid tid uid a ctx d))"
  "audited_change a ctx d (snd (team_member_remove eid now tid uid a ctx d))"
  by (auto simp: audited_change_def team_create_def team_delete_def team_member_add_def team_member_remove_def
      select_teams_view select_team_members_view flush_insert_eq flush_touch_eq record_audit_event_eq Let_def
      insert_row_def split: option.split)

section \<open>Sequences of requests\<close>

fun run_requests ::
  "primitives \<Rightarrow> settings \<Rightarrow> mailer \<Rightarrow> tenant_op list \<Rightarrow> db \<Rightarrow> (uuid \<times> tenant_output) list \<times> db" where
  "run_requests P cfg mail [] d = ([], d)"
| "run_requests P cfg mail (op # ops) d =
     (let (out, d1) = tenant_step P cfg mail op d; (outs, d2) = run_requests P cfg mail ops d1
      in ((op_tenant op, out) # outs, d2))"

fun fresh_requests :: "primitives \<Rightarrow> settings \<Rightarrow> mailer \<Rightarrow> tenant_op list \<Rightarrow> db \<Rightarrow> bool" where
  "fresh_requests P cfg mail [] d = True"
| "fresh_requests P cfg mail (op # ops) d =
     (op_fresh op d \<and> fresh_requests P cfg mail ops (snd (tenant_step P cfg mail op d)))"

lemma run_requests_eq: "run_requests P cfg mail ops d = routes.run P cfg mail ops d"
  by (induction ops arbitrary: d) (simp_all add: Let_def split: prod.split)

lemma fresh_requests_eq: "fresh_requests P cfg mail ops d = routes.fresh_run P cfg mail ops d"
  by (induction ops arbitrary: d) simp_all

section \<open>Properties\<close>

text \<open>
  C1 (safety). Tenants do not interfere. Take any interleaving of directory, team and audit
  requests of any number of tenants. The answers one tenant gets, and the state of everything
  it can see at the end, are exactly those of the run in which only its own requests happen;
  in particular no request reads or changes a row of another tenant. (Identifiers drawn for
  new rows are fresh, and the key constraints hold at the start.)
\<close>

theorem tenants_do_not_interfere:
  assumes "keys_ok d" "fresh_requests P cfg mail ops d"
    and "fresh_requests P cfg mail (filter (\<lambda>op. op_tenant op = t) ops) d"
  shows "filter (\<lambda>(u, out). u = t) (fst (run_requests P cfg mail ops d)) =
      fst (run_requests P cfg mail (filter (\<lambda>op. op_tenant op = t) ops) d)
    \<and> view_of t (snd (run_requests P cfg mail ops d)) =
      view_of t (snd (run_requests P cfg mail (filter (\<lambda>op. op_tenant op = t) ops) d))"
  using routes.run_unwinding [OF assms(1) assms(1) refl] assms(2,3)
  unfolding run_requests_eq fresh_requests_eq by blast

definition sample_op :: "uuid \<Rightarrow> tenant_call \<Rightarrow> tenant_op" where
  "sample_op t call =
     \<lparr>op_auth = \<lparr>ca_user = sample_user, ca_session = sample_session\<rparr>,
      op_ctx = \<lparr>tc_tenant_id = t, tc_slug = ''acme'', tc_role = Some ''owner''\<rparr>, op_call = call\<rparr>"

definition sample_ops :: "tenant_op list" where
  "sample_ops =
     [sample_op 7 (TeamCreate 91 1 71 ''sales'' None), sample_op 8 (TeamCreate 92 2 72 ''ops'' None),
      sample_op 8 (TeamDelete 93 3 71), sample_op 7 TeamsList]"

lemma sample_ops_fresh:
  "fresh_requests sample_primitives default_settings (\<lambda>_ _ _. Inr ()) sample_ops sample_directory"
  "fresh_requests sample_primitives default_settings (\<lambda>_ _ _. Inr ())
     (filter (\<lambda>op. op_tenant op = 7) sample_ops) sample_directory"
  by (simp_all add: sample_ops_def sample_op_def op_tenant_def op_fresh_def sample_directory_def empty_db_def
      tenant_step_def team_create_def select_teams_eq flush_insert_eq record_audit_event_eq Let_def insert_row_def
      team_delete_def)

theorem tenants_do_not_interfere_witness:
  "filter (\<lambda>(u, out). u = 7) (fst (run_requests sample_primitives default_settings (\<lambda>_ _ _. Inr ()) sample_ops sample_directory)) =
   fst (run_requests sample_primitives default_settings (\<lambda>_ _ _. Inr ())
     [sample_op 7 (TeamCreate 91 1 71 ''sales'' None), sample_op 7 TeamsList] sample_directory)"
proof -
  have own: "filter (\<lambda>op. op_tenant op = 7) sample_ops =
      [sample_op 7 (TeamCreate 91 1 71 ''sales'' None), sample_op 7 TeamsList]"
    by (simp add: sample_ops_def sample_op_def op_tenant_def)
  have "keys_ok sample_directory" by (simp add: keys_ok_def sample_directory_def empty_db_def)
  from tenants_do_not_interfere [OF this sample_ops_fresh] show ?thesis unfolding own by blast
qed


end
