(* ===== verification/Automation.thy ===== *)
theory Automation
  imports ModuleRegistry
begin

text \<open>
  Modules at run time: the activation per tenant with its short-lived cache
  (\<^verbatim>\<open>automation/service.py\<close>), the guard of the mounted routes, the periodic tasks with their fan-out
  over the tenants (\<^verbatim>\<open>automation/scheduler.py\<close>) and the routes of the sample module. What a module's
  task function does is a parameter; it runs on the connector world.
\<close>

section \<open>State\<close>

record tenant_module =
  tmod_id :: uuid
  tmod_tenant_id :: uuid
  tmod_module_name :: string
  tmod_enabled :: bool

record sample_digest_digest =
  sd_id :: uuid
  sd_tenant_id :: uuid
  sd_generated_at :: instant
  sd_message_count :: int
  sd_summary :: string

type_synonym state_cache = "uuid \<times> string \<rightharpoonup> bool \<times> instant"

text \<open>\<open>module_rows\<close> is shared by all processes, \<open>cache\<close> belongs to the one that runs.\<close>

record module_world =
  mw_conn :: conn_world
  module_rows :: "tenant_module list"
  cache :: state_cache
  digests :: "sample_digest_digest list"

section \<open>Activation\<close>

definition MODULE_STATE_TTL :: int where "MODULE_STATE_TTL = 10"

definition unknown_module :: "string \<Rightarrow> exn" where
  "unknown_module name = ModuleError (''Module inconnu du registre : '' @ repr_str name @ ''.'')"

definition tenant_granted_capabilities :: "tenant \<Rightarrow> conn_world \<Rightarrow> string list result" where
  "tenant_granted_capabilities t w =
     (case scoped_connections (Some (context_for t)) w of Inl e \<Rightarrow> Inl e
      | Inr rows \<Rightarrow>
          Inr (concat (map granted_capabilities (filter (\<lambda>c. cn_status c = CONN_ACTIVE) rows))))"

definition missing_capabilities ::
  "module_manifest list \<Rightarrow> tenant \<Rightarrow> string \<Rightarrow> conn_world \<Rightarrow> string list result" where
  "missing_capabilities modules t name w =
     (case get_module modules name of None \<Rightarrow> Inl (unknown_module name)
      | Some m \<Rightarrow>
          (let required = remdups (map capability_name (mm_required_capabilities m))
           in if required = [] then Inr []
              else case tenant_granted_capabilities t w of Inl e \<Rightarrow> Inl e
                   | Inr granted \<Rightarrow> Inr (sort (filter (\<lambda>c. c \<notin> set granted) required))))"

definition invalidate :: "uuid \<Rightarrow> string \<Rightarrow> module_world \<Rightarrow> module_world" where
  "invalidate t name mw = cache_update (\<lambda>c. c((t, name) := None)) mw"

definition reset_state_cache :: "module_world \<Rightarrow> module_world" where
  "reset_state_cache mw = mw\<lparr>cache := Map.empty\<rparr>"

definition find_module_row :: "uuid \<Rightarrow> string \<Rightarrow> tenant_module list \<Rightarrow> tenant_module option" where
  "find_module_row t name rows =
     List.find (\<lambda>r. tmod_tenant_id r = t \<and> tmod_module_name r = name) rows"

definition module_audit :: "string \<Rightarrow> string \<Rightarrow> (string \<times> json) list \<Rightarrow> uuid option \<Rightarrow> string option \<Rightarrow> audit_args" where
  "module_audit action name payload actor label =
     \<lparr>aa_action = action, aa_resource_type = ''module'', aa_resource_id = name, aa_payload = payload,
      aa_actor_user_id = actor,
      aa_actor_label = (case label of Some l \<Rightarrow> if l = [] then SYSTEM_ACTOR_LABEL else l | None \<Rightarrow> SYSTEM_ACTOR_LABEL)\<rparr>"

definition audit_for_tenant :: "net_env \<Rightarrow> tenant \<Rightarrow> audit_args \<Rightarrow> conn_world \<Rightarrow> unit result \<times> conn_world" where
  \<comment> \<open>\<^verbatim>\<open>record_audit_event_for_tenant\<close>: a session of its own, committed alone\<close>
  "audit_for_tenant env t a w =
     (let (n, w1) = draw w
      in case record_audit_event_for_tenant t (ne_uuid env n) (clock w1) a None (cdb w1) of
           (Inl e, _, d) \<Rightarrow> (Inl e, w1)
         | (Inr _, _, d) \<Rightarrow> (Inr (), w1\<lparr>cdb := d\<rparr>))"

definition enable_module ::
  "net_env \<Rightarrow> module_manifest list \<Rightarrow> tenant \<Rightarrow> string \<Rightarrow> uuid option \<Rightarrow> string option \<Rightarrow> module_world \<Rightarrow>
   tenant_module result \<times> module_world" where
  "enable_module env modules t name actor label mw =
     (case get_module modules name of None \<Rightarrow> (Inl (unknown_module name), mw)
      | Some m \<Rightarrow>
          (case missing_capabilities modules t name (mw_conn mw) of
             Inl e \<Rightarrow> (Inl e, mw)
           | Inr missing \<Rightarrow>
               if missing \<noteq> []
               then (Inl (ModuleError (''Impossible d activer '' @ repr_str name @ '' pour '' @ repr_str (t_slug t)
                       @ '' : capabilities manquantes ('' @ join_with '', '' missing
                       @ ''). Connectez un compte les fournissant.'')), mw)
               else
                 (case audit_for_tenant env t (module_audit ''core.module.enabled'' name
                         [(''module'', JStr name), (''version'', JStr (mm_version m))] actor label)
                         (mw_conn mw) of
                    (Inl e, w1) \<Rightarrow> (Inl e, mw\<lparr>mw_conn := w1\<rparr>)
                  | (Inr _, w1) \<Rightarrow>
                      (case find_module_row (t_id t) name (module_rows mw) of
                         None \<Rightarrow>
                           (let (n, w2) = draw w1;
                                row = \<lparr>tmod_id = ne_uuid env n, tmod_tenant_id = t_id t, tmod_module_name = name,
                                       tmod_enabled = True\<rparr>
                            in (Inr row, invalidate (t_id t) name
                                  (mw\<lparr>mw_conn := w2, module_rows := insert_row row (module_rows mw)\<rparr>)))
                       | Some row \<Rightarrow>
                           (Inr (row\<lparr>tmod_enabled := True\<rparr>),
                            invalidate (t_id t) name
                              (mw\<lparr>mw_conn := w1,
                                  module_rows := update_where (\<lambda>r. tmod_id r = tmod_id row)
                                    (tmod_enabled_update (\<lambda>_. True)) (module_rows mw)\<rparr>))))))"

definition disable_module ::
  "net_env \<Rightarrow> module_manifest list \<Rightarrow> tenant \<Rightarrow> string \<Rightarrow> uuid option \<Rightarrow> string option \<Rightarrow> module_world \<Rightarrow>
   tenant_module option result \<times> module_world" where
  "disable_module env modules t name actor label mw =
     (case get_module modules name of None \<Rightarrow> (Inl (unknown_module name), mw)
      | Some _ \<Rightarrow>
          (case find_module_row (t_id t) name (module_rows mw) of
             None \<Rightarrow> (Inr None, mw)
           | Some row \<Rightarrow>
               if \<not> tmod_enabled row then (Inr (Some row), mw)
               else
                 (case audit_for_tenant env t (module_audit ''core.module.disabled'' name
                         [(''module'', JStr name)] actor label) (mw_conn mw) of
                    (Inl e, w1) \<Rightarrow> (Inl e, mw\<lparr>mw_conn := w1\<rparr>)
                  | (Inr _, w1) \<Rightarrow>
                      (Inr (Some (row\<lparr>tmod_enabled := False\<rparr>)),
                       invalidate (t_id t) name
                         (mw\<lparr>mw_conn := w1,
                             module_rows := update_where (\<lambda>r. tmod_id r = tmod_id row)
                               (tmod_enabled_update (\<lambda>_. False)) (module_rows mw)\<rparr>)))))"

definition row_enabled :: "uuid \<Rightarrow> string \<Rightarrow> tenant_module list \<Rightarrow> bool" where
  "row_enabled t name rows =
     (case find_module_row t name rows of None \<Rightarrow> False | Some row \<Rightarrow> tmod_enabled row)"

definition is_module_enabled :: "uuid \<Rightarrow> string \<Rightarrow> module_world \<Rightarrow> bool \<times> module_world" where
  \<comment> \<open>\<^verbatim>\<open>time.monotonic()\<close> is the clock of the world\<close>
  "is_module_enabled t name mw =
     (let now = clock (mw_conn mw);
          enabled = row_enabled t name (module_rows mw);
          stored = (enabled, cache_update (\<lambda>c. c((t, name) \<mapsto> (enabled, now + seconds MODULE_STATE_TTL))) mw)
      in case cache mw (t, name) of
           Some (b, until) \<Rightarrow> if now < until then (b, mw) else stored
         | None \<Rightarrow> stored)"

definition enabled_tenant_ids :: "string \<Rightarrow> 'z module_world_scheme \<Rightarrow> uuid list" where
  "enabled_tenant_ids name mw =
     map tmod_tenant_id (filter (\<lambda>r. tmod_module_name r = name \<and> tmod_enabled r) (module_rows mw))"

definition require_module_enabled ::
  "string \<Rightarrow> tenant_context \<Rightarrow> module_world \<Rightarrow> tenant_context result \<times> module_world" where
  "require_module_enabled name ctx mw =
     (case is_module_enabled (tc_tenant_id ctx) name mw of
        (True, mw1) \<Rightarrow> (Inr ctx, mw1)
      | (False, mw1) \<Rightarrow> (Inl (HTTPException 403 (''Module '' @ name @ '' non active pour ce tenant.'')), mw1))"

section \<open>Mounted routes\<close>

definition module_route ::
  "primitives \<Rightarrow> permission_registry \<Rightarrow> string \<Rightarrow> string \<Rightarrow> request \<Rightarrow>
   (tenant_context \<Rightarrow> module_world \<Rightarrow> 'a result \<times> module_world) \<Rightarrow> module_world \<Rightarrow> 'a result \<times> module_world" where
  \<comment> \<open>the dependencies of the mount come before those of the route\<close>
  "module_route P st name permission rq handler mw =
     (let w = mw_conn mw;
          (auth, d1) = current_auth_or_none P (clock w) (rq_cookie rq) (cdb w);
          mw1 = mw\<lparr>mw_conn := w\<lparr>cdb := d1\<rparr>\<rparr>
      in case resolve_tenant (rq_host rq) auth d1 of Inl e \<Rightarrow> (Inl e, mw1)
         | Inr ctx \<Rightarrow>
             (case require_module_enabled name ctx mw1 of (Inl e, mw2) \<Rightarrow> (Inl e, mw2)
              | (Inr _, mw2) \<Rightarrow>
                  (case permission_dependency st permission ctx of Inl e \<Rightarrow> (Inl e, mw2)
                   | Inr ctx' \<Rightarrow> handler ctx' mw2)))"

record digest_out =
  do_id :: uuid
  do_generated_at :: instant
  do_message_count :: int
  do_summary :: string

definition list_digests ::
  "primitives \<Rightarrow> permission_registry \<Rightarrow> request \<Rightarrow> module_world \<Rightarrow> digest_out list result \<times> module_world" where
  "list_digests P st rq mw =
     module_route P st ''sample_digest'' PERM_READ rq
       (\<lambda>ctx mw1. case scoped_select (Some ctx) ''sample_digest_digests'' sd_tenant_id (digests mw1) of
          Inl e \<Rightarrow> (Inl e, mw1)
        | Inr rows \<Rightarrow>
            (Inr (map (\<lambda>d. \<lparr>do_id = sd_id d, do_generated_at = sd_generated_at d,
                           do_message_count = sd_message_count d, do_summary = sd_summary d\<rparr>)
                   (sort_key (\<lambda>d. - sd_generated_at d) rows)), mw1)) mw"

definition enqueue_unit :: "string \<Rightarrow> string \<Rightarrow> uuid \<Rightarrow> 'z module_world_scheme \<Rightarrow> 'z module_world_scheme" where
  "enqueue_unit name task t mw =
     mw_conn_update (task_queue_update (\<lambda>q. q @ [PeriodicUnit name task t])) mw"

definition run_now ::
  "primitives \<Rightarrow> permission_registry \<Rightarrow> request \<Rightarrow> module_world \<Rightarrow> unit result \<times> module_world" where
  "run_now P st rq mw =
     module_route P st ''sample_digest'' PERM_MANAGE rq
       (\<lambda>ctx mw1. (Inr (), enqueue_unit ''sample_digest'' TASK_NAME (tc_tenant_id ctx) mw1)) mw"

section \<open>Periodic tasks\<close>

definition find_task :: "module_manifest list \<Rightarrow> string \<Rightarrow> string \<Rightarrow> periodic_task option" where
  "find_task modules name task =
     (case get_module modules name of None \<Rightarrow> None
      | Some m \<Rightarrow> List.find (\<lambda>t. pt_name t = task) (mm_periodic_tasks m))"

definition active_tenant_row :: "uuid \<Rightarrow> conn_world \<Rightarrow> tenant option" where
  "active_tenant_row t w =
     (case List.find (\<lambda>r. t_id r = t) (tenants (cdb w)) of
        None \<Rightarrow> None | Some r \<Rightarrow> if active_tenant r then Some r else None)"

definition unit_lock_name :: "string \<Rightarrow> string \<Rightarrow> uuid \<Rightarrow> string" where
  "unit_lock_name name task t = ''module:'' @ name @ '':'' @ task @ '':'' @ str_uuid t"

definition run_periodic_fanout ::
  "module_manifest list \<Rightarrow> string \<Rightarrow> string \<Rightarrow> 'z module_world_scheme \<Rightarrow> nat \<times> 'z module_world_scheme" where
  "run_periodic_fanout modules name task mw =
     (if find_task modules name task = None then (0, mw)
      else (let ids = enabled_tenant_ids name mw
            in (length ids, fold (enqueue_unit name task) ids mw)))"

definition run_periodic_unit ::
  "net_env \<Rightarrow> module_manifest list \<Rightarrow>
   (string \<Rightarrow> context_var \<Rightarrow> uuid \<Rightarrow> 'z module_world_scheme \<Rightarrow> (unit result \<times> 'z module_world_scheme) option) \<Rightarrow>
   string \<Rightarrow> string \<Rightarrow> uuid \<Rightarrow> 'z module_world_scheme \<Rightarrow> (bool \<times> 'z module_world_scheme) option" where
  \<comment> \<open>\<open>fn\<close>: the task function of a task name, run under the tenant context it is given; \<open>None\<close> when it
     never returns\<close>
  "run_periodic_unit env modules fn name task t mw =
     (if find_task modules name task = None then Some (False, mw)
      else case active_tenant_row t (mw_conn mw) of
             None \<Rightarrow> Some (False, mw)
           | Some r \<Rightarrow>
               (let lock = unit_lock_name name task t
                in case acquire_lock env lock LOCK_TTL_SECONDS (mw_conn mw) of
                     (None, w1) \<Rightarrow> Some (False, mw\<lparr>mw_conn := w1\<rparr>)
                   | (Some token, w1) \<Rightarrow>
                       map_option (\<lambda>(res, mw2). (is_ok res, mw_conn_update (release_lock lock token) mw2))
                         (fn task (Some (context_for r)) (t_id r) (mw\<lparr>mw_conn := w1\<rparr>))))"

definition beat_entries :: "module_manifest list \<Rightarrow> (string \<times> nat \<times> string \<times> string) list" where
  \<comment> \<open>the dictionary: entry name, period and the arguments of \<^verbatim>\<open>automation.periodic_fanout\<close>\<close>
  "beat_entries modules =
     fold (\<lambda>(k, v). AList.update k v)
       (concat (map (\<lambda>m. map (\<lambda>t. (''module-'' @ pt_name t, pt_schedule_seconds t, mm_name m, pt_name t))
          (mm_periodic_tasks m)) modules)) []"

section \<open>Histories of one process\<close>

text \<open>
  What one process sees: its own checks, time, and the rows as other processes leave them.
\<close>

datatype module_op =
    CheckOp uuid string
  | ElapseOp int
  | RowsOp "tenant_module list"
  | EnableOp tenant string "uuid option" "string option"
  | DisableOp tenant string "uuid option" "string option"
  | ResetOp

fun module_step :: "net_env \<Rightarrow> module_manifest list \<Rightarrow> module_op \<Rightarrow> module_world \<Rightarrow> module_world" where
  "module_step env modules (CheckOp t name) mw = snd (is_module_enabled t name mw)"
| "module_step env modules (ElapseOp d) mw = mw_conn_update (sleep d) mw"
| "module_step env modules (RowsOp rows) mw = mw\<lparr>module_rows := rows\<rparr>"
| "module_step env modules (EnableOp t name actor label) mw = snd (enable_module env modules t name actor label mw)"
| "module_step env modules (DisableOp t name actor label) mw = snd (disable_module env modules t name actor label mw)"
| "module_step env modules ResetOp mw = reset_state_cache mw"

definition module_run :: "net_env \<Rightarrow> module_manifest list \<Rightarrow> module_op list \<Rightarrow> module_world \<Rightarrow> module_world" where
  "module_run env modules ops mw = fold (module_step env modules) ops mw"

text \<open>
  Checks, resets, time (which does not run backwards), and any change of the rows by any process that
  leaves module \<open>name\<close> disabled for tenant \<open>t\<close>.
\<close>

fun leaves_disabled :: "uuid \<Rightarrow> string \<Rightarrow> module_op \<Rightarrow> bool" where
  "leaves_disabled t name (RowsOp rows) = (\<not> row_enabled t name rows)"
| "leaves_disabled t name (EnableOp t' name' actor label) = False"
| "leaves_disabled t name (DisableOp t' name' actor label) = False"
| "leaves_disabled t name (ElapseOp d) = (0 \<le> d)"
| "leaves_disabled t name op = True"

definition cache_bounded :: "module_world \<Rightarrow> bool" where
  \<comment> \<open>no cache entry outlives the TTL\<close>
  "cache_bounded mw \<longleftrightarrow>
     (\<forall>k b until. cache mw k = Some (b, until) \<longrightarrow> until \<le> clock (mw_conn mw) + seconds MODULE_STATE_TTL)"

definition expiring :: "uuid \<Rightarrow> string \<Rightarrow> instant \<Rightarrow> module_world \<Rightarrow> bool" where
  \<comment> \<open>disabled in the table, and the cache forgets about it at the deadline\<close>
  "expiring t name deadline mw \<longleftrightarrow> \<not> row_enabled t name (module_rows mw) \<and>
     (\<forall>until. cache mw (t, name) = Some (True, until) \<longrightarrow> until \<le> deadline)"

section \<open>Lemmas\<close>

lemma audit_for_tenant_clock: "audit_for_tenant env t a w = (r, w') \<Longrightarrow> clock w' = clock w"
  by (auto simp: audit_for_tenant_def draw_def split: sum.splits prod.splits)

lemma module_step_bounded:
  assumes "cache_bounded mw" "\<And>d. op = ElapseOp d \<Longrightarrow> 0 \<le> d"
  shows "cache_bounded (module_step env modules op mw)"
proof (cases op)
  case (CheckOp t name)
  then show ?thesis using assms(1)
    by (auto simp: is_module_enabled_def cache_bounded_def Let_def split: option.splits)
next
  case (ElapseOp d)
  then show ?thesis using assms by (fastforce simp: cache_bounded_def sleep_def)
next
  case (EnableOp t name actor label)
  then show ?thesis using assms(1)
    by (auto simp: enable_module_def cache_bounded_def invalidate_def draw_def Let_def dest!: audit_for_tenant_clock
        split: option.splits sum.splits prod.splits if_splits)
next
  case (DisableOp t name actor label)
  then show ?thesis using assms(1)
    by (auto simp: disable_module_def cache_bounded_def invalidate_def dest!: audit_for_tenant_clock
        split: option.splits sum.splits prod.splits if_splits)
qed (use assms(1) in \<open>auto simp: cache_bounded_def reset_state_cache_def\<close>)

interpretation forget: absorbing "module_step env modules" "leaves_disabled t name" "expiring t name deadline"
  for env modules t name deadline
proof
  fix op mw
  assume "leaves_disabled t name op" "expiring t name deadline mw"
  then show "expiring t name deadline (module_step env modules op mw)"
    by (cases op) (auto simp: expiring_def is_module_enabled_def reset_state_cache_def Let_def split: option.splits)
qed

lemma expired_refused:
  assumes "expiring t name deadline mw" "deadline \<le> clock (mw_conn mw)"
  shows "\<not> fst (is_module_enabled t name mw)"
  using assms
  by (auto simp: expiring_def is_module_enabled_def Let_def split: option.splits)

lemma disable_module_rows:
  assumes "disable_module env modules tn name actor label mw = (Inr r, mw')"
    and "row_enabled (t_id tn) name (module_rows mw)"
    and "distinct (map (\<lambda>r. (tmod_tenant_id r, tmod_module_name r)) (module_rows mw))"
  shows "\<not> row_enabled (t_id tn) name (module_rows mw') \<and> cache mw' (t_id tn, name) = None"
proof -
  obtain row where row: "find_module_row (t_id tn) name (module_rows mw) = Some row" "tmod_enabled row"
    using assms(2) by (auto simp: row_enabled_def split: option.splits)
  have mem: "row \<in> set (module_rows mw)" "tmod_tenant_id row = t_id tn" "tmod_module_name row = name"
    using find_eq_Some_D [OF row(1) [unfolded find_module_row_def]] by auto
  have w': "module_rows mw' = update_where (\<lambda>r. tmod_id r = tmod_id row) (tmod_enabled_update (\<lambda>_. False)) (module_rows mw)"
    "cache mw' (t_id tn, name) = None"
    using assms(1) row by (auto simp: disable_module_def invalidate_def split: option.splits sum.splits prod.splits)
  have "\<not> tmod_enabled r" if r: "r \<in> set (module_rows mw')" "tmod_tenant_id r = t_id tn" "tmod_module_name r = name" for r
  proof -
    obtain q where q: "q \<in> set (module_rows mw)" "r = (if tmod_id q = tmod_id row then q\<lparr>tmod_enabled := False\<rparr> else q)"
      using r(1) by (auto simp: w' update_where_def)
    then have "(tmod_tenant_id q, tmod_module_name q) = (tmod_tenant_id row, tmod_module_name row)"
      using r mem by (auto split: if_splits)
    then have "q = row" using q(1) mem(1) assms(3) by (metis (mono_tags, lifting) distinct_map inj_onD)
    then show ?thesis using q by simp
  qed
  then show ?thesis
    using w'(2) by (auto simp: row_enabled_def find_module_row_def dest!: find_eq_Some_D split: option.splits)
qed

section \<open>Properties\<close>

text \<open>
  C35 (bounds). A disabled module is cut off at once in the process that disables it, and in every
  other process after at most the ten seconds of the cache: whatever checks that process makes in
  between, and whatever other rows change, from then on the check of its routes says no. (Cache
  entries never outlive that time: every operation keeps \<open>cache_bounded\<close>.)
\<close>

theorem disabled_module_refused:
  assumes "disable_module env modules tn name actor label mw = (Inr r, mw1)"
    and "row_enabled (t_id tn) name (module_rows mw)"
    and "distinct (map (\<lambda>r. (tmod_tenant_id r, tmod_module_name r)) (module_rows mw))"
    and "module_rows pw = module_rows mw1" "cache_bounded pw" "list_all (leaves_disabled (t_id tn) name) ops"
    and "clock (mw_conn pw) + seconds 10 \<le> clock (mw_conn (module_run env modules ops pw))"
  shows "\<not> fst (is_module_enabled (t_id tn) name mw1)
    \<and> \<not> fst (is_module_enabled (t_id tn) name (module_run env modules ops pw))"
proof
  note off = disable_module_rows [OF assms(1-3)]
  then show "\<not> fst (is_module_enabled (t_id tn) name mw1)" by (simp add: is_module_enabled_def Let_def)
  let ?dl = "clock (mw_conn pw) + seconds 10"
  have "expiring (t_id tn) name ?dl pw"
    using off assms(4,5) by (auto simp: expiring_def cache_bounded_def MODULE_STATE_TTL_def)
  then have "expiring (t_id tn) name ?dl (module_run env modules ops pw)"
    unfolding module_run_def by (rule forget.run_dead [OF _ assms(6)])
  then show "\<not> fst (is_module_enabled (t_id tn) name (module_run env modules ops pw))"
    by (rule expired_refused [OF _ assms(7)])
qed

definition sample_module_world :: "instant \<Rightarrow> bool \<Rightarrow> module_world" where
  "sample_module_world now enabled =
     \<lparr>mw_conn = graph_world\<lparr>clock := now\<rparr>,
      module_rows = [\<lparr>tmod_id = 31, tmod_tenant_id = 7, tmod_module_name = ''sample_digest'', tmod_enabled = enabled\<rparr>],
      cache = Map.empty, digests = []\<rparr>"

lemma sample_disabled:
  "disable_module token_env MODULES acme_tenant ''sample_digest'' None None (sample_module_world 10 True) =
     (Inr (Some \<lparr>tmod_id = 31, tmod_tenant_id = 7, tmod_module_name = ''sample_digest'', tmod_enabled = False\<rparr>),
      snd (disable_module token_env MODULES acme_tenant ''sample_digest'' None None (sample_module_world 10 True)))"
  "module_rows (snd (disable_module token_env MODULES acme_tenant ''sample_digest'' None None (sample_module_world 10 True))) =
     module_rows (sample_module_world 20 False)"
  by (auto simp: disable_module_def get_module_def MODULES_def sample_digest_manifest_def find_module_row_def
      sample_module_world_def acme_tenant_def audit_for_tenant_def record_audit_event_for_tenant_def
      tenant_context_block_def push_tenant_def pop_tenant_def record_audit_event_eq draw_def Let_def invalidate_def update_where_def
      split: sum.splits prod.splits)

theorem disabled_module_refused_witness:
  "\<not> fst (is_module_enabled 7 ''sample_digest'' (module_run token_env MODULES
      [CheckOp 7 ''sample_digest'', ElapseOp (seconds 10)] (sample_module_world 20 False)))"
proof -
  let ?pw = "sample_module_world 20 False" and ?ops = "[CheckOp 7 ''sample_digest'', ElapseOp (seconds 10)]"
  have id: "t_id acme_tenant = 7" by (simp add: acme_tenant_def)
  have e: "row_enabled (t_id acme_tenant) ''sample_digest'' (module_rows (sample_module_world 10 True))"
    by (simp add: row_enabled_def find_module_row_def sample_module_world_def id)
  have d: "distinct (map (\<lambda>r. (tmod_tenant_id r, tmod_module_name r)) (module_rows (sample_module_world 10 True)))"
    by (simp add: sample_module_world_def)
  have b: "cache_bounded ?pw" by (simp add: cache_bounded_def sample_module_world_def)
  have l: "list_all (leaves_disabled (t_id acme_tenant) ''sample_digest'') ?ops" by (simp add: seconds_def)
  have c: "clock (mw_conn ?pw) + seconds 10 \<le> clock (mw_conn (module_run token_env MODULES ?ops ?pw))"
    by (simp add: module_run_def is_module_enabled_def Let_def sleep_def sample_module_world_def seconds_def)
  show ?thesis
    using disabled_module_refused [OF sample_disabled(1) e d sample_disabled(2) [symmetric] b l c]
    unfolding id by (rule conjunct2)
qed

text \<open>
  A task already published for a tenant runs although the module has been disabled for it
  in the meantime: the unit checks the tenant and the lock, not the activation.
\<close>

theorem disabled_unit_runs:
  assumes "find_task modules name task \<noteq> None" "active_tenant_row t (mw_conn mw) = Some r"
    and "acquire_lock env (unit_lock_name name task t) LOCK_TTL_SECONDS (mw_conn mw) = (Some token, w1)"
    and "\<not> row_enabled t name (module_rows mw)"
    and "fn task (Some (context_for r)) t (mw\<lparr>mw_conn := w1\<rparr>) = Some (Inr (), mw2)"
  shows "run_periodic_unit env modules fn name task t mw =
    Some (True, mw_conn_update (release_lock (unit_lock_name name task t) token) mw2)"
proof -
  have "t_id r = t"
    using assms(2) by (auto simp: active_tenant_row_def dest!: find_eq_Some_D split: option.splits if_splits)
  then show ?thesis using assms by (simp add: run_periodic_unit_def Let_def)
qed

theorem disabled_unit_runs_witness:
  "\<exists>mw'. run_periodic_unit token_env MODULES
      (\<lambda>task cv t mw. Some (Inr (), mw\<lparr>digests := [\<lparr>sd_id = 1, sd_tenant_id = t, sd_generated_at = 0, sd_message_count = 0, sd_summary = []\<rparr>]\<rparr>))
      ''sample_digest'' TASK_NAME 7 (sample_module_world 10 False) = Some (True, mw') \<and> digests mw' \<noteq> []"
proof -
  let ?mw = "sample_module_world 10 False"
  have f: "find_task MODULES ''sample_digest'' TASK_NAME \<noteq> None"
    by (simp add: find_task_def get_module_def MODULES_def sample_digest_manifest_def)
  have a: "active_tenant_row 7 (mw_conn ?mw) = Some acme_tenant"
    by (simp add: active_tenant_row_def sample_module_world_def graph_world_def acme_tenant_def active_tenant_def)
  obtain token w1 where l: "acquire_lock token_env (unit_lock_name ''sample_digest'' TASK_NAME 7) LOCK_TTL_SECONDS (mw_conn ?mw) =
      (Some token, w1)"
    by (simp add: acquire_lock_eq sample_module_world_def graph_world_def sample_conn_world_def kv_alive_def)
  have n: "\<not> row_enabled 7 ''sample_digest'' (module_rows ?mw)"
    by (simp add: row_enabled_def find_module_row_def sample_module_world_def)
  show ?thesis
    by (subst disabled_unit_runs [OF f a l n]) (auto simp: release_lock_def)
qed

end
