(* ===== verification/GraphClient.thy ===== *)
theory GraphClient
  imports Mailbox
begin

text \<open>
  Mail and calendar of Microsoft 365 (\<^verbatim>\<open>connectors/providers/microsoft/mail.py\<close>, \<^verbatim>\<open>calendar.py\<close>, and
  \<^verbatim>\<open>graph_request\<close> of \<^verbatim>\<open>connectors/client_base.py\<close>): the mappings between Graph payloads and the
  normalised models, and the REST calls. A listing follows the links the server hands out; nothing in
  the code bounds their number, so the loop is a partial function (\<open>None\<close>: it never returns).
\<close>

section \<open>Mail\<close>

definition address_of :: "json option \<Rightarrow> string" where
  "address_of node =
     (case node of
        Some (JObj n) \<Rightarrow> (case get_or n ''emailAddress'' (JObj []) of JObj email \<Rightarrow> str_field email ''address'' | _ \<Rightarrow> [])
      | _ \<Rightarrow> [])"

definition graph_instant :: "json \<Rightarrow> instant result" where
  "graph_instant v =
     (case parse_graph_datetime (str_json v) of Some t \<Rightarrow> Inr t | None \<Rightarrow> Inl (ValueError ''isoformat''))"

definition graph_message_to_email :: "json \<Rightarrow> email_message result" where
  "graph_message_to_email item =
     and_then (obj_of item) (\<lambda>payload.
     and_then (json_item payload ''id'') (\<lambda>rid.
     and_then (iter_json (get_or payload ''toRecipients'' (JList []))) (\<lambda>nodes.
     and_then (case json_get payload ''receivedDateTime'' of
                 Some received \<Rightarrow>
                   if json_truthy (Some received) then map_sum id Some (graph_instant received) else Inr None
               | None \<Rightarrow> Inr None) (\<lambda>received_at.
     Inr \<lparr>em_provider_raw_id = str_json rid, em_subject = str_field payload ''subject'',
          em_sender = address_of (json_get payload ''from''),
          em_recipients = filter (\<lambda>a. a \<noteq> []) (map (\<lambda>n. address_of (Some n)) nodes),
          em_snippet = str_field payload ''bodyPreview'', em_received_at = received_at\<rparr>))))"

definition address_node :: "string \<Rightarrow> json" where
  "address_node a = JObj [(''emailAddress'', JObj [(''address'', JStr a)])]"

definition draft_to_graph_message :: "email_draft \<Rightarrow> json" where
  "draft_to_graph_message d =
     JObj [(''message'', JObj ([(''subject'', JStr (ed_subject d)),
                               (''body'', JObj [(''contentType'', JStr ''Text''), (''content'', JStr (ed_body_text d))]),
                               (''toRecipients'', JList (map address_node (ed_to d)))]
                              @ (if ed_cc d = [] then [] else [(''ccRecipients'', JList (map address_node (ed_cc d)))]))),
           (''saveToSentItems'', JBool True)]"

definition graph_request ::
  "primitives \<Rightarrow> settings \<Rightarrow> net_env \<Rightarrow> (conn_world \<Rightarrow> conn_world) \<Rightarrow> context_var \<Rightarrow> string \<Rightarrow> string \<Rightarrow> json option \<Rightarrow>
   (string \<times> string) list \<Rightarrow> connector_connection \<Rightarrow> conn_world \<Rightarrow>
   http_response result \<times> connector_connection \<times> conn_world" where
  "graph_request P cfg env others cv meth path body params c w =
     bearer_call P cfg env others cv c meth (api_base_url (get_provider (cn_provider c)) @ path) body params w"

definition graph_page :: "provider_manifest \<Rightarrow> http_response \<Rightarrow> (json list \<times> string option) result" where
  \<comment> \<open>the items of one page and the path of the next\<close>
  "graph_page m r =
     and_then (json_body r) (\<lambda>payload.
     and_then (iter_json (get_or payload ''value'' (JList []))) (\<lambda>items.
     Inr (items, case json_get payload ''@odata.nextLink'' of
                   Some (JStr link) \<Rightarrow> Some (removeprefix link (api_base_url m))
                 | _ \<Rightarrow> None)))"

partial_function (option) graph_pages ::
  "primitives \<Rightarrow> settings \<Rightarrow> net_env \<Rightarrow> (conn_world \<Rightarrow> conn_world) \<Rightarrow> context_var \<Rightarrow> int \<Rightarrow> string option \<Rightarrow>
   (string \<times> string) list \<Rightarrow> json list \<Rightarrow> connector_connection \<Rightarrow> conn_world \<Rightarrow>
   (json list result \<times> connector_connection \<times> conn_world) option" where
  "graph_pages prims cfg env others cv limit path params messages c w =
     (case path of None \<Rightarrow> Some (Inr messages, c, w)
      | Some p \<Rightarrow>
          if limit \<le> int (length messages) then Some (Inr messages, c, w)
          else (case graph_request prims cfg env others cv ''GET'' p None params c w of
                  (Inl e, c1, w1) \<Rightarrow> Some (Inl e, c1, w1)
                | (Inr r, c1, w1) \<Rightarrow>
                    (case graph_page (get_provider (cn_provider c)) r of
                       Inl e \<Rightarrow> Some (Inl e, c1, w1)
                     | Inr (items, nxt) \<Rightarrow>
                         graph_pages prims cfg env others cv limit nxt [] (messages @ items) c1 w1)))"

definition graph_listing_params :: "instant option \<Rightarrow> int \<Rightarrow> (string \<times> string) list" where
  "graph_listing_params since limit =
     [(''$top'', str_int (min limit 100)), (''$orderby'', ''receivedDateTime desc''),
      (''$select'', ''id,subject,from,toRecipients,bodyPreview,receivedDateTime'')]
     @ (case since of None \<Rightarrow> [] | Some t \<Rightarrow> [(''$filter'', ''receivedDateTime ge '' @ graph_stamp t)])"

definition microsoft_list_messages ::
  "primitives \<Rightarrow> settings \<Rightarrow> net_env \<Rightarrow> (conn_world \<Rightarrow> conn_world) \<Rightarrow> context_var \<Rightarrow> instant option \<Rightarrow> string \<Rightarrow> int \<Rightarrow>
   connector_connection \<Rightarrow> conn_world \<Rightarrow>
   (email_message list result \<times> connector_connection \<times> conn_world) option" where
  "microsoft_list_messages P cfg env others cv since folder limit c w =
     map_option (\<lambda>(r, c1, w1).
         (and_then r (\<lambda>messages. map_result graph_message_to_email (take (nat limit) messages)), c1, w1))
       (graph_pages P cfg env others cv limit (Some (''/me/mailFolders/'' @ folder @ ''/messages''))
          (graph_listing_params since limit) [] c w)"

definition microsoft_get_message ::
  "primitives \<Rightarrow> settings \<Rightarrow> net_env \<Rightarrow> (conn_world \<Rightarrow> conn_world) \<Rightarrow> context_var \<Rightarrow> string \<Rightarrow>
   connector_connection \<Rightarrow> conn_world \<Rightarrow> email_message result \<times> connector_connection \<times> conn_world" where
  "microsoft_get_message P cfg env others cv message_id c w =
     (case graph_request P cfg env others cv ''GET'' (''/me/messages/'' @ message_id) None [] c w of
        (r, c1, w1) \<Rightarrow> (and_then (and_then r json_body) (\<lambda>kvs. graph_message_to_email (JObj kvs)), c1, w1))"

definition microsoft_send_message ::
  "primitives \<Rightarrow> settings \<Rightarrow> net_env \<Rightarrow> (conn_world \<Rightarrow> conn_world) \<Rightarrow> context_var \<Rightarrow> email_draft \<Rightarrow>
   connector_connection \<Rightarrow> conn_world \<Rightarrow> string option result \<times> connector_connection \<times> conn_world" where
  \<comment> \<open>Graph answers 202 without a body: no identifier\<close>
  "microsoft_send_message P cfg env others cv d c w =
     (case graph_request P cfg env others cv ''POST'' ''/me/sendMail'' (Some (draft_to_graph_message d)) [] c w of
        (r, c1, w1) \<Rightarrow> (and_then r (\<lambda>_. Inr None), c1, w1))"

section \<open>Calendar\<close>

definition graph_parse_when :: "json \<Rightarrow> instant result" where
  \<comment> \<open>\<^verbatim>\<open>parse_graph_datetime\<close> always sets a zone; a time zone \<open>UTC\<close> then replaces it, keeping the wall time\<close>
  "graph_parse_when v =
     and_then (obj_of v) (\<lambda>node.
       case parse_iso (str_field node ''dateTime'') of
         None \<Rightarrow> Inl (ValueError ''isoformat'')
       | Some (t, z) \<Rightarrow>
           Inr (if py_upper (str_json (get_or node ''timeZone'' (JStr ''UTC''))) = ''UTC'' then t else t - z))"

definition graph_event_to_calendar_event :: "json \<Rightarrow> calendar_event result" where
  "graph_event_to_calendar_event item =
     and_then (obj_of item) (\<lambda>payload.
     and_then (iter_json (get_or payload ''attendees'' (JList []))) (\<lambda>nodes.
     and_then (json_item payload ''id'') (\<lambda>rid.
     and_then (and_then (json_item payload ''start'') graph_parse_when) (\<lambda>starts_at.
     and_then (and_then (json_item payload ''end'') graph_parse_when) (\<lambda>ends_at.
     Inr \<lparr>ce_provider_raw_id = str_json rid, ce_title = str_field payload ''subject'',
          ce_description = (if json_truthy (json_get payload ''bodyPreview'')
                            then Some (str_field payload ''bodyPreview'') else None),
          ce_location = (case get_or payload ''location'' (JObj []) of
             JObj loc \<Rightarrow> if json_truthy (json_get loc ''displayName'') then Some (str_field loc ''displayName'') else None
           | _ \<Rightarrow> None),
          ce_starts_at = starts_at, ce_ends_at = ends_at,
          ce_attendees = filter (\<lambda>a. a \<noteq> []) (map (\<lambda>n. address_of (Some n)) nodes)\<rparr>)))))"

definition graph_when :: "instant \<Rightarrow> json" where
  \<comment> \<open>\<^verbatim>\<open>strftime("%Y-%m-%dT%H:%M:%S")\<close> and the zone\<close>
  "graph_when t = JObj [(''dateTime'', JStr (take 19 (isoformat t))), (''timeZone'', JStr ''UTC'')]"

definition draft_to_graph_event :: "calendar_event_draft \<Rightarrow> (string \<times> json) list" where
  "draft_to_graph_event d =
     [(''subject'', JStr (cd_title d)), (''start'', graph_when (cd_starts_at d)), (''end'', graph_when (cd_ends_at d))]
     @ (case cd_description d of None \<Rightarrow> []
        | Some x \<Rightarrow> [(''body'', JObj [(''contentType'', JStr ''Text''), (''content'', JStr x)])])
     @ (case cd_location d of None \<Rightarrow> [] | Some x \<Rightarrow> [(''location'', JObj [(''displayName'', JStr x)])])
     @ (if cd_attendees d = [] then []
        else [(''attendees'', JList (map (\<lambda>a. JObj [(''emailAddress'', JObj [(''address'', JStr a)]),
                                                  (''type'', JStr ''required'')]) (cd_attendees d)))])"

definition microsoft_list_events ::
  "primitives \<Rightarrow> settings \<Rightarrow> net_env \<Rightarrow> (conn_world \<Rightarrow> conn_world) \<Rightarrow> context_var \<Rightarrow> instant \<Rightarrow> instant \<Rightarrow>
   connector_connection \<Rightarrow> conn_world \<Rightarrow> calendar_event list result \<times> connector_connection \<times> conn_world" where
  "microsoft_list_events P cfg env others cv start end_at c w =
     (case graph_request P cfg env others cv ''GET'' ''/me/calendarView'' None
             [(''startDateTime'', graph_stamp start), (''endDateTime'', graph_stamp end_at), (''$orderby'', ''start/dateTime'')] c w of
        (r, c1, w1) \<Rightarrow>
          (and_then (and_then r json_body) (\<lambda>payload.
           and_then (iter_json (get_or payload ''value'' (JList []))) (map_result graph_event_to_calendar_event)), c1, w1))"

definition microsoft_create_event ::
  "primitives \<Rightarrow> settings \<Rightarrow> net_env \<Rightarrow> (conn_world \<Rightarrow> conn_world) \<Rightarrow> context_var \<Rightarrow> calendar_event_draft \<Rightarrow>
   connector_connection \<Rightarrow> conn_world \<Rightarrow> calendar_event result \<times> connector_connection \<times> conn_world" where
  "microsoft_create_event P cfg env others cv d c w =
     (case graph_request P cfg env others cv ''POST'' ''/me/events'' (Some (JObj (draft_to_graph_event d))) [] c w of
        (r, c1, w1) \<Rightarrow> (and_then (and_then r json_body) (\<lambda>kvs. graph_event_to_calendar_event (JObj kvs)), c1, w1))"

section \<open>Lemmas\<close>

text \<open>A server that never hands out an empty page with a link to another.\<close>

definition progressing :: "net_env \<Rightarrow> bool" where
  "progressing env \<longleftrightarrow>
     (\<forall>n rq r m items nxt. ne_http env n rq = Answered r \<longrightarrow> graph_page m r = Inr (items, nxt) \<longrightarrow>
        nxt \<noteq> None \<longrightarrow> items \<noteq> [])"

lemma graph_pages_done: "graph_pages P cfg env others cv limit None params messages c w = Some (Inr messages, c, w)"
  by (simp add: graph_pages.simps)

lemma graph_pages_returns:
  assumes "progressing env"
  shows "\<exists>r. graph_pages P cfg env others cv limit path params messages c w = Some r"
proof (induction "nat limit - length messages" arbitrary: path params messages c w rule: less_induct)
  case less
  show ?case
  proof (cases "path = None \<or> limit \<le> int (length messages)")
    case True
    then show ?thesis by (auto simp: graph_pages.simps [of P cfg env others cv limit path] split: option.splits)
  next
    case False
    then obtain p where p: "path = Some p" "int (length messages) < limit" by auto
    obtain r c1 w1 where q: "graph_request P cfg env others cv ''GET'' p None params c w = (r, c1, w1)"
      by (metis prod_cases3)
    have "\<exists>res. graph_pages P cfg env others cv limit nxt [] (messages @ items) c1 w1 = Some res"
      if r: "r = Inr resp" and pg: "graph_page (get_provider (cn_provider c)) resp = Inr (items, nxt)" for resp items nxt
    proof (cases nxt)
      case (Some n)
      have "items \<noteq> []"
        using assms bearer_call_answer [OF q [unfolded r graph_request_def]] pg Some unfolding progressing_def by blast
      then have "nat limit - length (messages @ items) < nat limit - length messages" using p(2) by (cases items) auto
      then show ?thesis by (rule less)
    qed (simp add: graph_pages_done)
    then show ?thesis
      using p q by (auto simp: graph_pages.simps [of P cfg env others cv limit "Some p"] split: sum.splits)
  qed
qed

end
