(* ===== verification/GoogleClient.thy ===== *)
theory GoogleClient
  imports Mailbox
begin

text \<open>
  Mail and calendar of Google (\<^verbatim>\<open>connectors/providers/google/mail.py\<close>, \<^verbatim>\<open>calendar.py\<close>). The calls go
  through Google's SDK, which is outside the program: a call is a request of the log that names the
  SDK's method and its arguments, and what the SDK returns or raises is the answer the environment
  gives to it. The parts of Python's \<^verbatim>\<open>email\<close> package the code uses (address lists, serialised
  messages) are the fields of an \<open>email_lib\<close>. One attempt of the retry envelope runs a whole listing,
  with as many calls as it takes; \<open>None\<close> stands for a listing that never returns.
\<close>

section \<open>The SDK\<close>

record email_lib =
  el_parseaddr :: "string \<Rightarrow> string \<times> string"
  el_getaddresses :: "string \<Rightarrow> (string \<times> string) list"
  el_mime :: "(string \<times> string) list \<Rightarrow> string \<Rightarrow> bytes result"

definition sdk_request :: "string \<Rightarrow> string \<Rightarrow> (string \<times> string) list \<Rightarrow> json option \<Rightarrow> http_request" where
  "sdk_request token name args body =
     \<lparr>hq_method = ''SDK'', hq_url = name, hq_bearer = Some token, hq_form = [], hq_json = body, hq_params = args\<rparr>"

definition sdk_outcome :: "http_outcome \<Rightarrow> json result" where
  \<comment> \<open>an \<^verbatim>\<open>HttpError\<close> becomes a \<^verbatim>\<open>ProviderResponseError\<close> without a delay\<close>
  "sdk_outcome ans =
     (case ans of NetworkFailure n \<Rightarrow> Inl (TransportError n)
      | Answered r \<Rightarrow>
          if 300 \<le> hr_status r then Inl (ProviderResponseError (hr_status r) None)
          else (case hr_body r of Some v \<Rightarrow> Inr v | None \<Rightarrow> Inl (ValueError ''json'')))"

definition sdk_call ::
  "net_env \<Rightarrow> string \<Rightarrow> string \<Rightarrow> (string \<times> string) list \<Rightarrow> json option \<Rightarrow> 'z net_world_scheme \<Rightarrow>
   json result \<times> 'z net_world_scheme" where
  "sdk_call env token name args body w = request_attempt env (sdk_request token name args body) sdk_outcome w"

definition google_execute ::
  "primitives \<Rightarrow> settings \<Rightarrow> net_env \<Rightarrow> (conn_world \<Rightarrow> conn_world) \<Rightarrow> context_var \<Rightarrow>
   (string \<Rightarrow> conn_world \<Rightarrow> 'a result \<times> conn_world) \<Rightarrow> connector_connection \<Rightarrow> conn_world \<Rightarrow>
   'a result \<times> connector_connection \<times> conn_world" where
  "google_execute P cfg env others cv call c w =
     (case fresh_access_token P cfg env others cv c w of
        (Inl e, c1, w1) \<Rightarrow> (Inl e, c1, w1)
      | (Inr token, c1, w1) \<Rightarrow>
          (let (r, w2) = run_with_backoff env (get_provider (cn_provider c)) (cn_id c) (call token) w1
           in (r, c1, w2)))"

definition page_token_arg :: "json option \<Rightarrow> (string \<times> string) list" where
  "page_token_arg t = (case t of None \<Rightarrow> [] | Some v \<Rightarrow> [(''pageToken'', str_json v)])"

definition next_page_token :: "(string \<times> json) list \<Rightarrow> json option" where
  \<comment> \<open>\<^verbatim>\<open>response.get("nextPageToken")\<close>\<close>
  "next_page_token kvs = (case json_get kvs ''nextPageToken'' of Some JNull \<Rightarrow> None | t \<Rightarrow> t)"

section \<open>Mail\<close>

definition METADATA_HEADERS :: "string list" where
  "METADATA_HEADERS = [''Subject'', ''From'', ''To'', ''Date'']"

fun header_loop :: "string \<Rightarrow> json list \<Rightarrow> string result" where
  "header_loop name [] = Inr []"
| "header_loop name (h # hs) =
     and_then (obj_of h) (\<lambda>hk.
       if py_lower (str_field hk ''name'') = py_lower name then Inr (str_field hk ''value'')
       else header_loop name hs)"

definition gmail_header :: "(string \<times> json) list \<Rightarrow> string \<Rightarrow> string result" where
  "gmail_header payload name =
     and_then (obj_of (get_or payload ''payload'' (JObj []))) (\<lambda>p.
     and_then (iter_json (get_or p ''headers'' (JList []))) (header_loop name))"

definition gmail_instant :: "json option \<Rightarrow> instant option result" where
  \<comment> \<open>\<^verbatim>\<open>internalDate\<close>: milliseconds, or missing\<close>
  "gmail_instant v =
     (if \<not> json_truthy v then Inr None
      else (case int_of_json (the v) of
              None \<Rightarrow> Inl (ValueError ''int'')
            | Some n \<Rightarrow> if datetime_range (n * 1000) then Inr (Some (n * 1000)) else Inl (ValueError ''timestamp'')))"

definition gmail_message_to_email :: "email_lib \<Rightarrow> json \<Rightarrow> email_message result" where
  "gmail_message_to_email L item =
     and_then (obj_of item) (\<lambda>payload.
     and_then (gmail_instant (json_get payload ''internalDate'')) (\<lambda>received_at.
     and_then (gmail_header payload ''From'') (\<lambda>from_header.
     and_then (gmail_header payload ''To'') (\<lambda>to_header.
     and_then (json_item payload ''id'') (\<lambda>rid.
     and_then (gmail_header payload ''Subject'') (\<lambda>subject.
     Inr \<lparr>em_provider_raw_id = str_json rid, em_subject = subject,
          em_sender = snd (el_parseaddr L from_header),
          em_recipients = filter (\<lambda>a. a \<noteq> []) (map snd (el_getaddresses L to_header)),
          em_snippet = str_field payload ''snippet'', em_received_at = received_at\<rparr>))))))"

definition draft_to_gmail_raw :: "email_lib \<Rightarrow> email_draft \<Rightarrow> string result" where
  "draft_to_gmail_raw L d =
     and_then (el_mime L ([(''To'', join_with '', '' (ed_to d))]
                 @ (if ed_cc d = [] then [] else [(''Cc'', join_with '', '' (ed_cc d))])
                 @ [(''Subject'', ed_subject d)]) (ed_body_text d))
       (\<lambda>octets. Inr (urlsafe_b64encode octets))"

definition gmail_item_id :: "json \<Rightarrow> string result" where
  \<comment> \<open>\<^verbatim>\<open>item["id"]\<close>\<close>
  "gmail_item_id item = (case item of JObj kvs \<Rightarrow> map_sum id str_json (json_item kvs ''id'') | _ \<Rightarrow> Inl TypeError)"

definition gmail_get :: "net_env \<Rightarrow> string \<Rightarrow> string \<Rightarrow> 'z net_world_scheme \<Rightarrow> json result \<times> 'z net_world_scheme" where
  "gmail_get env token message_id w =
     sdk_call env token ''gmail.users.messages.get''
       ([(''userId'', ''me''), (''id'', message_id), (''format'', ''metadata'')]
        @ map (\<lambda>h. (''metadataHeaders'', h)) METADATA_HEADERS) None w"

fun gmail_fetch ::
  "net_env \<Rightarrow> string \<Rightarrow> json list \<Rightarrow> json list \<Rightarrow> 'z net_world_scheme \<Rightarrow> json list result \<times> 'z net_world_scheme" where
  "gmail_fetch env token [] messages w = (Inr messages, w)"
| "gmail_fetch env token (item # items) messages w =
     (case gmail_item_id item of Inl e \<Rightarrow> (Inl e, w)
      | Inr rid \<Rightarrow>
          (case gmail_get env token rid w of (Inl e, w1) \<Rightarrow> (Inl e, w1)
           | (Inr payload, w1) \<Rightarrow> gmail_fetch env token items (messages @ [payload]) w1))"

definition gmail_list_args :: "string \<Rightarrow> string option \<Rightarrow> int \<Rightarrow> json option \<Rightarrow> (string \<times> string) list" where
  "gmail_list_args label query n page_token =
     [(''userId'', ''me''), (''labelIds'', label)] @ (case query of None \<Rightarrow> [] | Some q \<Rightarrow> [(''q'', q)])
     @ [(''maxResults'', str_int (min n 100))] @ page_token_arg page_token"

definition gmail_page ::
  "net_env \<Rightarrow> string \<Rightarrow> string \<Rightarrow> string option \<Rightarrow> int \<Rightarrow> json option \<Rightarrow> json list \<Rightarrow> 'z net_world_scheme \<Rightarrow>
   (json list \<times> json option) result \<times> 'z net_world_scheme" where
  \<comment> \<open>the body of the loop: one page, and the metadata of each message on it\<close>
  "gmail_page env token label query limit page_token messages w =
     (case sdk_call env token ''gmail.users.messages.list''
             (gmail_list_args label query (limit - int (length messages)) page_token) None w of
        (Inl e, w1) \<Rightarrow> (Inl e, w1)
      | (Inr response, w1) \<Rightarrow>
          (case and_then (obj_of response) (\<lambda>kvs.
                  and_then (iter_json (get_or kvs ''messages'' (JList []))) (\<lambda>items. Inr (kvs, items))) of
             Inl e \<Rightarrow> (Inl e, w1)
           | Inr (kvs, items) \<Rightarrow>
               (case gmail_fetch env token items messages w1 of
                  (r, w2) \<Rightarrow> (map_sum id (\<lambda>ms. (ms, next_page_token kvs)) r, w2))))"

partial_function (option) gmail_pages ::
  "net_env \<Rightarrow> string \<Rightarrow> string \<Rightarrow> string option \<Rightarrow> int \<Rightarrow> json option \<Rightarrow> json list \<Rightarrow> 'z net_world_scheme \<Rightarrow>
   (json list result \<times> 'z net_world_scheme) option" where
  "gmail_pages env token label query limit page_token messages w =
     (if limit \<le> int (length messages) then Some (Inr messages, w)
      else (case gmail_page env token label query limit page_token messages w of
              (Inl e, w1) \<Rightarrow> Some (Inl e, w1)
            | (Inr (messages', t), w1) \<Rightarrow>
                (case t of None \<Rightarrow> Some (Inr messages', w1)
                 | Some _ \<Rightarrow> gmail_pages env token label query limit t messages' w1)))"

definition lift_attempt ::
  "('w \<Rightarrow> ('a result \<times> 'w) option) \<Rightarrow> 'w \<Rightarrow> 'a option result \<times> 'w" where
  \<comment> \<open>an attempt that does not return ends the envelope with \<open>None\<close>\<close>
  "lift_attempt f w = (case f w of None \<Rightarrow> (Inr None, w) | Some (r, w1) \<Rightarrow> (map_sum id Some r, w1))"

definition after_query :: "instant \<Rightarrow> string" where
  \<comment> \<open>\<^verbatim>\<open>f"after:{int(since.timestamp())}"\<close>\<close>
  "after_query since =
     ''after:'' @ str_int (if 0 \<le> since then since div 1000000 else - (- since div 1000000))"

definition google_list_messages ::
  "email_lib \<Rightarrow> primitives \<Rightarrow> settings \<Rightarrow> net_env \<Rightarrow> (conn_world \<Rightarrow> conn_world) \<Rightarrow> context_var \<Rightarrow> instant option \<Rightarrow>
   string \<Rightarrow> int \<Rightarrow> connector_connection \<Rightarrow> conn_world \<Rightarrow>
   (email_message list result \<times> connector_connection \<times> conn_world) option" where
  "google_list_messages L P cfg env others cv since folder limit c w =
     (case google_execute P cfg env others cv
             (\<lambda>token. lift_attempt (gmail_pages env token (py_upper folder) (map_option after_query since) limit None [])) c w of
        (Inl e, c1, w1) \<Rightarrow> Some (Inl e, c1, w1)
      | (Inr None, c1, w1) \<Rightarrow> None
      | (Inr (Some payloads), c1, w1) \<Rightarrow>
          Some (map_result (gmail_message_to_email L) (take (nat limit) payloads), c1, w1))"

definition google_get_message ::
  "email_lib \<Rightarrow> primitives \<Rightarrow> settings \<Rightarrow> net_env \<Rightarrow> (conn_world \<Rightarrow> conn_world) \<Rightarrow> context_var \<Rightarrow> string \<Rightarrow>
   connector_connection \<Rightarrow> conn_world \<Rightarrow> email_message result \<times> connector_connection \<times> conn_world" where
  "google_get_message L P cfg env others cv message_id c w =
     (case google_execute P cfg env others cv (\<lambda>token. gmail_get env token message_id) c w of
        (r, c1, w1) \<Rightarrow> (and_then r (gmail_message_to_email L), c1, w1))"

definition google_send_message ::
  "email_lib \<Rightarrow> primitives \<Rightarrow> settings \<Rightarrow> net_env \<Rightarrow> (conn_world \<Rightarrow> conn_world) \<Rightarrow> context_var \<Rightarrow> email_draft \<Rightarrow>
   connector_connection \<Rightarrow> conn_world \<Rightarrow> string option result \<times> connector_connection \<times> conn_world" where
  "google_send_message L P cfg env others cv d c w =
     (case draft_to_gmail_raw L d of Inl e \<Rightarrow> (Inl e, c, w)
      | Inr raw \<Rightarrow>
          (case google_execute P cfg env others cv
                  (\<lambda>token. sdk_call env token ''gmail.users.messages.send'' [(''userId'', ''me'')]
                     (Some (JObj [(''raw'', JStr raw)]))) c w of
             (r, c1, w1) \<Rightarrow>
               (and_then (and_then r obj_of) (\<lambda>kvs.
                  Inr (case json_get kvs ''id'' of None \<Rightarrow> None | Some JNull \<Rightarrow> None | Some v \<Rightarrow> Some (str_json v))),
                c1, w1)))"

section \<open>Calendar\<close>

definition parse_date :: "string \<Rightarrow> instant option" where
  \<comment> \<open>\<^verbatim>\<open>date.fromisoformat\<close>, at midnight UTC\<close>
  "parse_date s =
     (case (field 0 4 s, field 5 2 s, field 8 2 s) of
        (Some y, Some m, Some d) \<Rightarrow>
          if length s = 10 \<and> s ! 4 = CHR ''-'' \<and> s ! 7 = CHR ''-'' then of_fields y m d 0 0 0 0 else None
      | _ \<Rightarrow> None)"

definition google_parse_when :: "json \<Rightarrow> instant result" where
  \<comment> \<open>a \<^verbatim>\<open>dateTime\<close> carries its offset; an event of a whole day has a \<^verbatim>\<open>date\<close>\<close>
  "google_parse_when v =
     (case v of
        JObj n \<Rightarrow>
          (case json_get n ''dateTime'' of
             Some x \<Rightarrow> (case parse_iso (str_json x) of Some (t, z) \<Rightarrow> Inr (t - z) | None \<Rightarrow> Inl (ValueError ''isoformat''))
           | None \<Rightarrow>
               and_then (json_item n ''date'') (\<lambda>x.
                 case parse_date (str_json x) of Some t \<Rightarrow> Inr t | None \<Rightarrow> Inl (ValueError ''isoformat'')))
      | _ \<Rightarrow> Inl TypeError)"

definition attendee_email :: "json \<Rightarrow> string list result" where
  "attendee_email a =
     and_then (obj_of a) (\<lambda>kvs. Inr (if json_truthy (json_get kvs ''email'') then [str_field kvs ''email''] else []))"

definition opt_text :: "json option \<Rightarrow> string option result" where
  \<comment> \<open>pydantic's validation of a field \<^verbatim>\<open>str | None\<close>\<close>
  "opt_text v = (case v of None \<Rightarrow> Inr None | Some JNull \<Rightarrow> Inr None | Some (JStr s) \<Rightarrow> Inr (Some s)
     | Some _ \<Rightarrow> Inl (ValueError ''validation''))"

definition google_event_to_calendar_event :: "json \<Rightarrow> calendar_event result" where
  "google_event_to_calendar_event item =
     and_then (obj_of item) (\<lambda>payload.
     and_then (and_then (iter_json (get_or payload ''attendees'' (JList []))) (map_result attendee_email)) (\<lambda>attendees.
     and_then (json_item payload ''id'') (\<lambda>rid.
     and_then (and_then (json_item payload ''start'') google_parse_when) (\<lambda>starts_at.
     and_then (and_then (json_item payload ''end'') google_parse_when) (\<lambda>ends_at.
     and_then (opt_text (json_get payload ''description'')) (\<lambda>description.
     and_then (opt_text (json_get payload ''location'')) (\<lambda>location.
     Inr \<lparr>ce_provider_raw_id = str_json rid, ce_title = str_field payload ''summary'',
          ce_description = description, ce_location = location,
          ce_starts_at = starts_at, ce_ends_at = ends_at, ce_attendees = concat attendees\<rparr>)))))))"

definition draft_to_google_event :: "calendar_event_draft \<Rightarrow> (string \<times> json) list" where
  "draft_to_google_event d =
     [(''summary'', JStr (cd_title d)),
      (''start'', JObj [(''dateTime'', JStr (isoformat (cd_starts_at d)))]),
      (''end'', JObj [(''dateTime'', JStr (isoformat (cd_ends_at d)))])]
     @ (case cd_description d of None \<Rightarrow> [] | Some x \<Rightarrow> [(''description'', JStr x)])
     @ (case cd_location d of None \<Rightarrow> [] | Some x \<Rightarrow> [(''location'', JStr x)])
     @ (if cd_attendees d = [] then [] else [(''attendees'', JList (map (\<lambda>a. JObj [(''email'', JStr a)]) (cd_attendees d)))])"

definition calendar_page ::
  "net_env \<Rightarrow> string \<Rightarrow> instant \<Rightarrow> instant \<Rightarrow> json option \<Rightarrow> json list \<Rightarrow> 'z net_world_scheme \<Rightarrow>
   (json list \<times> json option) result \<times> 'z net_world_scheme" where
  "calendar_page env token start end_at page_token items w =
     (case sdk_call env token ''calendar.events.list''
             ([(''calendarId'', ''primary''), (''timeMin'', isoformat start), (''timeMax'', isoformat end_at),
               (''singleEvents'', ''True''), (''orderBy'', ''startTime'')] @ page_token_arg page_token) None w of
        (r, w1) \<Rightarrow>
          (and_then (and_then r obj_of) (\<lambda>kvs.
           and_then (iter_json (get_or kvs ''items'' (JList []))) (\<lambda>new. Inr (items @ new, next_page_token kvs))), w1))"

partial_function (option) calendar_pages ::
  "net_env \<Rightarrow> string \<Rightarrow> instant \<Rightarrow> instant \<Rightarrow> json option \<Rightarrow> json list \<Rightarrow> 'z net_world_scheme \<Rightarrow>
   (json list result \<times> 'z net_world_scheme) option" where
  "calendar_pages env token start end_at page_token items w =
     (case calendar_page env token start end_at page_token items w of
        (Inl e, w1) \<Rightarrow> Some (Inl e, w1)
      | (Inr (items', t), w1) \<Rightarrow>
          (case t of None \<Rightarrow> Some (Inr items', w1)
           | Some _ \<Rightarrow> calendar_pages env token start end_at t items' w1))"

definition google_list_events ::
  "primitives \<Rightarrow> settings \<Rightarrow> net_env \<Rightarrow> (conn_world \<Rightarrow> conn_world) \<Rightarrow> context_var \<Rightarrow> instant \<Rightarrow> instant \<Rightarrow>
   connector_connection \<Rightarrow> conn_world \<Rightarrow>
   (calendar_event list result \<times> connector_connection \<times> conn_world) option" where
  "google_list_events P cfg env others cv start end_at c w =
     (case google_execute P cfg env others cv
             (\<lambda>token. lift_attempt (calendar_pages env token start end_at None [])) c w of
        (Inl e, c1, w1) \<Rightarrow> Some (Inl e, c1, w1)
      | (Inr None, c1, w1) \<Rightarrow> None
      | (Inr (Some payloads), c1, w1) \<Rightarrow> Some (map_result google_event_to_calendar_event payloads, c1, w1))"

definition google_create_event ::
  "primitives \<Rightarrow> settings \<Rightarrow> net_env \<Rightarrow> (conn_world \<Rightarrow> conn_world) \<Rightarrow> context_var \<Rightarrow> calendar_event_draft \<Rightarrow>
   connector_connection \<Rightarrow> conn_world \<Rightarrow> calendar_event result \<times> connector_connection \<times> conn_world" where
  "google_create_event P cfg env others cv d c w =
     (case google_execute P cfg env others cv
             (\<lambda>token. sdk_call env token ''calendar.events.insert'' [(''calendarId'', ''primary'')]
                (Some (JObj (draft_to_google_event d)))) c w of
        (r, c1, w1) \<Rightarrow> (and_then r google_event_to_calendar_event, c1, w1))"

end
