(* ===== verification/Clients.thy ===== *)
theory Clients
  imports GraphClient GoogleClient
begin

text \<open>
  The capabilities as a module sees them: whichever provider a connection has, the calls of
  \<^verbatim>\<open>MailCapability\<close> and \<^verbatim>\<open>CalendarCapability\<close> (\<^verbatim>\<open>connectors/capabilities.py\<close>) are answered by the client
  \<^verbatim>\<open>get_capability\<close> returns. Shown here: when the listings return, what they return, and that an event
  written through a client is read back as it was.
\<close>

section \<open>Dispatch\<close>

definition list_messages ::
  "email_lib \<Rightarrow> primitives \<Rightarrow> settings \<Rightarrow> net_env \<Rightarrow> (conn_world \<Rightarrow> conn_world) \<Rightarrow> context_var \<Rightarrow> capability_impl \<Rightarrow>
   instant option \<Rightarrow> string \<Rightarrow> int \<Rightarrow> connector_connection \<Rightarrow> conn_world \<Rightarrow>
   (email_message list result \<times> connector_connection \<times> conn_world) option" where
  "list_messages L P cfg env others cv impl since folder limit c w =
     (case impl of
        GoogleMail \<Rightarrow> google_list_messages L P cfg env others cv since folder limit c w
      | MicrosoftMail \<Rightarrow> microsoft_list_messages P cfg env others cv since folder limit c w
      | _ \<Rightarrow> Some (Inl AttributeError, c, w))"

definition list_events ::
  "primitives \<Rightarrow> settings \<Rightarrow> net_env \<Rightarrow> (conn_world \<Rightarrow> conn_world) \<Rightarrow> context_var \<Rightarrow> capability_impl \<Rightarrow>
   instant \<Rightarrow> instant \<Rightarrow> connector_connection \<Rightarrow> conn_world \<Rightarrow>
   (calendar_event list result \<times> connector_connection \<times> conn_world) option" where
  "list_events P cfg env others cv impl start end_at c w =
     (case impl of
        GoogleCalendar \<Rightarrow> google_list_events P cfg env others cv start end_at c w
      | MicrosoftCalendar \<Rightarrow> Some (microsoft_list_events P cfg env others cv start end_at c w)
      | _ \<Rightarrow> Some (Inl AttributeError, c, w))"

text \<open>The calls of both protocols, and what each leaves behind besides its answer.\<close>

datatype client_call =
    ListMessages "instant option" string int
  | GetMessage string
  | SendMessage email_draft
  | ListEvents instant instant
  | CreateEvent calendar_event_draft

definition client_effect ::
  "email_lib \<Rightarrow> primitives \<Rightarrow> settings \<Rightarrow> net_env \<Rightarrow> (conn_world \<Rightarrow> conn_world) \<Rightarrow> context_var \<Rightarrow> capability_impl \<Rightarrow>
   client_call \<Rightarrow> connector_connection \<Rightarrow> conn_world \<Rightarrow> (connector_connection \<times> conn_world) option" where
  "client_effect L P cfg env others cv impl call c w =
     (case call of
        ListMessages since folder limit \<Rightarrow> map_option snd (list_messages L P cfg env others cv impl since folder limit c w)
      | ListEvents start end_at \<Rightarrow> map_option snd (list_events P cfg env others cv impl start end_at c w)
      | GetMessage i \<Rightarrow>
          (case impl of GoogleMail \<Rightarrow> Some (snd (google_get_message L P cfg env others cv i c w))
           | MicrosoftMail \<Rightarrow> Some (snd (microsoft_get_message P cfg env others cv i c w)) | _ \<Rightarrow> Some (c, w))
      | SendMessage d \<Rightarrow>
          (case impl of GoogleMail \<Rightarrow> Some (snd (google_send_message L P cfg env others cv d c w))
           | MicrosoftMail \<Rightarrow> Some (snd (microsoft_send_message P cfg env others cv d c w)) | _ \<Rightarrow> Some (c, w))
      | CreateEvent d \<Rightarrow>
          (case impl of GoogleCalendar \<Rightarrow> Some (snd (google_create_event P cfg env others cv d c w))
           | MicrosoftCalendar \<Rightarrow> Some (snd (microsoft_create_event P cfg env others cv d c w)) | _ \<Rightarrow> Some (c, w)))"

section \<open>The Google listings return\<close>

definition gmail_progressing :: "net_env \<Rightarrow> bool" where
  \<comment> \<open>no empty page carries a token for another\<close>
  "gmail_progressing env \<longleftrightarrow>
     (\<forall>n rq r kvs. ne_http env n rq = Answered r \<longrightarrow> hr_body r = Some (JObj kvs) \<longrightarrow> next_page_token kvs \<noteq> None \<longrightarrow>
        iter_json (get_or kvs ''messages'' (JList [])) \<noteq> Inr [])"

definition calendar_ends :: "net_env \<Rightarrow> nat \<Rightarrow> bool" where
  \<comment> \<open>from the \<open>n\<close>-th answer on, no page carries a token\<close>
  "calendar_ends env n \<longleftrightarrow>
     (\<forall>i rq r kvs. n \<le> i \<longrightarrow> ne_http env i rq = Answered r \<longrightarrow> hr_body r = Some (JObj kvs) \<longrightarrow> next_page_token kvs = None)"

lemma sdk_call_log: "sdk_call env token name args body w = (r, w') \<Longrightarrow>
    http_log w' = http_log w @ [sdk_request token name args body] \<and> vk w' = vk w \<and> net_world.more w' = net_world.more w"
  by (auto simp: sdk_call_def request_attempt_def send_def)

lemma sdk_call_Inr:
  assumes "sdk_call env token name args body w = (Inr v, w')"
  shows "\<exists>r. ne_http env (length (http_log w)) (sdk_request token name args body) = Answered r \<and> hr_body r = Some v"
  using assms
  by (auto simp: sdk_call_def request_attempt_def send_def sdk_outcome_def split: http_outcome.splits option.splits if_splits)

lemma gmail_fetch_fields:
  "gmail_fetch env token items ms w = (r, w') \<Longrightarrow>
   vk w' = vk w \<and> net_world.more w' = net_world.more w \<and> (\<forall>ms'. r = Inr ms' \<longrightarrow> length ms' = length ms + length items)"
proof (induction items arbitrary: ms w)
  case (Cons item items)
  show ?case
  proof (cases "gmail_item_id item")
    case (Inr i)
    obtain p w1 where g: "gmail_get env token i w = (p, w1)" by fastforce
    have g': "vk w1 = vk w" "net_world.more w1 = net_world.more w"
      using sdk_call_log [OF g [unfolded gmail_get_def]] by simp_all
    show ?thesis
    proof (cases p)
      case (Inr payload)
      have "gmail_fetch env token items (ms @ [payload]) w1 = (r, w')"
        using Cons.prems g Inr \<open>gmail_item_id item = Inr i\<close> by simp
      from Cons.IH [OF this] g' show ?thesis by simp
    qed (use Cons.prems g g' Inr in auto)
  next
    case (Inl e)
    then show ?thesis using Cons.prems by auto
  qed
qed auto

lemma map_sum_Inr: "map_sum id f r = Inr y \<Longrightarrow> (\<And>x. r = Inr x \<Longrightarrow> y = f x \<Longrightarrow> Q) \<Longrightarrow> Q"
  by (cases r) auto

lemma gmail_page_fields:
  assumes "gmail_page env token label query limit page_token ms w = (r, w')"
  shows "vk w' = vk w \<and> net_world.more w' = net_world.more w"
proof -
  obtain resp w1 where call: "sdk_call env token ''gmail.users.messages.list''
      (gmail_list_args label query (limit - int (length ms)) page_token) None w = (resp, w1)" by fastforce
  have w1: "vk w1 = vk w" "net_world.more w1 = net_world.more w" using sdk_call_log [OF call] by simp_all
  have "vk w' = vk w1 \<and> net_world.more w' = net_world.more w1"
    if "gmail_fetch env token items ms w1 = (r', w')" for items r'
    using gmail_fetch_fields [OF that] by simp
  then show ?thesis using assms call w1 by (auto simp: gmail_page_def split: sum.splits prod.splits)
qed

lemma gmail_page_grows:
  assumes "gmail_page env token label query limit page_token ms w = (Inr (ms', Some t), w')" "gmail_progressing env"
  shows "length ms < length ms'"
proof -
  let ?args = "gmail_list_args label query (limit - int (length ms)) page_token"
  obtain kvs items w1 where call: "sdk_call env token ''gmail.users.messages.list'' ?args None w = (Inr (JObj kvs), w1)"
    and it: "iter_json (get_or kvs ''messages'' (JList [])) = Inr items" and t: "next_page_token kvs = Some t"
    and f: "gmail_fetch env token items ms w1 = (Inr ms', w')"
    using assms(1)
    by (auto simp: gmail_page_def and_then_Inr split: sum.splits prod.splits elim!: map_sum_Inr)
  have "items \<noteq> []"
    using sdk_call_Inr [OF call] assms(2) it t unfolding gmail_progressing_def by fastforce
  moreover have "length ms' = length ms + length items" using gmail_fetch_fields [OF f] by blast
  ultimately show ?thesis by (cases items) auto
qed

lemma gmail_pages_returns:
  assumes "gmail_progressing env"
  shows "\<exists>r. gmail_pages env token label query limit page_token ms w = Some r"
proof (induction "nat limit - length ms" arbitrary: page_token ms w rule: less_induct)
  case less
  show ?case
  proof (cases "limit \<le> int (length ms)")
    case False
    have "\<exists>res. gmail_pages env token label query limit (Some t) ms' w' = Some res"
      if "gmail_page env token label query limit page_token ms w = (Inr (ms', Some t), w')" for ms' t w'
      using less [of ms' "Some t" w'] gmail_page_grows [OF that assms] False by simp
    then show ?thesis
      using False
      by (auto simp: gmail_pages.simps [of env token label query limit page_token] split: sum.splits prod.splits option.splits)
  qed (simp add: gmail_pages.simps)
qed

lemma calendar_page_fields:
  assumes "calendar_page env token start end_at page_token items w = (r, w')"
  shows "vk w' = vk w \<and> net_world.more w' = net_world.more w \<and> length (http_log w') = Suc (length (http_log w))"
    and "r = Inr (items', Some t) \<Longrightarrow> calendar_ends env n \<Longrightarrow> length (http_log w) < n"
proof -
  obtain resp where call: "sdk_call env token ''calendar.events.list''
      ([(''calendarId'', ''primary''), (''timeMin'', isoformat start), (''timeMax'', isoformat end_at),
        (''singleEvents'', ''True''), (''orderBy'', ''startTime'')] @ page_token_arg page_token) None w = (resp, w')"
    and r: "r = and_then (and_then resp obj_of) (\<lambda>kvs.
           and_then (iter_json (get_or kvs ''items'' (JList []))) (\<lambda>new. Inr (items @ new, next_page_token kvs)))"
    using assms by (auto simp: calendar_page_def split: prod.splits)
  show "vk w' = vk w \<and> net_world.more w' = net_world.more w \<and> length (http_log w') = Suc (length (http_log w))"
    using sdk_call_log [OF call] by simp
  assume "r = Inr (items', Some t)" and ends: "calendar_ends env n"
  then obtain kvs where "resp = Inr (JObj kvs)" and t: "next_page_token kvs = Some t"
    using r by (auto simp: and_then_Inr)
  with sdk_call_Inr [of env token _ _ None w "JObj kvs" w'] call ends show "length (http_log w) < n"
    unfolding calendar_ends_def by (metis not_le_imp_less option.distinct(1))
qed

lemma calendar_pages_returns:
  assumes "calendar_ends env n"
  shows "\<exists>r. calendar_pages env token start end_at page_token items w = Some r"
proof (induction "n - length (http_log w)" arbitrary: page_token items w rule: less_induct)
  case less
  have "\<exists>res. calendar_pages env token start end_at (Some t) items' w' = Some res"
    if page: "calendar_page env token start end_at page_token items w = (Inr (items', Some t), w')" for items' t w'
    using less [of w' "Some t" items'] calendar_page_fields [OF page] assms by fastforce
  then show ?case
    by (auto simp: calendar_pages.simps [of env token start end_at page_token] split: sum.splits prod.splits option.splits)
qed

lemma map_sum_Some [simp]: "map_sum id Some r \<noteq> Inr None"
  by (cases r) auto

lemma google_execute_lift:
  assumes "google_execute P cfg env others cv (\<lambda>token. lift_attempt (f token)) c w = (r, c', w')"
    and "\<And>token w. \<exists>res. f token w = Some res"
  shows "r \<noteq> Inr None"
proof
  assume "r = Inr None"
  then obtain token w1 w2 where "backoff_loop env (get_provider (cn_provider c)) (cn_id c) (lift_attempt (f token))
      [0..<MAX_ATTEMPTS] w1 = (Inr None, w2)"
    using assms(1) by (auto simp: google_execute_def run_with_backoff_def Let_def split: sum.splits prod.splits)
  from backoff_loop_Inr [OF this] obtain v where "fst (lift_attempt (f token) v) = Inr None" by blast
  then show False
    using assms(2) [of token v] by (auto simp: lift_attempt_def split: prod.splits)
qed

section \<open>What a call changes\<close>

lemma gmail_pages_frame:
  assumes ret: "gmail_pages env token label query limit page_token ms w = Some res"
  shows "vk (snd res) = vk w \<and> net_world.more (snd res) = net_world.more w"
proof (rule gmail_pages.raw_induct [where P = "\<lambda>env token label query limit page_token ms w res.
      vk (snd res) = vk w \<and> net_world.more (snd res) = net_world.more w", OF _ ret], goal_cases)
  case (1 f env token label query limit page_token ms w res)
  show ?case
    using 1(2) gmail_page_fields [of env token label query limit page_token ms w]
    by (auto split: if_splits sum.splits prod.splits option.splits dest!: 1(1))
qed

lemma calendar_pages_frame:
  assumes ret: "calendar_pages env token start end_at page_token items w = Some res"
  shows "vk (snd res) = vk w \<and> net_world.more (snd res) = net_world.more w"
proof (rule calendar_pages.raw_induct [where P = "\<lambda>env token start end_at page_token items w res.
      vk (snd res) = vk w \<and> net_world.more (snd res) = net_world.more w", OF _ ret], goal_cases)
  case (1 f env token start end_at page_token items w res)
  show ?case
    using 1(2) calendar_page_fields(1) [of env token start end_at page_token items w]
    by (auto split: sum.splits prod.splits option.splits dest!: 1(1))
qed

lemma plain_lift_attempt:
  assumes "\<And>w res. f w = Some res \<Longrightarrow> vk (snd res) = vk w \<and> net_world.more (snd res) = net_world.more w"
  shows "plain_attempt (lift_attempt f)"
  unfolding plain_attempt_def lift_attempt_def
  using assms by (fastforce split: option.splits prod.splits)

lemma plain_sdk_call: "plain_attempt (sdk_call env token name args body)"
  unfolding plain_attempt_def using sdk_call_log by (metis prod.collapse)

lemma plain_gmail_get: "plain_attempt (gmail_get env token i)"
  unfolding gmail_get_def [abs_def] by (rule plain_sdk_call)

lemma plain_gmail_pages: "plain_attempt (lift_attempt (gmail_pages env token label query limit page_token ms))"
  by (rule plain_lift_attempt [OF gmail_pages_frame])

lemma plain_calendar_pages: "plain_attempt (lift_attempt (calendar_pages env token start end_at page_token items))"
  by (rule plain_lift_attempt [OF calendar_pages_frame])


section \<open>Reading back an event\<close>

lemma field_layout:
  assumes "length Y = 4" "length M = 2" "length D = 2" "length H = 2" "length N = 2" "length S = 2"
  shows "field 0 4 (Y @ ''-'' @ M @ ''-'' @ D @ ''T'' @ H @ '':'' @ N @ '':'' @ S @ z) = parse_dec 0 Y"
    "field 5 2 (Y @ ''-'' @ M @ ''-'' @ D @ ''T'' @ H @ '':'' @ N @ '':'' @ S @ z) = parse_dec 0 M"
    "field 8 2 (Y @ ''-'' @ M @ ''-'' @ D @ ''T'' @ H @ '':'' @ N @ '':'' @ S @ z) = parse_dec 0 D"
    "field 11 2 (Y @ ''-'' @ M @ ''-'' @ D @ ''T'' @ H @ '':'' @ N @ '':'' @ S @ z) = parse_dec 0 H"
    "field 14 2 (Y @ ''-'' @ M @ ''-'' @ D @ ''T'' @ H @ '':'' @ N @ '':'' @ S @ z) = parse_dec 0 N"
    "field 17 2 (Y @ ''-'' @ M @ ''-'' @ D @ ''T'' @ H @ '':'' @ N @ '':'' @ S @ z) = parse_dec 0 S"
    "drop 19 (Y @ ''-'' @ M @ ''-'' @ D @ ''T'' @ H @ '':'' @ N @ '':'' @ S @ z) = z"
    "take 19 (Y @ ''-'' @ M @ ''-'' @ D @ ''T'' @ H @ '':'' @ N @ '':'' @ S @ z) =
       Y @ ''-'' @ M @ ''-'' @ D @ ''T'' @ H @ '':'' @ N @ '':'' @ S"
  using assms by (simp_all add: field_def)

text \<open>The fields an instant is printed from, and that they give the instant back.\<close>

lemma isoformat_fields:
  assumes "datetime_range t"
  obtains y m d hh mm ss f where
    "isoformat t = dec_digits 4 y @ ''-'' @ dec_digits 2 m @ ''-'' @ dec_digits 2 d @ ''T'' @ dec_digits 2 hh @ '':''
       @ dec_digits 2 mm @ '':'' @ dec_digits 2 ss @ (if f = 0 then [] else ''.'' @ dec_digits 6 f) @ ''+00:00''"
    "y < 10 ^ 4" "m < 10\<^sup>2" "d < 10\<^sup>2" "hh < 10\<^sup>2" "mm < 10\<^sup>2" "ss < 10\<^sup>2" "f < 10 ^ 6"
    "of_fields y m d hh mm ss f = Some t" "of_fields y m d hh mm ss 0 = Some (t - t mod 1000000)"
proof -
  define n where "n = nat (t div days 1 + epoch_ordinal)"
  define us where "us = nat (t mod days 1)"
  obtain y doy where fy: "find_year 1 n = (y, doy)" by fastforce
  obtain m d where fm: "find_month 1 (month_lengths y) doy = (m, d)" by fastforce
  have n: "int n = t div days 1 + epoch_ordinal" and y: "y \<le> 9999"
    using assms fy by (simp_all add: datetime_range_def n_def)
  have "doy < year_length y" using find_year_inv [OF fy] by auto
  then have m: "1 \<le> m" "m - 1 < 12" "d < month_lengths y ! (m - 1)"
    using find_month_inv [OF fm] by (auto simp: sum_month_lengths)
  then have d: "Suc d \<le> 31" using month_lengths_le [of "m - 1" y] by linarith
  have us: "us < 86400 * 1000000"
    by (simp add: us_def days_def hours_def minutes_def seconds_def nat_less_iff)
  have hh: "us div 1000000 div 3600 < 24" using us by (simp add: less_mult_imp_div_less)
  have full: "of_fields y m (Suc d) (us div 1000000 div 3600) (us div 1000000 div 60 mod 60)
      (us div 1000000 mod 60) (us mod 1000000) = Some t"
    by (rule of_fields_find [OF fy fm n us_def]) simp_all
  have "int (us mod 1000000) = t mod 1000000"
    by (simp add: us_def days_def hours_def minutes_def seconds_def zmod_int mod_mod_cancel)
  then have whole: "of_fields y m (Suc d) (us div 1000000 div 3600) (us div 1000000 div 60 mod 60)
      (us div 1000000 mod 60) 0 = Some (t - t mod 1000000)"
    using full by (auto simp: of_fields_def split: if_splits)
  have iso: "isoformat t = dec_digits 4 y @ ''-'' @ dec_digits 2 m @ ''-'' @ dec_digits 2 (Suc d) @ ''T''
      @ dec_digits 2 (us div 1000000 div 3600) @ '':'' @ dec_digits 2 (us div 1000000 div 60 mod 60) @ '':''
      @ dec_digits 2 (us div 1000000 mod 60)
      @ (if us mod 1000000 = 0 then [] else ''.'' @ dec_digits 6 (us mod 1000000)) @ ''+00:00''"
    by (simp add: isoformat_def Let_def us_def [symmetric] n_def [symmetric] fy [simplified] fm [simplified]
        del: dec_digits.simps)
  have "m < 100" "Suc d < 100" "us div 1000000 div 3600 < 100" "us div 1000000 div 60 mod 60 < 100"
    "us div 1000000 mod 60 < 100" "us mod 1000000 < 1000000" "y < 10000"
    using m(2) d hh y less_trans [OF mod_less_divisor [of 60] , of 100] by (linarith | simp)+
  then show ?thesis using full whole by (intro that [OF iso]) simp_all
qed

lemma parse_dec_zeros: "parse_dec 0 ''000000'' = Some 0"
  by code_simp

lemma parse_iso_layout:
  assumes len: "length Y = 4" "length M = 2" "length D = 2" "length H = 2" "length N = 2" "length S = 2"
    and "parse_dec 0 Y = Some y" "parse_dec 0 M = Some m" "parse_dec 0 D = Some d"
    and "parse_dec 0 H = Some hh" "parse_dec 0 N = Some mm" "parse_dec 0 S = Some ss"
    and tail: "z \<in> {[], ''+00:00''} \<and> f = 0
      \<or> (\<exists>G. z = CHR ''.'' # G @ ''+00:00'' \<and> length G = 6 \<and> list_all is_digit G \<and> parse_dec 0 G = Some f)"
  shows "parse_iso (Y @ ''-'' @ M @ ''-'' @ D @ ''T'' @ H @ '':'' @ N @ '':'' @ S @ z) =
    map_option (\<lambda>t. (t, 0)) (of_fields y m d hh mm ss f)"
proof -
  let ?s = "Y @ ''-'' @ M @ ''-'' @ D @ ''T'' @ H @ '':'' @ N @ '':'' @ S @ z"
  have seps: "?s ! 4 = CHR ''-''" "?s ! 7 = CHR ''-''" "?s ! 10 = CHR ''T''" "?s ! 13 = CHR '':''" "?s ! 16 = CHR '':''"
    using len by (simp_all add: nth_append)
  have zone: "utc_offset [] = Some 0" "utc_offset ''+00:00'' = Some 0" by code_simp+
  have plus: "\<not> is_digit (CHR ''+'')" by code_simp
  have cut: "takeWhile is_digit (G @ ''+00:00'') = G" if "list_all is_digit G" for G
    using that plus by (subst takeWhile_append2) (auto simp: list_all_iff)
  show ?thesis
    unfolding parse_iso_def Let_def field_layout [OF len] seps
    using assms(7-12) tail zone cut parse_dec_zeros
    by (elim disjE conjE exE) (auto split: option.splits)
qed

lemma parse_iso_isoformat:
  assumes "datetime_range t"
  shows "parse_iso (isoformat t) = Some (t, 0)" "parse_iso (take 19 (isoformat t)) = Some (t - t mod 1000000, 0)"
proof -
  obtain y m d hh mm ss f where iso:
    "isoformat t = dec_digits 4 y @ ''-'' @ dec_digits 2 m @ ''-'' @ dec_digits 2 d @ ''T'' @ dec_digits 2 hh @ '':''
       @ dec_digits 2 mm @ '':'' @ dec_digits 2 ss @ (if f = 0 then [] else ''.'' @ dec_digits 6 f) @ ''+00:00''"
    and b: "y < 10 ^ 4" "m < 10\<^sup>2" "d < 10\<^sup>2" "hh < 10\<^sup>2" "mm < 10\<^sup>2" "ss < 10\<^sup>2" "f < 10 ^ 6"
    and t: "of_fields y m d hh mm ss f = Some t" "of_fields y m d hh mm ss 0 = Some (t - t mod 1000000)"
    by (rule isoformat_fields [OF assms])
  note layout = parse_iso_layout [OF _ _ _ _ _ _ b(1-6) [THEN parse_dec_digits]]
  show "parse_iso (isoformat t) = Some (t, 0)"
    unfolding iso append_assoc using t(1) parse_dec_digits [OF b(7)] dec_digits_chars
    by (subst layout [of _ f]) (auto simp del: dec_digits.simps)
  show "parse_iso (take 19 (isoformat t)) = Some (t - t mod 1000000, 0)"
    unfolding iso using t(2) layout [of "[]" 0]
    by (simp add: field_layout del: dec_digits.simps)
qed

lemma google_when:
  "datetime_range t \<Longrightarrow> google_parse_when (JObj [(''dateTime'', JStr (isoformat t))]) = Inr t"
  by (simp add: google_parse_when_def json_get_def str_json_def parse_iso_isoformat(1))

lemma graph_when_back: "datetime_range t \<Longrightarrow> graph_parse_when (graph_when t) = Inr (t - t mod 1000000)"
proof -
  assume t: "datetime_range t"
  have utc: "py_upper ''UTC'' = ''UTC''" by code_simp
  show ?thesis
    by (simp add: graph_parse_when_def graph_when_def obj_of_def and_then_def get_or_def json_get_def str_field_def
        str_json_def parse_iso_isoformat(2) [OF t] utc)
qed

lemma google_attendees:
  "map_result attendee_email (map (\<lambda>a. JObj [(''email'', JStr a)]) as) = Inr (map (\<lambda>a. if a = [] then [] else [a]) as)"
  by (induction as)
    (auto simp: attendee_email_def obj_of_def and_then_def json_get_def json_truthy_def str_field_def str_json_def)

lemma concat_nonempty: "concat (map (\<lambda>a. if a = [] then [] else [a]) as) = filter (\<lambda>a. a \<noteq> []) as"
  by (induction as) auto

lemma graph_attendee:
  "address_of (Some (JObj [(''emailAddress'', JObj [(''address'', JStr a)]), (''type'', JStr ''required'')])) = a"
  by (simp add: address_of_def get_or_def json_get_def str_field_def str_json_def)

lemmas event_simps = and_then_def obj_of_def json_item_def get_or_def json_get_def str_field_def str_json_def
  iter_json_def opt_text_def json_truthy_def

section \<open>Properties\<close>

text \<open>
  An event created from a draft and echoed by the provider is read back as the draft:
  exactly by the Google client; by the Graph client with times cut to whole seconds, and with the
  description the server's preview gives. Empty attendee addresses are dropped, an empty Graph
  location becomes none.
\<close>

theorem calendar_roundtrip:
  assumes "datetime_range (cd_starts_at d)" "datetime_range (cd_ends_at d)"
  shows "google_event_to_calendar_event (JObj ((''id'', JStr i) # draft_to_google_event d)) =
      Inr \<lparr>ce_provider_raw_id = i, ce_title = cd_title d, ce_description = cd_description d, ce_location = cd_location d,
           ce_starts_at = cd_starts_at d, ce_ends_at = cd_ends_at d, ce_attendees = filter (\<lambda>a. a \<noteq> []) (cd_attendees d)\<rparr>
    \<and> graph_event_to_calendar_event (JObj ((''id'', JStr i) # (''bodyPreview'', JStr preview) # draft_to_graph_event d)) =
      Inr \<lparr>ce_provider_raw_id = i, ce_title = cd_title d, ce_description = (if preview = [] then None else Some preview),
           ce_location = (if cd_location d = Some [] then None else cd_location d),
           ce_starts_at = cd_starts_at d - cd_starts_at d mod 1000000, ce_ends_at = cd_ends_at d - cd_ends_at d mod 1000000,
           ce_attendees = filter (\<lambda>a. a \<noteq> []) (cd_attendees d)\<rparr>"
proof
  show "google_event_to_calendar_event (JObj ((''id'', JStr i) # draft_to_google_event d)) =
      Inr \<lparr>ce_provider_raw_id = i, ce_title = cd_title d, ce_description = cd_description d, ce_location = cd_location d,
           ce_starts_at = cd_starts_at d, ce_ends_at = cd_ends_at d, ce_attendees = filter (\<lambda>a. a \<noteq> []) (cd_attendees d)\<rparr>"
    by (cases "cd_description d"; cases "cd_location d"; cases "cd_attendees d = []")
      (simp_all add: google_event_to_calendar_event_def draft_to_google_event_def event_simps google_attendees concat_nonempty
        google_when [OF assms(1)] google_when [OF assms(2)])
  show "graph_event_to_calendar_event (JObj ((''id'', JStr i) # (''bodyPreview'', JStr preview) # draft_to_graph_event d)) =
      Inr \<lparr>ce_provider_raw_id = i, ce_title = cd_title d, ce_description = (if preview = [] then None else Some preview),
           ce_location = (if cd_location d = Some [] then None else cd_location d),
           ce_starts_at = cd_starts_at d - cd_starts_at d mod 1000000, ce_ends_at = cd_ends_at d - cd_ends_at d mod 1000000,
           ce_attendees = filter (\<lambda>a. a \<noteq> []) (cd_attendees d)\<rparr>"
    by (cases "cd_description d"; cases "cd_location d"; cases "cd_attendees d = []")
      (simp_all add: graph_event_to_calendar_event_def draft_to_graph_event_def event_simps o_def graph_attendee
        graph_when_back [OF assms(1)] graph_when_back [OF assms(2)])
qed

text \<open>An event of the first hour of the calendar.\<close>

definition sample_draft :: calendar_event_draft where
  "sample_draft = \<lparr>cd_title = ''Demo'', cd_description = None, cd_location = Some ''Room 1'', cd_starts_at = -62135596799999999,
     cd_ends_at = -62135593200000000, cd_attendees = [''ann@acme.io'', []]\<rparr>"

theorem calendar_roundtrip_witness:
  "google_event_to_calendar_event (JObj ((''id'', JStr ''e1'') # draft_to_google_event sample_draft)) =
     Inr \<lparr>ce_provider_raw_id = ''e1'', ce_title = ''Demo'', ce_description = None, ce_location = Some ''Room 1'',
          ce_starts_at = -62135596799999999, ce_ends_at = -62135593200000000, ce_attendees = [''ann@acme.io'']\<rparr>"
proof -
  have r: "datetime_range (cd_starts_at sample_draft)" "datetime_range (cd_ends_at sample_draft)" by code_simp+
  show ?thesis
    using conjunct1 [OF calendar_roundtrip [OF r, of "''e1''"]] by (simp add: sample_draft_def seconds_def)
qed

text \<open>
  C19 (termination). A mail listing returns, whatever the provider, the tokens and the failures of the
  network, as long as no page without messages promises another one; it returns at most as many
  messages as were asked for. A calendar listing of Google returns if its chain of pages ends. (The
  code bounds neither the pages nor the time: with empty pages that link on, the loop never ends.)
\<close>

theorem listings_return:
  assumes "progressing env" "gmail_progressing env" "calendar_ends env n"
  shows "(\<exists>r c' w'. list_messages L P cfg env others cv impl since folder limit c w = Some (r, c', w')
       \<and> (\<forall>ms. r = Inr ms \<longrightarrow> length ms \<le> nat limit))
    \<and> list_events P cfg env others cv impl start end_at c w \<noteq> None"
proof
  obtain r c1 w1 where g: "graph_pages P cfg env others cv limit (Some (''/me/mailFolders/'' @ folder @ ''/messages''))
      (graph_listing_params since limit) [] c w = Some (r, c1, w1)"
    using graph_pages_returns [OF assms(1)] by (metis prod_cases3)
  have m: "\<exists>r' c' w'. microsoft_list_messages P cfg env others cv since folder limit c w = Some (r', c', w')
      \<and> (\<forall>ms. r' = Inr ms \<longrightarrow> length ms \<le> nat limit)"
    unfolding microsoft_list_messages_def g by (auto simp: and_then_Inr dest!: map_result_length)
  let ?call = "\<lambda>token. lift_attempt (gmail_pages env token (py_upper folder) (map_option after_query since) limit None [])"
  obtain x c2 w2 where x: "google_execute P cfg env others cv ?call c w = (x, c2, w2)" by (metis prod_cases3)
  have "x \<noteq> Inr None" by (rule google_execute_lift [OF x gmail_pages_returns [OF assms(2)]])
  then have "\<exists>r' c' w'. google_list_messages L P cfg env others cv since folder limit c w = Some (r', c', w')
      \<and> (\<forall>ms. r' = Inr ms \<longrightarrow> length ms \<le> nat limit)"
    unfolding google_list_messages_def x by (auto dest!: map_result_length split: sum.splits option.splits)
  with m show "\<exists>r c' w'. list_messages L P cfg env others cv impl since folder limit c w = Some (r, c', w')
       \<and> (\<forall>ms. r = Inr ms \<longrightarrow> length ms \<le> nat limit)"
    by (cases impl) (simp_all add: list_messages_def)
  let ?events = "\<lambda>token. lift_attempt (calendar_pages env token start end_at None [])"
  obtain y c3 w3 where y: "google_execute P cfg env others cv ?events c w = (y, c3, w3)" by (metis prod_cases3)
  have "y \<noteq> Inr None" by (rule google_execute_lift [OF y calendar_pages_returns [OF assms(3)]])
  then have "google_list_events P cfg env others cv start end_at c w \<noteq> None"
    unfolding google_list_events_def y by (auto split: sum.splits option.splits)
  then show "list_events P cfg env others cv impl start end_at c w \<noteq> None"
    by (cases impl) (simp_all add: list_events_def)
qed

definition paged_env :: net_env where
  \<comment> \<open>two pages of one message each, for either kind of client\<close>
  "paged_env = token_env\<lparr>ne_http := \<lambda>n rq. Answered \<lparr>hr_status = 200, hr_retry_after = None,
     hr_body = Some (JObj ([(''value'', JList [JObj [(''id'', JStr ''m'')]]), (''messages'', JList [JObj [(''id'', JStr ''m'')]]),
                            (''id'', JStr ''m'')]
       @ (if n = 0 then [(''@odata.nextLink'', JStr ''/more''), (''nextPageToken'', JStr ''t'')] else [])))\<rparr>\<rparr>"

definition sample_lib :: email_lib where
  "sample_lib = \<lparr>el_parseaddr = \<lambda>s. ([], s), el_getaddresses = \<lambda>s. [([], s)], el_mime = \<lambda>hs body. Inr body\<rparr>"

theorem listings_return_witness:
  "\<exists>r c' w'. list_messages sample_lib sample_primitives sample_cfg paged_env id (Some (context_for acme_tenant)) MicrosoftMail None
       ''inbox'' 50 graph_connection graph_world = Some (r, c', w')"
proof -
  have "progressing paged_env" "gmail_progressing paged_env" "calendar_ends paged_env 1"
    by (auto simp: paged_env_def progressing_def gmail_progressing_def calendar_ends_def graph_page_def json_body_def
        and_then_def get_or_def json_get_def iter_json_def next_page_token_def split: if_splits)
  from listings_return [OF this] show ?thesis by blast
qed

end
