(* ===== verification/ConnectorInvariants.thy ===== *)
theory ConnectorInvariants
  imports Clients
begin

text \<open>
  Invariants of the connector tables. The locale states what an invariant has to satisfy at the few
  places where connections and subscriptions are written; that every refresh, call, renewal and
  periodic task, consent and revocation then preserves it is proved once. \<^verbatim>\<open>ConnectorLife\<close> interprets it.
\<close>

section \<open>Frames\<close>

lemma refresh_locked_more:
  assumes "refresh_locked P cfg env token c w = (r, c', audits, w')"
  shows "net_world.more w' = net_world.more w"
proof -
  have "net_world.more w1 = net_world.more w"
    if "run_with_backoff env m i (refresh_token_grant env cfg m rt) w = (br, w1)" for m i rt br w1
    using backoff_loop_frame [OF plain_refresh_token_grant that [unfolded run_with_backoff_def]] by simp
  then show ?thesis
    using assms
    by (auto simp: refresh_locked_def Let_def dest!: apply_token_bundle_fields
        split: sum.splits prod.splits exn.splits if_splits)
qed

lemma provider_http_request_more:
  assumes "provider_http_request env m cid rq path w = (r, w')"
  shows "net_world.more w' = net_world.more w"
proof -
  have "net_world.more w1 = net_world.more w"
    if "run_with_backoff env m cid (request_attempt env rq call_outcome) w = (br, w1)" for br w1
    using backoff_loop_frame [OF plain_request_attempt that [unfolded run_with_backoff_def]] by simp
  then show ?thesis
    using assms by (auto simp: provider_http_request_def split: sum.splits prod.splits if_splits)
qed

lemma draw_more [simp]: "net_world.more (snd (draw w)) = net_world.more w"
  by (simp add: draw_def)

lemma get_connection_row:
  "get_connection cv i w = Inr (Some c) \<Longrightarrow>
   c \<in> set (connections w) \<and> cn_id c = i \<and> (\<exists>ctx. cv = Some ctx \<and> cn_tenant_id c = tc_tenant_id ctx)"
  by (cases cv) (auto simp: get_connection_def scoped_connections_def handler_simps dest!: find_eq_Some_D)

lemma add_audits_tables:
  "add_audits env cv as w = (r, w') \<Longrightarrow>
   connections w' = connections w \<and> subscriptions w' = subscriptions w \<and> webhook_routes w' = webhook_routes w"
  by (induction as arbitrary: w) (auto simp: draw_def split: sum.splits)

lemma commit_connection_tables:
  "commit_connection env cv c audits w = (r, w') \<Longrightarrow>
   (connections w' = connections w \<or>
    connections w' = update_where (\<lambda>r. cn_id r = cn_id c) (\<lambda>_. c) (connections w)) \<and>
   subscriptions w' = subscriptions w \<and> webhook_routes w' = webhook_routes w"
  by (auto simp: commit_connection_def dest!: add_audits_tables split: sum.splits prod.splits)

lemma update_where_parts: "set (update_where p f rs) = {r \<in> set rs. \<not> p r} \<union> f ` {r \<in> set rs. p r}"
  by (auto simp: update_where_def)

lemma revoke_connection_more:
  "revoke_connection P cfg env c w = (c', w') \<Longrightarrow> net_world.more w' = net_world.more w"
  by (auto simp: revoke_connection_def Let_def send_def split: option.splits sum.splits)

section \<open>Operations on connections\<close>

datatype conn_op =
    RefreshOp
  | RenewOp
  | SyncOp string uuid
  | WebhookOp connector_provider string webhook_request
  | EventOp handler_registry string uuid string string string "string option"
  | CallbackOp connector_provider string "string option" "string option"
  | RevokeOp permission_registry request uuid
  | ClientOp email_lib context_var uuid capability_type client_call
  | WaitOp int

fun conn_step ::
  "primitives \<Rightarrow> settings \<Rightarrow> net_env \<Rightarrow> (conn_world \<Rightarrow> conn_world) \<Rightarrow> conn_op \<Rightarrow> conn_world \<Rightarrow> conn_world" where
  "conn_step P cfg env others RefreshOp w = snd (refresh_expiring_tokens P cfg env others w)"
| "conn_step P cfg env others RenewOp w = snd (renew_expiring_subscriptions P cfg env others w)"
| "conn_step P cfg env others (SyncOp slug cid) w = snd (sync_connection_subscriptions P cfg env others slug cid w)"
| "conn_step P cfg env others (WebhookOp p key rq) w = snd (receive_webhook P p key rq w)"
| "conn_step P cfg env others (EventOp reg slug cid provider cap change rid) w =
     snd (process_connector_event env reg slug cid provider cap change rid w)"
| "conn_step P cfg env others (CallbackOp p state code err) w =
     snd (connector_oauth_callback P cfg env p state code err w)"
| "conn_step P cfg env others (RevokeOp st rq cid) w = snd (connector_revoke P cfg env st rq cid w)"
| "conn_step P cfg env others (ClientOp L cv cid t call) w =
     (case get_connection cv cid w of
        Inr (Some c) \<Rightarrow>
          (case get_capability c t of Inl _ \<Rightarrow> w
           | Inr impl \<Rightarrow> (case client_effect L P cfg env others cv impl call c w of None \<Rightarrow> w | Some (_, w1) \<Rightarrow> w1))
      | _ \<Rightarrow> w)"
| "conn_step P cfg env others (WaitOp d) w = sleep d w"

definition conn_run ::
  "primitives \<Rightarrow> settings \<Rightarrow> net_env \<Rightarrow> (conn_world \<Rightarrow> conn_world) \<Rightarrow> conn_op list \<Rightarrow> conn_world \<Rightarrow> conn_world" where
  "conn_run P cfg env others ops w = fold (conn_step P cfg env others) ops w"

text \<open>The operations that are neither a consent nor a revocation: periodic tasks, notifications, calls of modules.\<close>

fun background :: "conn_op \<Rightarrow> bool" where
  "background (CallbackOp p state code err) = False"
| "background (RevokeOp st rq cid) = False"
| "background op = True"

text \<open>The connection a consent callback asks to revive, when its state is accepted at all.\<close>

definition reconsent_id :: "primitives \<Rightarrow> settings \<Rightarrow> connector_provider \<Rightarrow> string \<Rightarrow> uuid \<Rightarrow> bool" where
  "reconsent_id P cfg p state cid \<longleftrightarrow>
     (\<exists>now payload. connector_parse_state P cfg now state p = Inr payload
        \<and> state_uuid (json_get payload ''cid'') = Inr (Some cid))"

section \<open>Invariants of the tables\<close>

text \<open>What the other workers do while one waits for a lock, if it keeps the invariant too.\<close>

definition kept :: "('w \<Rightarrow> bool) \<Rightarrow> ('w \<Rightarrow> 'w) \<Rightarrow> bool" where
  "kept I others \<longleftrightarrow> (\<forall>w. I w \<longrightarrow> I (others w))"

locale session_invariant =
  fixes P :: primitives and cfg :: settings and env :: net_env
    and I :: "conn_world \<Rightarrow> bool" and ok :: "connector_connection \<Rightarrow> bool"
  assumes net: "net_world.more w' = net_world.more w \<Longrightarrow> I w \<Longrightarrow> I w'"
    and reread: "I w \<Longrightarrow> ok c \<Longrightarrow> get_connection cv (cn_id c) w = Inr (Some c') \<Longrightarrow> ok c'"
    and applied: "ok c \<Longrightarrow> decrypt_token P cfg (cn_refresh_token_enc c) = Inr rt \<Longrightarrow>
      apply_token_bundle P cfg env b c w = (Inr c', w') \<Longrightarrow> ok c'"
    and degraded: "ok c \<Longrightarrow> s \<noteq> CONN_ACTIVE \<Longrightarrow> ok (c\<lparr>cn_status := s\<rparr>)"
    and noted_error: "ok c \<Longrightarrow> ok (c\<lparr>cn_last_error := e\<rparr>)"
    and noted_health: "ok c \<Longrightarrow> ok (c\<lparr>cn_health_checked_at := h\<rparr>)"
    and committed: "I w \<Longrightarrow> ok c \<Longrightarrow> commit_connection env cv c audits w = (r, w') \<Longrightarrow> I w'"
    and subscribed: "I w \<Longrightarrow> ok c \<Longrightarrow>
      add_subscription env cv (cn_id c) cap psid res exp hash data w = (rs, w') \<Longrightarrow> I w'"
    and renewed: "I w \<Longrightarrow> I (subscriptions_update (update_where p (sb_expires_at_update f)) w)"
    and dropped: "I w \<Longrightarrow> I (subscriptions_update (delete_where p) w)"
begin

lemma refresh_locked_keeps:
  assumes "I w" "ok c" "refresh_locked P cfg env token c w = (r, c', audits, w')"
  shows "I w' \<and> ok c'"
proof
  show "I w'" using net [OF refresh_locked_more [OF assms(3)] assms(1)] .
  show "ok c'"
    using assms(2,3)
    by (auto simp: refresh_locked_def Let_def intro: applied degraded noted_error noted_health
        split: sum.splits prod.splits exn.splits if_splits)
qed

lemma wait_for_lock_keeps:
  assumes others: "kept I others"
  shows "I w \<Longrightarrow> wait_for_lock env others name k w = (r, w') \<Longrightarrow> I w'"
proof (induction k arbitrary: w)
  case (Suc k)
  obtain ar w1 where a: "acquire_lock env name LOCK_TTL_SECONDS w = (ar, w1)" by fastforce
  have I1: "I w1" using net [of w1 w] acquire_lock_fields [OF a] Suc.prems(1) by simp
  have "I (others (sleep 250000 w1))" 
    using others net [of "sleep 250000 w1" w1] I1 by (simp add: kept_def sleep_def)
  then show ?case using Suc I1 a by (auto split: option.splits)
qed simp

lemma refresh_connection_keeps:
  assumes "I w" "ok c" "refresh_connection P cfg env others cv block c w = (r, c', audits, w')"
    and others: "kept I others"
  shows "I w' \<and> ok c'"
proof (cases block)
  case True
  obtain lr w1 where l: "wait_for_lock env others (refresh_lock_name (cn_id c)) WAIT_ATTEMPTS w = (lr, w1)"
    by fastforce
  have I1: "I w1" by (rule wait_for_lock_keeps [OF others assms(1) l])
  show ?thesis
  proof (cases lr)
    case (Inl e)
    then show ?thesis using assms(2,3) True l I1 by (simp add: refresh_connection_def Let_def)
  next
    case (Inr token)
    show ?thesis
    proof (cases "get_connection cv (cn_id c) w1")
      case (Inl e)
      then show ?thesis using assms(2,3) True l I1 Inr by (simp add: refresh_connection_def Let_def)
    next
      case g: (Inr oc)
      show ?thesis
      proof (cases oc)
        case None
        then show ?thesis using assms(2,3) True l I1 Inr g by (simp add: refresh_connection_def Let_def)
      next
        case (Some c1)
        have ok1: "ok c1" using reread [OF I1 assms(2)] g Some by simp
        show ?thesis
          using assms(3) True l Inr g Some ok1 refresh_locked_keeps [OF I1 ok1]
            net [of "release_lock (refresh_lock_name (cn_id c)) token w1" w1] I1
          by (auto simp: refresh_connection_def Let_def split: if_splits)
      qed
    qed
  qed
next
  case False
  obtain ar w1 where a: "acquire_lock env (refresh_lock_name (cn_id c)) LOCK_TTL_SECONDS w = (ar, w1)" by fastforce
  have I1: "I w1" using net [of w1 w] acquire_lock_fields [OF a] assms(1) by simp
  show ?thesis
    using assms(2,3) False a I1 refresh_locked_keeps [OF I1 assms(2)]
    by (auto simp: refresh_connection_def Let_def split: option.splits)
qed

lemma fresh_access_token_keeps:
  assumes "I w" "ok c" "fresh_access_token P cfg env others cv c w = (r, c', w')"
    and others: "kept I others"
  shows "I w' \<and> ok c'"
proof (cases "cn_status c = CONN_ACTIVE \<and> access_token_expiring c (seconds EXPIRY_SKEW_SECONDS) (clock w)")
  case True
  obtain rr c1 a w1 where rc: "refresh_connection P cfg env others cv True c w = (rr, c1, a, w1)"
    by (metis prod_cases4)
  note k = refresh_connection_keeps [OF assms(1,2) rc others]
  show ?thesis
    using assms(3) True rc k committed [of w1 c1]
    by (auto simp: fresh_access_token_def split: sum.splits prod.splits)
qed (use assms in \<open>auto simp: fresh_access_token_def split: if_splits\<close>)

lemma bearer_call_keeps:
  assumes "I w" "ok c" "bearer_call P cfg env others cv c meth url body params w = (r, c', w')"
    and others: "kept I others"
  shows "I w' \<and> ok c'"
proof -
  obtain tr c1 w1 where f: "fresh_access_token P cfg env others cv c w = (tr, c1, w1)" by (metis prod_cases3)
  note k = fresh_access_token_keeps [OF assms(1,2) f others]
  show ?thesis
    using assms(3) f k net [OF provider_http_request_more]
    by (auto simp: bearer_call_def Let_def split: sum.splits prod.splits)
qed

lemmas api_call_keeps = bearer_call_keeps [where body = "Some body" and params = "[]", folded api_call_def] for body

lemma graph_request_keeps:
  assumes "I w" "ok c" "graph_request P cfg env others cv meth path body params c w = (r, c', w')" "kept I others"
  shows "I w' \<and> ok c'"
  using bearer_call_keeps [OF assms(1,2) _ assms(4)] assms(3) unfolding graph_request_def .

lemma graph_pages_keeps:
  assumes others: "kept I others" and "I w" "ok c"
    and ret: "graph_pages P cfg env others cv limit path params ms c w = Some res"
  shows "I (snd (snd res)) \<and> ok (fst (snd res))"
proof -
  have "P' = P \<and> cfg' = cfg \<and> env' = env \<and> others' = others \<and> I w \<and> ok c \<longrightarrow> I (snd (snd res)) \<and> ok (fst (snd res))"
    if r: "graph_pages P' cfg' env' others' cv limit path params ms c w = Some res"
    for P' cfg' env' others' cv limit path params ms c w res
  proof (rule graph_pages.raw_induct [where P = "\<lambda>P' cfg' env' others' cv limit path params ms c w res.
      P' = P \<and> cfg' = cfg \<and> env' = env \<and> others' = others \<and> I w \<and> ok c \<longrightarrow> I (snd (snd res)) \<and> ok (fst (snd res))", OF _ r],
      goal_cases)
    case (1 f P' cfg' env' others' cv limit path params ms c w res)
    show ?case
      using 1(2) graph_request_keeps [OF _ _ _ others, of w c cv "''GET''" _ None params]
      by (auto split: option.splits if_splits sum.splits prod.splits dest!: 1(1))
  qed
  then show ?thesis using assms by blast
qed

lemma google_execute_keeps:
  assumes "I w" "ok c" "google_execute P cfg env others cv call c w = (r, c', w')"
    and others: "kept I others" and plain: "\<And>token. plain_attempt (call token)"
  shows "I w' \<and> ok c'"
proof -
  obtain tr c1 w1 where f: "fresh_access_token P cfg env others cv c w = (tr, c1, w1)" by (metis prod_cases3)
  note k = fresh_access_token_keeps [OF assms(1,2) f others]
  have "I w2" if "run_with_backoff env m cid (call token) w1 = (x, w2)" for m cid token x w2
    using net backoff_loop_frame [OF plain] that k unfolding run_with_backoff_def by blast
  then show ?thesis
    using assms(3) f k by (auto simp: google_execute_def Let_def split: sum.splits prod.splits)
qed

lemma list_messages_keeps:
  assumes "I w" "ok c" "list_messages L P cfg env others cv impl since folder limit c w = Some (r, c', w')"
    and others: "kept I others"
  shows "I w' \<and> ok c'"
proof (cases impl)
  case GoogleMail
  obtain x c1 w1 where x: "google_execute P cfg env others cv (\<lambda>token. lift_attempt
      (gmail_pages env token (py_upper folder) (map_option after_query since) limit None [])) c w = (x, c1, w1)"
    by (metis prod_cases3)
  show ?thesis
    using google_execute_keeps [OF assms(1,2) x others plain_gmail_pages] assms(3) GoogleMail x
    by (auto simp: list_messages_def google_list_messages_def split: sum.splits option.splits)
next
  case MicrosoftMail
  then obtain res where "graph_pages P cfg env others cv limit (Some (''/me/mailFolders/'' @ folder @ ''/messages''))
      (graph_listing_params since limit) [] c w = Some res" "c' = fst (snd res)" "w' = snd (snd res)"
    using assms(3) unfolding list_messages_def microsoft_list_messages_def by fastforce
  then show ?thesis using graph_pages_keeps [OF others assms(1,2)] by blast
qed (use assms in \<open>simp_all add: list_messages_def\<close>)

lemma list_events_keeps:
  assumes "I w" "ok c" "list_events P cfg env others cv impl start end_at c w = Some (r, c', w')"
    and others: "kept I others"
  shows "I w' \<and> ok c'"
proof (cases impl)
  case GoogleCalendar
  obtain x c1 w1 where x: "google_execute P cfg env others cv
      (\<lambda>token. lift_attempt (calendar_pages env token start end_at None [])) c w = (x, c1, w1)"
    by (metis prod_cases3)
  show ?thesis
    using google_execute_keeps [OF assms(1,2) x others plain_calendar_pages] assms(3) GoogleCalendar x
    by (auto simp: list_events_def google_list_events_def split: sum.splits option.splits)
next
  case MicrosoftCalendar
  then show ?thesis
    using assms(3) graph_request_keeps [OF assms(1,2) _ others]
    by (auto simp: list_events_def microsoft_list_events_def split: prod.splits)
qed (use assms in \<open>simp_all add: list_events_def\<close>)

lemma client_effect_keeps:
  assumes "I w" "ok c" "client_effect L P cfg env others cv impl call c w = Some (c', w')" and others: "kept I others"
  shows "I w' \<and> ok c'"
proof -
  note g = graph_request_keeps [OF assms(1,2) _ others]
  have x: "I v \<and> ok d" if "google_execute P cfg env others cv (\<lambda>token. sdk_call env token name (args token) body) c w = (r, d, v)"
    for name args body r d v
    by (rule google_execute_keeps [OF assms(1,2) that others plain_sdk_call])
  show ?thesis
  proof (cases call)
    case (ListMessages since folder limit)
    then show ?thesis using assms(3) list_messages_keeps [OF assms(1,2) _ others] by (auto simp: client_effect_def)
  next
    case (ListEvents start end_at)
    then show ?thesis using assms(3) list_events_keeps [OF assms(1,2) _ others] by (auto simp: client_effect_def)
  next
    case (GetMessage i)
    then show ?thesis
      using assms(1-3) g google_execute_keeps [OF assms(1,2) _ others plain_gmail_get]
      by (auto simp: client_effect_def google_get_message_def microsoft_get_message_def
          split: capability_impl.splits prod.splits)
  next
    case (SendMessage d)
    then show ?thesis
      using assms(1-3) g x [of "''gmail.users.messages.send''"]
      by (auto simp: client_effect_def google_send_message_def microsoft_send_message_def
          split: capability_impl.splits prod.splits sum.splits)
  next
    case (CreateEvent d)
    then show ?thesis
      using assms(1-3) g x [of "''calendar.events.insert''"]
      by (auto simp: client_effect_def google_create_event_def microsoft_create_event_def
          split: capability_impl.splits prod.splits)
  qed
qed

lemma create_google_channel_keeps:
  assumes "I w" "ok c" "create_google_channel P cfg env others cv key c w = (r, c', w')"
    and others: "kept I others"
  shows "I w' \<and> ok c'"
proof -
  obtain n1 w1 where d1: "draw w = (n1, w1)" by fastforce
  obtain n2 w2 where d2: "draw w1 = (n2, w2)" by fastforce
  have I2: "I w2" using net draw_eq_more [OF d1] draw_eq_more [OF d2] assms(1) by metis
  show ?thesis
    using assms(3) d1 d2 subscribed [OF _ assms(2)]
    by (auto simp: create_google_channel_def Let_def dest!: api_call_keeps [OF I2 assms(2) _ others]
        split: sum.splits prod.splits)
qed

lemma create_graph_subscription_keeps:
  assumes "I w" "ok c" "create_graph_subscription P cfg env others cv key cap c w = (r, c', w')"
    and others: "kept I others"
  shows "I w' \<and> ok c'"
proof -
  obtain n1 w1 where d1: "draw w = (n1, w1)" by fastforce
  have I1: "I w1" using net draw_eq_more [OF d1] assms(1) by metis
  show ?thesis
    using assms(3) d1 subscribed [OF _ assms(2)]
    by (auto simp: create_graph_subscription_def Let_def dest!: api_call_keeps [OF I1 assms(2) _ others]
        split: sum.splits prod.splits)
qed

lemma stop_google_channel_keeps:
  assumes others: "kept I others"
  shows "I w \<Longrightarrow> ok c \<Longrightarrow> stop_google_channel P cfg env others cv c s w = (c', w') \<Longrightarrow> I w' \<and> ok c'"
  unfolding stop_google_channel_def by (metis api_call_keeps others prod.collapse)

lemma ensure_loop_keeps:
  assumes others: "kept I others"
  shows "I w \<Longrightarrow> ok c \<Longrightarrow> ensure_loop P cfg env others cv key existing caps c w = (r, c', w') \<Longrightarrow> I w' \<and> ok c'"
proof (induction caps arbitrary: c w)
  case (Cons cap caps)
  obtain cr c1 w1 where cr: "(if cn_provider c = GOOGLE
      then create_google_channel P cfg env others cv key c w
      else create_graph_subscription P cfg env others cv key cap c w) = (cr, c1, w1)"
    by (metis prod_cases3)
  have "I w1 \<and> ok c1"
    using cr create_google_channel_keeps [OF Cons.prems(1,2) _ others]
      create_graph_subscription_keeps [OF Cons.prems(1,2) _ others]
    by (auto split: if_splits)
  then show ?case
    using Cons cr by (auto split: if_splits sum.splits)
qed simp

lemma ensure_subscriptions_keeps:
  assumes others: "kept I others"
  shows "I w \<Longrightarrow> ok c \<Longrightarrow> ensure_subscriptions P cfg env others cv key c w = (r, c', w') \<Longrightarrow> I w' \<and> ok c'"
  by (auto simp: ensure_subscriptions_def dest: ensure_loop_keeps [OF others] split: sum.splits)

lemma renew_subscription_keeps:
  assumes "I w" "ok c" "renew_subscription P cfg env others cv key c s w = (r, c', w')"
    and others: "kept I others"
  shows "I w' \<and> ok c'"
proof (cases "cn_provider c = MICROSOFT")
  case True
  then show ?thesis
    using assms(3)
    by (auto simp: renew_subscription_def Let_def dest!: api_call_keeps [OF assms(1,2) _ others] intro: renewed
        split: sum.splits prod.splits)
next
  case False
  obtain cr c1 w1 where cr: "create_google_channel P cfg env others cv key c w = (cr, c1, w1)" by (metis prod_cases3)
  note k1 = create_google_channel_keeps [OF assms(1,2) cr others]
  obtain c2 w2 where st: "stop_google_channel P cfg env others cv c1 s w1 = (c2, w2)" by fastforce
  note k2 = stop_google_channel_keeps [OF others conjunct1 [OF k1] conjunct2 [OF k1] st]
  show ?thesis
    using assms(3) False cr k1 st k2
    by (auto simp: renew_subscription_def Let_def intro: dropped split: sum.splits)
qed

end

text \<open>The tasks walk over the active connections; an invariant may exclude some of those.\<close>

locale connection_invariant = session_invariant +
  assumes active: "I w \<Longrightarrow> c \<in> set (connections w) \<Longrightarrow> cn_status c = CONN_ACTIVE \<Longrightarrow> ok c"
    and queued: "I w \<Longrightarrow> I (task_queue_update g w)"
    and touched: "I w \<Longrightarrow> get_connection cv i w = Inr (Some c) \<Longrightarrow>
      commit_connection env cv (c\<lparr>cn_health_checked_at := h\<rparr>) audits w = (r, w') \<Longrightarrow> I w'"
begin

lemma get_active:
  "I w \<Longrightarrow> get_connection cv i w = Inr (Some c) \<Longrightarrow> cn_status c = CONN_ACTIVE \<Longrightarrow> ok c"
  by (rule active) (auto dest: get_connection_row)

lemma refresh_loop_keeps:
  assumes others: "kept I others"
  shows "I w \<Longrightarrow> (\<And>c. c \<in> set cs \<Longrightarrow> ok c) \<Longrightarrow> refresh_loop P cfg env others cv lead cs rep w = (r, w') \<Longrightarrow> I w'"
proof (induction cs arbitrary: rep w)
  case (Cons c cs)
  obtain rr c1 a w1 where rc: "refresh_connection P cfg env others cv False c w = (rr, c1, a, w1)"
    by (metis prod_cases4)
  have k: "I w1" "ok c1" using refresh_connection_keeps [OF Cons.prems(1) _ rc others] Cons.prems(2) by auto
  obtain cr w2 where cm: "commit_connection env cv c1 a w1 = (cr, w2)" by fastforce
  have I2: "I w2" by (rule committed [OF k cm])
  have next_I: "refresh_loop P cfg env others cv lead cs rep' v = (r, w') \<Longrightarrow> I v \<Longrightarrow> I w'" for rep' v
    using Cons.IH [of v rep'] Cons.prems(2) by simp
  show ?case
    using Cons.prems(1,3) rc cm k(1) I2 next_I
    by (auto split: if_splits sum.splits)
qed simp

lemma refresh_tenants_keeps:
  assumes others: "kept I others"
  shows "I w \<Longrightarrow> refresh_tenants P cfg env others lead ts report w = (r, w') \<Longrightarrow> I w'"
proof (induction ts arbitrary: report w)
  case (Cons t ts)
  have act: "ok c" if "c \<in> set (connections w)" "cn_status c = CONN_ACTIVE" for c
    using active [OF Cons.prems(1) that] .
  have "I w1" if "refresh_loop P cfg env others (Some (context_for t)) lead
      (filter (\<lambda>c. cn_status c = CONN_ACTIVE)
         (filter (\<lambda>c. cn_tenant_id c = tc_tenant_id (context_for t)) (connections w))) rep w = (lr, w1)" for rep lr w1
    by (rule refresh_loop_keeps [OF others Cons.prems(1) _ that]) (use act in auto)
  then show ?case
    using Cons.prems(2)
    by (auto simp: Let_def scoped_connections_def handler_simps simp del: filter_filter
        intro: Cons.IH split: prod.splits sum.splits)
qed simp

lemma renew_one_keeps:
  assumes "I w" "renew_one P cfg env others cv s w = (r, w')"
    and others: "kept I others"
  shows "I w'"
proof (cases "\<exists>c. get_connection cv (sb_connection_id s) w = Inr (Some c) \<and> cn_status c = CONN_ACTIVE")
  case True
  then obtain c where c: "get_connection cv (sb_connection_id s) w = Inr (Some c)" "cn_status c = CONN_ACTIVE"
    by blast
  note okc = get_active [OF assms(1) c]
  obtain ar w1 where a: "acquire_lock env (renew_lock_name s) LOCK_TTL_SECONDS w = (ar, w1)" by fastforce
  have I1: "I w1" using net [of w1 w] acquire_lock_fields [OF a] assms(1) by simp
  have rel: "I v \<Longrightarrow> I (release_lock n tk v)" for n tk v by (rule net) simp
  show ?thesis
  proof (cases "ar = None \<or> route_key_for (cn_id c) w1 = None")
    case True
    then show ?thesis using assms c a I1 rel [OF I1] by (auto simp: renew_one_def split: option.splits)
  next
    case False
    then obtain token key where tk: "ar = Some token" "route_key_for (cn_id c) w1 = Some key" by auto
    obtain rr c1 w2 where rn: "renew_subscription P cfg env others cv key c s w1 = (rr, c1, w2)" by (metis prod_cases3)
    note k = renew_subscription_keeps [OF I1 okc rn others]
    have ok2: "ok (c1\<lparr>cn_health_checked_at := h\<rparr>)" "ok (failed_renewal e now c1)" for h e now
      using k by (simp_all add: failed_renewal_def noted_health noted_error degraded)
    show ?thesis
      using assms(2) c a tk rn committed [OF rel [OF conjunct1 [OF k]] ok2(1)]
        committed [OF rel [OF conjunct1 [OF k]] ok2(2)]
      by (auto simp: renew_one_def Let_def split: sum.splits prod.splits)
  qed
qed (use assms in \<open>auto simp: renew_one_def split: sum.splits option.splits if_splits\<close>)

lemma renew_loop_keeps:
  assumes others: "kept I others"
  shows "I w \<Longrightarrow> renew_loop P cfg env others cv ss rep w = (r, w') \<Longrightarrow> I w'"
  by (induction ss arbitrary: rep w) (auto dest: renew_one_keeps [OF _ _ others] split: prod.splits sum.splits)

lemma renew_tenants_keeps:
  assumes others: "kept I others"
  shows "I w \<Longrightarrow> renew_tenants P cfg env others horizon ts report w = (r, w') \<Longrightarrow> I w'"
  by (induction ts arbitrary: report w)
    (auto simp: Let_def dest: renew_loop_keeps [OF others] split: prod.splits sum.splits)

lemma sync_keeps:
  assumes "I w" "sync_connection_subscriptions P cfg env others slug i w = (r, w')"
    and others: "kept I others"
  shows "I w'"
proof (cases "filter (\<lambda>t. t_slug t = slug) (active_tenants w)")
  case (Cons t ts)
  have "I w'" if g: "get_connection (Some (context_for t)) i w = Inr (Some c)" "cn_status c = CONN_ACTIVE"
    and e: "ensure_subscriptions P cfg env others (Some (context_for t)) key c w = (er, c1, w1)"
    and m: "commit_connection env (Some (context_for t)) c2 [] w1 = (r, w')"
    and c2: "c2 = c1 \<or> (\<exists>l. c2 = c1\<lparr>cn_last_error := l\<rparr>)" for c key er c1 w1 c2
  proof -
    have k: "I w1" "ok c1" using ensure_subscriptions_keeps [OF others assms(1) get_active [OF assms(1) g] e] by auto
    have "ok c2" using c2 k(2) noted_error by auto
    then show ?thesis by (rule committed [OF k(1) _ m])
  qed
  then show ?thesis
    using assms Cons
    by (auto simp: sync_connection_subscriptions_def Let_def
        split: option.splits sum.splits prod.splits if_splits) blast+
qed (use assms in \<open>simp add: sync_connection_subscriptions_def\<close>)

lemma event_keeps:
  assumes "I w" "process_connector_event env reg slug i provider cap change rid w = (r, w')"
  shows "I w'"
  using assms touched [OF assms(1)]
  by (auto simp: process_connector_event_def Let_def split: list.splits option.splits sum.splits prod.splits)

lemma background_keeps:
  assumes "I w" "kept I others" "background op"
  shows "I (conn_step P cfg env others op w)"
proof (cases op)
  case RefreshOp
  then show ?thesis using refresh_tenants_keeps [OF assms(2,1)]
    by (simp add: refresh_expiring_tokens_def) (metis prod.collapse)
next
  case RenewOp
  then show ?thesis using renew_tenants_keeps [OF assms(2,1)]
    by (simp add: renew_expiring_subscriptions_def) (metis prod.collapse)
next
  case (SyncOp slug i)
  then show ?thesis using sync_keeps [OF assms(1) _ assms(2)] by simp (metis prod.collapse)
next
  case (WebhookOp p key rq)
  then show ?thesis using assms(1) queued
    by (auto simp: receive_webhook_def Let_def split: option.splits sum.splits)
next
  case (EventOp reg slug i provider cap change rid)
  then show ?thesis using event_keeps [OF assms(1)] by simp (metis prod.collapse)
next
  case (ClientOp L cv i t call)
  have "ok c" if "get_connection cv i w = Inr (Some c)" "get_capability c t = Inr impl" for c impl
    using get_active [OF assms(1) that(1)] that(2) by (auto simp: get_capability_def Let_def split: if_splits)
  then show ?thesis
    using ClientOp assms(1) client_effect_keeps [OF assms(1) _ _ assms(2)]
    by (auto split: sum.splits option.splits) blast
next
  case (WaitOp d)
  then show ?thesis using net [of "sleep d w" w] assms(1) by (simp add: sleep_def)
qed (use assms(3) in simp_all)

lemma background_run_keeps:
  "I w \<Longrightarrow> kept I others \<Longrightarrow> list_all background ops \<Longrightarrow> I (conn_run P cfg env others ops w)"
  unfolding conn_run_def by (induction ops arbitrary: w) (simp_all add: background_keeps)

end

section \<open>Consent and revocation\<close>

lemma permission_route_visit:
  "snd (permission_route P st perm rq (\<lambda>a ctx d. (Inr (a, ctx), d)) d) =
   snd (current_auth_or_none P (rq_now rq) (rq_cookie rq) d)"
  by (auto simp: permission_route_def Let_def split: prod.splits sum.splits)

locale consent_invariant = connection_invariant +
  fixes revives :: "uuid \<Rightarrow> bool"
  assumes present: "I w \<Longrightarrow> c \<in> set (connections w) \<Longrightarrow> cn_status c \<noteq> CONN_REVOKED \<Longrightarrow> ok c"
    and audited: "I w \<Longrightarrow> record_audit_event cv eid now a (cdb w) = Inr (ev, d) \<Longrightarrow> I (w\<lparr>cdb := d\<rparr>)"
    and visited: "I w \<Longrightarrow> current_auth_or_none P now cookie (cdb w) = (auth, d) \<Longrightarrow> I (w\<lparr>cdb := d\<rparr>)"
    and unrouted: "I w \<Longrightarrow> I (webhook_routes_update (delete_where q) w)"
    and routed: "I w \<Longrightarrow> ok c \<Longrightarrow> I (ensure_webhook_route env t p (cn_id c) w)"
    and stored: "I w \<Longrightarrow> ok c \<Longrightarrow> I (store_connection c is_new w)"
    and consented: "I w \<Longrightarrow>
      upsert_connection P cfg env cv p kind u label scopes b cid w = (Inr (c, is_new), w') \<Longrightarrow>
      (\<And>i. cid = Some i \<Longrightarrow> revives i) \<Longrightarrow> ok c"
    and revoked: "ok c \<Longrightarrow> revoke_connection P cfg env c w = (c', w') \<Longrightarrow> ok c'"
begin

lemma get_present:
  "I w \<Longrightarrow> get_connection cv i w = Inr (Some c) \<Longrightarrow> cn_status c \<noteq> CONN_REVOKED \<Longrightarrow> ok c"
  by (rule present) (auto dest: get_connection_row)

lemma add_audits_keeps: "I w \<Longrightarrow> add_audits env cv as w = (r, w') \<Longrightarrow> I w'"
proof (induction as arbitrary: w)
  case (Cons a as)
  have I1: "I (snd (draw w))" by (rule net [OF draw_more Cons.prems(1)])
  show ?case
  proof (cases "record_audit_event cv (ne_uuid env (fst (draw w))) (clock (snd (draw w))) a (cdb (snd (draw w)))")
    case (Inl e)
    then show ?thesis using Cons.prems(2) I1 by (auto simp: case_prod_unfold)
  next
    case (Inr x)
    obtain ev d where x: "x = (ev, d)" by fastforce
    have "I ((snd (draw w))\<lparr>cdb := d\<rparr>)" by (rule audited [OF I1 Inr [unfolded x]])
    then show ?thesis using Cons Inr x by (auto simp: case_prod_unfold)
  qed
qed simp

lemma store_consent_keeps:
  assumes "I w" "store_consent P cfg env t p kind u label scopes caps b cid w = (r, w')"
    and "\<And>i. cid = Some i \<Longrightarrow> revives i"
  shows "I w' \<and> (\<forall>i. r = Inr i \<longrightarrow> (\<exists>c. ok c \<and> cn_id c = i))"
proof -
  let ?cv = "Some \<lparr>tc_tenant_id = t_id t, tc_slug = t_slug t, tc_role = None\<rparr>"
  let ?u = "if kind = KIND_USER then u else None"
  obtain ur w1 where up: "upsert_connection P cfg env ?cv p kind ?u label scopes b cid w = (ur, w1)" by fastforce
  have I1: "I w1" by (rule net [OF upsert_connection_more [OF up] assms(1)])
  show ?thesis
  proof (cases ur)
    case (Inl e)
    then show ?thesis using assms(2) up I1
      by (auto simp: store_consent_def Let_def split: exn.splits)
  next
    case (Inr cn)
    obtain c is_new where cn: "cn = (c, is_new)" by (cases cn)
    have okc: "ok c" using consented [OF assms(1) up [unfolded Inr cn] assms(3)] .
    obtain ar w2 where au: "add_audits env ?cv [connected_args c p kind caps u label] w1 = (ar, w2)" by fastforce
    have I2: "I w2" by (rule add_audits_keeps [OF I1 au])
    show ?thesis using assms(2) up Inr cn au I1 stored [OF I2 okc] okc
      by (auto simp: store_consent_def Let_def split: sum.splits simp del: add_audits.simps)
  qed
qed

lemma complete_consent_keeps:
  assumes "I w" "complete_consent P cfg env t p kind u cid caps code page w = (r, w')"
    and revive: "\<And>j. cid = Some j \<Longrightarrow> revives j"
  shows "I w'"
proof -
  let ?m = "get_provider p"
  obtain er w1 where ex: "connector_exchange_code env cfg ?m code (connector_redirect_uri p cfg) w = (er, w1)" by fastforce
  have I1: "I w1" by (rule net [OF exchange_code_more [OF ex] assms(1)])
  show ?thesis
  proof (cases er)
    case (Inl e)
    then show ?thesis using assms(2) ex I1 by (simp add: complete_consent_def Let_def)
  next
    case (Inr b)
    obtain lr w2 where lb: "fetch_account_label env ?m (tb_access_token b) w1 = (lr, w2)" by fastforce
    have I2: "I w2" by (rule net [OF fetch_account_label_more [OF lb] I1])
    show ?thesis
    proof (cases "\<exists>l scopes. lr = Inr l \<and>
        (if tb_scopes b \<noteq> [] then Inr (tb_scopes b) else scopes_for ?m caps) = Inr scopes")
      case False
      then show ?thesis using assms(2) ex Inr lb I2
        by (auto simp: complete_consent_def Let_def split: sum.splits if_splits)
    next
      case True
      then obtain l scopes where l: "lr = Inr l"
        "(if tb_scopes b \<noteq> [] then Inr (tb_scopes b) else scopes_for ?m caps) = Inr scopes" by blast
      obtain sr w3 where sc: "store_consent P cfg env t p kind u l scopes caps b cid w2 = (sr, w3)" by fastforce
      note k = store_consent_keeps [OF I2 sc revive]
      have routed': "I (ensure_webhook_route env (t_id t) p i w3)" if "sr = Inr i" for i
        using k that routed by blast
      show ?thesis using assms(2) ex Inr lb l sc k routed'
        by (auto simp: complete_consent_def Let_def intro!: queued split: sum.splits)
    qed
  qed
qed

lemma callback_keeps:
  assumes "I w" "connector_oauth_callback P cfg env p state code err w = (r, w')"
    and revive: "\<And>i. reconsent_id P cfg p state i \<Longrightarrow> revives i"
  shows "I w'"
proof (cases "connector_parse_state P cfg (clock w) state p")
  case (Inl e)
  then show ?thesis using assms(1,2) by (auto simp: connector_oauth_callback_def split: exn.splits)
next
  case (Inr payload)
  have "revives j" if "state_uuid (json_get payload ''cid'') = Inr (Some j)" for j
    using revive Inr that by (auto simp: reconsent_id_def)
  then show ?thesis
    using assms(1,2) Inr
    by (auto simp: connector_oauth_callback_def Let_def
        dest!: complete_consent_keeps [OF assms(1)] split: option.splits sum.splits if_splits)
qed

lemma conn_route_keeps:
  assumes "I w" "conn_route P st perm rq handler w = (r, w')"
    and "\<And>a ctx v r' v'. I v \<Longrightarrow> handler a ctx v = (r', v') \<Longrightarrow> I v'"
  shows "I w'"
proof -
  let ?rq = "rq\<lparr>rq_now := clock w\<rparr>"
  obtain x d where pr: "permission_route P st perm ?rq (\<lambda>a ctx d. (Inr (a, ctx), d)) (cdb w) = (x, d)" by fastforce
  have "d = snd (current_auth_or_none P (clock w) (rq_cookie rq) (cdb w))"
    using permission_route_visit [of P st perm ?rq "cdb w"] pr by simp
  then have "I (w\<lparr>cdb := d\<rparr>)" using visited [OF assms(1)] by (metis prod.collapse)
  then show ?thesis using assms(2) pr by (auto simp: conn_route_def intro: assms(3) split: sum.splits)
qed

lemma revoke_keeps:
  assumes "I w" "connector_revoke P cfg env st rq i w = (r, w')"
  shows "I w'"
  using assms unfolding connector_revoke_def
proof (rule conn_route_keeps)
  fix a ctx v r' v'
  assume Iv: "I v" and h: "(case get_connection (Some ctx) i v of Inl e \<Rightarrow> (Inl e, v)
      | Inr None \<Rightarrow> (Inl (HTTPException 404 ''Connexion introuvable''), v)
      | Inr (Some c) \<Rightarrow>
          if cn_status c = CONN_REVOKED then (Inr (), v)
          else (let (c1, w2) = revoke_connection P cfg env c v
                in case scoped_delete (Some ctx) ''connector_subscriptions'' sb_tenant_id
                          (\<lambda>s. sb_connection_id s = cn_id c) (subscriptions w2) of
                     Inl e \<Rightarrow> (Inl e, w2)
                   | Inr subs \<Rightarrow>
                       (case commit_connection env (Some ctx) c1 [revoked_args c (ca_user a)] w2 of
                          (Inl e, w3) \<Rightarrow> (Inl e, w3)
                        | (Inr _, w3) \<Rightarrow>
                            (Inr (), webhook_routes_update (delete_where (\<lambda>r. wr_connection_id r = cn_id c))
                                       (w3\<lparr>subscriptions := subs\<rparr>))))) = (r', v')"
  show "I v'"
  proof (cases "\<exists>c. get_connection (Some ctx) i v = Inr (Some c) \<and> cn_status c \<noteq> CONN_REVOKED")
    case False
    then show ?thesis using h Iv by (auto split: sum.splits option.splits if_splits)
  next
    case True
    then obtain c where c: "get_connection (Some ctx) i v = Inr (Some c)" "cn_status c \<noteq> CONN_REVOKED" by blast
    obtain c1 w2 where rv: "revoke_connection P cfg env c v = (c1, w2)" by fastforce
    have I2: "I w2" by (rule net [OF revoke_connection_more [OF rv] Iv])
    have ok1: "ok c1" by (rule revoked [OF get_present [OF Iv c] rv])
    obtain cr w3 where cm: "commit_connection env (Some ctx) c1 [revoked_args c (ca_user a)] w2 = (cr, w3)" by fastforce
    have I3: "I w3" by (rule committed [OF I2 ok1 cm])
    have "w3\<lparr>subscriptions := delete_where q (subscriptions w2)\<rparr> = subscriptions_update (delete_where q) w3" for q
      using commit_connection_tables [OF cm] by (cases w3) simp
    then have "I (w3\<lparr>subscriptions := delete_where q (subscriptions w2)\<rparr>)" for q
      using dropped [OF I3] by simp
    then show ?thesis using h c rv cm I2 I3 unrouted
      by (auto simp: handler_simps split: sum.splits)
  qed
qed

lemma step_keeps:
  assumes "I w" "kept I others"
    and "\<And>p state code err i. op = CallbackOp p state code err \<Longrightarrow> reconsent_id P cfg p state i \<Longrightarrow> revives i"
  shows "I (conn_step P cfg env others op w)"
proof (cases "background op")
  case True
  then show ?thesis by (rule background_keeps [OF assms(1,2)])
next
  case False
  then consider p state code err where "op = CallbackOp p state code err" | st rq i where "op = RevokeOp st rq i"
    by (cases op) auto
  then show ?thesis
  proof cases
    case 1
    then show ?thesis using callback_keeps [OF assms(1)] assms(3) by simp (metis prod.collapse)
  next
    case 2
    then show ?thesis using revoke_keeps [OF assms(1)] by simp (metis prod.collapse)
  qed
qed

lemma run_keeps:
  assumes "I w" "kept I others"
    and "\<And>p state code err i. CallbackOp p state code err \<in> set ops \<Longrightarrow> reconsent_id P cfg p state i \<Longrightarrow> revives i"
  shows "I (conn_run P cfg env others ops w)"
  using assms(1,3) unfolding conn_run_def
proof (induction ops arbitrary: w)
  case (Cons op ops)
  have "I (conn_step P cfg env others op w)"
    by (rule step_keeps [OF Cons.prems(1) assms(2)], rule Cons.prems(2)) auto
  moreover have "\<And>p state code err i. CallbackOp p state code err \<in> set ops \<Longrightarrow> reconsent_id P cfg p state i \<Longrightarrow> revives i"
    by (rule Cons.prems(2)) auto
  ultimately show ?case using Cons.IH by simp
qed simp

end

end
