(* ===== verification/ConnectorLife.thy ===== *)
theory ConnectorLife
  imports ConnectorInvariants
begin

text \<open>
  The life of a connection, by interpretations of the invariant locales: it keeps its identifier, it
  stays revoked, its tokens are always sealed, and an \<^verbatim>\<open>error\<close> is never left by the periodic tasks.
\<close>

section \<open>Identity\<close>

text \<open>A connection keeps its identifier through whatever a session does with it.\<close>

lemma apply_token_bundle_id:
  "apply_token_bundle P cfg env b c w = (Inr c', w') \<Longrightarrow> cn_id c' = cn_id c"
  by (auto simp: apply_token_bundle_def Let_def split: sum.splits prod.splits option.splits if_splits)

interpretation identity: session_invariant P cfg env "\<lambda>_. True" "\<lambda>c. cn_id c = cid" for P cfg env cid
  by unfold_locales (use get_connection_row apply_token_bundle_id in auto)

lemma renew_subscription_id:
  "renew_subscription P cfg env others cv key c s w = (r, c', w') \<Longrightarrow> cn_id c' = cn_id c"
  by (rule identity.renew_subscription_keeps [THEN conjunct2, OF TrueI refl]) (simp_all add: kept_def)

section \<open>A revoked connection\<close>

definition inert :: "uuid \<Rightarrow> conn_world \<Rightarrow> bool" where
  "inert cid w \<longleftrightarrow>
     (\<forall>c\<in>set (connections w). cn_id c = cid \<longrightarrow>
        cn_status c = CONN_REVOKED \<and> cn_access_token_enc c = [] \<and> cn_refresh_token_enc c = [])
     \<and> (\<forall>s\<in>set (subscriptions w). sb_connection_id s \<noteq> cid)
     \<and> (\<forall>r\<in>set (webhook_routes w). wr_connection_id r \<noteq> cid)"

lemma inert_cong:
  "connections w' = connections w \<Longrightarrow> subscriptions w' = subscriptions w \<Longrightarrow> webhook_routes w' = webhook_routes w \<Longrightarrow>
   inert cid w' = inert cid w"
  by (simp add: inert_def)

lemma inert_commit:
  assumes "inert cid w" "commit_connection env cv c audits w = (r, w')"
    and "cn_id c \<noteq> cid \<or> (cn_status c = CONN_REVOKED \<and> cn_access_token_enc c = [] \<and> cn_refresh_token_enc c = [])"
  shows "inert cid w'"
proof -
  from commit_connection_tables [OF assms(2)]
  consider "connections w' = connections w"
    | "connections w' = update_where (\<lambda>r. cn_id r = cn_id c) (\<lambda>_. c) (connections w)" by blast
  then show ?thesis
    using assms(1,3) commit_connection_tables [OF assms(2)]
    by cases (auto simp: inert_def update_where_parts)
qed

lemma find_connection_id:
  assumes "find_connection p kind label i rows = Some c" "i \<noteq> Some cid"
    and "\<And>r. r \<in> set rows \<Longrightarrow> cn_id r = cid \<Longrightarrow> cn_status r = CONN_REVOKED"
  shows "cn_id c \<noteq> cid"
  using assms by (auto simp: find_connection_def dest!: find_eq_Some_D split: option.splits)

lemma upsert_connection_id:
  assumes "upsert_connection P cfg env cv p kind u label scopes b i w = (Inr (c, is_new), w')"
    and "inert cid w" "i \<noteq> Some cid" "\<And>n. ne_uuid env n \<noteq> cid"
  shows "cn_id c \<noteq> cid"
proof -
  have "cn_status r = CONN_REVOKED" if "r \<in> set (connections w)" "cn_id r = cid" for r
    using assms(2) that by (auto simp: inert_def)
  then have old: "cn_id r \<noteq> cid"
    if "scoped_connections cv w = Inr rows" "find_connection p kind label i rows = Some r" for rows r
    by (rule find_connection_id [OF that(2) assms(3)])
      (use that(1) in \<open>auto simp: scoped_connections_def handler_simps split: option.splits\<close>)
  have "ne_uuid env (drawn w) \<noteq> cid" by (rule assms(4))
  then show ?thesis
    using assms(1)
    by (auto simp: upsert_connection_def Let_def draw_def dest!: apply_token_bundle_id dest: old
        split: sum.splits prod.splits option.splits if_splits)
qed

interpretation dead: consent_invariant P cfg env
    "\<lambda>w. (\<forall>n. ne_uuid env n \<noteq> cid) \<longrightarrow> inert cid w" "\<lambda>c. (\<forall>n. ne_uuid env n \<noteq> cid) \<longrightarrow> cn_id c \<noteq> cid"
    "\<lambda>i. i \<noteq> cid" for P cfg env cid
proof (unfold_locales, goal_cases net reread applied degraded error health committed subscribed
    renewed dropped active queued touched present audited visited unrouted routed stored consented revoked)
  case (net w' w)
  then show ?case using conn_more [OF net(1)] by (simp add: inert_def)
next
  case (committed w c cv audits r w')
  then show ?case using inert_commit [of cid w env cv c audits r w'] by blast
next
  case (subscribed w c cv cap psid res exp hash data rs w')
  then show ?case
    by (auto simp: add_subscription_def flush_insert_eq draw_def Let_def inert_def split: option.splits sum.splits)
next
  case (consented w cv p kind u label scopes b i c is_new w')
  then show ?case using upsert_connection_id [OF consented(2)] by blast
next
  case (touched w cv i c h audits r w')
  from get_connection_row [OF touched(2)] touched(1) show ?case
    using inert_commit [OF _ touched(3), of cid] by (auto simp: inert_def [of _ w])
next
  case (stored w c is_new)
  then show ?case by (auto simp: store_connection_def inert_def update_where_parts)
next
  case (routed w c t p)
  then show ?case by (auto simp: ensure_webhook_route_def draw_def inert_def split: option.splits)
next
  case (revoked c w c' w')
  then show ?case by (auto simp: revoke_connection_def Let_def)
next
  case (reread w c cv c')
  then show ?case using get_connection_row [OF reread(3)] by auto
next
  case (applied c rt b w c' w')
  then show ?case using apply_token_bundle_id [OF applied(3)] by auto
next
  case (active w c)
  then show ?case by (auto simp: inert_def)
next
  case (present w c)
  then show ?case by (auto simp: inert_def)
next
  case (renewed w p f)
  then show ?case by (auto simp: inert_def update_where_parts)
qed (auto simp: inert_def delete_where_def)

lemma revoke_inert:
  assumes "connector_revoke P cfg env st rq cid w = (Inr (), w')"
    and "distinct (map cn_id (connections w))" "c \<in> set (connections w)" "cn_id c = cid" "cn_status c \<noteq> CONN_REVOKED"
    and "\<forall>s\<in>set (subscriptions w). sb_connection_id s = cid \<longrightarrow> sb_tenant_id s = cn_tenant_id c"
  shows "inert cid w' \<and> filter (\<lambda>d. cn_id d \<noteq> cid) (connections w') = filter (\<lambda>d. cn_id d \<noteq> cid) (connections w)"
proof -
  obtain a ctx d where pr: "permission_route P st ''core.connectors.manage'' (rq\<lparr>rq_now := clock w\<rparr>)
      (\<lambda>a ctx d. (Inr (a, ctx), d)) (cdb w) = (Inr (a, ctx), d)"
    using assms(1) by (auto simp: connector_revoke_def conn_route_def split: sum.splits prod.splits)
  let ?w = "w\<lparr>cdb := d\<rparr>"
  have "\<exists>c'. get_connection (Some ctx) cid ?w = Inr (Some c')"
    using assms(1) pr
    by (auto simp: connector_revoke_def conn_route_def split: sum.splits option.splits)
  then obtain c' where g: "get_connection (Some ctx) cid ?w = Inr (Some c')" by blast
  have row: "c' \<in> set (connections w)" "cn_id c' = cid" "cn_tenant_id c' = tc_tenant_id ctx"
    using get_connection_row [OF g] by auto
  have "c' = c" using row(1,2) assms(2-4) by (metis inj_on_contraD distinct_map)
  note g = g [unfolded this] and row = row [unfolded this]
  obtain c1 w2 where rv: "revoke_connection P cfg env c ?w = (c1, w2)" by fastforce
  have c1: "cn_id c1 = cid" "cn_status c1 = CONN_REVOKED" "cn_access_token_enc c1 = []" "cn_refresh_token_enc c1 = []"
    using rv row(2) by (auto simp: revoke_connection_def Let_def)
  note t2 = conn_more [OF revoke_connection_more [OF rv]]
  obtain cr w3 where cm: "commit_connection env (Some ctx) c1 [revoked_args c (ca_user a)] w2 = (cr, w3)" by fastforce
  have ok: "cr = Inr ()" and w': "w' = webhook_routes_update (delete_where (\<lambda>r. wr_connection_id r = cid))
      (w3\<lparr>subscriptions := delete_where (\<lambda>s. sb_connection_id s = cid \<and> sb_tenant_id s = tc_tenant_id ctx) (subscriptions w2)\<rparr>)"
    using assms(1,5) pr g rv cm row(2)
    by (auto simp: connector_revoke_def conn_route_def handler_simps split: sum.splits)
  have cs: "connections w3 = update_where (\<lambda>r. cn_id r = cid) (\<lambda>_. c1) (connections w)"
    using cm ok c1(1) t2
    by (auto simp: commit_connection_def dest!: add_audits_tables simp del: add_audits.simps
        split: sum.splits prod.splits)
  have "filter (\<lambda>d. cn_id d \<noteq> cid) (update_where (\<lambda>r. cn_id r = cid) (\<lambda>_. c1) rs) = filter (\<lambda>d. cn_id d \<noteq> cid) rs" for rs
    using c1(1) by (induction rs) (auto simp: update_where_def)
  then show ?thesis
    using cs c1 t2 assms(6) row(3) commit_connection_tables [OF cm]
    by (auto simp: w' inert_def update_where_parts delete_where_def)
qed

section \<open>Sealed tokens\<close>

text \<open>
  A token column is empty or holds a ciphertext that opens under the platform's key, and an active
  connection has both tokens.
\<close>

definition sealed :: "primitives \<Rightarrow> settings \<Rightarrow> connector_connection \<Rightarrow> bool" where
  "sealed P cfg c \<longleftrightarrow>
     (cn_access_token_enc c = [] \<or> is_ok (decrypt_token P cfg (cn_access_token_enc c))) \<and>
     (cn_refresh_token_enc c = [] \<or> is_ok (decrypt_token P cfg (cn_refresh_token_enc c))) \<and>
     (cn_status c = CONN_ACTIVE \<longrightarrow> cn_access_token_enc c \<noteq> [] \<and> cn_refresh_token_enc c \<noteq> [])"

definition tokens_sealed :: "primitives \<Rightarrow> settings \<Rightarrow> conn_world \<Rightarrow> bool" where
  "tokens_sealed P cfg w \<longleftrightarrow> list_all (sealed P cfg) (connections w)"

definition sound_sealing :: "primitives \<Rightarrow> net_env \<Rightarrow> bool" where
  "sound_sealing P env \<longleftrightarrow> aead_law P \<and> (\<forall>n. length (ne_nonce env n) = NONCE_SIZE)"

lemma decrypt_nonempty: "decrypt_token P cfg x = Inr t \<Longrightarrow> x \<noteq> []"
  by (auto simp: decrypt_token_def kp_decrypt_def split: sum.splits)

lemma apply_token_bundle_sealed:
  assumes "apply_token_bundle P cfg env b c w = (Inr c', w')" "sound_sealing P env"
    and "cn_refresh_token_enc c = [] \<or> is_ok (decrypt_token P cfg (cn_refresh_token_enc c))"
    and "cn_refresh_token_enc c' \<noteq> []"
  shows "sealed P cfg c'"
proof -
  have n: "aead_law P" "\<And>n. length (ne_nonce env n) = NONCE_SIZE" using assms(2) by (auto simp: sound_sealing_def)
  note st = apply_token_bundle_stores [OF assms(1) n]
  then show ?thesis
    using assms(3,4) decrypt_nonempty
    by (fastforce simp: sealed_def is_ok_iff split: option.splits if_splits)
qed

lemma sealed_commit:
  assumes "tokens_sealed P cfg w" "sealed P cfg c" "commit_connection env cv c audits w = (r, w')"
  shows "tokens_sealed P cfg w'"
  using commit_connection_tables [OF assms(3)] assms(1,2)
  by (auto simp: tokens_sealed_def list_all_iff update_where_parts)

lemma upsert_connection_sealed:
  assumes "upsert_connection P cfg env cv p kind u label scopes b i w = (Inr (c, is_new), w')"
    and "tokens_sealed P cfg w" "sound_sealing P env"
  shows "sealed P cfg c"
proof -
  have old: "cn_refresh_token_enc r = [] \<or> is_ok (decrypt_token P cfg (cn_refresh_token_enc r))"
    if "scoped_connections cv w = Inr rows" "find_connection p kind label i rows = Some r" for rows r
  proof -
    have "r \<in> set rows"
      using that(2) by (auto simp: find_connection_def dest!: find_eq_Some_D split: option.splits)
    then have "r \<in> set (connections w)"
      using that(1) by (auto simp: scoped_connections_def handler_simps split: option.splits)
    then show ?thesis using assms(2) by (auto simp: tokens_sealed_def list_all_iff sealed_def)
  qed
  from assms(1) obtain c0 v where "apply_token_bundle P cfg env b c0 v = (Inr c, w')"
    "cn_refresh_token_enc c \<noteq> []" "cn_refresh_token_enc c0 = [] \<or> is_ok (decrypt_token P cfg (cn_refresh_token_enc c0))"
    using old
    by (auto simp: upsert_connection_def Let_def split: sum.splits prod.splits option.splits if_splits)
  then show ?thesis using apply_token_bundle_sealed assms(3) by blast
qed

interpretation sealing: consent_invariant P cfg env
    "\<lambda>w. sound_sealing P env \<longrightarrow> tokens_sealed P cfg w" "\<lambda>c. sound_sealing P env \<longrightarrow> sealed P cfg c"
    "\<lambda>_. True" for P cfg env
proof (unfold_locales, goal_cases net reread applied degraded error health committed subscribed
    renewed dropped active queued touched present audited visited unrouted routed stored consented revoked)
  case (net w' w)
  then show ?case using conn_more [OF net(1)] by (simp add: tokens_sealed_def)
next
  case (committed w c cv audits r w')
  then show ?case using sealed_commit [of P cfg w c env cv audits r w'] by blast
next
  case (subscribed w c cv cap psid res exp hash data rs w')
  then show ?case
    by (auto simp: add_subscription_def draw_def Let_def tokens_sealed_def split: sum.splits)
next
  case (consented w cv p kind u label scopes b i c is_new w')
  then show ?case using upsert_connection_sealed [OF consented(2)] by blast
next
  case (touched w cv i c h audits r w')
  have "sound_sealing P env \<longrightarrow> sealed P cfg (c\<lparr>cn_health_checked_at := h\<rparr>)"
    using get_connection_row [OF touched(2)] touched(1)
    by (auto simp: tokens_sealed_def list_all_iff sealed_def)
  then show ?case using sealed_commit [OF _ _ touched(3)] touched(1) by blast
next
  case (stored w c is_new)
  then show ?case by (auto simp: store_connection_def tokens_sealed_def list_all_iff update_where_parts)
next
  case (routed w c t p)
  then show ?case by (auto simp: ensure_webhook_route_def draw_def Let_def tokens_sealed_def split: option.splits)
next
  case (revoked c w c' w')
  then show ?case by (auto simp: revoke_connection_def Let_def sealed_def)
next
  case (reread w c cv c')
  then show ?case using get_connection_row [OF reread(3)] by (auto simp: tokens_sealed_def list_all_iff)
next
  case (applied c rt b w c' w')
  have "cn_refresh_token_enc c' \<noteq> []" if "sound_sealing P env"
  proof -
    have n: "aead_law P" "\<And>n. length (ne_nonce env n) = NONCE_SIZE" using that by (auto simp: sound_sealing_def)
    show ?thesis
      using apply_token_bundle_stores [OF applied(3) n] decrypt_nonempty applied(2)
      by (fastforce split: option.splits if_splits)
  qed
  then show ?case using apply_token_bundle_sealed [OF applied(3)] applied(2) by simp
next
  case (active w c)
  then show ?case by (auto simp: tokens_sealed_def list_all_iff)
next
  case (present w c)
  then show ?case by (auto simp: tokens_sealed_def list_all_iff)
qed (auto simp: sealed_def tokens_sealed_def)

section \<open>A connection in error\<close>

definition stuck :: "uuid \<Rightarrow> conn_world \<Rightarrow> bool" where
  "stuck cid w \<longleftrightarrow> (\<forall>c\<in>set (connections w). cn_id c = cid \<longrightarrow> cn_status c = CONN_ERROR)"

lemma stuck_commit:
  assumes "stuck cid w" "commit_connection env cv c audits w = (r, w')" "cn_id c \<noteq> cid \<or> cn_status c = CONN_ERROR"
  shows "stuck cid w'"
  using commit_connection_tables [OF assms(2)] assms(1,3)
  by (auto simp: stuck_def update_where_parts)

interpretation error: connection_invariant P cfg env "stuck cid" "\<lambda>c. cn_id c \<noteq> cid" for P cfg env cid
proof (unfold_locales, goal_cases net reread applied degraded error health committed subscribed
    renewed dropped active queued touched)
  case (net w' w)
  then show ?case using conn_more [OF net(1)] by (simp add: stuck_def)
next
  case (active w c)
  then show ?case by (auto simp: stuck_def)
next
  case (reread w c cv c')
  then show ?case using get_connection_row [OF reread(3)] by simp
next
  case (applied c rt b w c' w')
  then show ?case using apply_token_bundle_id [OF applied(3)] by simp
next
  case (committed w c cv audits r w')
  then show ?case using stuck_commit by blast
next
  case (subscribed w c cv cap psid res exp hash data rs w')
  then show ?case by (auto simp: add_subscription_def draw_def Let_def stuck_def split: sum.splits)
next
  case (touched w cv i c h audits r w')
  from get_connection_row [OF touched(2)] touched(1)
  have "cn_id (c\<lparr>cn_health_checked_at := h\<rparr>) \<noteq> cid \<or> cn_status (c\<lparr>cn_health_checked_at := h\<rparr>) = CONN_ERROR"
    by (auto simp: stuck_def)
  then show ?case using stuck_commit [OF touched(1,3)] by blast
qed (auto simp: stuck_def)

lemma failed_renewal_stuck:
  assumes "renew_one P cfg env others cv s w = (Inr RENEWAL_FAILED, w')"
  shows "stuck (sb_connection_id s) w'"
proof -
  obtain c where c: "get_connection cv (sb_connection_id s) w = Inr (Some c)" "cn_status c = CONN_ACTIVE"
    using assms by (auto simp: renew_one_def split: sum.splits option.splits if_splits)
  obtain key token w1 c1 e w2 where rn: "renew_subscription P cfg env others cv key c s w1 = (Inl e, c1, w2)"
    and cm: "commit_connection env cv (failed_renewal e (clock w2) c1) [renewal_failed_args c1 s]
        (release_lock (renew_lock_name s) token w2) = (Inr (), w')"
    using assms c
    by (auto simp: renew_one_def Let_def split: option.splits sum.splits prod.splits)
  have "cn_id c1 = cn_id c" by (rule renew_subscription_id [OF rn])
  moreover have "connections w' = update_where (\<lambda>r. cn_id r = cn_id c1) (\<lambda>_. failed_renewal e (clock w2) c1)
      (connections (release_lock (renew_lock_name s) token w2))"
    using cm by (auto simp: commit_connection_def failed_renewal_def dest!: add_audits_tables simp del: add_audits.simps
        split: sum.splits prod.splits)
  ultimately show ?thesis
    using get_connection_row [OF c(1)] by (auto simp: stuck_def update_where_parts failed_renewal_def)
qed

section \<open>Properties\<close>

text \<open>
  C9 (safety). Revocation is final. Once a connection has been revoked, and whatever follows in any
  order (token refreshes, subscription renewals and creations, notifications and their tasks, calls of
  the mail and calendar clients, consent callbacks of other connections, further revocations, the passing of time, other workers that do the
  same), its row keeps no token and the status \<^verbatim>\<open>revoked\<close>, and no subscription and no webhook route of
  it exists again; the revocation itself changes no other connection. The one way back is a consent
  callback whose signed state names the connection.
\<close>

theorem revocation_final:
  assumes "connector_revoke P cfg env st rq cid w = (Inr (), w')"
    and "distinct (map cn_id (connections w))" "c \<in> set (connections w)" "cn_id c = cid" "cn_status c \<noteq> CONN_REVOKED"
    and "\<forall>s\<in>set (subscriptions w). sb_connection_id s = cid \<longrightarrow> sb_tenant_id s = cn_tenant_id c"
    and fresh: "\<forall>n. ne_uuid env n \<noteq> cid"
    and others: "kept (inert cid) others"
    and callbacks: "\<forall>p state code err. CallbackOp p state code err \<in> set ops \<longrightarrow> \<not> reconsent_id P cfg p state cid"
  shows "inert cid (conn_run P cfg env others ops w')
    \<and> filter (\<lambda>d. cn_id d \<noteq> cid) (connections w') = filter (\<lambda>d. cn_id d \<noteq> cid) (connections w)"
proof
  note base = revoke_inert [OF assms(1-6)]
  have "\<And>p state code err i. CallbackOp p state code err \<in> set ops \<Longrightarrow> reconsent_id P cfg p state i \<Longrightarrow> i \<noteq> cid"
    using callbacks by blast
  then have "(\<forall>n. ne_uuid env n \<noteq> cid) \<longrightarrow> inert cid (conn_run P cfg env others ops w')"
    by (rule dead.run_keeps [rotated 2]) (use base others in \<open>auto simp: kept_def\<close>)
  then show "inert cid (conn_run P cfg env others ops w')" using fresh by simp
  show "filter (\<lambda>d. cn_id d \<noteq> cid) (connections w') = filter (\<lambda>d. cn_id d \<noteq> cid) (connections w)" using base ..
qed

definition acme_db :: db where
  "acme_db = sample_auth_db\<lparr>tenants := [acme_tenant],
     memberships := [\<lparr>m_id = 41, m_user_id = 1, m_tenant_id = 7, m_role = ''owner''\<rparr>]\<rparr>"

definition acme_subscription :: connector_subscription where
  "acme_subscription =
     \<lparr>sb_id = 61, sb_tenant_id = 7, sb_connection_id = 5, sb_capability = CAPABILITY_CALENDAR,
      sb_provider_subscription_id = ''chan'', sb_resource = ''calendar/primary/events'', sb_expires_at = 100,
      sb_client_state_hash = hash_token sample_primitives ''state'', sb_provider_data = []\<rparr>"

definition acme_route :: webhook_route where
  "acme_route = \<lparr>wr_id = 62, wr_route_key = ''rk'', wr_provider = ''google'', wr_tenant_id = 7, wr_connection_id = 5\<rparr>"

definition acme_world :: conn_world where
  "acme_world = sample_conn_world\<lparr>cdb := acme_db, subscriptions := [acme_subscription], webhook_routes := [acme_route]\<rparr>"

definition acme_request :: request where
  "acme_request = \<lparr>rq_now = 10, rq_host = ''acme.app.io'', rq_cookie = Some ''tok'', rq_client = None\<rparr>"

lemma acme_route_opens:
  "\<exists>a d. permission_route sample_primitives empty_registry ''core.connectors.manage'' (acme_request\<lparr>rq_now := 10\<rparr>)
     (\<lambda>a ctx d. (Inr (a, ctx), d)) acme_db =
     (Inr (a, \<lparr>tc_tenant_id = 7, tc_slug = ''acme'', tc_role = Some ''owner''\<rparr>), d)"
proof -
  have "extract_slug ''acme.app.io'' = Some ''acme''" by code_simp
  moreover have "role_has_permission empty_registry ''owner'' ''core.connectors.manage''" by code_simp
  ultimately show ?thesis
    by (simp add: permission_route_def acme_request_def acme_db_def sample_auth_db_def current_auth_or_none_def
        resolve_session_def session_by_token_def sample_session_def get_user_def resolve_tenant_def tenant_by_slug_def
        acme_tenant_def membership_of_def permission_dependency_def current_auth_dep_def empty_db_def Let_def
        update_where_def)
qed

lemma acme_revoked:
  "\<exists>w'. connector_revoke sample_primitives sample_cfg token_env empty_registry acme_request 5 acme_world = (Inr (), w')"
proof -
  obtain a d where pr: "permission_route sample_primitives empty_registry ''core.connectors.manage''
      (acme_request\<lparr>rq_now := clock acme_world\<rparr>) (\<lambda>a ctx d. (Inr (a, ctx), d)) (cdb acme_world) =
      (Inr (a, \<lparr>tc_tenant_id = 7, tc_slug = ''acme'', tc_role = Some ''owner''\<rparr>), d)"
    using acme_route_opens by (auto simp: acme_world_def sample_conn_world_def)
  show ?thesis
    unfolding connector_revoke_def conn_route_def pr
    by (simp add: get_connection_def scoped_connections_def handler_simps acme_world_def sample_conn_world_def
        sample_connection_def revoke_connection_def commit_connection_def draw_def Let_def split: option.split sum.split)
qed

theorem revocation_final_witness:
  "\<exists>w'. connector_revoke sample_primitives sample_cfg token_env empty_registry acme_request 5 acme_world = (Inr (), w')
     \<and> inert 5 (conn_run sample_primitives sample_cfg token_env id
          [RefreshOp, RenewOp, WebhookOp GOOGLE ''rk'' \<lparr>wq_validation_token = None, wq_body = None, wq_headers = []\<rparr>,
           SyncOp ''acme'' 5, ClientOp sample_lib (Some (context_for acme_tenant)) 5 MailCapability (GetMessage ''m'')] w')"
proof -
  obtain w' where w': "connector_revoke sample_primitives sample_cfg token_env empty_registry acme_request 5 acme_world = (Inr (), w')"
    using acme_revoked by blast
  have "inert 5 (conn_run sample_primitives sample_cfg token_env id
      [RefreshOp, RenewOp, WebhookOp GOOGLE ''rk'' \<lparr>wq_validation_token = None, wq_body = None, wq_headers = []\<rparr>,
       SyncOp ''acme'' 5, ClientOp sample_lib (Some (context_for acme_tenant)) 5 MailCapability (GetMessage ''m'')] w')"
    by (rule conjunct1 [OF revocation_final [OF w', of sample_connection]])
      (simp_all add: acme_world_def sample_conn_world_def sample_connection_def acme_subscription_def token_env_def
        sample_net_def kept_def)
  with w' show ?thesis by blast
qed

text \<open>
  C13 (type). Tokens are always sealed. In every state the connector operations reach, each token
  column is empty or holds a ciphertext that the platform's key opens, and an active connection has
  both its tokens; a call made for an active connection therefore always finds an access token.
\<close>

theorem tokens_always_sealed:
  assumes "sound_sealing P env" "tokens_sealed P cfg w" "kept (tokens_sealed P cfg) others"
  shows "tokens_sealed P cfg (conn_run P cfg env others ops w)"
proof -
  have "sound_sealing P env \<longrightarrow> tokens_sealed P cfg (conn_run P cfg env others ops w)"
    by (rule sealing.run_keeps) (use assms in \<open>auto simp: kept_def\<close>)
  then show ?thesis using assms(1) by simp
qed

definition sealed_connection :: connector_connection where
  "sealed_connection = sample_connection
     \<lparr>cn_access_token_enc := kp_encrypt sample_primitives sample_key (replicate 12 (CHR ''n'')) ''at''\<rparr>"

lemma sealed_connection_sealed: "sealed sample_primitives sample_cfg sealed_connection"
proof -
  have "decrypt_token sample_primitives sample_cfg (kp_encrypt sample_primitives sample_key (replicate 12 (CHR ''n'')) t) = Inr t" for t
    using kp_decrypt_encrypt [OF sample_aead, of "replicate 12 (CHR ''n'')" sample_key t]
    by (simp add: decrypt_token_def sample_key_provider NONCE_SIZE_def)
  then show ?thesis
    by (simp add: sealed_def sealed_connection_def sample_connection_def kp_encrypt_def)
qed

theorem tokens_always_sealed_witness:
  "tokens_sealed sample_primitives sample_cfg
     (conn_run sample_primitives sample_cfg token_env id [RefreshOp, WaitOp 5, RefreshOp, RenewOp]
       (acme_world\<lparr>connections := [sealed_connection]\<rparr>))"
  by (rule tokens_always_sealed)
    (simp_all add: sound_sealing_def sample_aead token_env_def sample_net_def NONCE_SIZE_def tokens_sealed_def
      sealed_connection_sealed kept_def)

text \<open>
  C33 (error). One failed renewal is a dead end. The renewal task treats every exception as final, also
  a timeout of the network: the connection goes to the status \<^verbatim>\<open>error\<close>. From then on no periodic task,
  notification, event or client call changes that status (they all skip the connection), and the guided
  re-consent refuses it, since it accepts \<^verbatim>\<open>needs_reconsent\<close> only.
\<close>

theorem failed_renewal_dead_end:
  assumes "renew_one P cfg env others cv s w = (Inr RENEWAL_FAILED, w')"
    and "kept (stuck (sb_connection_id s)) others" "list_all background ops"
  shows "stuck (sb_connection_id s) (conn_run P cfg env others ops w')
    \<and> \<not> is_ok (fst (connector_reconsent P cfg st rq (sb_connection_id s) (conn_run P cfg env others ops w')))"
proof -
  let ?cid = "sb_connection_id s"
  have st: "stuck ?cid (conn_run P cfg env others ops w')"
    by (rule error.background_run_keeps [OF failed_renewal_stuck [OF assms(1)] assms(2,3)])
  have "cn_status c = CONN_ERROR"
    if "get_connection cv' ?cid (v\<lparr>cdb := d\<rparr>) = Inr (Some c)" "stuck ?cid v" for cv' v d c
    using get_connection_row [OF that(1)] that(2) by (auto simp: stuck_def)
  then have "\<not> is_ok (fst (connector_reconsent P cfg st rq ?cid v))" if "stuck ?cid v" for v
    using that
    by (auto simp: connector_reconsent_def conn_route_def split: sum.splits prod.splits option.splits)
  with st show ?thesis by blast
qed

definition down_env :: net_env where
  \<comment> \<open>no provider can be reached\<close>
  "down_env = sample_net\<lparr>ne_http := (\<lambda>n rq. NetworkFailure ''ConnectTimeout'')\<rparr>"

lemma down_env_fails:
  assumes "budget_ok m cid (vk w)"
  shows "\<exists>w'. provider_http_request down_env m cid rq path w = (Inl (HTTPError ''ConnectTimeout''), w')"
proof -
  have "first_settled u (\<lambda>i. call_outcome (ne_http down_env i rq)) k (length [0..<MAX_ATTEMPTS]) =
      (Inl (HTTPError ''ConnectTimeout''), 1)" for u k
    by (simp add: down_env_def call_outcome_def retry_def MAX_ATTEMPTS_def eval_nat_numeral)
  then show ?thesis
    using backoff_loop_settles [OF one_request_attempt [of down_env rq call_outcome] assms, of "[0..<MAX_ATTEMPTS]"]
    by (auto simp: provider_http_request_def run_with_backoff_def)
qed

lemma acme_renewal_fails:
  "\<exists>w'. renew_one sample_primitives sample_cfg down_env id (Some (context_for acme_tenant)) acme_subscription graph_world =
     (Inr RENEWAL_FAILED, w')"
proof -
  let ?cv = "Some (context_for acme_tenant)"
  obtain token w1 where a: "acquire_lock down_env (renew_lock_name acme_subscription) LOCK_TTL_SECONDS graph_world = (Some token, w1)"
    by (simp add: acquire_lock_eq graph_world_def sample_conn_world_def kv_alive_def)
  then have w1: "clock w1 = 10" "net_world.more w1 = net_world.more graph_world" "budget_ok m i (vk w1)" for m i
    by (auto simp: acquire_lock_eq graph_world_def sample_conn_world_def budget_ok_def split: if_splits)
  have tid: "tc_tenant_id (context_for acme_tenant) = 7" by (simp add: context_for_def acme_tenant_def)
  have g: "get_connection ?cv (sb_connection_id acme_subscription) graph_world = Inr (Some graph_connection)"
    by (simp add: get_connection_def scoped_connections_def handler_simps graph_world_def graph_connection_def
        sample_connection_def context_for_def acme_tenant_def acme_subscription_def)
  have key: "route_key_for (cn_id graph_connection) w1 = Some ''rk''"
    using conn_more(4) [OF w1(2)]
    by (simp add: route_key_for_def graph_world_def graph_connection_def sample_connection_def)
  have c: "cn_status graph_connection = CONN_ACTIVE" "cn_tenant_id graph_connection = 7" "cn_provider graph_connection = MICROSOFT"
    by (simp_all add: graph_connection_def sample_connection_def)
  have "fresh_access_token sample_primitives sample_cfg down_env id ?cv graph_connection w1 = (Inr ''at'', graph_connection, w1)"
    using w1(1) c(1) graph_token by (simp add: fresh_access_token_def)
  then have "\<exists>w2. api_call sample_primitives sample_cfg down_env id ?cv graph_connection meth url body w1 =
      (Inl (HTTPError ''ConnectTimeout''), graph_connection, w2)" for meth url body
    using down_env_fails [OF w1(3), of "get_provider (cn_provider graph_connection)" "cn_id graph_connection"
        "\<lparr>hq_method = meth, hq_url = url, hq_bearer = Some ''at'', hq_form = [], hq_json = Some body, hq_params = []\<rparr>"
        "url_path url"]
    by (auto simp: api_call_def bearer_call_def)
  then obtain W where W: "\<And>meth url body. api_call sample_primitives sample_cfg down_env id ?cv graph_connection meth url body w1 =
      (Inl (HTTPError ''ConnectTimeout''), graph_connection, W meth url body)" by metis
  show ?thesis
    by (simp add: renew_one_def g c a key renew_subscription_def W Let_def commit_connection_def failed_renewal_def
        flush_touch_eq tid draw_def handler_simps)
qed

theorem failed_renewal_dead_end_witness:
  "\<exists>w'. renew_one sample_primitives sample_cfg down_env id (Some (context_for acme_tenant)) acme_subscription graph_world =
       (Inr RENEWAL_FAILED, w')
     \<and> \<not> is_ok (fst (connector_reconsent sample_primitives sample_cfg empty_registry acme_request 5
          (conn_run sample_primitives sample_cfg down_env id [RefreshOp, RenewOp] w')))"
proof -
  obtain w' where w': "renew_one sample_primitives sample_cfg down_env id (Some (context_for acme_tenant)) acme_subscription
      graph_world = (Inr RENEWAL_FAILED, w')" using acme_renewal_fails by blast
  from failed_renewal_dead_end [OF w', of "[RefreshOp, RenewOp]" empty_registry acme_request] w' show ?thesis
    by (auto simp: kept_def acme_subscription_def)
qed

end
