(* ===== verification/AiGateway.thy ===== *)
theory AiGateway
  imports AiUsage Access
begin

text \<open>
  The AI gateway (\<^verbatim>\<open>ai/gateway.py\<close>) and its route (\<^verbatim>\<open>ai/router.py\<close>): tenant context, policy,
  choice of provider and model, key, call under a timeout, optional fallback, metering and quota.
  LiteLLM is outside the program: what it answers to the \<open>n\<close>-th call is a parameter of the
  environment, and every call the gateway places is appended to \<open>provider_calls\<close>.
\<close>

section \<open>Types at the boundary\<close>

text \<open>A Python \<^verbatim>\<open>float\<close> that is only passed on: its 64 bits.\<close>

type_synonym py_float = "64 word"

record ai_message =
  am_role :: string
  am_content :: "string option"
  am_name :: "string option"
  am_tool_call_id :: "string option"
  am_tool_calls :: "json list option"

definition message_provider_dict :: "ai_message \<Rightarrow> json" where
  "message_provider_dict m =
     JObj ([(''role'', JStr (am_role m)), (''content'', json_opt_str (am_content m))]
       @ (case am_name m of None \<Rightarrow> [] | Some x \<Rightarrow> [(''name'', JStr x)])
       @ (case am_tool_call_id m of None \<Rightarrow> [] | Some x \<Rightarrow> [(''tool_call_id'', JStr x)])
       @ (case am_tool_calls m of None \<Rightarrow> [] | Some xs \<Rightarrow> [(''tool_calls'', JList xs)]))"

record tool_def =
  td_name :: string
  td_description :: string
  td_parameters :: "(string \<times> json) list"

definition tool_provider_dict :: "tool_def \<Rightarrow> json" where
  "tool_provider_dict t =
     JObj [(''type'', JStr ''function''),
           (''function'', JObj [(''name'', JStr (td_name t)), (''description'', JStr (td_description t)),
                                (''parameters'', JObj (td_parameters t))])]"

record chat_request =
  cr_messages :: "ai_message list"
  cr_provider :: "string option"
  cr_model :: "string option"
  cr_temperature :: "py_float option"
  cr_max_tokens :: "int option"
  cr_tools :: "tool_def list option"
  cr_module :: string
  cr_user_id :: "uuid option"

record chat_result =
  ct_content :: string
  ct_provider :: string
  ct_model :: string
  ct_usage :: token_usage
  ct_finish_reason :: "string option"
  ct_tool_calls :: "json list option"

record embed_request =
  er_inputs :: "string list"
  er_provider :: "string option"
  er_model :: "string option"
  er_module :: string
  er_user_id :: "uuid option"

record embed_result =
  et_embeddings :: "py_float list list"
  et_provider :: string
  et_model :: string
  et_usage :: token_usage

section \<open>What LiteLLM returns\<close>

record raw_usage =
  ru_prompt_tokens :: "int option"
  ru_completion_tokens :: "int option"
  ru_prompt_tokens_details :: "int option option"

record raw_tool_call =
  rt_id :: "string option"
  rt_function :: "(string option \<times> string option) option"

record raw_choice =
  rch_content :: "string option"
  rch_tool_calls :: "raw_tool_call list option"
  rch_finish_reason :: "string option"
  rch_delta :: "string option"

record raw_response =
  rr_usage :: "raw_usage option"
  rr_choices :: "raw_choice list"
  rr_data :: "py_float list list"

datatype reply =
    Replied raw_response
  | TimedOut
  | Raised string string

datatype stream_reply =
    StreamFailed string string
  | Streamed "raw_response list" "(string \<times> string) option"

datatype boundary_fn = COMPLETION_FN | STREAMING_FN | EMBEDDING_FN

record call_kwargs =
  kw_fn :: boundary_fn
  kw_model :: string
  kw_messages :: "json list"
  kw_input :: "string list"
  kw_api_key :: string
  kw_temperature :: "py_float option"
  kw_max_tokens :: "int option"
  kw_tools :: "json list option"

record ai_env =
  env_now :: instant
  env_reply :: "nat \<Rightarrow> call_kwargs \<Rightarrow> reply"
  env_stream :: "nat \<Rightarrow> call_kwargs \<Rightarrow> stream_reply"
  env_latency :: "nat \<Rightarrow> int"
  env_available :: "nat \<Rightarrow> bool"
  env_event_id :: "nat \<Rightarrow> uuid"
  env_audit_id :: "nat \<Rightarrow> uuid"

record gateway_world = ai_world +
  provider_calls :: "call_kwargs list"

definition usage_from :: "raw_response \<Rightarrow> token_usage" where
  "usage_from raw =
     (case rr_usage raw of None \<Rightarrow> token_usage_of 0 0 0
      | Some u \<Rightarrow>
          (let n = (\<lambda>x. case x of None \<Rightarrow> 0 | Some i \<Rightarrow> i)
           in token_usage_of (n (ru_prompt_tokens u)) (n (ru_completion_tokens u))
                (case ru_prompt_tokens_details u of None \<Rightarrow> 0 | Some c \<Rightarrow> n c)))"

definition first_choice :: "raw_response \<Rightarrow> raw_choice option" where
  "first_choice raw = (case rr_choices raw of [] \<Rightarrow> None | c # _ \<Rightarrow> Some c)"

definition normalize_tool_calls :: "raw_tool_call list option \<Rightarrow> json list option" where
  "normalize_tool_calls raw =
     (case raw of None \<Rightarrow> None
      | Some calls \<Rightarrow>
          if calls = [] then None
          else Some (map (\<lambda>c.
             (let (nm, args) = (case rt_function c of None \<Rightarrow> (None, None) | Some f \<Rightarrow> f)
              in JObj [(''id'', json_opt_str (rt_id c)), (''name'', json_opt_str nm),
                       (''arguments'', json_opt_str args)])) calls))"

section \<open>Keys and metering\<close>

definition platform_key :: "settings \<Rightarrow> string \<Rightarrow> string" where
  "platform_key cfg provider =
     (if provider = ''mistral'' then mistral_api_key cfg
      else if provider = ''anthropic'' then anthropic_api_key cfg
      else if provider = ''openai'' then openai_api_key cfg
      else [])"

definition api_key :: "settings \<Rightarrow> string \<Rightarrow> resolved_policy \<Rightarrow> string result" where
  "api_key cfg provider pol =
     (let byok = py_or (byok_key_for pol provider) []
      in if byok \<noteq> [] then Inr byok
         else if platform_key cfg provider = []
         then Inl (ProviderUnavailable (''Provider '' @ repr_str provider
                     @ '' indisponible : aucune cle configuree.''))
         else Inr (platform_key cfg provider))"

definition meter_wrap ::
  "ai_env \<Rightarrow> nat \<Rightarrow> tenant_context \<Rightarrow> resolved_policy \<Rightarrow> string \<Rightarrow> uuid option \<Rightarrow> string \<Rightarrow> string \<Rightarrow>
   usage_status \<Rightarrow> token_usage \<Rightarrow> string option \<Rightarrow> gateway_world \<Rightarrow> unit result \<times> gateway_world" where
  \<comment> \<open>\<open>n\<close> numbers the provider call that is metered\<close>
  "meter_wrap env n ctx pol module user_id provider model status u error_kind w =
     (let w1 = record_usage (env_available env n) (env_event_id env n) (env_now env)
                 \<lparr>ur_tenant_id = tc_tenant_id ctx, ur_user_id = user_id, ur_module = module,
                  ur_provider = provider, ur_model = model, ur_status = status,
                  ur_price_version = PRICE_VERSION, ur_input_tokens = input_tokens u,
                  ur_output_tokens = output_tokens u, ur_cached_tokens = cached_tokens u,
                  ur_latency_ms = env_latency env n,
                  ur_estimated_cost_microeur = estimate_cost provider model u,
                  ur_error_kind = error_kind\<rparr> w;
          total_tokens = input_tokens u + output_tokens u
      in if 0 < total_tokens
         then (case record_and_alert ctx total_tokens (rp_monthly_token_quota pol)
                      (env_audit_id env n) (env_now env) (Some ctx) w1 of
                 (Inl e, w2) \<Rightarrow> (Inl e, w2) | (Inr _, w2) \<Rightarrow> (Inr (), w2))
         else (Inr (), w1))"

definition meter_then ::
  "unit result \<times> gateway_world \<Rightarrow> 'a result \<Rightarrow> 'a result \<times> gateway_world" where
  \<comment> \<open>\<^verbatim>\<open>await self._meter_wrap(...)\<close> followed by a return or a raise\<close>
  "meter_then m r = (case m of (Inl e, w) \<Rightarrow> (Inl e, w) | (Inr _, w) \<Rightarrow> (r, w))"

section \<open>Chat\<close>

definition chat_kwargs :: "boundary_fn \<Rightarrow> string \<Rightarrow> string \<Rightarrow> string \<Rightarrow> chat_request \<Rightarrow> call_kwargs" where
  "chat_kwargs fn provider model key rq =
     \<lparr>kw_fn = fn, kw_model = provider @ ''/'' @ model,
      kw_messages = map message_provider_dict (cr_messages rq), kw_input = [], kw_api_key = key,
      kw_temperature = cr_temperature rq, kw_max_tokens = cr_max_tokens rq,
      kw_tools = (if fn = COMPLETION_FN then map_option (map tool_provider_dict) (cr_tools rq) else None)\<rparr>"

definition place_call :: "call_kwargs \<Rightarrow> gateway_world \<Rightarrow> gateway_world" where
  "place_call kw w = provider_calls_update (\<lambda>cs. cs @ [kw]) w"

definition chat_result_of :: "string \<Rightarrow> string \<Rightarrow> raw_response \<Rightarrow> chat_result" where
  "chat_result_of provider model raw =
     (let choice = first_choice raw
      in \<lparr>ct_content = (case choice of None \<Rightarrow> [] | Some c \<Rightarrow> py_or (rch_content c) []),
          ct_provider = provider, ct_model = model, ct_usage = usage_from raw,
          ct_finish_reason = (case choice of None \<Rightarrow> None | Some c \<Rightarrow> rch_finish_reason c),
          ct_tool_calls = (case choice of None \<Rightarrow> None
                           | Some c \<Rightarrow> normalize_tool_calls (rch_tool_calls c))\<rparr>)"

definition chat_once ::
  "ai_env \<Rightarrow> settings \<Rightarrow> tenant_context \<Rightarrow> resolved_policy \<Rightarrow> string \<Rightarrow> string \<Rightarrow> chat_request \<Rightarrow>
   gateway_world \<Rightarrow> chat_result result \<times> gateway_world" where
  "chat_once env cfg ctx pol provider model rq w =
     (case api_key cfg provider pol of Inl e \<Rightarrow> (Inl e, w)
      | Inr key \<Rightarrow>
          (let kw = chat_kwargs COMPLETION_FN provider model key rq;
               n = length (provider_calls w);
               w1 = place_call kw w;
               meter = (\<lambda>status u kind.
                 meter_wrap env n ctx pol (cr_module rq) (cr_user_id rq) provider model status u kind w1)
           in case env_reply env n kw of
                TimedOut \<Rightarrow>
                  meter_then (meter USAGE_TIMEOUT (token_usage_of 0 0 0) (Some ''timeout''))
                    (Inl (GatewayError (''Appel '' @ provider @ '' interrompu apres ''
                       @ str_int (ai_request_timeout_seconds cfg) @ ''s.'')))
              | Raised kind msg \<Rightarrow>
                  meter_then (meter USAGE_ERROR (token_usage_of 0 0 0) (Some kind))
                    (Inl (GatewayError (''Echec provider '' @ provider @ '': '' @ msg)))
              | Replied raw \<Rightarrow>
                  meter_then (meter USAGE_OK (usage_from raw) None)
                    (Inr (chat_result_of provider model raw))))"

definition is_gateway_error :: "exn \<Rightarrow> bool" where
  \<comment> \<open>\<^verbatim>\<open>except GatewayError\<close>, its subclass included\<close>
  "is_gateway_error e = (case e of GatewayError _ \<Rightarrow> True | ProviderUnavailable _ \<Rightarrow> True | _ \<Rightarrow> False)"

definition load_policy ::
  "primitives \<Rightarrow> settings \<Rightarrow> tenant_context \<Rightarrow> gateway_world \<Rightarrow> resolved_policy result" where
  "load_policy P cfg ctx w = get_policy P cfg (tc_tenant_id ctx) (tc_slug ctx) (ai_policies w)"

definition chat ::
  "primitives \<Rightarrow> ai_env \<Rightarrow> settings \<Rightarrow> context_var \<Rightarrow> chat_request \<Rightarrow> gateway_world \<Rightarrow>
   chat_result result \<times> gateway_world" where
  "chat P env cfg cv rq w =
     (case current_tenant cv of Inl e \<Rightarrow> (Inl e, w)
      | Inr ctx \<Rightarrow>
          (case load_policy P cfg ctx w of Inl e \<Rightarrow> (Inl e, w)
           | Inr pol \<Rightarrow>
               (case policy_select pol (cr_provider rq) (cr_model rq) of Inl e \<Rightarrow> (Inl e, w)
                | Inr (provider, model) \<Rightarrow>
                    (case chat_once env cfg ctx pol provider model rq w of
                       (Inr r, w1) \<Rightarrow> (Inr r, w1)
                     | (Inl e, w1) \<Rightarrow>
                         if \<not> is_gateway_error e then (Inl e, w1)
                         else (case rp_fallback_provider pol of None \<Rightarrow> (Inl e, w1)
                               | Some fb \<Rightarrow>
                                   (case policy_select pol (Some fb) (rp_fallback_model pol) of
                                      Inl e2 \<Rightarrow> (Inl e2, w1)
                                    | Inr (fb_provider, fb_model) \<Rightarrow>
                                        chat_once env cfg ctx pol fb_provider fb_model rq w1))))))"

section \<open>Streaming\<close>

datatype stream_exit = StreamDone | StreamClosed | StreamBroken string string

fun stream_loop ::
  "nat option \<Rightarrow> raw_response list \<Rightarrow> (string \<times> string) option \<Rightarrow> string list \<Rightarrow> token_usage \<Rightarrow>
   string list \<times> token_usage \<times> stream_exit" where
  \<comment> \<open>\<open>closes\<close>: the consumer closes the generator while it is suspended at that delta\<close>
  "stream_loop closes [] stop yielded u =
     (yielded, u, case stop of None \<Rightarrow> StreamDone | Some (kind, msg) \<Rightarrow> StreamBroken kind msg)"
| "stream_loop closes (chunk # chunks) stop yielded u =
     (let delta = (case first_choice chunk of None \<Rightarrow> [] | Some c \<Rightarrow> py_or (rch_delta c) []);
          yielded' = (if delta = [] then yielded else yielded @ [delta]);
          cu = usage_from chunk
      in if delta \<noteq> [] \<and> closes = Some (length yielded') then (yielded', u, StreamClosed)
         else stream_loop closes chunks stop yielded'
                (if input_tokens cu \<noteq> 0 \<or> output_tokens cu \<noteq> 0 then cu else u))"

definition chat_stream ::
  "primitives \<Rightarrow> ai_env \<Rightarrow> settings \<Rightarrow> context_var \<Rightarrow> chat_request \<Rightarrow> nat option \<Rightarrow> gateway_world \<Rightarrow>
   (string list \<times> unit result) \<times> gateway_world" where
  \<comment> \<open>the deltas the consumer received, and how the generator ended\<close>
  "chat_stream P env cfg cv rq closes w =
     (case current_tenant cv of Inl e \<Rightarrow> (([], Inl e), w)
      | Inr ctx \<Rightarrow>
          (case load_policy P cfg ctx w of Inl e \<Rightarrow> (([], Inl e), w)
           | Inr pol \<Rightarrow>
               (case policy_select pol (cr_provider rq) (cr_model rq) of Inl e \<Rightarrow> (([], Inl e), w)
                | Inr (provider, model) \<Rightarrow>
                    (case api_key cfg provider pol of Inl e \<Rightarrow> (([], Inl e), w)
                     | Inr key \<Rightarrow>
                         (let kw = chat_kwargs STREAMING_FN provider model key rq;
                              n = length (provider_calls w);
                              w1 = place_call kw w;
                              (yielded, u, ended) =
                                (case env_stream env n kw of
                                   StreamFailed kind msg \<Rightarrow> ([], token_usage_of 0 0 0, StreamBroken kind msg)
                                 | Streamed chunks stop \<Rightarrow>
                                     stream_loop closes chunks stop [] (token_usage_of 0 0 0));
                              (status, error_kind, r) =
                                (case ended of
                                   StreamDone \<Rightarrow> (USAGE_OK, None, Inr ())
                                 | StreamClosed \<Rightarrow> (USAGE_ERROR, Some ''stream_interrupted'', Inr ())
                                 | StreamBroken kind msg \<Rightarrow>
                                     (USAGE_ERROR, Some kind,
                                      Inl (GatewayError (''Echec streaming '' @ provider @ '': '' @ msg))));
                              (r', w2) = meter_then (meter_wrap env n ctx pol (cr_module rq) (cr_user_id rq)
                                            provider model status u error_kind w1) r
                          in ((yielded, r'), w2))))))"

section \<open>Embeddings\<close>

definition embed_kwargs :: "string \<Rightarrow> string \<Rightarrow> string \<Rightarrow> embed_request \<Rightarrow> call_kwargs" where
  "embed_kwargs provider model key rq =
     \<lparr>kw_fn = EMBEDDING_FN, kw_model = provider @ ''/'' @ model, kw_messages = [],
      kw_input = er_inputs rq, kw_api_key = key, kw_temperature = None, kw_max_tokens = None,
      kw_tools = None\<rparr>"

definition embed ::
  "primitives \<Rightarrow> ai_env \<Rightarrow> settings \<Rightarrow> context_var \<Rightarrow> embed_request \<Rightarrow> gateway_world \<Rightarrow>
   embed_result result \<times> gateway_world" where
  "embed P env cfg cv rq w =
     (case current_tenant cv of Inl e \<Rightarrow> (Inl e, w)
      | Inr ctx \<Rightarrow>
          (case load_policy P cfg ctx w of Inl e \<Rightarrow> (Inl e, w)
           | Inr pol \<Rightarrow>
               (case policy_select pol (er_provider rq) (er_model rq) of Inl e \<Rightarrow> (Inl e, w)
                | Inr (provider, model) \<Rightarrow>
                    (case api_key cfg provider pol of Inl e \<Rightarrow> (Inl e, w)
                     | Inr key \<Rightarrow>
                         (let kw = embed_kwargs provider model key rq;
                              n = length (provider_calls w);
                              w1 = place_call kw w;
                              meter = (\<lambda>status u kind. meter_wrap env n ctx pol (er_module rq)
                                         (er_user_id rq) provider model status u kind w1)
                          in case env_reply env n kw of
                               TimedOut \<Rightarrow>
                                 meter_then (meter USAGE_TIMEOUT (token_usage_of 0 0 0) (Some ''timeout''))
                                   (Inl (GatewayError (''Embeddings '' @ provider @ '' interrompus (timeout).'')))
                             | Raised kind msg \<Rightarrow>
                                 meter_then (meter USAGE_ERROR (token_usage_of 0 0 0) (Some kind))
                                   (Inl (GatewayError (''Echec embeddings '' @ provider @ '': '' @ msg)))
                             | Replied raw \<Rightarrow>
                                 meter_then (meter USAGE_OK (usage_from raw) None)
                                   (Inr \<lparr>et_embeddings = rr_data raw, et_provider = provider,
                                         et_model = model, et_usage = usage_from raw\<rparr>))))))"

section \<open>The route\<close>

record chat_in =
  ci_messages :: "(string \<times> string option) list"
  ci_provider :: "string option"
  ci_model :: "string option"
  ci_temperature :: "py_float option"
  ci_max_tokens :: "int option"

definition chat_request_of :: "chat_in \<Rightarrow> current_auth \<Rightarrow> chat_request" where
  "chat_request_of payload auth =
     \<lparr>cr_messages = map (\<lambda>(r, c). \<lparr>am_role = r, am_content = c, am_name = None,
                                    am_tool_call_id = None, am_tool_calls = None\<rparr>) (ci_messages payload),
      cr_provider = ci_provider payload, cr_model = ci_model payload,
      cr_temperature = ci_temperature payload, cr_max_tokens = ci_max_tokens payload,
      cr_tools = None, cr_module = ''core'', cr_user_id = Some (u_id (ca_user auth))\<rparr>"

definition ai_chat ::
  "primitives \<Rightarrow> ai_env \<Rightarrow> settings \<Rightarrow> permission_registry \<Rightarrow> request \<Rightarrow> chat_in \<Rightarrow> gateway_world \<Rightarrow>
   chat_result result \<times> gateway_world" where
  \<comment> \<open>\<^verbatim>\<open>ChatOut\<close> has the fields of \<^verbatim>\<open>ChatResult\<close>\<close>
  "ai_chat P env cfg st rq payload w =
     (case permission_route P st ''core.ai.use'' rq (\<lambda>auth ctx d. (Inr (auth, ctx), d)) (core_db w) of
        (Inl e, d) \<Rightarrow> (Inl e, w\<lparr>core_db := d\<rparr>)
      | (Inr (auth, ctx), d) \<Rightarrow>
          (case chat P env cfg (Some ctx) (chat_request_of payload auth) (w\<lparr>core_db := d\<rparr>) of
             (Inr r, w1) \<Rightarrow> (Inr r, w1)
           | (Inl e, w1) \<Rightarrow>
               (Inl (case e of
                  PolicyError msg \<Rightarrow> HTTPException 403 msg
                | ProviderUnavailable msg \<Rightarrow> HTTPException 503 msg
                | GatewayError msg \<Rightarrow> HTTPException 502 msg
                | _ \<Rightarrow> e), w1)))"

section \<open>What one operation places and records\<close>

datatype gateway_op = ChatOp chat_request | StreamOp chat_request "nat option" | EmbedOp embed_request

fun gateway_run ::
  "primitives \<Rightarrow> ai_env \<Rightarrow> settings \<Rightarrow> context_var \<Rightarrow> gateway_op \<Rightarrow> gateway_world \<Rightarrow> gateway_world" where
  "gateway_run P env cfg cv (ChatOp rq) w = snd (chat P env cfg cv rq w)"
| "gateway_run P env cfg cv (StreamOp rq closes) w = snd (chat_stream P env cfg cv rq closes w)"
| "gateway_run P env cfg cv (EmbedOp rq) w = snd (embed P env cfg cv rq w)"

fun metered_events :: "ai_env \<Rightarrow> db \<Rightarrow> nat \<Rightarrow> usage_record list \<Rightarrow> ai_usage_event list" where
  \<comment> \<open>the rows of the records that the database accepts, numbered from the \<open>n\<close>-th call\<close>
  "metered_events env d n [] = []"
| "metered_events env d n (r # rs) =
     (if env_available env n \<and> usage_fits d r
      then [usage_event_of (env_event_id env n) (env_now env) r] else [])
     @ metered_events env d (Suc n) rs"

definition call_recorded ::
  "settings \<Rightarrow> tenant_context \<Rightarrow> resolved_policy \<Rightarrow> call_kwargs \<Rightarrow> usage_record \<Rightarrow> bool" where
  "call_recorded cfg ctx pol c r \<longleftrightarrow>
     kw_model c = ur_provider r @ ''/'' @ ur_model r \<and> permitted pol (ur_provider r)
     \<and> api_key cfg (ur_provider r) pol = Inr (kw_api_key c)
     \<and> ur_tenant_id r = tc_tenant_id ctx \<and> ur_price_version r = PRICE_VERSION
     \<and> ur_estimated_cost_microeur r = estimate_cost (ur_provider r) (ur_model r)
         (token_usage_of (ur_input_tokens r) (ur_output_tokens r) (ur_cached_tokens r))"

definition served ::
  "ai_env \<Rightarrow> settings \<Rightarrow> tenant_context \<Rightarrow> resolved_policy \<Rightarrow> (call_kwargs \<times> usage_record) list \<Rightarrow>
   gateway_world \<Rightarrow> gateway_world \<Rightarrow> bool" where
  "served env cfg ctx pol tr w w' \<longleftrightarrow>
     provider_calls w' = provider_calls w @ map fst tr
     \<and> usage_events w' = usage_events w
         @ metered_events env (core_db w) (length (provider_calls w)) (map snd tr)
     \<and> tenants (core_db w') = tenants (core_db w)
     \<and> list_all (\<lambda>(c, r). call_recorded cfg ctx pol c r) tr"

lemma served_refl: "served env cfg ctx pol [] w w"
  by (simp add: served_def)

lemma usage_fits_cong: "tenants d = tenants d' \<Longrightarrow> usage_fits d r = usage_fits d' r"
  by (simp add: usage_fits_def)

lemma metered_events_cong: "tenants d = tenants d' \<Longrightarrow> metered_events env d n rs = metered_events env d' n rs"
  using usage_fits_cong [of d d'] by (induction rs arbitrary: n) auto

lemma metered_events_append:
  "metered_events env d n (rs @ rs') = metered_events env d n rs @ metered_events env d (n + length rs) rs'"
  by (induction rs arbitrary: n) auto

lemma served_append:
  assumes "served env cfg ctx pol tr w w1" "served env cfg ctx pol tr' w1 w2"
  shows "served env cfg ctx pol (tr @ tr') w w2"
  using assms metered_events_cong [of "core_db w1" "core_db w"]
  by (simp add: served_def metered_events_append)

lemma record_usage_frame:
  "provider_calls (record_usage b eid now r w) = provider_calls w"
  "core_db (record_usage b eid now r w) = core_db w"
  "usage_events (record_usage b eid now r w) =
     usage_events w @ (if b \<and> usage_fits (core_db w) r then [usage_event_of eid now r] else [])"
  by (simp_all add: record_usage_def insert_row_def)

lemma more_provider_calls:
  "ai_world.more w = ai_world.more w' \<Longrightarrow> provider_calls w = provider_calls (w' :: gateway_world)"
  by (cases w; cases w') simp

lemma meter_wrap_effect:
  assumes "meter_wrap env n ctx pol md us p m st u k w = (r, w')"
  shows "\<exists>rec. usage_events w' = usage_events w @ metered_events env (core_db w) n [rec]
    \<and> provider_calls w' = provider_calls w \<and> tenants (core_db w') = tenants (core_db w)
    \<and> ur_provider rec = p \<and> ur_model rec = m \<and> ur_tenant_id rec = tc_tenant_id ctx
    \<and> ur_status rec = st \<and> ur_module rec = md \<and> ur_user_id rec = us
    \<and> ur_price_version rec = PRICE_VERSION
    \<and> token_usage_of (ur_input_tokens rec) (ur_output_tokens rec) (ur_cached_tokens rec) = u
    \<and> ur_estimated_cost_microeur rec = estimate_cost p m u"
proof -
  let ?rec = "\<lparr>ur_tenant_id = tc_tenant_id ctx, ur_user_id = us, ur_module = md,
                  ur_provider = p, ur_model = m, ur_status = st,
                  ur_price_version = PRICE_VERSION, ur_input_tokens = input_tokens u,
                  ur_output_tokens = output_tokens u, ur_cached_tokens = cached_tokens u,
                  ur_latency_ms = env_latency env n,
                  ur_estimated_cost_microeur = estimate_cost p m u, ur_error_kind = k\<rparr>"
  let ?w1 = "record_usage (env_available env n) (env_event_id env n) (env_now env) ?rec w"
  have "usage_events w' = usage_events ?w1 \<and> provider_calls w' = provider_calls ?w1
      \<and> tenants (core_db w') = tenants (core_db ?w1)"
  proof (cases "0 < input_tokens u + output_tokens u")
    case True
    obtain r2 w2 where ra: "record_and_alert ctx (input_tokens u + output_tokens u)
        (rp_monthly_token_quota pol) (env_audit_id env n) (env_now env) (Some ctx) ?w1 = (r2, w2)"
      by fastforce
    then have "w' = w2" using assms True by (simp add: meter_wrap_def Let_def split: sum.splits)
    then show ?thesis using record_and_alert_frame [OF ra] more_provider_calls [of w2 ?w1] by simp
  qed (use assms in \<open>simp add: meter_wrap_def Let_def\<close>)
  then show ?thesis
    by (intro exI [of _ ?rec]) (simp add: record_usage_frame token_usage_of_def)
qed

lemma placed_and_metered:
  assumes "permitted pol p" "api_key cfg p pol = Inr key" "kw_model kw = p @ ''/'' @ m" "kw_api_key kw = key"
    and "meter_wrap env (length (provider_calls w)) ctx pol md us p m st u k (place_call kw w) = (r, w')"
  shows "\<exists>rec. served env cfg ctx pol [(kw, rec)] w w'"
proof -
  from meter_wrap_effect [OF assms(5)] obtain rec where
    "usage_events w' = usage_events w @ metered_events env (core_db w) (length (provider_calls w)) [rec]"
    "provider_calls w' = provider_calls w @ [kw]" "tenants (core_db w') = tenants (core_db w)"
    "ur_provider rec = p" "ur_model rec = m" "ur_tenant_id rec = tc_tenant_id ctx"
    "ur_price_version rec = PRICE_VERSION"
    "token_usage_of (ur_input_tokens rec) (ur_output_tokens rec) (ur_cached_tokens rec) = u"
    "ur_estimated_cost_microeur rec = estimate_cost p m u"
    by (auto simp: place_call_def)
  then show ?thesis using assms
    by (intro exI [of _ rec]) (simp add: served_def call_recorded_def)
qed

lemma snd_meter_then [simp]: "snd (meter_then m r) = snd m"
  by (simp add: meter_then_def split: prod.split sum.split)

lemma chat_once_served:
  assumes "permitted pol p"
  shows "\<exists>tr. length tr \<le> 1 \<and> served env cfg ctx pol tr w (snd (chat_once env cfg ctx pol p m rq w))"
proof (cases "api_key cfg p pol")
  case (Inl e)
  then show ?thesis by (intro exI [of _ "[]"]) (simp add: chat_once_def served_refl)
next
  case (Inr key)
  let ?kw = "chat_kwargs COMPLETION_FN p m key rq"
  obtain st u k where "snd (chat_once env cfg ctx pol p m rq w) =
      snd (meter_wrap env (length (provider_calls w)) ctx pol (cr_module rq) (cr_user_id rq) p m st u k
        (place_call ?kw w))"
    by (cases "env_reply env (length (provider_calls w)) ?kw") (auto simp: chat_once_def Inr Let_def)
  then obtain r w' where mw: "meter_wrap env (length (provider_calls w)) ctx pol (cr_module rq)
      (cr_user_id rq) p m st u k (place_call ?kw w) = (r, w')"
    and w': "snd (chat_once env cfg ctx pol p m rq w) = w'" by (metis prod.collapse)
  from placed_and_metered [OF assms Inr _ _ mw] obtain rec where
    "served env cfg ctx pol [(?kw, rec)] w w'" by (auto simp: chat_kwargs_def)
  then show ?thesis by (intro exI [of _ "[(?kw, rec)]"]) (simp add: w')
qed

text \<open>
  The three operations begin alike: context, policy, selection. What they do after a refusal is
  nothing.
\<close>

lemma chat_served:
  assumes "load_policy P cfg ctx w = Inr pol"
  shows "\<exists>tr. length tr \<le> 2 \<and> served env cfg ctx pol tr w (snd (chat P env cfg (Some ctx) rq w))"
proof (cases "policy_select pol (cr_provider rq) (cr_model rq)")
  case (Inl e)
  then show ?thesis using assms by (intro exI [of _ "[]"]) (simp add: chat_def served_refl)
next
  case (Inr pm)
  obtain p m where pm: "pm = (p, m)" by (cases pm)
  with Inr have "permitted pol p" using policy_select_Inr by blast
  then obtain tr where tr: "length tr \<le> 1" "served env cfg ctx pol tr w (snd (chat_once env cfg ctx pol p m rq w))"
    using chat_once_served by blast
  obtain r w1 where once: "chat_once env cfg ctx pol p m rq w = (r, w1)" by fastforce
  show ?thesis
  proof (cases "\<exists>e fb fp fm. r = Inl e \<and> is_gateway_error e \<and> rp_fallback_provider pol = Some fb
      \<and> policy_select pol (Some fb) (rp_fallback_model pol) = Inr (fp, fm)")
    case True
    then obtain e fb fp fm where fb: "r = Inl e" "is_gateway_error e" "rp_fallback_provider pol = Some fb"
      "policy_select pol (Some fb) (rp_fallback_model pol) = Inr (fp, fm)" by blast
    then have "permitted pol fp" using policy_select_Inr by blast
    then obtain tr' where "length tr' \<le> 1"
      "served env cfg ctx pol tr' w1 (snd (chat_once env cfg ctx pol fp fm rq w1))"
      using chat_once_served by blast
    moreover have "snd (chat P env cfg (Some ctx) rq w) = snd (chat_once env cfg ctx pol fp fm rq w1)"
      using fb once assms Inr pm by (simp add: chat_def)
    ultimately show ?thesis using tr once
      by (intro exI [of _ "tr @ tr'"]) (auto intro: served_append)
  next
    case False
    then have "snd (chat P env cfg (Some ctx) rq w) = w1"
      using once assms Inr pm
      by (auto simp: chat_def split: sum.splits option.splits)
    then show ?thesis using tr once by (intro exI [of _ tr]) simp
  qed
qed

lemma chat_stream_served:
  assumes "load_policy P cfg ctx w = Inr pol"
  shows "\<exists>tr. length tr \<le> 2 \<and>
    served env cfg ctx pol tr w (snd (chat_stream P env cfg (Some ctx) rq closes w))"
proof (cases "\<exists>p m key. policy_select pol (cr_provider rq) (cr_model rq) = Inr (p, m)
    \<and> api_key cfg p pol = Inr key")
  case False
  then have "snd (chat_stream P env cfg (Some ctx) rq closes w) = w"
    using assms by (auto simp: chat_stream_def split: sum.splits)
  then show ?thesis by (intro exI [of _ "[]"]) (simp add: served_refl)
next
  case True
  then obtain p m key where pm: "policy_select pol (cr_provider rq) (cr_model rq) = Inr (p, m)"
    and key: "api_key cfg p pol = Inr key" by blast
  let ?kw = "chat_kwargs STREAMING_FN p m key rq"
  obtain st u k where "snd (chat_stream P env cfg (Some ctx) rq closes w) =
      snd (meter_wrap env (length (provider_calls w)) ctx pol (cr_module rq) (cr_user_id rq) p m st u k
        (place_call ?kw w))"
    using assms pm key by (simp add: chat_stream_def Let_def split_def)
  then obtain r w' where mw: "meter_wrap env (length (provider_calls w)) ctx pol (cr_module rq)
      (cr_user_id rq) p m st u k (place_call ?kw w) = (r, w')"
    and w': "snd (chat_stream P env cfg (Some ctx) rq closes w) = w'" by (metis prod.collapse)
  have "permitted pol p" using pm policy_select_Inr by blast
  from placed_and_metered [OF this key _ _ mw] obtain rec where
    "served env cfg ctx pol [(?kw, rec)] w w'" by (auto simp: chat_kwargs_def)
  then show ?thesis by (intro exI [of _ "[(?kw, rec)]"]) (simp add: w')
qed

lemma embed_served:
  assumes "load_policy P cfg ctx w = Inr pol"
  shows "\<exists>tr. length tr \<le> 2 \<and> served env cfg ctx pol tr w (snd (embed P env cfg (Some ctx) rq w))"
proof (cases "\<exists>p m key. policy_select pol (er_provider rq) (er_model rq) = Inr (p, m)
    \<and> api_key cfg p pol = Inr key")
  case False
  then have "snd (embed P env cfg (Some ctx) rq w) = w"
    using assms by (auto simp: embed_def split: sum.splits)
  then show ?thesis by (intro exI [of _ "[]"]) (simp add: served_refl)
next
  case True
  then obtain p m key where pm: "policy_select pol (er_provider rq) (er_model rq) = Inr (p, m)"
    and key: "api_key cfg p pol = Inr key" by blast
  let ?kw = "embed_kwargs p m key rq"
  obtain st u k where "snd (embed P env cfg (Some ctx) rq w) =
      snd (meter_wrap env (length (provider_calls w)) ctx pol (er_module rq) (er_user_id rq) p m st u k
        (place_call ?kw w))"
    using assms pm key
    by (cases "env_reply env (length (provider_calls w)) ?kw") (auto simp: embed_def Let_def)
  then obtain r w' where mw: "meter_wrap env (length (provider_calls w)) ctx pol (er_module rq)
      (er_user_id rq) p m st u k (place_call ?kw w) = (r, w')"
    and w': "snd (embed P env cfg (Some ctx) rq w) = w'" by (metis prod.collapse)
  have "permitted pol p" using pm policy_select_Inr by blast
  from placed_and_metered [OF this key _ _ mw] obtain rec where
    "served env cfg ctx pol [(?kw, rec)] w w'" by (auto simp: embed_kwargs_def)
  then show ?thesis by (intro exI [of _ "[(?kw, rec)]"]) (simp add: w')
qed

lemma gateway_run_served:
  "load_policy P cfg ctx w = Inr pol \<Longrightarrow>
   \<exists>tr. length tr \<le> 2 \<and> served env cfg ctx pol tr w (gateway_run P env cfg (Some ctx) op w)"
  by (cases op) (auto intro: chat_served chat_stream_served embed_served)

lemma gateway_run_no_policy:
  "load_policy P cfg ctx w = Inl e \<Longrightarrow> gateway_run P env cfg (Some ctx) op w = w"
  "gateway_run P env cfg None op w = w"
  by (cases op; simp add: chat_def chat_stream_def embed_def)+

lemma load_policy_row:
  assumes "load_policy P cfg ctx w = Inr pol"
    and "List.find (\<lambda>r. tp_tenant_id r = tc_tenant_id ctx) (ai_policies w) = Some row"
  shows "rp_allowed_providers pol = tp_allowed_providers row" "rp_zero_retention pol = tp_zero_retention row"
  using assms by (auto simp: load_policy_def get_policy_def resolve_record_def split: sum.splits)

lemma call_recorded_permitted:
  assumes "call_recorded cfg ctx pol c r" "rp_allowed_providers pol = tp_allowed_providers row"
    "rp_zero_retention pol = tp_zero_retention row"
  shows "\<exists>p m. kw_model c = p @ ''/'' @ m
    \<and> (tp_allowed_providers row = [] \<or> p \<in> set (tp_allowed_providers row))
    \<and> (tp_zero_retention row \<longrightarrow> p \<in> set ZERO_RETENTION_PROVIDERS)"
  using assms unfolding call_recorded_def permitted_def by metis

section \<open>Properties\<close>



definition sample_env :: ai_env where
  \<comment> \<open>a provider that fails on the first call and answers afterwards\<close>
  "sample_env =
     \<lparr>env_now = 0,
      env_reply = (\<lambda>n kw. if n = 0 then Raised ''APIError'' ''down''
                   else Replied \<lparr>rr_usage = None, rr_choices = [], rr_data = []\<rparr>),
      env_stream = (\<lambda>n kw. StreamFailed ''APIError'' ''down''), env_latency = (\<lambda>_. 3),
      env_available = (\<lambda>_. True), env_event_id = (\<lambda>n. 1), env_audit_id = (\<lambda>n. 2)\<rparr>"

definition sample_chat :: chat_request where
  "sample_chat =
     \<lparr>cr_messages = [], cr_provider = None, cr_model = Some ''m'', cr_temperature = None,
      cr_max_tokens = None, cr_tools = None, cr_module = ''core'', cr_user_id = None\<rparr>"

definition sample_gateway :: "tenant_ai_policy \<Rightarrow> gateway_world" where
  "sample_gateway row =
     \<lparr>core_db = empty_db\<lparr>tenants := [\<lparr>t_id = 7, t_slug = ''acme'', t_name = ''Acme'',
          t_state = T_ACTIVE, t_plan = ''free'', t_deleted_at = None\<rparr>]\<rparr>,
      ai_policies = [row], usage_events = [], usage_daily = [], valkey = Map.empty,
      provider_calls = []\<rparr>"


text \<open>
  An answered chat is the answer of the last call placed: its provider and model are
  those the call went to, the messages sent are those of the request, and its content and usage
  those of the provider's response (the fallback's when the first call failed).
\<close>

theorem chat_answer_of_last_call:
  assumes "chat P env cfg cv rq w = (Inr res, w')"
  shows "\<exists>c raw. provider_calls w' \<noteq> [] \<and> c = last (provider_calls w')
    \<and> env_reply env (length (provider_calls w') - 1) c = Replied raw
    \<and> kw_model c = ct_provider res @ ''/'' @ ct_model res
    \<and> kw_messages c = map message_provider_dict (cr_messages rq)
    \<and> ct_usage res = usage_from raw
    \<and> (\<forall>ch txt. first_choice raw = Some ch \<longrightarrow> rch_content ch = Some txt \<longrightarrow> ct_content res = txt)"
proof -
  have once: "\<exists>c raw. provider_calls w1 \<noteq> [] \<and> c = last (provider_calls w1)
      \<and> env_reply env (length (provider_calls w1) - 1) c = Replied raw
      \<and> kw_model c = ct_provider r1 @ ''/'' @ ct_model r1
      \<and> kw_messages c = map message_provider_dict (cr_messages rq)
      \<and> ct_usage r1 = usage_from raw
      \<and> (\<forall>ch txt. first_choice raw = Some ch \<longrightarrow> rch_content ch = Some txt \<longrightarrow> ct_content r1 = txt)"
    if co: "chat_once env cfg ctx pol p m rq w0 = (Inr r1, w1)" for ctx pol p m w0 r1 w1
  proof -
    from co obtain key raw where key: "api_key cfg p pol = Inr key"
      and rep: "env_reply env (length (provider_calls w0)) (chat_kwargs COMPLETION_FN p m key rq) = Replied raw"
      and mt: "meter_then (meter_wrap env (length (provider_calls w0)) ctx pol (cr_module rq) (cr_user_id rq)
          p m USAGE_OK (usage_from raw) None (place_call (chat_kwargs COMPLETION_FN p m key rq) w0))
          (Inr (chat_result_of p m raw)) = (Inr r1, w1)"
      by (auto simp: chat_once_def meter_then_def Let_def split: sum.splits reply.splits prod.splits)
    then obtain w2 where mw: "meter_wrap env (length (provider_calls w0)) ctx pol (cr_module rq) (cr_user_id rq)
          p m USAGE_OK (usage_from raw) None (place_call (chat_kwargs COMPLETION_FN p m key rq) w0) = (Inr (), w2)"
      and r1: "r1 = chat_result_of p m raw" "w1 = w2"
      by (auto simp: meter_then_def split: prod.splits sum.splits)
    have "provider_calls w1 = provider_calls w0 @ [chat_kwargs COMPLETION_FN p m key rq]"
      using meter_wrap_effect [OF mw] r1(2) by (auto simp: place_call_def)
    then show ?thesis using rep r1(1)
      by (intro exI [of _ "chat_kwargs COMPLETION_FN p m key rq"] exI [of _ raw])
        (auto simp: chat_kwargs_def chat_result_of_def Let_def py_or_def)
  qed
  show ?thesis
    using assms once
    by (auto simp: chat_def split: sum.splits prod.splits option.splits if_splits)
qed

definition open_policy :: tenant_ai_policy where
  \<comment> \<open>no restriction, no key of its own, no fallback\<close>
  "open_policy =
     \<lparr>tp_tenant_id = 7, tp_default_provider = None, tp_default_model = None,
      tp_allowed_providers = [], tp_zero_retention = False, tp_monthly_token_quota = None,
      tp_hard_limit_enabled = False, tp_fallback_provider = None, tp_fallback_model = None,
      tp_byok_keys_enc = None\<rparr>"

definition sample_answer :: raw_response where
  "sample_answer =
     \<lparr>rr_usage = None,
      rr_choices = [\<lparr>rch_content = Some ''hi'', rch_tool_calls = None, rch_finish_reason = None,
                     rch_delta = None\<rparr>], rr_data = []\<rparr>"

lemma answered_chat:
  assumes "env_reply env 0 = (\<lambda>_. Replied sample_answer)"
    and "cr_provider rq = None" "cr_model rq = Some (c # m)"
  shows "chat byok_primitives env (default_settings\<lparr>mistral_api_key := ''k''\<rparr>) (Some sample_quota_ctx) rq
      (sample_gateway open_policy) =
    (Inr (chat_result_of ''mistral'' (c # m) sample_answer),
     snd (chat byok_primitives env (default_settings\<lparr>mistral_api_key := ''k''\<rparr>) (Some sample_quota_ctx) rq
      (sample_gateway open_policy)))"
  using assms
  by (simp add: chat_def load_policy_def get_policy_def resolve_record_def sample_gateway_def
      open_policy_def sample_quota_ctx_def decrypt_byok_def policy_select_def py_or_def
      default_settings_def chat_once_def api_key_def byok_key_for_def platform_key_def Let_def
      meter_then_def meter_wrap_def sample_answer_def usage_from_def token_usage_of_def)

theorem chat_answer_of_last_call_witness:
  "\<exists>res w'. chat byok_primitives (sample_env\<lparr>env_reply := \<lambda>_ _. Replied sample_answer\<rparr>)
      (default_settings\<lparr>mistral_api_key := ''k''\<rparr>) (Some sample_quota_ctx) sample_chat
      (sample_gateway open_policy) = (Inr res, w')
    \<and> kw_model (last (provider_calls w')) = ct_provider res @ ''/'' @ ct_model res"
proof -
  have a: "chat byok_primitives (sample_env\<lparr>env_reply := \<lambda>_ _. Replied sample_answer\<rparr>)
      (default_settings\<lparr>mistral_api_key := ''k''\<rparr>) (Some sample_quota_ctx) sample_chat
      (sample_gateway open_policy) = (Inr (chat_result_of ''mistral'' ''m'' sample_answer),
      snd (chat byok_primitives (sample_env\<lparr>env_reply := \<lambda>_ _. Replied sample_answer\<rparr>)
        (default_settings\<lparr>mistral_api_key := ''k''\<rparr>) (Some sample_quota_ctx) sample_chat
        (sample_gateway open_policy)))"
    by (rule answered_chat) (simp_all add: sample_chat_def)
  from chat_answer_of_last_call [OF a] show ?thesis by (subst a) auto
qed

lemma add_usage_error: "fst (add_usage t n now s) = Inl e \<Longrightarrow> e = KVResponseError"
  by (auto simp: add_usage_def kv_incrby_def Let_def split: option.splits prod.splits kv_value.splits)

lemma record_and_alert_error:
  assumes "record_and_alert ctx n q aid now cv w = (Inl e, w')"
  shows "e = KVResponseError"
proof (cases "add_usage (tc_tenant_id ctx) n now (valkey w)")
  case (Pair r s1)
  have "\<And>m. \<exists>b w2. emit_alert_once ctx m q aid now cv (w\<lparr>valkey := s1\<rparr>) = (Inr b, w2)"
    using emit_alert_once_spec by blast
  then show ?thesis using assms Pair add_usage_error [of "tc_tenant_id ctx" n now "valkey w" e]
    by (auto simp: record_and_alert_def Let_def split: sum.splits prod.splits if_splits) (metis Inr_Inl_False fst_conv)
qed

lemma meter_wrap_error:
  "meter_wrap env n ctx pol md us p m st u k w = (Inl e, w') \<Longrightarrow> e = KVResponseError"
  by (auto simp: meter_wrap_def Let_def dest: record_and_alert_error
      split: if_splits prod.splits sum.splits)

lemma chat_once_replied:
  assumes "api_key cfg p pol = Inr key"
    and "env_reply env (length (provider_calls w)) (chat_kwargs COMPLETION_FN p m key rq) = Replied raw"
    and "chat_once env cfg ctx pol p m rq w = (r, w')"
  shows "provider_calls w' = provider_calls w @ [chat_kwargs COMPLETION_FN p m key rq]"
    and "100 < length m \<Longrightarrow> usage_events w' = usage_events w"
    and "\<And>e. r = Inl e \<Longrightarrow> \<not> is_gateway_error e"
proof -
  obtain r' where mw: "meter_wrap env (length (provider_calls w)) ctx pol (cr_module rq) (cr_user_id rq)
      p m USAGE_OK (usage_from raw) None (place_call (chat_kwargs COMPLETION_FN p m key rq) w) = (r', w')"
    and r: "\<And>e. r = Inl e \<Longrightarrow> r' = Inl e"
    using assms by (auto simp: chat_once_def meter_then_def Let_def split: prod.splits sum.splits)
  from meter_wrap_effect [OF mw]
  show "provider_calls w' = provider_calls w @ [chat_kwargs COMPLETION_FN p m key rq]"
    "100 < length m \<Longrightarrow> usage_events w' = usage_events w"
    by (auto simp: place_call_def usage_fits_def)
  show "\<not> is_gateway_error e" if "r = Inl e" for e
  proof -
    have "e = KVResponseError" using r [OF that] mw by (auto intro: meter_wrap_error)
    then show ?thesis by (simp add: is_gateway_error_def)
  qed
qed

text \<open>
  A call can escape the usage records: the model name comes from the request and has no
  length limit there, while the column of the usage table holds 100 characters. When a provider
  answers a call for a longer name, the call is placed but no usage row is written, whatever the state
  of the database (the failed insertion is only logged).
\<close>

theorem overlong_model_unmetered:
  assumes "load_policy P cfg ctx w = Inr pol"
    and "policy_select pol (cr_provider rq) (cr_model rq) = Inr (p, m)" "100 < length m"
    and "api_key cfg p pol = Inr key"
    and "env_reply env (length (provider_calls w)) (chat_kwargs COMPLETION_FN p m key rq) = Replied raw"
  shows "provider_calls (snd (chat P env cfg (Some ctx) rq w)) =
      provider_calls w @ [chat_kwargs COMPLETION_FN p m key rq]
    \<and> usage_events (snd (chat P env cfg (Some ctx) rq w)) = usage_events w"
proof -
  obtain r w1 where once: "chat_once env cfg ctx pol p m rq w = (r, w1)" by fastforce
  note eff = chat_once_replied [OF assms(4,5) once]
  have "snd (chat P env cfg (Some ctx) rq w) = w1"
    using assms(1,2) once eff(3) by (auto simp: chat_def split: sum.splits)
  then show ?thesis using eff(1,2) assms(3) by simp
qed

theorem overlong_model_unmetered_witness:
  "\<exists>c. provider_calls (snd (chat byok_primitives (sample_env\<lparr>env_reply := \<lambda>_ _. Replied sample_answer\<rparr>)
      (default_settings\<lparr>mistral_api_key := ''k''\<rparr>) (Some sample_quota_ctx)
      (sample_chat\<lparr>cr_model := Some (replicate 101 (CHR ''x''))\<rparr>) (sample_gateway open_policy))) = [c]
    \<and> usage_events (snd (chat byok_primitives (sample_env\<lparr>env_reply := \<lambda>_ _. Replied sample_answer\<rparr>)
      (default_settings\<lparr>mistral_api_key := ''k''\<rparr>) (Some sample_quota_ctx)
      (sample_chat\<lparr>cr_model := Some (replicate 101 (CHR ''x''))\<rparr>) (sample_gateway open_policy))) = []"
proof -
  define cfg where "cfg = default_settings\<lparr>mistral_api_key := ''k''\<rparr>"
  define pol where "pol = \<lparr>rp_slug = ''acme'', rp_default_provider = ''mistral'',
      rp_default_model = ''mistral-small-latest'', rp_allowed_providers = [], rp_zero_retention = False,
      rp_monthly_token_quota = 5000000, rp_hard_limit_enabled = False, rp_fallback_provider = None,
      rp_fallback_model = None, rp_byok_keys = []\<rparr>"
  have lp: "load_policy byok_primitives cfg sample_quota_ctx (sample_gateway open_policy) = Inr pol"
    by (simp add: load_policy_def get_policy_def resolve_record_def sample_gateway_def open_policy_def
        sample_quota_ctx_def decrypt_byok_def py_or_def default_settings_def cfg_def pol_def)
  have sel: "policy_select pol None (Some (replicate 101 (CHR ''x''))) = Inr (''mistral'', replicate 101 (CHR ''x''))"
    by (simp add: policy_select_def py_or_def pol_def)
  have key: "api_key cfg ''mistral'' pol = Inr ''k''"
    by (simp add: api_key_def byok_key_for_def platform_key_def py_or_def cfg_def pol_def)
  have "provider_calls (sample_gateway open_policy) = []" "usage_events (sample_gateway open_policy) = []"
    by (simp_all add: sample_gateway_def)
  then show ?thesis
    using overlong_model_unmetered [OF lp, of "sample_chat\<lparr>cr_model := Some (replicate 101 (CHR ''x''))\<rparr>"
        "''mistral''" "replicate 101 (CHR ''x'')" "''k''"
        "sample_env\<lparr>env_reply := \<lambda>_ _. Replied sample_answer\<rparr>" sample_answer] sel key
    by (simp add: sample_chat_def cfg_def)
qed

end
