(* ===== verification/Digest.thy ===== *)
theory Digest
  imports Automation ConnectorLife AiGateway
begin

text \<open>
  The computation of the sample module (\<^verbatim>\<open>modules/sample_digest/service.py\<close>): list the mail of the last
  day through the mail capability, have it summarised through the AI gateway, store the digest with
  its audit event. Here the connectors, the gateway, the audit log and the scheduler meet; their
  worlds are joined on the database and the Valkey store they share. What the module relies on of the
  mail capability is a locale, interpreted on the clients of both providers.
\<close>

record digest_world = module_world +
  gateway :: gateway_world

section \<open>Prompts\<close>

definition LOOKBACK :: int where "LOOKBACK = hours 24"

definition SYSTEM_PROMPT :: string where
  "SYSTEM_PROMPT = ''Tu es un assistant qui resume en francais, en 3 puces maximum, les sujets ''
     @ ''saillants d'' @ [CHR 0x27] @ ''une liste d'' @ [CHR 0x27] @ ''emails recus. Sois factuel et concis.''"

definition build_prompt :: "string list \<Rightarrow> string" where
  "build_prompt subjects =
     ''Voici les objets des emails recus ces dernieres 24 h :'' @ [CHR 0x0A]
     @ join_with [CHR 0x0A] (map (\<lambda>s. ''- '' @ s) subjects)"

definition plain_message :: "string \<Rightarrow> string \<Rightarrow> ai_message" where
  "plain_message role content =
     \<lparr>am_role = role, am_content = Some content, am_name = None, am_tool_call_id = None, am_tool_calls = None\<rparr>"

definition digest_request :: "string list \<Rightarrow> chat_request" where
  "digest_request subjects =
     \<lparr>cr_messages = [plain_message ''system'' SYSTEM_PROMPT, plain_message ''user'' (build_prompt subjects)],
      cr_provider = None, cr_model = None, cr_temperature = None, cr_max_tokens = None, cr_tools = None,
      cr_module = ''sample_digest'', cr_user_id = None\<rparr>"

definition NO_MAIL :: string where
  "NO_MAIL = ''Aucun nouvel email sur les dernieres 24 heures.''"

section \<open>The task\<close>

definition active_mail_connection :: "context_var \<Rightarrow> conn_world \<Rightarrow> connector_connection option result" where
  "active_mail_connection cv w =
     (case scoped_connections cv w of Inl e \<Rightarrow> Inl e
      | Inr rows \<Rightarrow>
          Inr (List.find (\<lambda>c. CAPABILITY_MAIL \<in> set (granted_capabilities c)) (filter (\<lambda>c. cn_status c = CONN_ACTIVE) rows)))"

definition gateway_chat ::
  "primitives \<Rightarrow> ai_env \<Rightarrow> settings \<Rightarrow> context_var \<Rightarrow> chat_request \<Rightarrow> digest_world \<Rightarrow> chat_result result \<times> digest_world" where
  \<comment> \<open>\<^verbatim>\<open>get_gateway().chat\<close> on the database and the Valkey store of the connectors\<close>
  "gateway_chat P aenv cfg cv rq dw =
     (let w = mw_conn dw;
          (r, g) = chat P aenv cfg cv rq ((gateway dw)\<lparr>core_db := cdb w, valkey := vk w\<rparr>)
      in (r, dw\<lparr>gateway := g, mw_conn := w\<lparr>cdb := core_db g, vk := valkey g\<rparr>\<rparr>))"

type_synonym mail_listing =
  "instant option \<Rightarrow> string \<Rightarrow> int \<Rightarrow> connector_connection \<Rightarrow> conn_world \<Rightarrow>
   (email_message list result \<times> connector_connection \<times> conn_world) option"

definition summarise ::
  "primitives \<Rightarrow> ai_env \<Rightarrow> settings \<Rightarrow> context_var \<Rightarrow> mail_listing \<Rightarrow> connector_connection \<Rightarrow> digest_world \<Rightarrow>
   ((string \<times> nat) result \<times> digest_world) option" where
  \<comment> \<open>the summary and the number of messages it covers\<close>
  "summarise P aenv cfg cv listing c dw =
     (case listing (Some (clock (mw_conn dw) - LOOKBACK)) ''inbox'' 50 c (mw_conn dw) of
        None \<Rightarrow> None
      | Some (Inl e, _, w1) \<Rightarrow> Some (Inl e, dw\<lparr>mw_conn := w1\<rparr>)
      | Some (Inr messages, _, w1) \<Rightarrow>
          if messages = [] then Some (Inr (NO_MAIL, 0), dw\<lparr>mw_conn := w1\<rparr>)
          else (case gateway_chat P aenv cfg cv (digest_request (map em_subject messages)) (dw\<lparr>mw_conn := w1\<rparr>) of
                  (Inl e, dw2) \<Rightarrow> Some (Inl e, dw2)
                | (Inr res, dw2) \<Rightarrow> Some (Inr (ct_content res, length messages), dw2)))"

definition digest_args :: "uuid \<Rightarrow> nat \<Rightarrow> audit_args" where
  "digest_args i count =
     \<lparr>aa_action = DIGEST_ACTION, aa_resource_type = ''sample_digest_digest'', aa_resource_id = str_uuid i,
      aa_payload = [(''message_count'', JInt (int count))],
      aa_actor_user_id = None, aa_actor_label = SYSTEM_ACTOR_LABEL\<rparr>"

definition store_digest ::
  "net_env \<Rightarrow> context_var \<Rightarrow> string \<Rightarrow> nat \<Rightarrow> digest_world \<Rightarrow> sample_digest_digest result \<times> digest_world" where
  \<comment> \<open>the row and its audit event, in one transaction\<close>
  "store_digest env cv summary count dw =
     (case flush_insert cv of Inl e \<Rightarrow> (Inl e, dw)
      | Inr t \<Rightarrow>
          (let (n, w1) = draw (mw_conn dw);
               d = \<lparr>sd_id = ne_uuid env n, sd_tenant_id = t, sd_generated_at = clock w1,
                    sd_message_count = int count, sd_summary = summary\<rparr>
           in case add_audits env cv [digest_args (sd_id d) count] w1 of
                (Inl e, _) \<Rightarrow> (Inl e, dw)
              | (Inr _, w2) \<Rightarrow> (Inr d, dw\<lparr>mw_conn := w2, digests := insert_row d (digests dw)\<rparr>)))"

definition generate_digest ::
  "email_lib \<Rightarrow> primitives \<Rightarrow> settings \<Rightarrow> net_env \<Rightarrow> ai_env \<Rightarrow> (conn_world \<Rightarrow> conn_world) \<Rightarrow> context_var \<Rightarrow> digest_world \<Rightarrow>
   (sample_digest_digest result \<times> digest_world) option" where
  "generate_digest L P cfg env aenv others cv dw =
     (case active_mail_connection cv (mw_conn dw) of
        Inl e \<Rightarrow> Some (Inl e, dw)
      | Inr None \<Rightarrow>
          Some (Inl (SampleDigestError ''Aucune connexion mail active - impossible de generer le digest.''), dw)
      | Inr (Some c) \<Rightarrow>
          (case get_capability c MailCapability of Inl e \<Rightarrow> Some (Inl e, dw)
           | Inr impl \<Rightarrow>
               (case summarise P aenv cfg cv (list_messages L P cfg env others cv impl) c dw of
                  None \<Rightarrow> None
                | Some (Inl e, dw1) \<Rightarrow> Some (Inl e, dw1)
                | Some (Inr (summary, count), dw1) \<Rightarrow> Some (store_digest env cv summary count dw1))))"

definition generate_digest_task ::
  "email_lib \<Rightarrow> primitives \<Rightarrow> settings \<Rightarrow> net_env \<Rightarrow> ai_env \<Rightarrow> (conn_world \<Rightarrow> conn_world) \<Rightarrow> context_var \<Rightarrow> uuid \<Rightarrow>
   digest_world \<Rightarrow> (unit result \<times> digest_world) option" where
  "generate_digest_task L P cfg env aenv others cv tenant_id dw =
     (case current_tenant cv of Inl e \<Rightarrow> Some (Inl e, dw)
      | Inr _ \<Rightarrow>
          map_option (\<lambda>(r, dw1). (map_sum id (\<lambda>_. ()) r, dw1)) (generate_digest L P cfg env aenv others cv dw))"

definition task_functions ::
  "email_lib \<Rightarrow> primitives \<Rightarrow> settings \<Rightarrow> net_env \<Rightarrow> ai_env \<Rightarrow> (conn_world \<Rightarrow> conn_world) \<Rightarrow> string \<Rightarrow> context_var \<Rightarrow> uuid \<Rightarrow>
   digest_world \<Rightarrow> (unit result \<times> digest_world) option" where
  \<comment> \<open>\<^verbatim>\<open>task.fn\<close> of the tasks the registry declares\<close>
  "task_functions L P cfg env aenv others task cv tenant_id dw =
     (if task = TASK_NAME then generate_digest_task L P cfg env aenv others cv tenant_id dw else Some (Inr (), dw))"

section \<open>The mail capability as an interface\<close>

locale mail_capability =
  fixes listing :: mail_listing
  assumes bounded: "listing since folder limit c w = Some (Inr ms, c', w') \<Longrightarrow> length ms \<le> nat limit"
    and refused: "cn_status c \<noteq> CONN_ACTIVE \<Longrightarrow> 0 < limit \<Longrightarrow> \<exists>e. listing since folder limit c w = Some (Inl e, c, w)"
begin

lemma summarise_count:
  "summarise P aenv cfg cv listing c dw = Some (Inr (s, n), dw') \<Longrightarrow> n \<le> 50"
  using bounded
  by (fastforce simp: summarise_def split: option.splits prod.splits sum.splits if_splits)

lemma summarise_inactive:
  assumes "cn_status c \<noteq> CONN_ACTIVE"
  shows "\<exists>e. summarise P aenv cfg cv listing c dw = Some (Inl e, dw)"
proof -
  obtain e where "listing (Some (clock (mw_conn dw) - LOOKBACK)) ''inbox'' 50 c (mw_conn dw) = Some (Inl e, c, mw_conn dw)"
    using refused [OF assms, of 50] by fastforce
  then show ?thesis by (simp add: summarise_def)
qed

end

lemma fresh_access_token_inactive:
  "cn_status c \<noteq> CONN_ACTIVE \<Longrightarrow> fresh_access_token P cfg env others cv c w = (Inl (ConnectorCallError (not_active_msg c)), c, w)"
  by (simp add: fresh_access_token_def)

interpretation google_mail: mail_capability "google_list_messages L P cfg env others cv" for L P cfg env others cv
proof
  fix since folder limit c w ms c' w'
  assume "google_list_messages L P cfg env others cv since folder limit c w = Some (Inr ms, c', w')"
  then show "length ms \<le> nat limit"
    by (auto simp: google_list_messages_def dest!: map_result_length split: prod.splits sum.splits option.splits)
next
  fix c :: connector_connection and limit since folder w
  assume "cn_status c \<noteq> CONN_ACTIVE"
  then show "\<exists>e. google_list_messages L P cfg env others cv since folder limit c w = Some (Inl e, c, w)"
    by (simp add: google_list_messages_def google_execute_def fresh_access_token_inactive)
qed

interpretation graph_mail: mail_capability "microsoft_list_messages P cfg env others cv" for P cfg env others cv
proof
  fix since folder limit c w ms c' w'
  assume "microsoft_list_messages P cfg env others cv since folder limit c w = Some (Inr ms, c', w')"
  then show "length ms \<le> nat limit"
    by (auto simp: microsoft_list_messages_def and_then_Inr dest!: map_result_length)
next
  fix c :: connector_connection and limit :: int and since folder w
  assume "cn_status c \<noteq> CONN_ACTIVE" "0 < limit"
  then show "\<exists>e. microsoft_list_messages P cfg env others cv since folder limit c w = Some (Inl e, c, w)"
    by (simp add: microsoft_list_messages_def graph_pages.simps [of P cfg env others cv limit "Some p" for p]
        graph_request_def bearer_call_def fresh_access_token_inactive and_then_def)
qed

interpretation any_mail: mail_capability "list_messages L P cfg env others cv impl" for L P cfg env others cv impl
proof
  fix since folder limit c w ms c' w'
  assume "list_messages L P cfg env others cv impl since folder limit c w = Some (Inr ms, c', w')"
  then show "length ms \<le> nat limit"
    using google_mail.bounded graph_mail.bounded by (cases impl) (auto simp: list_messages_def)
next
  fix c :: connector_connection and limit :: int and since folder w
  assume "cn_status c \<noteq> CONN_ACTIVE" "0 < limit"
  then show "\<exists>e. list_messages L P cfg env others cv impl since folder limit c w = Some (Inl e, c, w)"
    using google_mail.refused [of c limit L P cfg env others cv since folder w]
      graph_mail.refused [of c limit P cfg env others cv since folder w]
    by (cases impl) (simp_all add: list_messages_def)
qed

section \<open>Lemmas\<close>

lemma chat_once_messages:
  assumes "chat_once aenv cfg ctx pol p m rq g = (r, g')"
  shows "\<exists>new. provider_calls g' = provider_calls g @ new
    \<and> list_all (\<lambda>k. kw_messages k = map message_provider_dict (cr_messages rq)) new"
proof (cases "api_key cfg p pol")
  case (Inl e)
  then show ?thesis using assms by (intro exI [of _ "[]"]) (simp add: chat_once_def)
next
  case (Inr key)
  let ?kw = "chat_kwargs COMPLETION_FN p m key rq"
  obtain st u k where "snd (chat_once aenv cfg ctx pol p m rq g) =
      snd (meter_wrap aenv (length (provider_calls g)) ctx pol (cr_module rq) (cr_user_id rq) p m st u k (place_call ?kw g))"
    by (cases "env_reply aenv (length (provider_calls g)) ?kw") (auto simp: chat_once_def Inr Let_def)
  then obtain x where "meter_wrap aenv (length (provider_calls g)) ctx pol (cr_module rq) (cr_user_id rq) p m st u k
      (place_call ?kw g) = (x, g')" using assms by (metis prod.collapse snd_conv)
  from meter_wrap_effect [OF this] have "provider_calls g' = provider_calls g @ [?kw]" by (auto simp: place_call_def)
  then show ?thesis by (intro exI [of _ "[?kw]"]) (simp add: chat_kwargs_def)
qed

lemma chat_messages:
  assumes "chat P aenv cfg cv rq g = (r, g')"
  shows "\<exists>new. provider_calls g' = provider_calls g @ new
    \<and> list_all (\<lambda>k. kw_messages k = map message_provider_dict (cr_messages rq)) new"
proof -
  consider "provider_calls g' = provider_calls g"
    | ctx pol p m where "chat_once aenv cfg ctx pol p m rq g = (r, g')"
    | ctx pol p m fp fm e g1 where "chat_once aenv cfg ctx pol p m rq g = (Inl e, g1)" "chat_once aenv cfg ctx pol fp fm rq g1 = (r, g')"
    | ctx pol p m e where "chat_once aenv cfg ctx pol p m rq g = (Inl e, g')"
    using assms by (auto simp: chat_def split: sum.splits prod.splits option.splits if_splits)
  then show ?thesis
  proof cases
    case 3
    from chat_once_messages [OF 3(1)] chat_once_messages [OF 3(2)] obtain a b where
      "provider_calls g1 = provider_calls g @ a" "provider_calls g' = provider_calls g1 @ b"
      "list_all (\<lambda>k. kw_messages k = map message_provider_dict (cr_messages rq)) a"
      "list_all (\<lambda>k. kw_messages k = map message_provider_dict (cr_messages rq)) b" by blast
    then show ?thesis by (intro exI [of _ "a @ b"]) simp
  qed (use chat_once_messages in \<open>auto intro: exI [of _ "[]"]\<close>)
qed

lemma summarise_calls:
  assumes "summarise P aenv cfg cv listing c dw = Some (r, dw')"
  shows "digests dw' = digests dw
    \<and> (\<exists>new subjects. provider_calls (gateway dw') = provider_calls (gateway dw) @ new
        \<and> list_all (\<lambda>k. kw_messages k = map message_provider_dict (cr_messages (digest_request subjects))) new
        \<and> (\<forall>s n. r = Inr (s, n) \<longrightarrow> n = length subjects \<and> (n = 0 \<longrightarrow> new = [])))"
proof -
  obtain lr c1 w1 where l: "listing (Some (clock (mw_conn dw) - LOOKBACK)) ''inbox'' 50 c (mw_conn dw) = Some (lr, c1, w1)"
    using assms by (auto simp: summarise_def split: option.splits)
  show ?thesis
  proof (cases "\<exists>ms. lr = Inr ms \<and> ms \<noteq> []")
    case False
    then show ?thesis using assms l by (intro conjI exI [of _ "[]"]) (auto simp: summarise_def split: sum.splits if_splits)
  next
    case True
    then obtain ms where ms: "lr = Inr ms" "ms \<noteq> []" by blast
    let ?rq = "digest_request (map em_subject ms)"
    let ?g = "(gateway dw)\<lparr>core_db := cdb w1, valkey := vk w1\<rparr>"
    obtain cr g where ch: "chat P aenv cfg cv ?rq ?g = (cr, g)" by fastforce
    from chat_messages [OF ch] obtain new where "provider_calls g = provider_calls (gateway dw) @ new"
      "list_all (\<lambda>k. kw_messages k = map message_provider_dict (cr_messages ?rq)) new" by auto
    then show ?thesis
      using assms l ms ch
      by (intro conjI exI [of _ new] exI [of _ "map em_subject ms"])
        (auto simp: summarise_def gateway_chat_def Let_def split: sum.splits)
  qed
qed

lemma active_mail_connection_Some:
  assumes "active_mail_connection cv w = Inr (Some c)"
  shows "\<exists>ctx. cv = Some ctx \<and> c \<in> set (connections w) \<and> cn_tenant_id c = tc_tenant_id ctx \<and> cn_status c = CONN_ACTIVE
    \<and> CAPABILITY_MAIL \<in> set (granted_capabilities c)"
proof (cases cv)
  case None
  then show ?thesis using assms by (simp add: active_mail_connection_def scoped_connections_def handler_simps)
next
  case (Some ctx)
  then show ?thesis using assms
    by (auto simp: active_mail_connection_def scoped_connections_def handler_simps dest!: find_eq_Some_D)
qed

lemma store_digest_effect:
  assumes "store_digest env (Some ctx) s n dw = (r, dw')"
  shows "gateway dw' = gateway dw
    \<and> (case r of Inl _ \<Rightarrow> digests dw' = digests dw
       | Inr d \<Rightarrow> digests dw' = digests dw @ [d] \<and> sd_tenant_id d = tc_tenant_id ctx \<and> sd_message_count d = int n
           \<and> (\<exists>ev\<in>set (audit_events (cdb (mw_conn dw'))). ae_action ev = DIGEST_ACTION \<and> ae_tenant_id ev = tc_tenant_id ctx
                \<and> ae_resource_id ev = str_uuid (sd_id d)))"
  using assms
  by (auto simp: store_digest_def draw_def flush_insert_eq record_audit_event_eq insert_row_def digest_args_def Let_def)

section \<open>Properties\<close>



text \<open>A tenant with one mail of subject \<open>Hi\<close> and a provider that answers.\<close>

definition inbox_answer :: http_response where
  "inbox_answer = \<lparr>hr_status = 200, hr_retry_after = None,
     hr_body = Some (JObj [(''value'', JList [JObj [(''id'', JStr ''m''), (''subject'', JStr ''Hi'')]])])\<rparr>"

definition inbox_env :: net_env where
  "inbox_env = token_env\<lparr>ne_http := \<lambda>n rq. Answered inbox_answer\<rparr>"

definition digest_cfg :: settings where
  "digest_cfg = sample_cfg\<lparr>mistral_api_key := ''k''\<rparr>"

definition digest_ai :: ai_env where
  "digest_ai = sample_env\<lparr>env_reply := \<lambda>_ _. Replied sample_answer\<rparr>"

definition mail_connection :: connector_connection where
  "mail_connection = graph_connection\<lparr>cn_scopes := concat (map snd (capability_scopes MICROSOFT_MANIFEST))\<rparr>"

definition inbox_world :: digest_world where
  "inbox_world =
     \<lparr>mw_conn = graph_world\<lparr>connections := [mail_connection]\<rparr>, module_rows = [], cache = Map.empty, digests = [],
      gateway = sample_gateway open_policy\<rparr>"

lemma inbox_listed:
  "\<exists>w'. list_messages L sample_primitives digest_cfg inbox_env id (Some (context_for acme_tenant)) MicrosoftMail since ''inbox'' 50
      mail_connection (mw_conn inbox_world) =
    Some (Inr [\<lparr>em_provider_raw_id = ''m'', em_subject = ''Hi'', em_sender = [], em_recipients = [], em_snippet = [],
                em_received_at = None\<rparr>], mail_connection, w')"
proof -
  let ?w = "mw_conn inbox_world"
  have w: "clock ?w = 10" "budget_ok m i (vk ?w)" for m i
    by (simp_all add: inbox_world_def graph_world_def sample_conn_world_def budget_ok_def)
  have "get_key_provider sample_primitives digest_cfg = get_key_provider sample_primitives sample_cfg"
    by (simp add: digest_cfg_def get_key_provider_def master_key_bytes_def)
  then have "decrypt_token sample_primitives digest_cfg (cn_access_token_enc mail_connection) = Inr ''at''"
    using graph_token(1) by (simp add: decrypt_token_def mail_connection_def)
  moreover have "\<not> access_token_expiring mail_connection (seconds EXPIRY_SKEW_SECONDS) 10"
    using graph_token(2) by (simp add: access_token_expiring_def mail_connection_def)
  moreover have "cn_status mail_connection = CONN_ACTIVE"
    by (simp add: mail_connection_def graph_connection_def sample_connection_def)
  ultimately have f: "fresh_access_token sample_primitives digest_cfg inbox_env id cv mail_connection ?w = (Inr ''at'', mail_connection, ?w)"
    for cv using w(1) by (simp add: fresh_access_token_def)
  have "first_settled u (\<lambda>i. call_outcome (ne_http inbox_env i rq)) k (length [0..<MAX_ATTEMPTS]) = (Inr inbox_answer, 1)" for u k rq
    by (simp add: inbox_env_def inbox_answer_def call_outcome_def retryable_def retry_def MAX_ATTEMPTS_def eval_nat_numeral)
  then have "\<exists>w'. provider_http_request inbox_env m i rq path ?w = (Inr inbox_answer, w')"
    for m :: provider_manifest and i rq path
    using backoff_loop_settles [OF one_request_attempt [of inbox_env rq call_outcome] w(2) [of m i], of "[0..<MAX_ATTEMPTS]"]
    by (auto simp: provider_http_request_def run_with_backoff_def inbox_answer_def)
  then obtain W where "provider_http_request inbox_env m i rq path ?w = (Inr inbox_answer, W m i rq path)"
    for m :: provider_manifest and i rq path by metis
  then have "\<exists>w'. graph_request sample_primitives digest_cfg inbox_env id cv meth path body params mail_connection ?w =
      (Inr inbox_answer, mail_connection, w')" for cv meth path body params
    using f by (simp add: graph_request_def bearer_call_def Let_def)
  then obtain w' where g: "graph_request sample_primitives digest_cfg inbox_env id (Some (context_for acme_tenant)) ''GET''
      (''/me/mailFolders/'' @ ''inbox'' @ ''/messages'') None (graph_listing_params since 50) mail_connection ?w =
      (Inr inbox_answer, mail_connection, w')" by blast
  have p: "graph_page m inbox_answer = Inr ([JObj [(''id'', JStr ''m''), (''subject'', JStr ''Hi'')]], None)" for m
    by (simp add: graph_page_def inbox_answer_def json_body_def payload_simps)
  have m: "graph_message_to_email (JObj [(''id'', JStr ''m''), (''subject'', JStr ''Hi'')]) =
      Inr \<lparr>em_provider_raw_id = ''m'', em_subject = ''Hi'', em_sender = [], em_recipients = [], em_snippet = [],
           em_received_at = None\<rparr>"
    by (simp add: graph_message_to_email_def payload_simps str_field_def str_json_def address_of_def)
  show ?thesis
    using g [simplified] p m
    by (simp add: list_messages_def microsoft_list_messages_def graph_pages.simps and_then_def)
qed

lemma inbox_summarised:
  "\<exists>w' g. gateway_chat sample_primitives digest_ai digest_cfg (Some (context_for acme_tenant)) (digest_request subjects)
      (inbox_world\<lparr>mw_conn := w1\<rparr>) =
    (Inr (chat_result_of ''mistral'' (ai_default_model digest_cfg) sample_answer),
     inbox_world\<lparr>mw_conn := w', gateway := g\<rparr>)"
  by (simp add: gateway_chat_def chat_def load_policy_def get_policy_def resolve_record_def inbox_world_def sample_gateway_def
      open_policy_def context_for_def acme_tenant_def decrypt_byok_def policy_select_def py_or_def
      digest_cfg_def sample_cfg_def default_settings_def chat_once_def api_key_def byok_key_for_def platform_key_def Let_def
      meter_then_def meter_wrap_def sample_answer_def usage_from_def token_usage_of_def digest_ai_def digest_request_def handler_simps)


end
