(* ===== verification/Worker.thy ===== *)
theory Worker
  imports Digest
begin

text \<open>
  The background worker (\<^verbatim>\<open>worker.py\<close>, the \<^verbatim>\<open>@shared_task\<close> wrappers of \<^verbatim>\<open>connectors/tasks.py\<close>,
  \<^verbatim>\<open>automation/scheduler.py\<close>, \<^verbatim>\<open>auth/tasks.py\<close> and \<^verbatim>\<open>ai/tasks.py\<close>): which task a message runs, the beat
  schedule, and the states a worker reaches when it takes messages in any order while time passes
  and other requests come in. Serialisation, acknowledgement and the broker are Celery's.
\<close>

section \<open>Tasks\<close>

definition joined_gateway :: "digest_world \<Rightarrow> gateway_world" where
  "joined_gateway dw = (gateway dw)\<lparr>core_db := cdb (mw_conn dw), valkey := vk (mw_conn dw)\<rparr>"

definition with_gateway :: "gateway_world \<Rightarrow> digest_world \<Rightarrow> digest_world" where
  "with_gateway g dw = dw\<lparr>gateway := g, mw_conn := (mw_conn dw)\<lparr>cdb := core_db g, vk := valkey g\<rparr>\<rparr>"

text \<open>Identifiers travel as text and are parsed back; an exception ends the task and leaves what it committed.\<close>

definition sync_subscriptions_task ::
  "primitives \<Rightarrow> settings \<Rightarrow> net_env \<Rightarrow> (conn_world \<Rightarrow> conn_world) \<Rightarrow> string \<Rightarrow> uuid \<Rightarrow> digest_world \<Rightarrow> digest_world" where
  "sync_subscriptions_task P cfg env others slug cid dw =
     mw_conn_update (\<lambda>w. snd (sync_connection_subscriptions P cfg env others slug cid w)) dw"

definition connector_event_received_task ::
  "net_env \<Rightarrow> handler_registry \<Rightarrow> string \<Rightarrow> uuid \<Rightarrow> string \<Rightarrow> string \<Rightarrow> string \<Rightarrow> string option \<Rightarrow> digest_world \<Rightarrow> digest_world" where
  \<comment> \<open>the handlers of connector events only log\<close>
  "connector_event_received_task env reg slug cid provider capability change_type resource_id dw =
     mw_conn_update (\<lambda>w. snd (process_connector_event env reg slug cid provider capability change_type resource_id w)) dw"

definition refresh_expiring_tokens_task ::
  "primitives \<Rightarrow> settings \<Rightarrow> net_env \<Rightarrow> (conn_world \<Rightarrow> conn_world) \<Rightarrow> digest_world \<Rightarrow> digest_world" where
  "refresh_expiring_tokens_task P cfg env others dw =
     mw_conn_update (\<lambda>w. snd (refresh_expiring_tokens P cfg env others w)) dw"

definition renew_subscriptions_task ::
  "primitives \<Rightarrow> settings \<Rightarrow> net_env \<Rightarrow> (conn_world \<Rightarrow> conn_world) \<Rightarrow> digest_world \<Rightarrow> digest_world" where
  "renew_subscriptions_task P cfg env others dw =
     mw_conn_update (\<lambda>w. snd (renew_expiring_subscriptions P cfg env others w)) dw"

definition periodic_fanout_task :: "module_manifest list \<Rightarrow> string \<Rightarrow> string \<Rightarrow> digest_world \<Rightarrow> digest_world" where
  "periodic_fanout_task modules name task dw = snd (run_periodic_fanout modules name task dw)"

definition periodic_unit_task ::
  "email_lib \<Rightarrow> primitives \<Rightarrow> settings \<Rightarrow> net_env \<Rightarrow> ai_env \<Rightarrow> (conn_world \<Rightarrow> conn_world) \<Rightarrow> module_manifest list \<Rightarrow>
   string \<Rightarrow> string \<Rightarrow> uuid \<Rightarrow> digest_world \<Rightarrow> digest_world option" where
  \<comment> \<open>\<open>None\<close>: it never returns\<close>
  "periodic_unit_task L P cfg env aenv others modules name task t dw =
     map_option snd (run_periodic_unit env modules (task_functions L P cfg env aenv others) name task t dw)"

definition purge_expired :: "digest_world \<Rightarrow> digest_world" where
  "purge_expired dw = mw_conn_update (\<lambda>w. w\<lparr>cdb := snd (purge_expired_auth_rows (clock w) (cdb w))\<rparr>) dw"

definition daily_usage_rollup_task :: "settings \<Rightarrow> digest_world \<Rightarrow> digest_world" where
  "daily_usage_rollup_task cfg dw =
     with_gateway (snd (run_daily_rollup cfg (clock (mw_conn dw)) (joined_gateway dw))) dw"

fun run_task ::
  "email_lib \<Rightarrow> primitives \<Rightarrow> settings \<Rightarrow> net_env \<Rightarrow> ai_env \<Rightarrow> (conn_world \<Rightarrow> conn_world) \<Rightarrow> handler_registry \<Rightarrow>
   module_manifest list \<Rightarrow> queued_task \<Rightarrow> digest_world \<Rightarrow> digest_world option" where
  \<comment> \<open>the task a queued message names\<close>
  "run_task L P cfg env aenv others reg modules (SyncSubscriptions slug cid) dw =
     Some (sync_subscriptions_task P cfg env others slug cid dw)"
| "run_task L P cfg env aenv others reg modules (EventReceived slug cid provider capability change_type resource_id) dw =
     Some (connector_event_received_task env reg slug cid provider capability change_type resource_id dw)"
| "run_task L P cfg env aenv others reg modules (PeriodicUnit name task t) dw =
     periodic_unit_task L P cfg env aenv others modules name task t dw"

section \<open>The beat schedule\<close>

definition CORE_SCHEDULE :: "(string \<times> string \<times> nat) list" where
  \<comment> \<open>entry, task, period in seconds\<close>
  "CORE_SCHEDULE =
     [(''auth-purge-expired'', ''core.auth.purge_expired'', 3600),
      (''connectors-refresh-tokens'', ''connectors.refresh_expiring_tokens'', 300),
      (''connectors-renew-subscriptions'', ''connectors.renew_subscriptions'', 3600),
      (''ai-daily-usage-rollup'', ''core.ai.daily_usage_rollup'', 86400)]"

definition beat_schedule :: "module_manifest list \<Rightarrow> (string \<times> string \<times> nat \<times> (string \<times> string) option) list" where
  \<comment> \<open>the core entries, updated with those of the modules\<close>
  "beat_schedule modules =
     fold (\<lambda>(k, v). AList.update k v)
       (map (\<lambda>(k, period, name, task). (k, ''automation.periodic_fanout'', period, Some (name, task))) (beat_entries modules))
       (map (\<lambda>(k, task, period). (k, task, period, None)) CORE_SCHEDULE)"

definition run_beat ::
  "primitives \<Rightarrow> settings \<Rightarrow> net_env \<Rightarrow> (conn_world \<Rightarrow> conn_world) \<Rightarrow> module_manifest list \<Rightarrow> string \<Rightarrow> (string \<times> string) option \<Rightarrow>
   digest_world \<Rightarrow> digest_world option" where
  \<comment> \<open>the scheduled task of a name; \<open>None\<close>: no task is registered under it with these arguments\<close>
  "run_beat P cfg env others modules task args dw =
     (if task = ''core.auth.purge_expired'' \<and> args = None then Some (purge_expired dw)
      else if task = ''connectors.refresh_expiring_tokens'' \<and> args = None
      then Some (refresh_expiring_tokens_task P cfg env others dw)
      else if task = ''connectors.renew_subscriptions'' \<and> args = None
      then Some (renew_subscriptions_task P cfg env others dw)
      else if task = ''core.ai.daily_usage_rollup'' \<and> args = None then Some (daily_usage_rollup_task cfg dw)
      else if task = ''automation.periodic_fanout''
      then map_option (\<lambda>(name, t). periodic_fanout_task modules name t dw) args
      else None)"

section \<open>States of the worker\<close>

definition dequeue :: "queued_task \<Rightarrow> digest_world \<Rightarrow> digest_world" where
  "dequeue task dw = mw_conn_update (task_queue_update (remove1 task)) dw"

inductive reached ::
  "email_lib \<Rightarrow> primitives \<Rightarrow> settings \<Rightarrow> net_env \<Rightarrow> ai_env \<Rightarrow> (conn_world \<Rightarrow> conn_world) \<Rightarrow> handler_registry \<Rightarrow>
   module_manifest list \<Rightarrow> digest_world \<Rightarrow> digest_world \<Rightarrow> bool"
  for L P cfg env aenv others reg modules start where
  reached_start: "reached L P cfg env aenv others reg modules start start"
| reached_task: "reached L P cfg env aenv others reg modules start dw'"
  if "reached L P cfg env aenv others reg modules start dw" "task \<in> set (task_queue (mw_conn dw))"
    "run_task L P cfg env aenv others reg modules task (dequeue task dw) = Some dw'"
| reached_beat: "reached L P cfg env aenv others reg modules start dw'"
  if "reached L P cfg env aenv others reg modules start dw" "(entry, task, period, args) \<in> set (beat_schedule modules)"
    "run_beat P cfg env others modules task args dw = Some dw'"
| reached_other: "reached L P cfg env aenv others reg modules start (mw_conn_update (conn_step P cfg env others op) dw)"
  if "reached L P cfg env aenv others reg modules start dw" "background op"

section \<open>Lemmas\<close>

text \<open>Background work only appends to the log and leaves the catalogue as it is.\<close>

definition grown :: "audit_event list \<Rightarrow> tenant list \<Rightarrow> conn_world \<Rightarrow> bool" where
  "grown log ts w \<longleftrightarrow> (\<exists>new. audit_events (cdb w) = log @ new) \<and> tenants (cdb w) = ts"

lemma record_audit_event_grows:
  "record_audit_event cv eid now a d = Inr (ev, d') \<Longrightarrow> audit_events d' = audit_events d @ [ev] \<and> tenants d' = tenants d"
  by (cases cv) (auto simp: record_audit_event_def flush_insert_eq insert_row_def Let_def split: sum.splits)

lemma add_audits_grows: "grown log ts w \<Longrightarrow> add_audits env cv as w = (r, w') \<Longrightarrow> grown log ts w'"
proof (induction as arbitrary: w)
  case (Cons a as)
  obtain n w1 where d: "draw w = (n, w1)" by fastforce
  then have g: "grown log ts w1" using Cons.prems(1) by (auto simp: draw_def grown_def)
  show ?case
  proof (cases "record_audit_event cv (ne_uuid env n) (clock w1) a (cdb w1)")
    case (Inl e)
    then show ?thesis using Cons.prems(2) d g by simp
  next
    case (Inr x)
    obtain ev db where x: "x = (ev, db)" by fastforce
    have "grown log ts (w1\<lparr>cdb := db\<rparr>)"
      using g record_audit_event_grows [OF Inr [unfolded x]] by (auto simp: grown_def)
    then show ?thesis using Cons d Inr x by simp
  qed
qed simp

lemma commit_connection_grows:
  "grown log ts w \<Longrightarrow> commit_connection env cv c audits w = (r, w') \<Longrightarrow> grown log ts w'"
  using add_audits_grows
  by (fastforce simp: commit_connection_def grown_def simp del: add_audits.simps split: sum.splits prod.splits)

interpretation appending: consent_invariant P cfg env "grown log ts" "\<lambda>_. True" "\<lambda>_. True" for P cfg env log ts
proof (unfold_locales, goal_cases net reread applied degraded error health committed subscribed
    renewed dropped active queued touched present audited visited unrouted routed stored consented revoked)
  case (net w' w)
  then show ?case using conn_more [OF net(1)] by (simp add: grown_def)
next
  case (committed w c cv audits r w')
  then show ?case using commit_connection_grows by blast
next
  case (subscribed w c cv cap psid res exp hash data rs w')
  then show ?case by (auto simp: add_subscription_def draw_def Let_def grown_def split: sum.splits)
next
  case (touched w cv i c h audits r w')
  then show ?case using commit_connection_grows by blast
next
  case (audited w cv eid now a ev d)
  then show ?case using record_audit_event_grows [OF audited(2)] by (auto simp: grown_def)
next
  case (visited w now cookie auth d)
  then show ?case using current_auth_or_none_cases [of P now cookie "cdb w"] by (auto simp: grown_def)
next
  case (routed w c t p)
  then show ?case by (auto simp: ensure_webhook_route_def draw_def grown_def split: option.splits)
next
  case (stored w c is_new)
  then show ?case by (simp add: store_connection_def grown_def)
qed (auto simp: grown_def)

lemma record_and_alert_grows:
  "record_and_alert ctx n q aid now cv w = (r, w') \<Longrightarrow>
   (\<exists>new. audit_events (core_db w') = audit_events (core_db w) @ new) \<and> tenants (core_db w') = tenants (core_db w)"
proof (cases "add_usage (tc_tenant_id ctx) n now (valkey w)")
  case (Pair ar s1)
  assume r: "record_and_alert ctx n q aid now cv w = (r, w')"
  show ?thesis
  proof (cases ar)
    case (Inl e)
    then show ?thesis using r Pair by (auto simp: record_and_alert_def)
  next
    case (Inr mu)
    obtain b w2 where e: "emit_alert_once ctx mu q aid now cv (w\<lparr>valkey := s1\<rparr>) = (Inr b, w2)"
      and "tenants (core_db w2) = tenants (core_db w)"
      "w2 = w\<lparr>valkey := s1\<rparr> \<or> (\<exists>ev. audit_events (core_db w2) = audit_events (core_db w) @ [ev])"
      using emit_alert_once_spec [of ctx mu q aid now cv "w\<lparr>valkey := s1\<rparr>"] by (auto split: if_splits)
    then show ?thesis using r Pair Inr e by (auto simp: record_and_alert_def Let_def split: if_splits)
  qed
qed

lemma record_usage_core_db: "core_db (record_usage av eid now rec w) = core_db w"
  by (simp add: record_usage_def)

lemma meter_wrap_grows:
  "meter_wrap env n ctx pol md us p m st u k w = (r, w') \<Longrightarrow>
   (\<exists>new. audit_events (core_db w') = audit_events (core_db w) @ new) \<and> tenants (core_db w') = tenants (core_db w)"
  using record_and_alert_grows
  by (fastforce simp: meter_wrap_def Let_def record_usage_core_db split: if_splits prod.splits sum.splits)

lemma chat_once_grows:
  assumes "chat_once aenv cfg ctx pol p m rq g = (r, g')"
  shows "(\<exists>new. audit_events (core_db g') = audit_events (core_db g) @ new) \<and> tenants (core_db g') = tenants (core_db g)"
proof (cases "api_key cfg p pol")
  case (Inl e)
  then show ?thesis using assms by (simp add: chat_once_def)
next
  case (Inr key)
  let ?kw = "chat_kwargs COMPLETION_FN p m key rq"
  obtain st u k where "snd (chat_once aenv cfg ctx pol p m rq g) =
      snd (meter_wrap aenv (length (provider_calls g)) ctx pol (cr_module rq) (cr_user_id rq) p m st u k (place_call ?kw g))"
    by (cases "env_reply aenv (length (provider_calls g)) ?kw") (auto simp: chat_once_def Inr Let_def)
  then obtain x where "meter_wrap aenv (length (provider_calls g)) ctx pol (cr_module rq) (cr_user_id rq) p m st u k
      (place_call ?kw g) = (x, g')" using assms by (metis prod.collapse snd_conv)
  from meter_wrap_grows [OF this] show ?thesis by (simp add: place_call_def)
qed

lemma chat_grows:
  assumes "chat P aenv cfg cv rq g = (r, g')"
  shows "(\<exists>new. audit_events (core_db g') = audit_events (core_db g) @ new) \<and> tenants (core_db g') = tenants (core_db g)"
proof -
  consider "g' = g"
    | ctx pol p m where "chat_once aenv cfg ctx pol p m rq g = (r, g')"
    | ctx pol p m fp fm e g1 where "chat_once aenv cfg ctx pol p m rq g = (Inl e, g1)" "chat_once aenv cfg ctx pol fp fm rq g1 = (r, g')"
    | ctx pol p m e where "chat_once aenv cfg ctx pol p m rq g = (Inl e, g')"
    using assms by (auto simp: chat_def split: sum.splits prod.splits option.splits if_splits)
  then show ?thesis
  proof cases
    case 3
    then show ?thesis using chat_once_grows [OF 3(1)] chat_once_grows [OF 3(2)] by auto
  qed (use chat_once_grows in auto)
qed

lemma summarise_grows:
  assumes "summarise P aenv cfg cv (list_messages L P cfg env others cv impl) c dw = Some (r, dw')"
    and "grown log ts (mw_conn dw)" "kept (grown log ts) others"
  shows "grown log ts (mw_conn dw')"
proof -
  let ?listing = "list_messages L P cfg env others cv impl"
  obtain lr c1 w1 where l: "?listing (Some (clock (mw_conn dw) - LOOKBACK)) ''inbox'' 50 c (mw_conn dw) = Some (lr, c1, w1)"
    using assms(1) by (auto simp: summarise_def split: option.splits)
  have g1: "grown log ts w1" using appending.list_messages_keeps [OF assms(2) TrueI l assms(3)] by blast
  show ?thesis
  proof (cases "\<exists>ms. lr = Inr ms \<and> ms \<noteq> []")
    case False
    then show ?thesis using assms(1) l g1 by (auto simp: summarise_def split: sum.splits if_splits)
  next
    case True
    then obtain ms where ms: "lr = Inr ms" "ms \<noteq> []" by blast
    obtain cr g where ch: "chat P aenv cfg cv (digest_request (map em_subject ms))
        ((gateway dw)\<lparr>core_db := cdb w1, valkey := vk w1\<rparr>) = (cr, g)" by fastforce
    have "mw_conn dw' = w1\<lparr>cdb := core_db g, vk := valkey g\<rparr>"
      using assms(1) l ms ch by (auto simp: summarise_def gateway_chat_def Let_def split: sum.splits)
    then show ?thesis using chat_grows [OF ch] g1 by (auto simp: grown_def)
  qed
qed

definition logged :: "sample_digest_digest \<Rightarrow> conn_world \<Rightarrow> bool" where
  "logged d w \<longleftrightarrow> sd_tenant_id d \<in> t_id ` set (tenants (cdb w))
     \<and> (\<exists>ev\<in>set (audit_events (cdb w)). ae_action ev = DIGEST_ACTION \<and> ae_tenant_id ev = sd_tenant_id d
          \<and> ae_resource_id ev = str_uuid (sd_id d))"

lemma logged_grown: "logged d w \<Longrightarrow> grown (audit_events (cdb w)) (tenants (cdb w)) w' \<Longrightarrow> logged d w'"
  by (auto simp: logged_def grown_def)

lemma store_digest_grows:
  "store_digest env (Some ctx) s n dw = (r, dw') \<Longrightarrow> grown log ts (mw_conn dw) \<Longrightarrow> grown log ts (mw_conn dw')"
  by (auto simp: store_digest_def draw_def flush_insert_eq record_audit_event_eq insert_row_def grown_def Let_def)

lemma generate_digest_grows:
  assumes "generate_digest L P cfg env aenv others (Some ctx) dw = Some (r, dw')"
    and "grown log ts (mw_conn dw)" "kept (grown log ts) others" "tc_tenant_id ctx \<in> t_id ` set ts"
  shows "grown log ts (mw_conn dw')
    \<and> (digests dw' = digests dw \<or> (\<exists>d. digests dw' = digests dw @ [d] \<and> logged d (mw_conn dw')))"
proof -
  consider "dw' = dw"
    | c impl e where "summarise P aenv cfg (Some ctx) (list_messages L P cfg env others (Some ctx) impl) c dw = Some (Inl e, dw')"
    | c impl s n dw1 where "summarise P aenv cfg (Some ctx) (list_messages L P cfg env others (Some ctx) impl) c dw = Some (Inr (s, n), dw1)"
        "store_digest env (Some ctx) s n dw1 = (r, dw')"
    using assms(1) by (auto simp: generate_digest_def split: sum.splits option.splits prod.splits)
  then show ?thesis
  proof cases
    case 1
    then show ?thesis using assms(2) by simp
  next
    case 2
    then show ?thesis using summarise_grows [OF 2 assms(2,3)] summarise_calls [OF 2] by simp
  next
    case 3
    have g1: "grown log ts (mw_conn dw1)" by (rule summarise_grows [OF 3(1) assms(2,3)])
    have g: "grown log ts (mw_conn dw')" by (rule store_digest_grows [OF 3(2) g1])
    have d1: "digests dw1 = digests dw" using summarise_calls [OF 3(1)] by simp
    have "digests dw' = digests dw1 \<or> (\<exists>d. digests dw' = digests dw1 @ [d] \<and> logged d (mw_conn dw'))"
      using store_digest_effect [OF 3(2)] g assms(4)
      by (cases r) (auto simp: logged_def grown_def)
    with g d1 show ?thesis by simp
  qed
qed

text \<open>What one step of the worker may change of the log, the catalogue and the digests.\<close>

definition worker_change :: "digest_world \<Rightarrow> digest_world \<Rightarrow> bool" where
  "worker_change dw dw' \<longleftrightarrow>
     grown (audit_events (cdb (mw_conn dw))) (tenants (cdb (mw_conn dw))) (mw_conn dw')
     \<and> (digests dw' = digests dw \<or> (\<exists>d. digests dw' = digests dw @ [d] \<and> logged d (mw_conn dw')))"

definition appends :: "(conn_world \<Rightarrow> conn_world) \<Rightarrow> bool" where
  \<comment> \<open>of the other workers, what is assumed of this one too\<close>
  "appends others \<longleftrightarrow> (\<forall>log ts. kept (grown log ts) others)"

lemma grown_refl [simp]: "grown (audit_events (cdb w)) (tenants (cdb w)) w"
  by (simp add: grown_def)

lemma conn_step_change:
  assumes "appends others" "background op" "f (mw_conn dw) = conn_step P cfg env others op (mw_conn dw)"
  shows "worker_change dw (mw_conn_update f dw)"
  using appending.background_keeps [OF grown_refl _ assms(2)] assms(1,3)
  by (simp add: worker_change_def appends_def)

lemma release_lock_grown: "grown log ts (release_lock name token w) = grown log ts w"
  by (simp add: grown_def release_lock_def)

lemma release_lock_logged: "logged d (release_lock name token w) = logged d w"
  by (simp add: logged_def release_lock_def)

lemma unit_change:
  assumes "appends others"
    and "run_periodic_unit env modules (task_functions L P cfg env aenv others) name task t dw = Some (b, dw')"
  shows "worker_change dw dw'"
proof -
  let ?log = "audit_events (cdb (mw_conn dw))" and ?ts = "tenants (cdb (mw_conn dw))" and ?lock = "unit_lock_name name task t"
  obtain lr w1 where a: "acquire_lock env ?lock LOCK_TTL_SECONDS (mw_conn dw) = (lr, w1)" by fastforce
  have g1: "grown ?log ?ts w1"
    using appending.net [of w1 "mw_conn dw"] acquire_lock_fields [OF a] by simp
  consider "dw' = dw" | "dw' = dw\<lparr>mw_conn := w1\<rparr>"
    | r token res dw2 where "active_tenant_row t (mw_conn dw) = Some r"
        "task_functions L P cfg env aenv others task (Some (context_for r)) (t_id r) (dw\<lparr>mw_conn := w1\<rparr>) = Some (res, dw2)"
        "dw' = mw_conn_update (release_lock ?lock token) dw2"
    using assms(2) a by (auto simp: run_periodic_unit_def Let_def split: if_splits option.splits)
  then show ?thesis
  proof cases
    case 3
    have row: "tc_tenant_id (context_for r) \<in> t_id ` set ?ts"
      using 3(1) by (auto simp: active_tenant_row_def context_for_def dest!: find_eq_Some_D split: option.splits if_splits)
    show ?thesis
    proof (cases "task = TASK_NAME")
      case False
      then show ?thesis using 3 g1 by (auto simp: task_functions_def worker_change_def release_lock_grown)
    next
      case True
      then obtain gr where "generate_digest L P cfg env aenv others (Some (context_for r)) (dw\<lparr>mw_conn := w1\<rparr>) = Some (gr, dw2)"
        using 3(2) by (auto simp: task_functions_def generate_digest_task_def handler_simps)
      from generate_digest_grows [OF this _ _ row, of ?log] assms(1) g1
      have "grown ?log ?ts (mw_conn dw2)
        \<and> (digests dw2 = digests dw \<or> (\<exists>d. digests dw2 = digests dw @ [d] \<and> logged d (mw_conn dw2)))"
        by (simp add: appends_def)
      then show ?thesis using 3(3) by (auto simp: worker_change_def release_lock_grown release_lock_logged)
    qed
  qed (use g1 in \<open>simp_all add: worker_change_def\<close>)
qed

lemma task_change:
  assumes "appends others" "run_task L P cfg env aenv others reg modules task dw = Some dw'"
  shows "worker_change dw dw'"
proof (cases task)
  case (SyncSubscriptions slug cid)
  then show ?thesis using assms(2) by (auto simp: sync_subscriptions_task_def intro: conn_step_change [OF assms(1), of "SyncOp slug cid"])
next
  case (EventReceived slug cid p cap ch rid)
  then show ?thesis using assms(2) by (auto simp: connector_event_received_task_def
        intro: conn_step_change [OF assms(1), of "EventOp reg slug cid p cap ch rid"])
next
  case (PeriodicUnit name t i)
  then show ?thesis using assms(2) unit_change [OF assms(1)] by (auto simp: periodic_unit_task_def)
qed

lemma rollup_core_db: "core_db (snd (run_daily_rollup cfg now g)) = core_db g"
  by (simp add: run_daily_rollup_def aggregate_day_def reconcile_month_quotas_def purge_raw_events_def Let_def split: prod.splits)

lemma beat_change:
  assumes "appends others" "run_beat P cfg env others modules task args dw = Some dw'"
  shows "worker_change dw dw'"
proof -
  have fan: "cdb (mw_conn (fold (enqueue_unit name t) ids v)) = cdb (mw_conn v) \<and> digests (fold (enqueue_unit name t) ids v) = digests v"
    for name t ids and v :: digest_world
    by (induction ids arbitrary: v) (auto simp: enqueue_unit_def)
  have "worker_change dw (refresh_expiring_tokens_task P cfg env others dw)"
    unfolding refresh_expiring_tokens_task_def by (rule conn_step_change [OF assms(1), of RefreshOp]) simp_all
  moreover have "worker_change dw (renew_subscriptions_task P cfg env others dw)"
    unfolding renew_subscriptions_task_def by (rule conn_step_change [OF assms(1), of RenewOp]) simp_all
  moreover have "worker_change dw (purge_expired dw)"
    by (simp add: purge_expired_def worker_change_def grown_def purge_expired_auth_rows_def Let_def)
  moreover have "worker_change dw (daily_usage_rollup_task cfg dw)"
    by (simp add: daily_usage_rollup_task_def worker_change_def grown_def with_gateway_def rollup_core_db joined_gateway_def)
  moreover have "worker_change dw (periodic_fanout_task modules name t dw)" for name t
    by (simp add: periodic_fanout_task_def worker_change_def grown_def run_periodic_fanout_def fan Let_def)
  ultimately show ?thesis using assms(2) by (auto simp: run_beat_def split: if_splits)
qed

lemma logged_change:
  assumes "worker_change dw dw'" "list_all (\<lambda>d. logged d (mw_conn dw)) (digests dw)"
  shows "list_all (\<lambda>d. logged d (mw_conn dw')) (digests dw')
    \<and> (\<exists>new. audit_events (cdb (mw_conn dw')) = audit_events (cdb (mw_conn dw)) @ new)"
  using assms logged_grown by (fastforce simp: worker_change_def list_all_iff grown_def)

text \<open>
  Whatever the worker does, in whatever order messages are delivered and beat entries fire, and
  whatever webhooks and client calls happen in between: every digest that is stored belongs to a
  tenant of the catalogue and has its audit event in that tenant's log, and the log only grows.
\<close>

lemma reached_logged:
  assumes "reached L P cfg env aenv others reg modules start dw" "appends others"
    and "list_all (\<lambda>d. logged d (mw_conn start)) (digests start)"
  shows "list_all (\<lambda>d. logged d (mw_conn dw)) (digests dw)
    \<and> (\<exists>new. audit_events (cdb (mw_conn dw)) = audit_events (cdb (mw_conn start)) @ new)"
proof -
  have step: "list_all (\<lambda>d. logged d (mw_conn w')) (digests w')
      \<and> (\<exists>new. audit_events (cdb (mw_conn w')) = audit_events (cdb (mw_conn start)) @ new)"
    if "worker_change w w'" "list_all (\<lambda>d. logged d (mw_conn w)) (digests w)"
      "\<exists>new. audit_events (cdb (mw_conn w)) = audit_events (cdb (mw_conn start)) @ new" for w w'
    using logged_change [OF that(1,2)] that(3) by fastforce
  show ?thesis using assms(1)
  proof induction
    case reached_start
    then show ?case using assms(3) by simp
  next
    case (reached_task dw task dw')
    have "worker_change (dequeue task dw) dw'" by (rule task_change [OF assms(2) reached_task(3)])
    then have "worker_change dw dw'" by (auto simp: worker_change_def dequeue_def)
    then show ?case using step reached_task.IH by blast
  next
    case (reached_beat dw entry task period args dw')
    then show ?case using step beat_change [OF assms(2)] by blast
  next
    case (reached_other dw op)
    have "worker_change dw (mw_conn_update (conn_step P cfg env others op) dw)"
      by (rule conn_step_change [OF assms(2) reached_other(2)]) simp
    then show ?case using step reached_other.IH by blast
  qed
qed

section \<open>A worker with one digest\<close>

text \<open>A tenant with one digest and its event.\<close>

definition logged_world :: digest_world where
  "logged_world = inbox_world
     \<lparr>mw_conn := (mw_conn inbox_world)\<lparr>cdb := empty_db\<lparr>tenants := [acme_tenant], audit_events :=
        [\<lparr>ae_id = 1, ae_tenant_id = 7, ae_occurred_at = 5, ae_actor_user_id = None, ae_actor_label = SYSTEM_ACTOR_LABEL,
          ae_action = DIGEST_ACTION, ae_resource_type = ''sample_digest_digest'', ae_resource_id = str_uuid 90, ae_payload = []\<rparr>]\<rparr>\<rparr>,
      digests := [\<lparr>sd_id = 90, sd_tenant_id = 7, sd_generated_at = 5, sd_message_count = 1, sd_summary = ''hi''\<rparr>]\<rparr>"

lemma sample_schedule:
  "beat_schedule MODULES =
     [(''auth-purge-expired'', ''core.auth.purge_expired'', 3600, None),
      (''connectors-refresh-tokens'', ''connectors.refresh_expiring_tokens'', 300, None),
      (''connectors-renew-subscriptions'', ''connectors.renew_subscriptions'', 3600, None),
      (''ai-daily-usage-rollup'', ''core.ai.daily_usage_rollup'', 86400, None),
      (''module-'' @ TASK_NAME, ''automation.periodic_fanout'', 86400, Some (''sample_digest'', TASK_NAME))]"
  by code_simp

lemma schedule_registered:
  "list_all (\<lambda>(entry, task, period, args). run_beat P cfg env others MODULES task args dw \<noteq> None) (beat_schedule MODULES)"
  by (simp add: sample_schedule run_beat_def)

end
