(* ===== verification/WebApp.thy ===== *)
theory WebApp
  imports Http Isolation Worker
begin

text \<open>
  The assembled application (\<^verbatim>\<open>main.py\<close>): the routes of every router with what guards each of them,
  the handler each call runs, and the middlewares around them in the order in which \<^verbatim>\<open>create_app\<close>
  adds them (the last one added is the outermost). The decoding of paths and bodies into the
  arguments of a call is FastAPI's.
\<close>

section \<open>Calls\<close>

text \<open>
  One constructor per route, with the arguments FastAPI hands to its handler and the random values
  the handler draws.
\<close>

datatype web_call =
    GetHealth
  | Login draws string string
  | LoginTotp draws string string
  | Logout
  | GetMe
  | TotpSetup string bytes
  | TotpActivate "(uuid \<times> string) list" string
  | TotpDisable string
  | InvitationsAccept uuid uuid uuid string string "string option" "string option"
  | OauthStart string oauth_provider
  | OauthCallback draws uuid oauth_provider string string
  | TenantCall tenant_call
  | ConnectorsList
  | ConnectorStart connector_provider "string list option" connection_kind
  | ConnectorReconsent uuid
  | ConnectorRevoke uuid
  | AiChat chat_in
  | ConnectorOauthCallback connector_provider string "string option" "string option"
  | ReceiveWebhook connector_provider string webhook_request
  | ListDigests
  | RunNow

datatype api_output =
    HealthOut health_response
  | LoginOut string "string option"
  | StatusOut
  | MeOut me_response
  | TotpSetupOut string string
  | RecoveryCodesOut "string list"
  | AuthorizationOut string "(string \<times> string) list"
  | RedirectOut string
  | TenantOut tenant_output
  | ConnectionsOut "connection_out list"
  | ChatOut chat_result
  | WebhookOut webhook_response
  | DigestsOut "digest_out list"

section \<open>Routes\<close>

datatype guard =
    Anonymous
  | Authenticated  \<comment> \<open>\<^verbatim>\<open>Depends(current_auth)\<close>\<close>
  | Permission string  \<comment> \<open>\<^verbatim>\<open>Depends(require_permission(...))\<close>\<close>
  | ModulePermission string string  \<comment> \<open>the same, behind \<^verbatim>\<open>require_module_enabled\<close>\<close>

record route =
  rt_verb :: string
  rt_path :: string
  rt_status :: nat
  rt_guard :: guard

definition a_route :: "string \<Rightarrow> string \<Rightarrow> nat \<Rightarrow> guard \<Rightarrow> route" where
  "a_route verb path status g = \<lparr>rt_verb = verb, rt_path = path, rt_status = status, rt_guard = g\<rparr>"

definition include_router :: "string \<Rightarrow> route list \<Rightarrow> route list" where
  "include_router prefix rs = map (rt_path_update (\<lambda>p. prefix @ p)) rs"

definition health_router :: "route list" where
  "health_router = [a_route ''GET'' ''/health'' 200 Anonymous]"

definition auth_router :: "route list" where
  "auth_router = include_router ''/auth''
     [a_route ''POST'' ''/login'' 200 Anonymous,
      a_route ''POST'' ''/login/totp'' 200 Anonymous,
      a_route ''POST'' ''/logout'' 200 Authenticated,
      a_route ''GET'' ''/me'' 200 Authenticated,
      a_route ''POST'' ''/totp/setup'' 200 Authenticated,
      a_route ''POST'' ''/totp/activate'' 200 Authenticated,
      a_route ''POST'' ''/totp/disable'' 200 Authenticated,
      a_route ''POST'' ''/invitations/accept'' 200 Anonymous,
      a_route ''GET'' ''/oauth/{provider}/start'' 307 Anonymous,
      a_route ''GET'' ''/oauth/{provider}/callback'' 303 Anonymous]"

definition directory_router :: "route list" where
  "directory_router = include_router ''/directory''
     [a_route ''GET'' ''/members'' 200 (Permission ''core.members.read''),
      a_route ''PATCH'' ''/members/{user_id}'' 200 (Permission ''core.members.manage''),
      a_route ''DELETE'' ''/members/{user_id}'' 200 (Permission ''core.members.manage''),
      a_route ''GET'' ''/invitations'' 200 (Permission ''core.members.read''),
      a_route ''POST'' ''/invitations'' 201 (Permission ''core.members.manage''),
      a_route ''DELETE'' ''/invitations/{invitation_id}'' 200 (Permission ''core.members.manage''),
      a_route ''GET'' ''/teams'' 200 (Permission ''core.teams.read''),
      a_route ''POST'' ''/teams'' 201 (Permission ''core.teams.manage''),
      a_route ''DELETE'' ''/teams/{team_id}'' 200 (Permission ''core.teams.manage''),
      a_route ''GET'' ''/teams/{team_id}/members'' 200 (Permission ''core.teams.read''),
      a_route ''POST'' ''/teams/{team_id}/members'' 201 (Permission ''core.teams.manage''),
      a_route ''DELETE'' ''/teams/{team_id}/members/{user_id}'' 200 (Permission ''core.teams.manage'')]"

definition audit_router :: "route list" where
  "audit_router = include_router ''/audit'' [a_route ''GET'' ''/events'' 200 (Permission ''core.audit.read'')]"

definition connectors_router :: "route list" where
  "connectors_router = include_router ''/connectors''
     [a_route ''GET'' [] 200 (Permission ''core.connectors.read''),
      a_route ''GET'' ''/{provider}/start'' 200 (Permission ''core.connectors.manage''),
      a_route ''POST'' ''/{connection_id}/reconsent'' 200 (Permission ''core.connectors.manage''),
      a_route ''DELETE'' ''/{connection_id}'' 200 (Permission ''core.connectors.manage'')]"

definition ai_router :: "route list" where
  "ai_router = include_router ''/ai'' [a_route ''POST'' ''/chat'' 200 (Permission ''core.ai.use'')]"

definition connectors_oauth_router :: "route list" where
  "connectors_oauth_router = include_router ''/connectors'' [a_route ''GET'' ''/{provider}/callback'' 303 Anonymous]"

definition webhooks_router :: "route list" where
  "webhooks_router = include_router ''/webhooks'' [a_route ''POST'' ''/{provider}/{route_key}'' 202 Anonymous]"

definition digest_router :: "route list" where
  "digest_router =
     [a_route ''GET'' ''/digests'' 200 (Permission PERM_READ), a_route ''POST'' ''/run'' 202 (Permission PERM_MANAGE)]"

definition behind_module :: "string \<Rightarrow> route \<Rightarrow> route" where
  \<comment> \<open>the dependency of the mount, added to those of the route\<close>
  "behind_module name = rt_guard_update (\<lambda>g. case g of Permission p \<Rightarrow> ModulePermission name p | _ \<Rightarrow> g)"

definition module_routers :: "module_manifest \<Rightarrow> route list" where
  "module_routers m = (if mm_name m = ''sample_digest'' then digest_router else [])"

definition mount_modules :: "module_manifest list \<Rightarrow> route list" where
  "mount_modules modules =
     concat (map (\<lambda>m. include_router (mount_prefix m) (map (behind_module (mm_name m)) (module_routers m))) modules)"

definition ROUTES :: "route list" where
  "ROUTES =
     concat (map (include_router ''/api/v1'')
       [health_router, auth_router, directory_router, audit_router, connectors_router, ai_router,
        connectors_oauth_router, webhooks_router])
     @ mount_modules MODULES"

fun tenant_route :: "tenant_call \<Rightarrow> string \<times> string" where
  "tenant_route MembersList = (''GET'', ''/directory/members'')"
| "tenant_route (MemberChangeRole _ _ _ _) = (''PATCH'', ''/directory/members/{user_id}'')"
| "tenant_route (MemberRemove _ _ _) = (''DELETE'', ''/directory/members/{user_id}'')"
| "tenant_route InvitationsList = (''GET'', ''/directory/invitations'')"
| "tenant_route (InvitationCreate _ _ _ _ _ _) = (''POST'', ''/directory/invitations'')"
| "tenant_route (InvitationRevoke _ _ _) = (''DELETE'', ''/directory/invitations/{invitation_id}'')"
| "tenant_route TeamsList = (''GET'', ''/directory/teams'')"
| "tenant_route (TeamCreate _ _ _ _ _) = (''POST'', ''/directory/teams'')"
| "tenant_route (TeamDelete _ _ _) = (''DELETE'', ''/directory/teams/{team_id}'')"
| "tenant_route (TeamMembersList _) = (''GET'', ''/directory/teams/{team_id}/members'')"
| "tenant_route (TeamMemberAdd _ _ _ _ _) = (''POST'', ''/directory/teams/{team_id}/members'')"
| "tenant_route (TeamMemberRemove _ _ _ _) = (''DELETE'', ''/directory/teams/{team_id}/members/{user_id}'')"
| "tenant_route (AuditEventsList _ _ _) = (''GET'', ''/audit/events'')"

fun call_route :: "web_call \<Rightarrow> string \<times> string" where
  \<comment> \<open>the method and the path, under the prefix, of the route of a call\<close>
  "call_route GetHealth = (''GET'', ''/health'')"
| "call_route (Login _ _ _) = (''POST'', ''/auth/login'')"
| "call_route (LoginTotp _ _ _) = (''POST'', ''/auth/login/totp'')"
| "call_route Logout = (''POST'', ''/auth/logout'')"
| "call_route GetMe = (''GET'', ''/auth/me'')"
| "call_route (TotpSetup _ _) = (''POST'', ''/auth/totp/setup'')"
| "call_route (TotpActivate _ _) = (''POST'', ''/auth/totp/activate'')"
| "call_route (TotpDisable _) = (''POST'', ''/auth/totp/disable'')"
| "call_route (InvitationsAccept _ _ _ _ _ _ _) = (''POST'', ''/auth/invitations/accept'')"
| "call_route (OauthStart _ _) = (''GET'', ''/auth/oauth/{provider}/start'')"
| "call_route (OauthCallback _ _ _ _ _) = (''GET'', ''/auth/oauth/{provider}/callback'')"
| "call_route (TenantCall c) = tenant_route c"
| "call_route ConnectorsList = (''GET'', ''/connectors'')"
| "call_route (ConnectorStart _ _ _) = (''GET'', ''/connectors/{provider}/start'')"
| "call_route (ConnectorReconsent _) = (''POST'', ''/connectors/{connection_id}/reconsent'')"
| "call_route (ConnectorRevoke _) = (''DELETE'', ''/connectors/{connection_id}'')"
| "call_route (AiChat _) = (''POST'', ''/ai/chat'')"
| "call_route (ConnectorOauthCallback _ _ _ _) = (''GET'', ''/connectors/{provider}/callback'')"
| "call_route (ReceiveWebhook _ _ _) = (''POST'', ''/webhooks/{provider}/{route_key}'')"
| "call_route ListDigests = (''GET'', ''/modules/sample_digest/digests'')"
| "call_route RunNow = (''POST'', ''/modules/sample_digest/run'')"

definition route_of :: "web_call \<Rightarrow> route option" where
  \<comment> \<open>the first registered route of that method and path\<close>
  "route_of call =
     (let (verb, path) = call_route call
      in List.find (\<lambda>r. rt_verb r = verb \<and> rt_path r = ''/api/v1'' @ path) ROUTES)"

definition call_status :: "web_call \<Rightarrow> api_output \<Rightarrow> nat" where
  \<comment> \<open>the status the route declares; the echo of a validation token is a plain 200\<close>
  "call_status call out =
     (case out of WebhookOut (PlainText _) \<Rightarrow> 200
      | _ \<Rightarrow> (case route_of call of None \<Rightarrow> 404 | Some r \<Rightarrow> rt_status r))"

definition call_permission :: "web_call \<Rightarrow> string" where
  "call_permission call =
     (case route_of call of Some r \<Rightarrow> (case rt_guard r of Permission p \<Rightarrow> p | ModulePermission _ p \<Rightarrow> p | _ \<Rightarrow> []) | None \<Rightarrow> [])"

section \<open>Handlers\<close>

text \<open>What an application is built on: the libraries and servers it calls, its settings and its permissions.\<close>

record web_app =
  wa_primitives :: primitives
  wa_settings :: settings
  wa_idp :: oidc
  wa_net :: net_env
  wa_ai :: ai_env
  wa_smtp :: smtp_server
  wa_permissions :: permission_registry

text \<open>The part of the state a handler works on.\<close>

definition in_db :: "(db \<Rightarrow> 'a \<times> db) \<Rightarrow> digest_world \<Rightarrow> 'a \<times> digest_world" where
  "in_db f dw = (let (r, d) = f (cdb (mw_conn dw)) in (r, mw_conn_update (cdb_update (\<lambda>_. d)) dw))"

definition in_db_kv :: "(db \<Rightarrow> kv \<Rightarrow> 'a \<times> db \<times> kv) \<Rightarrow> digest_world \<Rightarrow> 'a \<times> digest_world" where
  "in_db_kv f dw =
     (let (r, d, s) = f (cdb (mw_conn dw)) (vk (mw_conn dw)) in (r, mw_conn_update (\<lambda>w. w\<lparr>cdb := d, vk := s\<rparr>) dw))"

definition in_conn :: "(conn_world \<Rightarrow> 'a \<times> conn_world) \<Rightarrow> digest_world \<Rightarrow> 'a \<times> digest_world" where
  "in_conn f dw = (let (r, w) = f (mw_conn dw) in (r, dw\<lparr>mw_conn := w\<rparr>))"

definition in_gateway :: "(gateway_world \<Rightarrow> 'a \<times> gateway_world) \<Rightarrow> digest_world \<Rightarrow> 'a \<times> digest_world" where
  "in_gateway f dw = (let (r, g) = f (joined_gateway dw) in (r, with_gateway g dw))"

definition in_module :: "(module_world \<Rightarrow> 'a \<times> module_world) \<Rightarrow> digest_world \<Rightarrow> 'a \<times> digest_world" where
  "in_module f dw =
     (let (r, mw) = f (module_world.truncate dw)
      in (r, dw\<lparr>mw_conn := mw_conn mw, module_rows := module_rows mw, cache := cache mw, digests := digests mw\<rparr>))"

datatype cookie_action = KeepCookie | SetSession string | ClearSession

fun tenant_raised :: "tenant_output \<Rightarrow> exn option" where
  "tenant_raised (OutMembers (Inl e)) = Some e"
| "tenant_raised (OutMember (Inl e)) = Some e"
| "tenant_raised (OutUnit (Inl e)) = Some e"
| "tenant_raised (OutInvitations (Inl e)) = Some e"
| "tenant_raised (OutInvitation (Inl e)) = Some e"
| "tenant_raised (OutTeams (Inl e)) = Some e"
| "tenant_raised (OutTeam (Inl e)) = Some e"
| "tenant_raised (OutAudit (Inl e)) = Some e"
| "tenant_raised _ = None"

definition tenant_result :: "tenant_output \<times> db \<Rightarrow> tenant_output result \<times> db" where
  "tenant_result x = (case tenant_raised (fst x) of None \<Rightarrow> Inr (fst x) | Some e \<Rightarrow> Inl e, snd x)"

definition login_out :: "login_response result \<Rightarrow> (api_output \<times> cookie_action) result" where
  "login_out r = map_sum id (\<lambda>lr. (LoginOut (lr_status lr) (lr_challenge_token lr),
     case lr_cookie lr of None \<Rightarrow> KeepCookie | Some t \<Rightarrow> SetSession t)) r"

definition plain :: "('a \<Rightarrow> api_output) \<Rightarrow> 'a result \<Rightarrow> (api_output \<times> cookie_action) result" where
  "plain f r = map_sum id (\<lambda>x. (f x, KeepCookie)) r"

fun run_call ::
  "web_app \<Rightarrow> request \<Rightarrow> web_call \<Rightarrow> digest_world \<Rightarrow> (api_output \<times> cookie_action) result \<times> digest_world" where
  "run_call A rq GetHealth dw = (Inr (HealthOut (get_health (wa_settings A)), KeepCookie), dw)"
| "run_call A rq (Login dr email password) dw =
     map_prod login_out id (in_db_kv (login (wa_primitives A) (wa_settings A) rq dr email password) dw)"
| "run_call A rq (LoginTotp dr challenge code) dw =
     map_prod login_out id (in_db_kv (login_totp (wa_primitives A) (wa_settings A) rq dr challenge code) dw)"
| "run_call A rq Logout dw =
     map_prod (map_sum id (\<lambda>_. (StatusOut, ClearSession))) id (in_db (logout (wa_primitives A) rq) dw)"
| "run_call A rq GetMe dw = map_prod (plain MeOut) id (in_db (get_me (wa_primitives A) rq) dw)"
| "run_call A rq (TotpSetup secret nonce) dw =
     map_prod (plain (case_prod TotpSetupOut)) id
       (in_db (totp_setup (wa_primitives A) (wa_settings A) rq secret nonce) dw)"
| "run_call A rq (TotpActivate fresh code) dw =
     map_prod (plain RecoveryCodesOut) id (in_db (totp_activate (wa_primitives A) (wa_settings A) rq fresh code) dw)"
| "run_call A rq (TotpDisable password) dw =
     map_prod (plain (\<lambda>_. StatusOut)) id (in_db (totp_disable (wa_primitives A) rq password) dw)"
| "run_call A rq (InvitationsAccept uid mid eid salt token password name) dw =
     map_prod (plain (\<lambda>_. StatusOut)) id
       (in_db_kv (invitations_accept (wa_primitives A) (wa_settings A) rq uid mid eid salt token password name) dw)"
| "run_call A rq (OauthStart nonce provider) dw =
     (plain (case_prod AuthorizationOut) (oauth_start (wa_primitives A) (wa_settings A) (wa_idp A) rq nonce provider), dw)"
| "run_call A rq (OauthCallback dr iid provider code state) dw =
     map_prod (map_sum id (\<lambda>(url, t). (RedirectOut url, SetSession t))) id
       (in_db (oauth_callback (wa_primitives A) (wa_settings A) (wa_idp A) rq dr iid provider code state) dw)"
| "run_call A rq (TenantCall c) dw =
     map_prod (plain TenantOut) id
       (in_db (permission_route (wa_primitives A) (wa_permissions A) (call_permission (TenantCall c)) rq
          (\<lambda>a ctx d. tenant_result (call_step (wa_primitives A) (wa_settings A) (mailer_of (wa_settings A) (wa_smtp A)) a ctx c d))) dw)"
| "run_call A rq ConnectorsList dw =
     map_prod (plain ConnectionsOut) id (in_conn (connectors_list (wa_primitives A) (wa_permissions A) rq) dw)"
| "run_call A rq (ConnectorStart p caps kind) dw =
     map_prod (plain (case_prod AuthorizationOut)) id
       (in_conn (connector_start (wa_primitives A) (wa_settings A) (wa_permissions A) rq p caps kind) dw)"
| "run_call A rq (ConnectorReconsent cid) dw =
     map_prod (plain (case_prod AuthorizationOut)) id
       (in_conn (connector_reconsent (wa_primitives A) (wa_settings A) (wa_permissions A) rq cid) dw)"
| "run_call A rq (ConnectorRevoke cid) dw =
     map_prod (plain (\<lambda>_. StatusOut)) id
       (in_conn (connector_revoke (wa_primitives A) (wa_settings A) (wa_net A) (wa_permissions A) rq cid) dw)"
| "run_call A rq (AiChat payload) dw =
     map_prod (plain ChatOut) id
       (in_gateway (ai_chat (wa_primitives A) (wa_ai A) (wa_settings A) (wa_permissions A) rq payload) dw)"
| "run_call A rq (ConnectorOauthCallback p state code err) dw =
     map_prod (plain RedirectOut) id
       (in_conn (connector_oauth_callback (wa_primitives A) (wa_settings A) (wa_net A) p state code err) dw)"
| "run_call A rq (ReceiveWebhook p key notification) dw =
     map_prod (plain WebhookOut) id (in_conn (receive_webhook (wa_primitives A) p key notification) dw)"
| "run_call A rq ListDigests dw =
     map_prod (plain DigestsOut) id (in_module (list_digests (wa_primitives A) (wa_permissions A) rq) dw)"
| "run_call A rq RunNow dw =
     map_prod (plain (\<lambda>_. StatusOut)) id (in_module (run_now (wa_primitives A) (wa_permissions A) rq) dw)"

fun apply_cookie :: "settings \<Rightarrow> cookie_action \<Rightarrow> 'b web_response \<Rightarrow> 'b web_response" where
  "apply_cookie cfg KeepCookie resp = resp"
| "apply_cookie cfg (SetSession t) resp = set_session_cookie t cfg resp"
| "apply_cookie cfg ClearSession resp = clear_session_cookie cfg resp"

definition handle ::
  "web_app \<Rightarrow> request \<Rightarrow> web_call \<Rightarrow> digest_world \<Rightarrow> api_output web_response result \<times> digest_world" where
  "handle A rq call dw =
     (case run_call A (rq\<lparr>rq_now := clock (mw_conn dw)\<rparr>) call dw of
        (Inl e, dw') \<Rightarrow> (http_answer 500 id (Inl e), dw')
      | (Inr (out, action), dw') \<Rightarrow>
          (http_answer (call_status call out) (apply_cookie (wa_settings A) action) (Inr out), dw'))"

section \<open>The application\<close>

record web_request =
  in_request :: request
  in_path :: string
  in_origin :: "string option"
  in_request_id :: "string option"
  in_fresh_id :: string
  in_duration :: string

definition serve ::
  "web_app \<Rightarrow> web_request \<Rightarrow> web_call \<Rightarrow> log_state \<times> digest_world \<Rightarrow> api_output web_response \<times> log_state \<times> digest_world" where
  \<comment> \<open>the Origin check is added last: it is outside the request identifier\<close>
  "serve A ir call s =
     (let verb = fst (call_route call)
      in map_prod server_answer id
           (csrf_dispatch (wa_settings A) verb (in_origin ir) (rq_host (in_request ir))
              (\<lambda>(ls, dw).
                 let (r, ls', dw') = request_id_dispatch (in_request_id ir) (in_fresh_id ir) verb (in_path ir) (in_duration ir)
                       (\<lambda>ls1 dw1. let (r, dw2) = handle A (in_request ir) call dw1 in (r, ls1, dw2)) ls dw
                 in (r, ls', dw')) s))"

definition create_app ::
  "settings \<Rightarrow> log_state \<times> permission_registry \<times> handler_registry \<Rightarrow>
   (route list \<times> log_state \<times> permission_registry \<times> handler_registry) result" where
  "create_app cfg s =
     (case configure_logging (log_level cfg) (fst s) of Inl e \<Rightarrow> Inl e
      | Inr ls \<Rightarrow>
          (case register_runtime MODULES (snd s) of
             (Inl e, _) \<Rightarrow> Inl e
           | (Inr _, st, reg) \<Rightarrow> Inr (ROUTES, ls, st, reg)))"

section \<open>Lemmas: the route table\<close>

lemma ROUTES_eq:
  "ROUTES =
     [a_route ''GET'' ''/api/v1/health'' 200 Anonymous,
      a_route ''POST'' ''/api/v1/auth/login'' 200 Anonymous,
      a_route ''POST'' ''/api/v1/auth/login/totp'' 200 Anonymous,
      a_route ''POST'' ''/api/v1/auth/logout'' 200 Authenticated,
      a_route ''GET'' ''/api/v1/auth/me'' 200 Authenticated,
      a_route ''POST'' ''/api/v1/auth/totp/setup'' 200 Authenticated,
      a_route ''POST'' ''/api/v1/auth/totp/activate'' 200 Authenticated,
      a_route ''POST'' ''/api/v1/auth/totp/disable'' 200 Authenticated,
      a_route ''POST'' ''/api/v1/auth/invitations/accept'' 200 Anonymous,
      a_route ''GET'' ''/api/v1/auth/oauth/{provider}/start'' 307 Anonymous,
      a_route ''GET'' ''/api/v1/auth/oauth/{provider}/callback'' 303 Anonymous,
      a_route ''GET'' ''/api/v1/directory/members'' 200 (Permission ''core.members.read''),
      a_route ''PATCH'' ''/api/v1/directory/members/{user_id}'' 200 (Permission ''core.members.manage''),
      a_route ''DELETE'' ''/api/v1/directory/members/{user_id}'' 200 (Permission ''core.members.manage''),
      a_route ''GET'' ''/api/v1/directory/invitations'' 200 (Permission ''core.members.read''),
      a_route ''POST'' ''/api/v1/directory/invitations'' 201 (Permission ''core.members.manage''),
      a_route ''DELETE'' ''/api/v1/directory/invitations/{invitation_id}'' 200 (Permission ''core.members.manage''),
      a_route ''GET'' ''/api/v1/directory/teams'' 200 (Permission ''core.teams.read''),
      a_route ''POST'' ''/api/v1/directory/teams'' 201 (Permission ''core.teams.manage''),
      a_route ''DELETE'' ''/api/v1/directory/teams/{team_id}'' 200 (Permission ''core.teams.manage''),
      a_route ''GET'' ''/api/v1/directory/teams/{team_id}/members'' 200 (Permission ''core.teams.read''),
      a_route ''POST'' ''/api/v1/directory/teams/{team_id}/members'' 201 (Permission ''core.teams.manage''),
      a_route ''DELETE'' ''/api/v1/directory/teams/{team_id}/members/{user_id}'' 200 (Permission ''core.teams.manage''),
      a_route ''GET'' ''/api/v1/audit/events'' 200 (Permission ''core.audit.read''),
      a_route ''GET'' ''/api/v1/connectors'' 200 (Permission ''core.connectors.read''),
      a_route ''GET'' ''/api/v1/connectors/{provider}/start'' 200 (Permission ''core.connectors.manage''),
      a_route ''POST'' ''/api/v1/connectors/{connection_id}/reconsent'' 200 (Permission ''core.connectors.manage''),
      a_route ''DELETE'' ''/api/v1/connectors/{connection_id}'' 200 (Permission ''core.connectors.manage''),
      a_route ''POST'' ''/api/v1/ai/chat'' 200 (Permission ''core.ai.use''),
      a_route ''GET'' ''/api/v1/connectors/{provider}/callback'' 303 Anonymous,
      a_route ''POST'' ''/api/v1/webhooks/{provider}/{route_key}'' 202 Anonymous,
      a_route ''GET'' ''/api/v1/modules/sample_digest/digests'' 200 (ModulePermission ''sample_digest'' PERM_READ),
      a_route ''POST'' ''/api/v1/modules/sample_digest/run'' 202 (ModulePermission ''sample_digest'' PERM_MANAGE)]"
  by (simp add: ROUTES_def include_router_def a_route_def health_router_def auth_router_def directory_router_def
      audit_router_def connectors_router_def ai_router_def connectors_oauth_router_def webhooks_router_def
      mount_modules_def MODULES_def module_routers_def sample_digest_manifest_def mount_prefix_def behind_module_def digest_router_def)

definition guard_of :: "web_call \<Rightarrow> guard option" where
  "guard_of call = map_option rt_guard (route_of call)"

lemma guard_of_simps:
  "guard_of GetHealth = Some Anonymous"
  "guard_of (Login dr e p) = Some Anonymous"
  "guard_of (LoginTotp dr c d) = Some Anonymous"
  "guard_of Logout = Some Authenticated"
  "guard_of GetMe = Some Authenticated"
  "guard_of (TotpSetup sec n) = Some Authenticated"
  "guard_of (TotpActivate fr c) = Some Authenticated"
  "guard_of (TotpDisable pw) = Some Authenticated"
  "guard_of (InvitationsAccept uid mid eid salt token pw' name) = Some Anonymous"
  "guard_of (OauthStart non prov) = Some Anonymous"
  "guard_of (OauthCallback dr iid prov code state) = Some Anonymous"
  "guard_of (ConnectorOauthCallback cp state code' err) = Some Anonymous"
  "guard_of (ReceiveWebhook cp key nt) = Some Anonymous"
  by (simp_all add: guard_of_def route_of_def ROUTES_eq a_route_def)

lemma guard_of_tenant: "\<exists>p. guard_of (TenantCall c) = Some (Permission p)"
  by (cases c) (simp_all add: guard_of_def route_of_def ROUTES_eq a_route_def)

lemma guard_of_permission:
  "guard_of ConnectorsList = Some (Permission ''core.connectors.read'')"
  "guard_of (ConnectorStart cp caps kind) = Some (Permission ''core.connectors.manage'')"
  "guard_of (ConnectorReconsent cid) = Some (Permission ''core.connectors.manage'')"
  "guard_of (ConnectorRevoke cid) = Some (Permission ''core.connectors.manage'')"
  "guard_of (AiChat payload) = Some (Permission ''core.ai.use'')"
  "guard_of ListDigests = Some (ModulePermission ''sample_digest'' PERM_READ)"
  "guard_of RunNow = Some (ModulePermission ''sample_digest'' PERM_MANAGE)"
  by (simp_all add: guard_of_def route_of_def ROUTES_eq a_route_def)

lemma routed: "guard_of call \<noteq> None"
  using guard_of_tenant by (cases call) (auto simp: guard_of_simps guard_of_permission)

lemma routes_distinct: "distinct (map (\<lambda>r. (rt_verb r, rt_path r)) ROUTES)"
  by (simp add: ROUTES_eq a_route_def)

lemma anonymous_routes:
  "guard_of call = Some Anonymous \<Longrightarrow> call_route call \<in>
      {(''GET'', ''/health''), (''POST'', ''/auth/login''), (''POST'', ''/auth/login/totp''),
       (''POST'', ''/auth/invitations/accept''), (''GET'', ''/auth/oauth/{provider}/start''),
       (''GET'', ''/auth/oauth/{provider}/callback''), (''GET'', ''/connectors/{provider}/callback''),
       (''POST'', ''/webhooks/{provider}/{route_key}'')}"
  using guard_of_tenant by (cases call) (simp_all add: guard_of_simps guard_of_permission, metis guard.distinct(3) option.inject)

section \<open>Lemmas: requests without a session\<close>

definition settled :: "digest_world \<Rightarrow> digest_world" where
  \<comment> \<open>the state, whose gateway part sees the one database and the one Valkey\<close>
  "settled dw = dw\<lparr>gateway := joined_gateway dw\<rparr>"

definition anonymous :: "web_app \<Rightarrow> request \<Rightarrow> digest_world \<Rightarrow> bool" where
  "anonymous A rq dw \<longleftrightarrow>
     fst (current_auth_or_none (wa_primitives A) (clock (mw_conn dw)) (rq_cookie rq) (cdb (mw_conn dw))) = None"

definition refusal :: "exn \<Rightarrow> bool" where
  "refusal e \<longleftrightarrow> (\<exists>code msg. e = HTTPException code msg \<and> code \<in> {401, 403, 404})"

lemma anonymous_auth:
  "fst (current_auth_or_none P now cookie d) = None \<Longrightarrow> current_auth_or_none P now cookie d = (None, d)"
  using current_auth_or_none_cases [of P now cookie d] by auto

lemma resolve_tenant_anonymous: "\<exists>e. resolve_tenant host None d = Inl e \<and> refusal e"
  by (auto simp: resolve_tenant_def refusal_def split: option.split)

lemma permission_route_anonymous:
  "fst (current_auth_or_none P (rq_now rq) (rq_cookie rq) d) = None \<Longrightarrow>
   \<exists>e. permission_route P st p rq h d = (Inl e, d) \<and> refusal e"
  using resolve_tenant_anonymous [of "rq_host rq" d]
  by (auto simp: permission_route_def dest!: anonymous_auth)

lemma authenticated_route_anonymous:
  "fst (current_auth_or_none P (rq_now rq) (rq_cookie rq) d) = None \<Longrightarrow>
   \<exists>e. authenticated_route P rq h d = (Inl e, d) \<and> refusal e"
  by (auto simp: authenticated_route_def current_auth_dep_def refusal_def dest!: anonymous_auth)

lemma conn_route_anonymous:
  "fst (current_auth_or_none P (clock w) (rq_cookie rq) (cdb w)) = None \<Longrightarrow>
   \<exists>e. conn_route P st p rq h w = (Inl e, w) \<and> refusal e"
  using permission_route_anonymous [of P "rq\<lparr>rq_now := clock w\<rparr>" "cdb w" st p "\<lambda>a ctx d. (Inr (a, ctx), d)"]
  by (auto simp: conn_route_def)

lemma module_route_anonymous:
  "fst (current_auth_or_none P (clock (mw_conn mw)) (rq_cookie rq) (cdb (mw_conn mw))) = None \<Longrightarrow>
   \<exists>e. module_route P st name p rq h mw = (Inl e, mw) \<and> refusal e"
  using resolve_tenant_anonymous [of "rq_host rq" "cdb (mw_conn mw)"]
  by (auto simp: module_route_def Let_def dest!: anonymous_auth)

lemma ai_chat_anonymous:
  "fst (current_auth_or_none P (rq_now rq) (rq_cookie rq) (core_db g)) = None \<Longrightarrow>
   \<exists>e. ai_chat P aenv cfg st rq payload g = (Inl e, g) \<and> refusal e"
  using permission_route_anonymous [of P rq "core_db g" st "''core.ai.use''" "\<lambda>auth ctx d. (Inr (auth, ctx), d)"]
  by (auto simp: ai_chat_def)

lemma in_part_unchanged:
  "f (cdb (mw_conn dw)) = (r, cdb (mw_conn dw)) \<Longrightarrow> in_db f dw = (r, dw)"
  "f1 (mw_conn dw) = (r1, mw_conn dw) \<Longrightarrow> in_conn f1 dw = (r1, dw)"
  "f2 (joined_gateway dw) = (r2, joined_gateway dw) \<Longrightarrow> in_gateway f2 dw = (r2, settled dw)"
  "f3 (module_world.truncate dw) = (r3, module_world.truncate dw) \<Longrightarrow> in_module f3 dw = (r3, dw)"
  by (simp_all add: in_db_def in_conn_def in_gateway_def in_module_def settled_def with_gateway_def joined_gateway_def
      module_world.defs)

lemma settled_settled [simp]: "settled (settled dw) = settled dw"
  by (simp add: settled_def joined_gateway_def)

definition refused :: "digest_world \<Rightarrow> (api_output \<times> cookie_action) result \<times> digest_world \<Rightarrow> bool" where
  "refused dw x \<longleftrightarrow> (\<exists>e. fst x = Inl e \<and> refusal e) \<and> settled (snd x) = settled dw"

lemma plain_eq: "plain f = map_sum id (\<lambda>x. (f x, KeepCookie))"
  by (simp add: plain_def fun_eq_iff)

lemma refused_part:
  "\<exists>e. f (cdb (mw_conn dw)) = (Inl e, cdb (mw_conn dw)) \<and> refusal e \<Longrightarrow> refused dw (map_prod (map_sum id h) id (in_db f dw))"
  "\<exists>e. f1 (mw_conn dw) = (Inl e, mw_conn dw) \<and> refusal e \<Longrightarrow> refused dw (map_prod (map_sum id h1) id (in_conn f1 dw))"
  "\<exists>e. f2 (joined_gateway dw) = (Inl e, joined_gateway dw) \<and> refusal e \<Longrightarrow>
   refused dw (map_prod (map_sum id h2) id (in_gateway f2 dw))"
  "\<exists>e. f3 (module_world.truncate dw) = (Inl e, module_world.truncate dw) \<and> refusal e \<Longrightarrow>
   refused dw (map_prod (map_sum id h3) id (in_module f3 dw))"
  by (auto simp: refused_def in_part_unchanged)

lemma run_call_anonymous:
  assumes "guard_of call \<noteq> Some Anonymous" "anonymous A rq dw" "rq_now rq = clock (mw_conn dw)"
  shows "refused dw (run_call A rq call dw)"
proof -
  let ?P = "wa_primitives A" and ?d = "cdb (mw_conn dw)"
  have d: "fst (current_auth_or_none ?P (rq_now rq) (rq_cookie rq) ?d) = None"
    and w: "fst (current_auth_or_none ?P (clock (mw_conn dw)) (rq_cookie rq) ?d) = None"
    and m: "fst (current_auth_or_none ?P (clock (mw_conn (module_world.truncate dw))) (rq_cookie rq)
      (cdb (mw_conn (module_world.truncate dw)))) = None"
    and g: "fst (current_auth_or_none ?P (rq_now rq) (rq_cookie rq) (core_db (joined_gateway dw))) = None"
    using assms(2,3) by (simp_all add: anonymous_def joined_gateway_def module_world.defs)
  note defs = logout_def get_me_def totp_setup_def totp_activate_def totp_disable_def connectors_list_def
    connector_start_def connector_reconsent_def connector_revoke_def list_digests_def run_now_def
  show ?thesis
    by (insert assms(1), (cases call; hypsubst), simp_all only: guard_of_simps simp_thms, simp_all only: run_call.simps plain_eq,
        (rule refused_part; (simp only: defs)?;
          rule authenticated_route_anonymous [OF d] permission_route_anonymous [OF d]
            conn_route_anonymous [OF w] module_route_anonymous [OF m] ai_chat_anonymous [OF g])+)
qed


lemma serve_cases:
  assumes "serve A ir call (ls, dw) = (resp, ls', dw')"
  obtains (refused) "resp = \<lparr>res_status = 403, res_headers = [], res_cookies = [], res_content = Detail ''Origin non autorisee''\<rparr>"
      "ls' = ls" "dw' = dw"
    | (failed) e where "handle A (in_request ir) call dw = (Inl e, dw')" "resp = server_answer (Inl e)"
    | (answered) resp0 where "handle A (in_request ir) call dw = (Inr resp0, dw')"
      "resp = res_headers_update (\<lambda>hs. hs @ [(REQUEST_ID_HEADER, request_id_of (in_request_id ir) (in_fresh_id ir))]) resp0"
proof -
  let ?refused = "fst (call_route call) \<in> set MUTATING_METHODS
    \<and> (case in_origin ir of None \<Rightarrow> False | Some og \<Rightarrow> \<not> origin_allowed (wa_settings A) og (rq_host (in_request ir)))"
  show ?thesis
  proof (cases ?refused)
    case True
    then show ?thesis using assms by (intro refused) (simp_all add: serve_def csrf_dispatch_def Let_def)
  next
    case False
    obtain r dw1 where h: "handle A (in_request ir) call dw = (r, dw1)" by fastforce
    show ?thesis
    proof (cases r)
      case (Inl e)
      then show ?thesis using assms False h
        by (intro failed [of e]) (auto simp: serve_def csrf_dispatch_def request_id_dispatch_def Let_def)
    next
      case (Inr resp0)
      then show ?thesis using assms False h
        by (intro answered [of resp0]) (auto simp: serve_def csrf_dispatch_def request_id_dispatch_def Let_def)
    qed
  qed
qed

section \<open>Lemmas: requests that only read\<close>

definition forget_seen :: "db \<Rightarrow> db" where
  \<comment> \<open>without the instants at which sessions were last used\<close>
  "forget_seen d = sessions_update (map (\<lambda>s. s\<lparr>s_last_seen_at := 0\<rparr>)) d"

definition durable :: "digest_world \<Rightarrow> digest_world" where
  \<comment> \<open>without these instants and without the cache of module states\<close>
  "durable dw = settled (mw_conn_update (cdb_update forget_seen) (dw\<lparr>cache := Map.empty\<rparr>))"

lemma current_auth_forget: "forget_seen (snd (current_auth_or_none P now cookie d)) = forget_seen d"
proof -
  have "forget_seen (sessions_update (update_where p (\<lambda>x. x\<lparr>s_last_seen_at := now\<rparr>)) d) = forget_seen d" for p
    by (simp add: forget_seen_def update_where_def comp_def if_distrib cong: if_cong)
  then show ?thesis using current_auth_or_none_cases [of P now cookie d] by auto
qed

lemma permission_route_reads:
  assumes "\<And>a ctx d. snd (h a ctx d) = d"
  shows "forget_seen (snd (permission_route P st p rq h d)) = forget_seen d"
  using assms current_auth_forget [of P "rq_now rq" "rq_cookie rq" d]
  by (auto simp: permission_route_def Let_def split: prod.splits sum.splits)

lemma authenticated_route_reads:
  assumes "\<And>a d. snd (h a d) = d"
  shows "forget_seen (snd (authenticated_route P rq h d)) = forget_seen d"
  using assms current_auth_forget [of P "rq_now rq" "rq_cookie rq" d]
  by (auto simp: authenticated_route_def Let_def split: prod.splits sum.splits)

lemma conn_route_reads:
  assumes "\<And>a ctx w. snd (h a ctx w) = w"
  shows "\<exists>d. snd (conn_route P st p rq h w) = w\<lparr>cdb := d\<rparr> \<and> forget_seen d = forget_seen (cdb w)"
proof -
  obtain r d where r: "permission_route P st p (rq\<lparr>rq_now := clock w\<rparr>) (\<lambda>a ctx d. (Inr (a, ctx), d)) (cdb w) = (r, d)"
    by fastforce
  have "forget_seen d = forget_seen (cdb w)"
    using permission_route_reads [of "\<lambda>a ctx d. (Inr (a, ctx), d)" P st p "rq\<lparr>rq_now := clock w\<rparr>" "cdb w"] r by simp
  then show ?thesis using r assms by (auto simp: conn_route_def split: sum.split)
qed

lemma module_route_reads:
  assumes "\<And>ctx mw. snd (h ctx mw) = mw"
  shows "\<exists>d c. snd (module_route P st name p rq h mw) = mw\<lparr>mw_conn := (mw_conn mw)\<lparr>cdb := d\<rparr>, cache := c\<rparr>
    \<and> forget_seen d = forget_seen (cdb (mw_conn mw))"
proof -
  obtain auth d where a: "current_auth_or_none P (clock (mw_conn mw)) (rq_cookie rq) (cdb (mw_conn mw)) = (auth, d)"
    by fastforce
  have d: "forget_seen d = forget_seen (cdb (mw_conn mw))"
    using current_auth_forget [of P "clock (mw_conn mw)" "rq_cookie rq" "cdb (mw_conn mw)"] a by simp
  have m: "snd (require_module_enabled name ctx mw1) = mw1\<lparr>cache := cache (snd (require_module_enabled name ctx mw1))\<rparr>" for ctx mw1
    by (auto simp: require_module_enabled_def is_module_enabled_def Let_def split: bool.splits option.splits if_splits)
  show ?thesis
  proof (cases "resolve_tenant (rq_host rq) auth d")
    case (Inl e)
    then show ?thesis using a d by (auto simp: module_route_def Let_def intro!: exI [of _ d] exI [of _ "cache mw"])
  next
    case (Inr ctx)
    let ?mw1 = "mw\<lparr>mw_conn := (mw_conn mw)\<lparr>cdb := d\<rparr>\<rparr>"
    obtain r mw2 where r: "require_module_enabled name ctx ?mw1 = (r, mw2)" by fastforce
    obtain c where "mw2 = ?mw1\<lparr>cache := c\<rparr>" using m [of ctx ?mw1] r by (metis snd_conv)
    moreover have "snd (module_route P st name p rq h mw) = mw2"
      using a Inr r assms by (auto simp: module_route_def Let_def split: sum.split)
    ultimately show ?thesis using d by auto
  qed
qed

lemma durable_part:
  "forget_seen (snd (f (cdb (mw_conn dw)))) = forget_seen (cdb (mw_conn dw)) \<Longrightarrow>
   durable (snd (map_prod h id (in_db f dw))) = durable dw"
  "\<exists>d. snd (f1 (mw_conn dw)) = (mw_conn dw)\<lparr>cdb := d\<rparr> \<and> forget_seen d = forget_seen (cdb (mw_conn dw)) \<Longrightarrow>
   durable (snd (map_prod h1 id (in_conn f1 dw))) = durable dw"
  "\<exists>d c. snd (f3 (module_world.truncate dw)) =
        (module_world.truncate dw)\<lparr>mw_conn := (mw_conn (module_world.truncate dw))\<lparr>cdb := d\<rparr>, cache := c\<rparr>
      \<and> forget_seen d = forget_seen (cdb (mw_conn (module_world.truncate dw))) \<Longrightarrow>
   durable (snd (map_prod h3 id (in_module f3 dw))) = durable dw"
  by (auto simp: durable_def settled_def joined_gateway_def in_db_def in_conn_def in_module_def module_world.defs
      split: prod.split)

lemma tenant_read:
  assumes "fst (tenant_route c) = ''GET''"
  shows "snd (call_step P cfg mail a ctx c d) = d"
  using assms by (cases c) (simp_all add: members_list_def invitations_list_def teams_list_def team_members_list_def split: sum.split)

lemma plain_action: "plain f r = Inr (out, action) \<Longrightarrow> action = KeepCookie"
  by (cases r) (auto simp: plain_def)

lemma run_call_reads:
  assumes "fst (call_route call) = ''GET''" "call_route call \<noteq> (''GET'', ''/auth/oauth/{provider}/callback'')"
    "call_route call \<noteq> (''GET'', ''/connectors/{provider}/callback'')"
  shows "durable (snd (run_call A rq call dw)) = durable dw
    \<and> (\<forall>out action. fst (run_call A rq call dw) = Inr (out, action) \<longrightarrow> action = KeepCookie)"
proof
  show "\<forall>out action. fst (run_call A rq call dw) = Inr (out, action) \<longrightarrow> action = KeepCookie"
    using assms by (cases call) (auto dest: plain_action)
  show "durable (snd (run_call A rq call dw)) = durable dw"
  proof (cases call)
    case GetMe
    show ?thesis unfolding GetMe run_call.simps
      by (rule durable_part) (simp only: get_me_def, rule authenticated_route_reads, simp add: Let_def)
  next
    case (TenantCall c)
    have "fst (tenant_route c) = ''GET''" using assms(1) TenantCall by simp
    from tenant_read [OF this] show ?thesis unfolding TenantCall run_call.simps
      by (intro durable_part permission_route_reads) (simp add: tenant_result_def)
  next
    case ConnectorsList
    show ?thesis unfolding ConnectorsList run_call.simps
      by (rule durable_part) (simp only: connectors_list_def, rule conn_route_reads, simp split: sum.split)
  next
    case (ConnectorStart p caps kind)
    show ?thesis unfolding ConnectorStart run_call.simps
      by (rule durable_part) (simp only: connector_start_def, rule conn_route_reads, simp add: Let_def split: sum.split exn.split)
  next
    case ListDigests
    show ?thesis unfolding ListDigests run_call.simps
      by (rule durable_part) (simp only: list_digests_def, rule module_route_reads, simp split: sum.split)
  qed (use assms in auto)
qed

lemma read_or_mutating: "fst (call_route call) = ''GET'' \<or> fst (call_route call) \<in> set MUTATING_METHODS"
proof (cases call)
  case (TenantCall c)
  then show ?thesis by (cases c) (simp_all add: MUTATING_METHODS_def)
qed (simp_all add: MUTATING_METHODS_def)

lemma server_error_cookies: "res_cookies (server_answer (Inl e)) = []"
  by (cases e) simp_all

lemma http_answer_error: "http_answer status f (Inl e) = Inr resp \<Longrightarrow> res_cookies resp = []"
  by (cases e) auto

section \<open>Lemmas: session cookies\<close>

lemma plain_no_session [simp]:
  "map_prod (plain f) id x \<noteq> (Inr (out, SetSession t), y)" "plain f r \<noteq> Inr (out, SetSession t)"
  by (cases x; auto dest: plain_action)+

fun authenticated_by :: "web_app \<Rightarrow> instant \<Rightarrow> web_call \<Rightarrow> uuid \<Rightarrow> db \<Rightarrow> bool" where
  \<comment> \<open>what entitles a call to a session of a user\<close>
  "authenticated_by A now (Login dr email password) uid d =
     (\<exists>u c h. get_user_by_email email d = Some u \<and> u_id u = uid \<and> get_credentials uid d = Some c
        \<and> \<not> uc_totp_enabled c \<and> uc_password_hash c = Some h \<and> fst (verify_password (wa_primitives A) h password))"
| "authenticated_by A now (LoginTotp dr challenge code) uid d =
     (\<exists>d1 d2. consume_login_challenge (wa_primitives A) now challenge d = (Some uid, d1)
        \<and> verify_second_factor (wa_primitives A) (wa_settings A) now uid code d1 = Inr (True, d2))"
| "authenticated_by A now (OauthCallback dr iid p code state) uid d =
     (\<exists>host nonce u d1. parse_state (wa_primitives A) (wa_settings A) now state p = Inr (host, nonce)
        \<and> complete_login (wa_settings A) (wa_idp A) now iid p code nonce d = Inr (u, d1) \<and> u_id u = uid)"
| "authenticated_by A now call uid d = False"

definition opens_session :: "primitives \<Rightarrow> settings \<Rightarrow> instant \<Rightarrow> string \<Rightarrow> uuid \<Rightarrow> db \<Rightarrow> db \<Rightarrow> bool" where
  "opens_session P cfg now t uid d d' \<longleftrightarrow>
     uid \<in> u_id ` set (users d)
     \<and> (\<exists>sid d1. d' = snd (create_session P cfg now sid t uid d1) \<and> sessions d1 = sessions d \<and> users d1 = users d)"

lemma opened_session_resolves:
  assumes "opens_session P cfg now t uid d d'" "t \<noteq> []" "0 \<le> session_ttl_hours cfg"
    and "\<forall>s\<in>set (sessions d). s_token_hash s \<noteq> hash_token P t"
  shows "\<exists>a. fst (current_auth_or_none P now (Some t) d') = Some a \<and> u_id (ca_user a) = uid"
proof -
  obtain sid d1 where d': "d' = snd (create_session P cfg now sid t uid d1)" "sessions d1 = sessions d" "users d1 = users d"
    using assms(1) by (auto simp: opens_session_def)
  let ?s = "\<lparr>s_id = sid, s_user_id = uid, s_token_hash = hash_token P t, s_expires_at = now + hours (session_ttl_hours cfg),
    s_last_seen_at = now, s_revoked_at = None\<rparr>"
  have "List.find (\<lambda>s. s_token_hash s = hash_token P t) (sessions d) = None" using assms(4) by (auto simp: find_None_iff)
  then have s: "session_by_token P t d' = Some ?s"
    using d' by (simp add: session_by_token_def create_session_def find_insert_row)
  obtain u where "get_user uid d' = Some u" "u_id u = uid"
  proof -
    obtain v where "v \<in> set (users d)" "u_id v = uid" using assms(1) by (auto simp: opens_session_def)
    moreover have "users d' = users d" using d' by (simp add: create_session_def)
    ultimately have "get_user uid d' \<noteq> None" by (auto simp: get_user_def find_None_iff)
    then show ?thesis using that by (auto simp: get_user_def dest: find_eq_Some_D)
  qed
  moreover have "now \<le> now + hours (session_ttl_hours cfg)"
    using assms(3) by (simp add: hours_def minutes_def seconds_def)
  ultimately show ?thesis using s assms(2) by (simp add: current_auth_or_none_def resolve_session_def)
qed

lemma login_opens:
  assumes "login P cfg rq dr email password d s = (Inr lr, d', s')" "lr_cookie lr = Some t"
  shows "\<exists>u c h. get_user_by_email email d = Some u \<and> get_credentials (u_id u) d = Some c \<and> \<not> uc_totp_enabled c
    \<and> uc_password_hash c = Some h \<and> fst (verify_password P h password) \<and> opens_session P cfg (rq_now rq) t (u_id u) d d'"
proof -
  obtain user c d1 where a: "authenticate P (dr_salt dr) email password d = (Some (user, c), d1)" "\<not> uc_totp_enabled c"
    and t: "(t, d') = create_session P cfg (rq_now rq) (dr_session_id dr) (dr_token dr) (u_id user) d1"
    using assms by (auto simp: login_def Let_def split: if_splits prod.splits sum.splits option.splits)
  obtain c0 h where c0: "get_user_by_email email d = Some user" "get_credentials (u_id user) d = Some c0"
    "uc_password_hash c0 = Some h" "fst (verify_password P h password)" "\<not> uc_totp_enabled c0"
    "sessions d1 = sessions d" "users d1 = users d"
    using a by (auto simp: authenticate_def put_credentials_def Let_def split: option.splits prod.splits if_splits)
  have "user \<in> set (users d)" using c0(1) by (auto simp: get_user_by_email_def dest!: find_eq_Some_D)
  moreover have "d' = snd (create_session P cfg (rq_now rq) (dr_session_id dr) t (u_id user) d1)"
    using t by (simp add: create_session_def)
  ultimately have "opens_session P cfg (rq_now rq) t (u_id user) d d'"
    using c0 by (auto simp: opens_session_def)
  then show ?thesis using c0 by blast
qed

lemma login_totp_opens:
  assumes "login_totp P cfg rq dr challenge code d s = (Inr lr, d', s')" "lr_cookie lr = Some t"
    and "list_all (\<lambda>ch. lc_user_id ch \<in> u_id ` set (users d)) (login_challenges d)"
  shows "\<exists>uid d1 d2. consume_login_challenge P (rq_now rq) challenge d = (Some uid, d1)
    \<and> verify_second_factor P cfg (rq_now rq) uid code d1 = Inr (True, d2) \<and> opens_session P cfg (rq_now rq) t uid d d'"
proof -
  obtain uid d1 d2 where c: "consume_login_challenge P (rq_now rq) challenge d = (Some uid, d1)"
    and v: "verify_second_factor P cfg (rq_now rq) uid code d1 = Inr (True, d2)"
    and t: "(t, d') = create_session P cfg (rq_now rq) (dr_session_id dr) (dr_token dr) uid d2"
    using assms(1,2) by (auto simp: login_totp_def Let_def split: if_splits prod.splits sum.splits option.splits)
  have u1: "users d1 = users d" and uid: "uid \<in> u_id ` set (users d)"
    using c assms(3) by (auto simp: consume_login_challenge_def challenge_by_token_def list_all_iff
        split: option.splits if_splits dest!: find_eq_Some_D)
  have "users d2 = users d1" using v by (auto simp: verify_second_factor_def put_credentials_def split: option.splits if_splits sum.splits)
  moreover have "d' = snd (create_session P cfg (rq_now rq) (dr_session_id dr) t uid d2)"
    using t by (simp add: create_session_def)
  ultimately have "opens_session P cfg (rq_now rq) t uid d d'"
    using u1 uid verify_second_factor_tables [OF v] consume_tables [OF c] by (auto simp: opens_session_def)
  then show ?thesis using c v by blast
qed

lemma oauth_callback_opens:
  assumes "oauth_callback P cfg idp rq dr iid p code state d = (Inr (url, t), d')"
  shows "\<exists>host nonce u d1. parse_state P cfg (rq_now rq) state p = Inr (host, nonce)
    \<and> complete_login cfg idp (rq_now rq) iid p code nonce d = Inr (u, d1) \<and> opens_session P cfg (rq_now rq) t (u_id u) d d'"
proof -
  obtain host nonce u d1 where p: "parse_state P cfg (rq_now rq) state p = Inr (host, nonce)"
    and c: "complete_login cfg idp (rq_now rq) iid p code nonce d = Inr (u, d1)"
    and t: "(t, d') = create_session P cfg (rq_now rq) (dr_session_id dr) (dr_token dr) (u_id u) d1"
    using assms by (auto simp: oauth_callback_def Let_def split: sum.splits exn.splits prod.splits)
  obtain info where "link_identity iid info d = Inr (u, d1)"
    using c by (auto simp: complete_login_def split: sum.splits)
  then have "sessions d1 = sessions d" "users d1 = users d" "u \<in> set (users d)"
    by (auto simp: link_identity_def get_user_def get_user_by_email_def split: option.splits if_splits dest!: find_eq_Some_D)
  moreover have "d' = snd (create_session P cfg (rq_now rq) (dr_session_id dr) t (u_id u) d1)"
    using t by (simp add: create_session_def)
  ultimately have "opens_session P cfg (rq_now rq) t (u_id u) d d'" by (auto simp: opens_session_def)
  then show ?thesis using p c by blast
qed

lemma run_call_session:
  assumes "run_call A rq call dw = (Inr (out, SetSession t), dw')"
    and "list_all (\<lambda>ch. lc_user_id ch \<in> u_id ` set (users (cdb (mw_conn dw)))) (login_challenges (cdb (mw_conn dw)))"
  shows "clock (mw_conn dw') = clock (mw_conn dw)
    \<and> (\<exists>uid. authenticated_by A (rq_now rq) call uid (cdb (mw_conn dw))
         \<and> opens_session (wa_primitives A) (wa_settings A) (rq_now rq) t uid (cdb (mw_conn dw)) (cdb (mw_conn dw')))"
proof -
  let ?P = "wa_primitives A" and ?cfg = "wa_settings A" and ?d = "cdb (mw_conn dw)" and ?s = "vk (mw_conn dw)"
  show ?thesis
  proof (cases call)
    case (Login dr email password)
    obtain r d' s' where l: "login ?P ?cfg rq dr email password ?d ?s = (r, d', s')" by (metis prod_cases3)
    then obtain lr where "r = Inr lr" "lr_cookie lr = Some t" "dw' = mw_conn_update (\<lambda>w. w\<lparr>cdb := d', vk := s'\<rparr>) dw"
      using assms(1) Login by (cases r) (auto simp: in_db_kv_def login_out_def split: option.splits)
    then show ?thesis using login_opens [of ?P ?cfg rq dr email password ?d ?s lr d' s' t] l Login by auto
  next
    case (LoginTotp dr challenge code)
    obtain r d' s' where l: "login_totp ?P ?cfg rq dr challenge code ?d ?s = (r, d', s')" by (metis prod_cases3)
    then obtain lr where "r = Inr lr" "lr_cookie lr = Some t" "dw' = mw_conn_update (\<lambda>w. w\<lparr>cdb := d', vk := s'\<rparr>) dw"
      using assms(1) LoginTotp by (cases r) (auto simp: in_db_kv_def login_out_def split: option.splits)
    then show ?thesis using login_totp_opens [of ?P ?cfg rq dr challenge code ?d ?s lr d' s' t] l LoginTotp assms(2) by auto
  next
    case (OauthCallback dr iid p code state)
    obtain r d' where l: "oauth_callback ?P ?cfg (wa_idp A) rq dr iid p code state ?d = (r, d')" by fastforce
    then obtain url where "r = Inr (url, t)" "dw' = mw_conn_update (cdb_update (\<lambda>_. d')) dw"
      using assms(1) OauthCallback by (cases r) (auto simp: in_db_def)
    then show ?thesis using oauth_callback_opens [of ?P ?cfg "wa_idp A" rq dr iid p code state ?d url t d'] l OauthCallback by auto
  next
    case Logout
    then show ?thesis using assms(1)
      by (cases "in_db (logout ?P rq) dw"; cases "fst (in_db (logout ?P rq) dw)") auto
  qed (use assms(1) in simp_all)
qed

text \<open>An application on a mail server that refuses, an unknown identity provider and no module permission.\<close>

definition sample_app :: web_app where
  "sample_app =
     \<lparr>wa_primitives = sample_primitives, wa_settings = default_settings,
      wa_idp = \<lparr>oidc_metadata = \<lambda>_. Inl (OAuthLoginError ''x''), oidc_token = \<lambda>_ _ _. (404, None), oidc_claims = \<lambda>_ _ _ _. None\<rparr>,
      wa_net = token_env, wa_ai = digest_ai, wa_smtp = (\<lambda>said. Inl (TransportError ''refused'')),
      wa_permissions = empty_registry\<rparr>"

definition sample_in :: web_request where
  "sample_in =
     \<lparr>in_request = sample_request, in_path = ''/api/v1/x'', in_origin = None, in_request_id = None,
      in_fresh_id = ''f00d'', in_duration = ''1''\<rparr>"

definition quiet :: log_state where
  "quiet = \<lparr>min_level = 20, contextvars = [], log_lines = []\<rparr>"

definition login_world :: digest_world where
  "login_world = inbox_world\<lparr>mw_conn := (mw_conn inbox_world)
     \<lparr>vk := \<lambda>_. None, cdb := empty_db\<lparr>users := [\<lparr>u_id = 1, u_email = ''Ann@Acme.io'', u_display_name = None\<rparr>],
        credentials := [sample_credentials\<lparr>uc_totp_enabled := False\<rparr>]\<rparr>\<rparr>\<rparr>"

section \<open>Properties\<close>

text \<open>
  C3 (safety). The anonymous routes of the whole application are a closed list. On every other
  route a request without a session that resolves is answered 401, 403 or 404, sets no cookie and
  changes nothing of the state: no table, no counter, no queue, no call of a provider.
\<close>

theorem anonymous_access_closed:
  assumes "serve A ir call (ls, dw) = (resp, ls', dw')" "anonymous A (in_request ir) dw"
    and "call_route call \<notin>
      {(''GET'', ''/health''), (''POST'', ''/auth/login''), (''POST'', ''/auth/login/totp''),
       (''POST'', ''/auth/invitations/accept''), (''GET'', ''/auth/oauth/{provider}/start''),
       (''GET'', ''/auth/oauth/{provider}/callback''), (''GET'', ''/connectors/{provider}/callback''),
       (''POST'', ''/webhooks/{provider}/{route_key}'')}"
  shows "res_status resp \<in> {401, 403, 404} \<and> (\<exists>msg. res_content resp = Detail msg) \<and> res_cookies resp = []
    \<and> settled dw' = settled dw"
proof -
  let ?rq = "(in_request ir)\<lparr>rq_now := clock (mw_conn dw)\<rparr>"
  have "guard_of call \<noteq> Some Anonymous"
    using assms(3) anonymous_routes by blast
  then have "refused dw (run_call A ?rq call dw)"
    by (rule run_call_anonymous) (use assms(2) in \<open>simp_all add: anonymous_def\<close>)
  then obtain code msg dw1 where "run_call A ?rq call dw = (Inl (HTTPException code msg), dw1)"
    "code \<in> {401, 403, 404}" "settled dw1 = settled dw"
    by (cases "run_call A ?rq call dw") (auto simp: refused_def refusal_def)
  with assms(1) show ?thesis
    by (cases rule: serve_cases) (auto simp: handle_def)
qed

theorem anonymous_access_closed_witness:
  "\<exists>resp ls dw. serve sample_app sample_in (TenantCall MembersList) (quiet, inbox_world) = (resp, ls, dw)
     \<and> res_status resp \<in> {401, 403, 404} \<and> settled dw = settled inbox_world"
proof -
  obtain resp ls dw where s: "serve sample_app sample_in (TenantCall MembersList) (quiet, inbox_world) = (resp, ls, dw)"
    by (metis prod_cases3)
  have "anonymous sample_app (in_request sample_in) inbox_world"
    by (simp add: anonymous_def sample_in_def sample_request_def current_auth_or_none_def)
  with anonymous_access_closed [OF s] s show ?thesis by auto
qed

text \<open>
  C6 (safety). A request that a page of a foreign origin makes a browser send is harmless on every route but
  the two OAuth callbacks, whose signed state is their authority: a method that may write is
  refused with 403 before any of it is run, and what is left only reads. Nothing but the instant a
  session was last used and the cache of module states changes, and no cookie is set.
\<close>

theorem cross_site_reads_only:
  assumes "serve A ir call (ls, dw) = (resp, ls', dw')"
    and "in_origin ir = Some og" "\<not> origin_allowed (wa_settings A) og (rq_host (in_request ir))"
    and "call_route call \<noteq> (''GET'', ''/auth/oauth/{provider}/callback'')"
    and "call_route call \<noteq> (''GET'', ''/connectors/{provider}/callback'')"
  shows "durable dw' = durable dw \<and> res_cookies resp = []
    \<and> (fst (call_route call) = ''GET'' \<or> res_status resp = 403 \<and> dw' = dw \<and> ls' = ls)"
proof (cases "fst (call_route call) = ''GET''")
  case True
  let ?rq = "(in_request ir)\<lparr>rq_now := clock (mw_conn dw)\<rparr>"
  note reads = run_call_reads [OF True assms(4,5), of A ?rq dw]
  from assms(1) show ?thesis
  proof (cases rule: serve_cases)
    case (failed e)
    then show ?thesis using reads True
      by (cases e) (auto simp: handle_def split: prod.splits sum.splits)
  next
    case (answered resp0)
    have "durable dw' = durable dw" "res_cookies resp0 = []"
      using answered(1) reads by (auto simp: handle_def split: prod.splits sum.splits dest!: http_answer_error)
    then show ?thesis using answered(2) True by simp
  qed (use True in simp)
next
  case False
  then show ?thesis using assms(1,2,3) read_or_mutating [of call]
    by (auto simp: serve_def csrf_dispatch_def Let_def)
qed

theorem cross_site_reads_only_witness:
  "\<exists>resp ls dw. serve sample_app (sample_in\<lparr>in_origin := Some ''https://evil.example''\<rparr>) Logout (quiet, inbox_world) = (resp, ls, dw)
     \<and> res_status resp = 403 \<and> dw = inbox_world"
proof -
  let ?ir = "sample_in\<lparr>in_origin := Some ''https://evil.example''\<rparr>"
  obtain resp ls dw where s: "serve sample_app ?ir Logout (quiet, inbox_world) = (resp, ls, dw)"
    by (metis prod_cases3)
  have o: "in_origin ?ir = Some ''https://evil.example''" by simp
  have n: "\<not> origin_allowed (wa_settings sample_app) ''https://evil.example'' (rq_host (in_request ?ir))"
    by code_simp
  from cross_site_reads_only [OF s o n] s show ?thesis by auto
qed

text \<open>
  C7 (roundtrip). A session cookie the application sets is one the user was entitled to, and it opens the
  session: it comes from a login with the right password of an account without second factor, from a
  second factor accepted for a pending challenge, or from a completed OAuth login; it is
  \<^verbatim>\<open>HttpOnly\<close> and \<^verbatim>\<open>SameSite=Lax\<close>, and \<^verbatim>\<open>Secure\<close> outside development; and a request that carries it next is
  authenticated as that user.
\<close>

theorem session_cookie_entitled:
  assumes "serve A ir call (ls, dw) = (resp, ls', dw')" "ck \<in> set (res_cookies resp)" "ck_value ck \<noteq> []"
    and "0 \<le> session_ttl_hours (wa_settings A)"
    and "\<forall>s\<in>set (sessions (cdb (mw_conn dw))). s_token_hash s \<noteq> hash_token (wa_primitives A) (ck_value ck)"
    and "list_all (\<lambda>ch. lc_user_id ch \<in> u_id ` set (users (cdb (mw_conn dw)))) (login_challenges (cdb (mw_conn dw)))"
  shows "ck_key ck = session_cookie_name (wa_settings A) \<and> ck_httponly ck \<and> ck_samesite ck = ''lax''
    \<and> ck_secure ck = (app_env (wa_settings A) \<noteq> ''dev'')
    \<and> (\<exists>a. authenticated_by A (clock (mw_conn dw)) call (u_id (ca_user a)) (cdb (mw_conn dw))
         \<and> fst (current_auth_or_none (wa_primitives A) (clock (mw_conn dw')) (Some (ck_value ck)) (cdb (mw_conn dw'))) = Some a)"
proof -
  let ?rq = "(in_request ir)\<lparr>rq_now := clock (mw_conn dw)\<rparr>"
  from assms(1,2) obtain resp0 where h: "handle A (in_request ir) call dw = (Inr resp0, dw')" "ck \<in> set (res_cookies resp0)"
    by (cases rule: serve_cases) (auto simp: server_error_cookies)
  obtain out action where r: "run_call A ?rq call dw = (Inr (out, action), dw')"
    "resp0 = apply_cookie (wa_settings A) action
       \<lparr>res_status = call_status call out, res_headers = [], res_cookies = [], res_content = Content out\<rparr>"
    using h by (auto simp: handle_def split: prod.splits sum.splits dest!: http_answer_error)
  then obtain t where act: "action = SetSession t" using h(2) assms(3)
    by (cases action) (auto simp: clear_session_cookie_def)
  then have ck: "ck_value ck = t" "ck_key ck = session_cookie_name (wa_settings A)" "ck_httponly ck" "ck_samesite ck = ''lax''"
    "ck_secure ck = (app_env (wa_settings A) \<noteq> ''dev'')"
    using h(2) r(2) by (auto simp: set_session_cookie_def session_cookie_secure_def)
  from run_call_session [OF r(1) [unfolded act] assms(6)] obtain uid where
    uid: "clock (mw_conn dw') = clock (mw_conn dw)" "authenticated_by A (clock (mw_conn dw)) call uid (cdb (mw_conn dw))"
    "opens_session (wa_primitives A) (wa_settings A) (clock (mw_conn dw)) t uid (cdb (mw_conn dw)) (cdb (mw_conn dw'))" by auto
  then obtain a where "fst (current_auth_or_none (wa_primitives A) (clock (mw_conn dw)) (Some t) (cdb (mw_conn dw'))) = Some a"
    "u_id (ca_user a) = uid"
    using opened_session_resolves [OF uid(3)] assms(3,4,5) ck(1) by blast
  then show ?thesis using ck uid by auto
qed

lemma sample_login:
  "\<exists>s'. login sample_primitives default_settings (sample_request\<lparr>rq_now := n\<rparr>) sample_draws ''ann@acme.io'' ''pw''
      (cdb (mw_conn login_world)) (\<lambda>_. None) =
    (Inr \<lparr>lr_status = ''ok'', lr_challenge_token = None, lr_cookie = Some ''other''\<rparr>,
     snd (create_session sample_primitives default_settings n 12 ''other'' 1 (cdb (mw_conn login_world))), s')"
proof -
  obtain s' where rl: "enforce_rate_limit sample_primitives default_settings n (Some ''10.0.0.1'') ''login''
      [''ann@acme.io''] (\<lambda>_. None) = (Inr (), s')" using sample_rate_ok by blast
  have u: "get_user_by_email ''ann@acme.io'' (cdb (mw_conn login_world)) =
      Some \<lparr>u_id = 1, u_email = ''Ann@Acme.io'', u_display_name = None\<rparr>"
    by (simp add: login_world_def) code_simp
  have "get_credentials 1 (cdb (mw_conn login_world)) = Some (sample_credentials\<lparr>uc_totp_enabled := False\<rparr>)"
    by (simp add: get_credentials_def login_world_def sample_credentials_def)
  with u rl show ?thesis
    by (simp add: login_def sample_request_def sample_draws_def authenticate_def verify_password_def create_session_def
        sample_credentials_def sample_primitives_def)
qed

theorem session_cookie_entitled_witness:
  "\<exists>resp ls dw a. serve sample_app sample_in (Login sample_draws ''ann@acme.io'' ''pw'') (quiet, login_world) = (resp, ls, dw)
     \<and> fst (current_auth_or_none sample_primitives (clock (mw_conn dw)) (Some ''other'') (cdb (mw_conn dw))) = Some a"
proof -
  let ?call = "Login sample_draws ''ann@acme.io'' ''pw''"
  obtain resp ls dw where s: "serve sample_app sample_in ?call (quiet, login_world) = (resp, ls, dw)"
    by (metis prod_cases3)
  have vk: "vk (mw_conn login_world) = (\<lambda>_. None)" by (simp add: login_world_def)
  obtain ck where ck: "ck \<in> set (res_cookies resp)" "ck_value ck = ''other''"
    using s sample_login [of "clock (mw_conn login_world)"]
    by (auto simp: serve_def csrf_dispatch_def sample_in_def request_id_dispatch_def handle_def sample_app_def in_db_kv_def
        vk login_out_def set_session_cookie_def Let_def)
  have "sessions (cdb (mw_conn login_world)) = []" "login_challenges (cdb (mw_conn login_world)) = []"
    by (simp_all add: login_world_def empty_db_def)
  moreover have "0 \<le> session_ttl_hours (wa_settings sample_app)" by (simp add: sample_app_def default_settings_def)
  ultimately show ?thesis
    using session_cookie_entitled [OF s ck(1)] s ck(2) by (auto simp: sample_app_def)
qed

end
