(* ===== verification/System.thy ===== *)
theory System
  imports WebApp
begin

text \<open>
  The whole system: requests served by the application and messages run by the worker, in any
  order, on one database, one Valkey and one queue.
\<close>

section \<open>States\<close>

inductive system_reached ::
  "web_app \<Rightarrow> email_lib \<Rightarrow> (conn_world \<Rightarrow> conn_world) \<Rightarrow> handler_registry \<Rightarrow> module_manifest list \<Rightarrow>
   digest_world \<Rightarrow> digest_world \<Rightarrow> bool"
  for A L others reg modules start where
  system_start: "system_reached A L others reg modules start start"
| system_request: "system_reached A L others reg modules start dw'"
  if "system_reached A L others reg modules start dw" "serve A ir call (ls, dw) = (resp, ls', dw')"
| system_worker: "system_reached A L others reg modules start dw'"
  if "system_reached A L others reg modules start dw"
    "reached L (wa_primitives A) (wa_settings A) (wa_net A) (wa_ai A) others reg modules dw dw'"
| system_module: "system_reached A L others reg modules start (dw\<lparr>mw_conn := mw_conn mw, module_rows := module_rows mw, cache := cache mw\<rparr>)"
  if "system_reached A L others reg modules start dw"
    "module_step (wa_net A) modules op (module_world.truncate dw) = mw"

section \<open>Lemmas\<close>

definition log_kept :: "db \<Rightarrow> db \<Rightarrow> bool" where
  "log_kept d d' \<longleftrightarrow> (\<exists>new. audit_events d' = audit_events d @ new) \<and> tenants d' = tenants d"

lemma log_kept_refl [simp]: "log_kept d d"
  by (simp add: log_kept_def)

lemma log_kept_trans: "log_kept d d' \<Longrightarrow> log_kept d' d'' \<Longrightarrow> log_kept d d''"
  by (auto simp: log_kept_def)

lemma log_kept_visit: "current_auth_or_none P now cookie d = (auth, d') \<Longrightarrow> log_kept d d'"
  using current_auth_or_none_cases [of P now cookie d] by (auto simp: log_kept_def)

lemma permission_route_log:
  assumes "\<And>a ctx d. log_kept d (snd (h a ctx d))"
  shows "log_kept d (snd (permission_route P st p rq h d))"
proof -
  obtain auth d1 where a: "current_auth_or_none P (rq_now rq) (rq_cookie rq) d = (auth, d1)" by fastforce
  have "log_kept d1 (snd (h a ctx d1))" for a ctx by (rule assms)
  then have "log_kept d (snd (h a ctx d1))" for a ctx using log_kept_trans [OF log_kept_visit [OF a]] by blast
  then show ?thesis using a log_kept_visit [OF a] by (auto simp: permission_route_def split: sum.split)
qed

lemma authenticated_route_log:
  assumes "\<And>a d. log_kept d (snd (h a d))"
  shows "log_kept d (snd (authenticated_route P rq h d))"
proof -
  obtain auth d1 where a: "current_auth_or_none P (rq_now rq) (rq_cookie rq) d = (auth, d1)" by fastforce
  have "log_kept d1 (snd (h a d1))" for a by (rule assms)
  then have "log_kept d (snd (h a d1))" for a using log_kept_trans [OF log_kept_visit [OF a]] by blast
  then show ?thesis using a log_kept_visit [OF a] by (auto simp: authenticated_route_def split: sum.split)
qed

lemma account_routes_log:
  "log_kept d (snd (logout P rq d))" "log_kept d (snd (get_me P rq d))"
  "log_kept d (snd (totp_setup P cfg rq secret nonce d))"
  "log_kept d (snd (totp_activate P cfg rq fresh code d))"
  "log_kept d (snd (totp_disable P rq password d))"
proof -
  show "log_kept d (snd (logout P rq d))" unfolding logout_def
    by (rule authenticated_route_log) (simp add: revoke_session_def log_kept_def)
  show "log_kept d (snd (get_me P rq d))" unfolding get_me_def
    by (rule authenticated_route_log) (simp add: Let_def)
  show "log_kept d (snd (totp_setup P cfg rq secret nonce d))" unfolding totp_setup_def
    by (rule authenticated_route_log)
      (auto simp: log_kept_def setup_totp_def put_credentials_def Let_def split: sum.splits exn.splits option.splits if_splits)
  show "log_kept d (snd (totp_activate P cfg rq fresh code d))" unfolding totp_activate_def
    by (rule authenticated_route_log)
      (auto simp: log_kept_def activate_totp_def put_credentials_def Let_def split: sum.splits exn.splits option.splits if_splits prod.splits)
  show "log_kept d (snd (totp_disable P rq password d))" unfolding totp_disable_def
    by (rule authenticated_route_log)
      (auto simp: log_kept_def disable_totp_def put_credentials_def Let_def split: sum.splits exn.splits option.splits if_splits prod.splits)
qed

lemma login_routes_log:
  "login P cfg rq dr email password d s = (r, d', s') \<Longrightarrow> log_kept d d'"
  "login_totp P cfg rq dr challenge code d s = (r2, d', s') \<Longrightarrow> log_kept d d'"
  "oauth_callback P cfg idp rq dr iid p code2 state d = (r3, d') \<Longrightarrow> log_kept d d'"
proof -
  have s: "log_kept d (snd (create_session P cfg now sid t uid d1)) = log_kept d d1" for now sid t uid d1
    by (simp add: log_kept_def create_session_def)
  have c: "log_kept d (snd (create_login_challenge P cfg now i t uid d1)) = log_kept d d1" for now i t uid d1
    by (simp add: log_kept_def create_login_challenge_def)
  have a: "log_kept d d1" if "authenticate P salt e pw d = (x, d1)" for salt e pw x d1
    using that by (auto simp: authenticate_def put_credentials_def log_kept_def Let_def split: option.splits prod.splits if_splits)
  have ch: "log_kept d d1" if "consume_login_challenge P now t d = (x, d1)" for now t x d1
    using that by (auto simp: consume_login_challenge_def log_kept_def split: option.splits if_splits)
  have v: "log_kept d1 d2" if "verify_second_factor P cfg now uid k d1 = Inr (ok, d2)" for now uid k ok d1 d2
    using that by (auto simp: verify_second_factor_def put_credentials_def log_kept_def split: option.splits if_splits sum.splits)
  show "login P cfg rq dr email password d s = (r, d', s') \<Longrightarrow> log_kept d d'"
    using s c a by (auto simp: login_def Let_def case_prod_unfold split: if_splits sum.splits option.splits) (metis prod.collapse)+
  show "login_totp P cfg rq dr challenge code d s = (r2, d', s') \<Longrightarrow> log_kept d d'"
    using s ch log_kept_trans v
    by (auto simp: login_totp_def Let_def case_prod_unfold split: if_splits sum.splits option.splits) (metis prod.collapse)+
  have l: "log_kept d d1" if "complete_login cfg idp now iid p code2 nonce d = Inr (u, d1)" for now nonce u d1
    using that by (auto simp: complete_login_def link_identity_def log_kept_def split: sum.splits option.splits if_splits)
  show "oauth_callback P cfg idp rq dr iid p code2 state d = (r3, d') \<Longrightarrow> log_kept d d'"
    using s l by (auto simp: oauth_callback_def Let_def case_prod_unfold split: sum.splits exn.splits)
qed

lemma accept_invitation_log: "accept_invitation P now uid mid salt token pw name d = Inr (x, d') \<Longrightarrow> log_kept d d'"
  by (auto simp: accept_invitation_def set_password_def put_credentials_def log_kept_def Let_def
      split: option.splits sum.splits if_splits)

lemma record_for_tenant_log: "record_audit_event_for_tenant t eid now a cv d = (r, cv', d') \<Longrightarrow> log_kept d d'"
  using record_audit_event_grows
  by (fastforce simp: record_audit_event_for_tenant_def tenant_context_block_def push_tenant_def log_kept_def Let_def
      split: sum.splits prod.splits)

lemma invitations_accept_log:
  assumes "invitations_accept P cfg rq uid mid eid salt token pw name d s = (r, d', s')"
  shows "log_kept d d'"
proof -
  consider "d' = d"
    | x where "accept_invitation P (rq_now rq) uid mid salt token pw name d = Inr (x, d')"
    | x d1 t a r' cv' where "accept_invitation P (rq_now rq) uid mid salt token pw name d = Inr (x, d1)"
        "record_audit_event_for_tenant t eid (rq_now rq) a None d1 = (r', cv', d')"
    using assms by (auto simp: invitations_accept_def split: if_splits sum.splits prod.splits option.splits)
  then show ?thesis
  proof cases
    case 3
    then show ?thesis using log_kept_trans [OF accept_invitation_log [OF 3(1)] record_for_tenant_log [OF 3(2)]] by simp
  qed (use accept_invitation_log in auto)
qed

lemma service_tenants:
  "change_member_role t u r actor d = Inr (m, d') \<Longrightarrow> tenants d' = tenants d"
  "remove_member t u actor d = Inr d' \<Longrightarrow> tenants d' = tenants d"
  "create_invitation P cfg now iid token t email role actor2 by d = Inr (x, d') \<Longrightarrow> tenants d' = tenants d"
  "revoke_invitation t iid2 d = Inr (x2, d') \<Longrightarrow> tenants d' = tenants d"
  by (auto simp: change_member_role_def remove_member_def create_invitation_def revoke_invitation_def Let_def
      split: sum.splits option.splits if_splits)

lemma directory_routes_tenants:
  "tenants (snd (member_change_role eid now uid role a ctx d)) = tenants d"
  "tenants (snd (member_remove eid now uid a ctx d)) = tenants d"
  "tenants (snd (invitation_create P cfg mail eid now iid token email role a ctx d)) = tenants d"
  "tenants (snd (invitation_revoke eid now iid a ctx d)) = tenants d"
  by (auto simp: member_change_role_def member_remove_def invitation_create_def invitation_revoke_def
      record_audit_event_eq Let_def split: option.split sum.split dest: service_tenants)

lemma team_routes_tenants:
  "tenants (snd (team_create eid now tid name descr a ctx d)) = tenants d"
  "tenants (snd (team_delete eid now tid a ctx d)) = tenants d"
  "tenants (snd (team_member_add eid now tmid tid uid a ctx d)) = tenants d"
  "tenants (snd (team_member_remove eid now tid uid a ctx d)) = tenants d"
  by (auto simp: team_create_def team_delete_def team_member_add_def team_member_remove_def
      select_teams_view select_team_members_view flush_insert_eq flush_touch_eq record_audit_event_eq Let_def split: option.split)

lemma call_step_log: "log_kept d (snd (call_step P cfg mail a ctx c d))"
proof -
  have audit: "audited_change a ctx d (snd (call_step P cfg mail a ctx c d))"
    using directory_routes_audited team_routes_audited
    by (cases c) (simp_all add: audited_change_def members_list_def invitations_list_def teams_list_def team_members_list_def
        split: sum.split)
  have "tenants (snd (call_step P cfg mail a ctx c d)) = tenants d"
    by (cases c) (simp_all add: directory_routes_tenants team_routes_tenants members_list_def invitations_list_def teams_list_def
        team_members_list_def Let_def split: sum.split)
  with audit show ?thesis by (auto simp: audited_change_def log_kept_def)
qed

lemma forget_seen_log: "forget_seen d' = forget_seen d \<Longrightarrow> log_kept d d'"
proof -
  assume e: "forget_seen d' = forget_seen d"
  have "audit_events (forget_seen d') = audit_events (forget_seen d)" "tenants (forget_seen d') = tenants (forget_seen d)"
    by (simp_all add: e)
  then show ?thesis by (simp add: forget_seen_def log_kept_def)
qed

lemma log_kept_grown: "log_kept (cdb w) (cdb w') = grown (audit_events (cdb w)) (tenants (cdb w)) w'"
  by (simp add: log_kept_def grown_def)

lemma conn_reads_log:
  assumes "\<And>a ctx w. snd (h a ctx w) = w"
  shows "log_kept (cdb w) (cdb (snd (conn_route P st p rq h w)))"
  using conn_route_reads [of h P st p rq w, OF assms] forget_seen_log by fastforce

lemma connector_routes_log:
  "log_kept (cdb w) (cdb (snd (connectors_list P st rq w)))"
  "log_kept (cdb w) (cdb (snd (connector_start P cfg st rq p caps kind w)))"
  "log_kept (cdb w) (cdb (snd (connector_reconsent P cfg st rq cid w)))"
  "log_kept (cdb w) (cdb (snd (connector_revoke P cfg env st rq cid w)))"
  "log_kept (cdb w) (cdb (snd (connector_oauth_callback P cfg env p state code err w)))"
  "log_kept (cdb w) (cdb (snd (receive_webhook P p key nt w)))"
proof -
  show "log_kept (cdb w) (cdb (snd (connectors_list P st rq w)))"
    unfolding connectors_list_def by (rule conn_reads_log) (simp split: sum.split)
  show "log_kept (cdb w) (cdb (snd (connector_start P cfg st rq p caps kind w)))"
    unfolding connector_start_def by (rule conn_reads_log) (simp add: Let_def split: sum.split exn.split)
  show "log_kept (cdb w) (cdb (snd (connector_reconsent P cfg st rq cid w)))"
    unfolding connector_reconsent_def
  proof (rule conn_reads_log, goal_cases)
    case (1 a ctx v)
    have refused: "snd (case r of Inl (ConnectorOAuthError m) \<Rightarrow> (Inl (HTTPException 503 m), v)
        | Inl (ConnectorError m) \<Rightarrow> (Inl (HTTPException 503 m), v) | Inl e \<Rightarrow> (Inl e, v) | Inr url \<Rightarrow> (Inr url, v)) = v"
      for r :: "(string \<times> (string \<times> string) list) result"
      by (cases r) (auto split: exn.split)
    show ?case
      by (cases "get_connection (Some ctx) cid v") (simp_all add: refused Let_def split: option.split)
  qed
  show "log_kept (cdb w) (cdb (snd (connector_revoke P cfg env st rq cid w)))"
  proof -
    obtain r w' where c: "connector_revoke P cfg env st rq cid w = (r, w')" by fastforce
    show ?thesis using appending.revoke_keeps [OF grown_refl c] c by (simp add: log_kept_grown)
  qed
  show "log_kept (cdb w) (cdb (snd (connector_oauth_callback P cfg env p state code err w)))"
  proof -
    obtain r w' where c: "connector_oauth_callback P cfg env p state code err w = (r, w')" by fastforce
    show ?thesis using appending.callback_keeps [OF grown_refl c] c by (simp add: log_kept_grown)
  qed
  show "log_kept (cdb w) (cdb (snd (receive_webhook P p key nt w)))"
    by (auto simp: receive_webhook_def Let_def split: option.split sum.split)
qed

lemma ai_chat_log: "log_kept (core_db g) (core_db (snd (ai_chat P aenv cfg st rq payload g)))"
proof -
  obtain r d where pr: "permission_route P st ''core.ai.use'' rq (\<lambda>auth ctx d. (Inr (auth, ctx), d)) (core_db g) = (r, d)"
    by fastforce
  have d: "log_kept (core_db g) d"
    using permission_route_log [of "\<lambda>auth ctx d. (Inr (auth, ctx), d)" "core_db g" P st "''core.ai.use''" rq] pr by simp
  show ?thesis
  proof (cases r)
    case (Inl e)
    then show ?thesis using pr d by (simp add: ai_chat_def)
  next
    case (Inr x)
    obtain auth ctx where x: "x = (auth, ctx)" by fastforce
    obtain cr g' where c: "chat P aenv cfg (Some ctx) (chat_request_of payload auth) (g\<lparr>core_db := d\<rparr>) = (cr, g')" by fastforce
    have "core_db (snd (ai_chat P aenv cfg st rq payload g)) = core_db g'"
      using pr Inr x c by (auto simp: ai_chat_def split: sum.split)
    moreover have "log_kept d (core_db g')" using chat_grows [OF c] by (simp add: log_kept_def)
    ultimately show ?thesis using log_kept_trans [OF d] by simp
  qed
qed

lemma module_route_log:
  assumes "\<And>ctx mw. cdb (mw_conn (snd (h ctx mw))) = cdb (mw_conn mw) \<and> digests (snd (h ctx mw)) = digests mw"
  shows "log_kept (cdb (mw_conn mw)) (cdb (mw_conn (snd (module_route P st name p rq h mw))))
    \<and> digests (snd (module_route P st name p rq h mw)) = digests mw"
proof -
  obtain auth d where a: "current_auth_or_none P (clock (mw_conn mw)) (rq_cookie rq) (cdb (mw_conn mw)) = (auth, d)" by fastforce
  have m: "cdb (mw_conn (snd (require_module_enabled name ctx mw1))) = cdb (mw_conn mw1)
      \<and> digests (snd (require_module_enabled name ctx mw1)) = digests mw1" for ctx mw1
    by (auto simp: require_module_enabled_def is_module_enabled_def Let_def split: bool.splits option.splits if_splits)
  have "cdb (mw_conn (snd (module_route P st name p rq h mw))) = d \<and> digests (snd (module_route P st name p rq h mw)) = digests mw"
  proof (cases "resolve_tenant (rq_host rq) auth d")
    case (Inl e)
    then show ?thesis by (simp add: module_route_def a Let_def)
  next
    case (Inr ctx)
    obtain r mw2 where r: "require_module_enabled name ctx (mw\<lparr>mw_conn := (mw_conn mw)\<lparr>cdb := d\<rparr>\<rparr>) = (r, mw2)" by fastforce
    have "cdb (mw_conn mw2) = d \<and> digests mw2 = digests mw" using m [of ctx "mw\<lparr>mw_conn := (mw_conn mw)\<lparr>cdb := d\<rparr>\<rparr>"] r by simp
    then show ?thesis using a Inr r assms by (simp add: module_route_def Let_def split: sum.split)
  qed
  then show ?thesis using log_kept_visit [OF a] by simp
qed

lemma module_routes_log:
  "log_kept (cdb (mw_conn mw)) (cdb (mw_conn (snd (list_digests P st rq mw)))) \<and> digests (snd (list_digests P st rq mw)) = digests mw"
  "log_kept (cdb (mw_conn mw)) (cdb (mw_conn (snd (run_now P st rq mw)))) \<and> digests (snd (run_now P st rq mw)) = digests mw"
  unfolding list_digests_def run_now_def
  by (rule module_route_log; simp add: enqueue_unit_def split: sum.split)+

lemma worker_change_log:
  "log_kept (cdb (mw_conn dw)) (cdb (mw_conn dw')) \<Longrightarrow> digests dw' = digests dw \<Longrightarrow> worker_change dw dw'"
  by (simp add: worker_change_def log_kept_grown)

lemma part_change:
  "log_kept (cdb (mw_conn dw)) (snd (f (cdb (mw_conn dw)))) \<Longrightarrow> worker_change dw (snd (map_prod h id (in_db f dw)))"
  "log_kept (cdb (mw_conn dw)) (fst (snd (f1 (cdb (mw_conn dw)) (vk (mw_conn dw))))) \<Longrightarrow>
   worker_change dw (snd (map_prod h1 id (in_db_kv f1 dw)))"
  "log_kept (cdb (mw_conn dw)) (cdb (snd (f2 (mw_conn dw)))) \<Longrightarrow> worker_change dw (snd (map_prod h2 id (in_conn f2 dw)))"
  "log_kept (core_db (joined_gateway dw)) (core_db (snd (f3 (joined_gateway dw)))) \<Longrightarrow>
   worker_change dw (snd (map_prod h3 id (in_gateway f3 dw)))"
  "log_kept (cdb (mw_conn (module_world.truncate dw))) (cdb (mw_conn (snd (f4 (module_world.truncate dw)))))
     \<and> digests (snd (f4 (module_world.truncate dw))) = digests (module_world.truncate dw) \<Longrightarrow>
   worker_change dw (snd (map_prod h4 id (in_module f4 dw)))"
proof (goal_cases)
  case 4
  have "core_db (joined_gateway dw) = cdb (mw_conn dw)" by (simp add: joined_gateway_def)
  with 4 show ?case by (intro worker_change_log) (simp_all add: in_gateway_def case_prod_unfold with_gateway_def Let_def)
next
  case 5
  have "mw_conn (module_world.truncate dw) = mw_conn dw" "digests (module_world.truncate dw) = digests dw"
    by (simp_all add: module_world.defs)
  with 5 show ?case by (intro worker_change_log) (simp_all add: in_module_def case_prod_unfold Let_def)
qed (intro worker_change_log; simp add: in_db_def in_db_kv_def in_conn_def case_prod_unfold Let_def)+

lemma worker_change_refl [simp]: "worker_change dw dw"
  by (simp add: worker_change_def)

lemma run_call_change: "worker_change dw (snd (run_call A rq call dw))"
proof -
  have tenant: "log_kept d (snd (permission_route P st p rq
      (\<lambda>a ctx d. tenant_result (call_step P' cfg mail a ctx c d)) d))" for P P' cfg mail st p c d
    by (rule permission_route_log) (simp add: tenant_result_def call_step_log)
  note logs = account_routes_log tenant connector_routes_log ai_chat_log module_routes_log
    login_routes_log(3) [OF prod.collapse [symmetric]]
  have kv: "log_kept d (fst (snd (login P cfg rq dr email pw d s)))" "log_kept d (fst (snd (login_totp P cfg rq dr t code d s)))"
    "log_kept d (fst (snd (invitations_accept P cfg rq uid mid eid salt t pw2 name d s)))"
    for P cfg dr email pw t code uid mid eid salt pw2 name d s
    by (metis login_routes_log(1,2) invitations_accept_log prod.collapse)+
  show ?thesis
    by (cases call; (simp only: run_call.simps snd_conv worker_change_refl)?; (rule part_change; rule logs kv)?)
qed

lemma serve_change: "serve A ir call (ls, dw) = (resp, ls', dw') \<Longrightarrow> worker_change dw dw'"
proof (erule serve_cases)
  have h: "worker_change dw dw1" if "handle A (in_request ir) call dw = (r, dw1)" for r dw1
    using that run_call_change [of dw A "(in_request ir)\<lparr>rq_now := clock (mw_conn dw)\<rparr>" call]
    by (auto simp: handle_def split: prod.splits sum.splits)
  show "worker_change dw dw'" if "dw' = dw" using that by simp
  show "worker_change dw dw'" if "handle A (in_request ir) call dw = (Inl e, dw')" for e using h [OF that] .
  show "worker_change dw dw'" if "handle A (in_request ir) call dw = (Inr resp0, dw')" for resp0 using h [OF that] .
qed

lemma audit_for_tenant_log: "audit_for_tenant env t a w = (r, w') \<Longrightarrow> log_kept (cdb w) (cdb w')"
  using record_for_tenant_log by (fastforce simp: audit_for_tenant_def draw_def Let_def split: sum.splits prod.splits)

lemma module_step_log: "log_kept (cdb (mw_conn mw)) (cdb (mw_conn (module_step env modules op mw)))"
proof (cases op)
  case (EnableOp t name actor label)
  then show ?thesis
    by (auto simp: enable_module_def invalidate_def draw_def Let_def dest!: audit_for_tenant_log
        split: option.splits sum.splits prod.splits if_splits)
next
  case (DisableOp t name actor label)
  then show ?thesis
    by (auto simp: disable_module_def invalidate_def dest!: audit_for_tenant_log
        split: option.splits sum.splits prod.splits if_splits)
qed (auto simp: is_module_enabled_def reset_state_cache_def sleep_def Let_def split: option.splits)

section \<open>Properties\<close>

text \<open>
  C4 (invariant). The audit log is append-only over the whole system, and digests stay accounted for.
  Whatever requests the application serves, on any route and with any outcome, whatever messages the
  worker runs and beat entries fire, and however modules are enabled and disabled, in any
  interleaving: no event of the log is ever changed or removed, and every stored digest belongs to a
  tenant of the catalogue and has its event in that tenant's log.
\<close>

theorem audit_log_append_only:
  assumes "system_reached A L others reg modules start dw" "appends others"
    and "list_all (\<lambda>d. logged d (mw_conn start)) (digests start)"
  shows "list_all (\<lambda>d. logged d (mw_conn dw)) (digests dw)
    \<and> (\<exists>new. audit_events (cdb (mw_conn dw)) = audit_events (cdb (mw_conn start)) @ new)"
  using assms(1)
proof induction
  case system_start
  then show ?case using assms(3) by simp
next
  case (system_request dw ir call ls resp ls' dw')
  then show ?case using logged_change [OF serve_change [OF system_request(2)]] by fastforce
next
  case (system_worker dw dw')
  then show ?case using reached_logged [OF system_worker(2) assms(2)] by fastforce
next
  case (system_module dw op mw)
  let ?dw' = "dw\<lparr>mw_conn := mw_conn mw, module_rows := module_rows mw, cache := cache mw\<rparr>"
  have "worker_change dw ?dw'"
    using module_step_log [of "module_world.truncate dw" "wa_net A" modules op] system_module(2)
    by (intro worker_change_log) (auto simp: module_world.defs)
  then show ?case using logged_change system_module.IH by fastforce
qed

text \<open>A logout without a session, then the hourly purge.\<close>

theorem audit_log_append_only_witness:
  "\<exists>resp ls dw1 dw. serve sample_app sample_in Logout (quiet, logged_world) = (resp, ls, dw1)
     \<and> run_beat sample_primitives default_settings token_env id MODULES ''core.auth.purge_expired'' None dw1 = Some dw
     \<and> list_all (\<lambda>d. logged d (mw_conn dw)) (digests dw)"
proof -
  obtain resp ls dw1 where s: "serve sample_app sample_in Logout (quiet, logged_world) = (resp, ls, dw1)"
    by (metis prod_cases3)
  obtain dw where b: "run_beat sample_primitives default_settings token_env id MODULES ''core.auth.purge_expired'' None dw1 = Some dw"
    by (simp add: run_beat_def)
  have "reached sample_lib sample_primitives default_settings token_env digest_ai id [] MODULES dw1 dw"
    by (rule reached_beat [OF reached_start _ b, of "''auth-purge-expired''" 3600]) (simp add: sample_schedule)
  then have r: "system_reached sample_app sample_lib id [] MODULES logged_world dw"
    by (intro system_worker [OF system_request [OF system_start s]]) (simp add: sample_app_def)
  have k: "appends id" by (simp add: appends_def kept_def)
  have l: "list_all (\<lambda>d. logged d (mw_conn logged_world)) (digests logged_world)"
    by (simp add: logged_world_def logged_def acme_tenant_def)
  show ?thesis using audit_log_append_only [OF r k l] s b by blast
qed

end
