(* ===== verification/Spec2Isabelle.thy ===== *)
theory Spec2Isabelle
  imports Migration Process System
begin

text \<open>
  A verification library for the API of a multi-tenant SaaS platform (\<^verbatim>\<open>apps/api/app\<close>: FastAPI,
  SQLAlchemy over one PostgreSQL database, Valkey, Celery). All file names below are relative to
  that directory.

  \<^bold>\<open>The program.\<close> Tenants share one database; every tenant-scoped table carries a \<^verbatim>\<open>tenant_id\<close>, and two
  session guards add the current tenant to each statement and refuse what escapes it. A request
  names its tenant by the sub-domain, its user by a session cookie; a membership gives a role, a role
  its permissions. On this core stand the directory (members, invitations, teams), the audit log, the
  AI gateway (policy, provider call, metering, quota), the connectors (OAuth consent to mail and
  calendar accounts, token refresh, mail and calendar clients, notification subscriptions, webhooks)
  and business modules (activated per tenant, with guarded routes and periodic tasks). A worker runs
  the queued and the scheduled tasks. The schema is kept twice, in the mapped classes and in a
  migration.

  \<^bold>\<open>Theories and sources.\<close>
  \<^item> \<open>Prelude\<close>, \<open>Codec\<close>, \<open>PyText\<close>, \<open>Upsert\<close>, \<open>Valkey\<close>: what the components share. Identifiers
    (128-bit words), instants (microseconds), exceptions, table operations; UUID, ISO 8601 and base64
    text with their round trips; \<^verbatim>\<open>str\<close>/\<^verbatim>\<open>repr\<close>; \<^verbatim>\<open>ON CONFLICT DO UPDATE\<close>; the Valkey commands.
    Locales: \<open>absorbing\<close> (states an operation sequence never leaves) and \<open>simulation\<close> in \<open>Prelude\<close>,
    \<open>upsertable\<close> and \<open>replacing\<close> in \<open>Upsert\<close>; the components interpret them on their operations.
  \<^item> \<open>Schema\<close>: the rows and constraints (\<^verbatim>\<open>*/models.py\<close>, \<^verbatim>\<open>*/tenant_models.py\<close>, the baseline migration).
    A database is one record of row lists; insertion order stands for the scan order. The locale
    \<open>row_store\<close> states the laws of a keyed table and is interpreted on each table. \<open>Metadata\<close>: the
    tables the mapped classes declare. \<open>Migration\<close>: the operations of
    \<^verbatim>\<open>../migrations/versions/0001_baseline.py\<close> as data and their effect on a schema. Shown: the downgrade
    undoes the upgrade, the migrated schema is that of the classes, it carries what the tenant guards
    rely on, and checked texts fit their columns.
  \<^item> \<open>Tenancy\<close>: \<^verbatim>\<open>tenancy/models.py\<close>, \<^verbatim>\<open>context.py\<close>, \<^verbatim>\<open>tenant_base.py\<close>, \<^verbatim>\<open>deps.py\<close>: slugs, the context
    variable, both guards. Shown: no ORM statement and no flush reaches a row of another tenant.
  \<^item> \<open>Crypto\<close>: \<^verbatim>\<open>core/config.py\<close>, \<^verbatim>\<open>core/crypto.py\<close>, \<^verbatim>\<open>auth/tokens.py\<close>: sealing, signed payloads.
    \<open>AuthService\<close>: \<^verbatim>\<open>auth/service.py\<close>, \<^verbatim>\<open>auth/tasks.py\<close>: passwords, sessions, challenges, TOTP and
    recovery codes, with single-use and revocation theorems over all interleavings.
    \<open>RateLimit\<close>: \<^verbatim>\<open>auth/rate_limit.py\<close>, the bound per window. \<open>Access\<close>: \<^verbatim>\<open>auth/deps.py\<close>,
    \<^verbatim>\<open>auth/permissions.py\<close>, \<^verbatim>\<open>resolve_tenant\<close>: when exactly a guarded route opens. \<open>AuthRouter\<close>:
    \<^verbatim>\<open>auth/router.py\<close>, \<^verbatim>\<open>auth/oauth.py\<close>, \<^verbatim>\<open>core/csrf.py\<close>: the login routes and OAuth login.
  \<^item> \<open>AuditLog\<close>: \<^verbatim>\<open>audit/\<close>, emission and cursor pagination (stable under growth, complete).
    \<open>Directory\<close> and \<open>Teams\<close>: \<^verbatim>\<open>directory/\<close>; the last owner, single acceptance of an invitation.
    \<open>Catalogue\<close>: \<^verbatim>\<open>tenancy/provisioning.py\<close>, \<^verbatim>\<open>cli.py\<close>. \<open>Isolation\<close>: non-interference of tenants in
    any interleaving of these routes (locale \<open>tenant_isolation\<close>, interpreted on them), and that every change is
    audited in its own transaction.
  \<^item> \<open>AiPolicy\<close>, \<open>AiUsage\<close>, \<open>AiGateway\<close>: \<^verbatim>\<open>ai/\<close>. Shown: a call goes only to a provider the policy
    permits, under that provider's key, and is metered once; the Valkey month counters refine a table
    of totals; the rollup accounts for every event; one alert per day.
  \<^item> \<open>ConnectorRegistry\<close> (\<^verbatim>\<open>registry.py\<close>, \<^verbatim>\<open>capabilities.py\<close>, both manifests), \<open>Throttle\<close>
    (\<^verbatim>\<open>throttle.py\<close>), \<open>ConnectorTokens\<close> (\<^verbatim>\<open>service.py\<close>, \<^verbatim>\<open>client_base.py\<close>), \<open>ConnectorFlow\<close>
    (\<^verbatim>\<open>oauth.py\<close>, \<^verbatim>\<open>router.py\<close>), \<open>Subscriptions\<close> (\<^verbatim>\<open>subscriptions.py\<close>), \<open>ConnectorTasks\<close>
    (\<^verbatim>\<open>tasks.py\<close>), \<open>Webhooks\<close> (\<^verbatim>\<open>webhooks.py\<close>), \<open>Mailbox\<close> (the models of \<^verbatim>\<open>capabilities.py\<close>),
    \<open>GraphClient\<close> and \<open>GoogleClient\<close> (\<^verbatim>\<open>providers/*/mail.py\<close>, \<^verbatim>\<open>calendar.py\<close>), \<open>Clients\<close> (their common
    interface), all of \<^verbatim>\<open>connectors/\<close>. Shown of the clients: listings return where the pages make
    progress, drafted events are read back. \<open>ConnectorInvariants\<close> proves, in three locales that extend
    each other, that a predicate kept at the few places where rows are written is kept by every task,
    client call, consent and revocation; \<open>ConnectorLife\<close> interprets them: revocation is final, tokens
    are always sealed, a failed renewal is a dead end.
  \<^item> \<open>ModuleRegistry\<close> (\<^verbatim>\<open>automation/contract.py\<close>, \<^verbatim>\<open>registry.py\<close>, \<^verbatim>\<open>mounting.py\<close>, the manifest of
    \<^verbatim>\<open>modules/sample_digest\<close>) and \<open>Automation\<close> (\<^verbatim>\<open>automation/service.py\<close>, \<^verbatim>\<open>scheduler.py\<close>, the
    module's routes): validated modules guard their routes, a disabled one is cut off within ten
    seconds. \<open>Digest\<close> (\<^verbatim>\<open>modules/sample_digest/service.py\<close>): one run of the task over connectors,
    gateway, log and table; the mail capability it relies on is the locale \<open>mail_capability\<close>,
    interpreted on both clients. \<open>Worker\<close> (\<^verbatim>\<open>worker.py\<close> and the task wrappers): the states reached when
    messages are delivered in any order and beat entries fire; the log only grows and every digest
    stays logged, by one more interpretation of the connector locales and rule induction.
  \<^item> \<open>Http\<close> (\<^verbatim>\<open>core/logging.py\<close>, \<^verbatim>\<open>core/mailer.py\<close>, \<^verbatim>\<open>health/router.py\<close>, the session cookie of \<^verbatim>\<open>auth/router.py\<close>):
    log lines carry the identifier of their request, mail never leaves in clear, a mail server that
    refuses loses the link of an invitation. \<open>WebApp\<close> (\<^verbatim>\<open>main.py\<close>): the table of routes with their guards
    (\<open>ROUTES\<close>), the handler of every call (\<open>run_call\<close>), the middlewares around it (\<open>serve\<close>). Shown of the
    whole application: anonymous access is a closed list, a foreign origin can only read, a session
    cookie is one its user is entitled to. \<open>System\<close>: requests, worker and module activation interleaved;
    the audit log is append-only. \<open>Process\<close> (\<^verbatim>\<open>core/db.py\<close>, \<^verbatim>\<open>tenancy/session.py\<close>, the client getters): which
    event loop the engine and the Valkey clients of a worker process belong to.

  \<^bold>\<open>How code becomes definitions.\<close> A handler or service function is one definition over the state it
  touches: \<open>db\<close>, the database; \<open>net_world\<close> (Valkey, clock, HTTP log) and its extension
  \<open>conn_world\<close> with the connector tables and the task queue; \<open>ai_world\<close>; \<open>module_world\<close>;
  \<open>digest_world\<close>, which joins the last three on the database and the Valkey store. It returns a
  result (\<open>Inl\<close> the exception) and the new state. An exception that leaves a handler rolls the
  transaction back; what the code committed before stays. Random values are arguments or numbered
  draws from the environment. \<^verbatim>\<open>datetime.now\<close> is one instant per database operation; where the code
  sleeps or waits, the clock is part of the state. Waiting for a lock takes a function \<open>others\<close>, what
  the other workers do meanwhile, about which theorems assume only what they state.

  \<^bold>\<open>Parameters.\<close> Code outside the repository is an argument: the cryptographic primitives and the JSON
  text format (\<open>primitives\<close>, with the laws \<open>aead_law\<close>, \<open>json_law\<close>, \<open>argon2_law\<close>), the answers of HTTP
  servers (\<open>net_env\<close>), the OpenID provider (\<open>oidc\<close>), LiteLLM (\<open>ai_env\<close>), the mail server
  (\<open>smtp_server\<close>), MIME and
  address parsing (\<open>email_lib\<close>), \<^verbatim>\<open>alembic upgrade\<close>. A call of the Google SDK is a request to the same
  servers. Of PostgreSQL and SQLAlchemy the documented effect of what the code asks is modelled.
  Witnesses instantiate them with concrete functions.

  \<^bold>\<open>Abstractions.\<close> Messages are written in ASCII. \<^verbatim>\<open>IntegrityError\<close> is modelled where the code can
  reach it, refused lengths where a theorem depends on them (usage events). Parsing of identifiers and
  instants accepts the canonical spellings, \<^verbatim>\<open>fromisoformat\<close> of Graph instants the extended format,
  \<^verbatim>\<open>urlsplit\<close> absolute URLs. Field validation by pydantic (\<^verbatim>\<open>EmailStr\<close>) and the collation of the
  database are left out. Requests are atomic except at the points where the code itself waits.

  \<^bold>\<open>Bounds.\<close> Every recursion is structural or has a measure, except three: the retry loop makes at most
  \<open>MAX_ATTEMPTS\<close> = 5 attempts, the wait for a lock at most \<open>WAIT_ATTEMPTS\<close> = 20 polls, and the walk
  over a route's dependency tree is measured by the size of the stack. The three page loops of the
  clients are unbounded in the code: they are partial functions, \<open>None\<close> when they never return, and
  \<open>listings_return\<close> says when they do.

  \<^bold>\<open>Not modelled.\<close> What is left is the configuration of libraries and code that only calls them: path
  matching and body decoding (FastAPI), the URL of the database, the configuration of Celery and of
  the log renderer, the Alembic environment. Of the log lines the code writes, those of requests and
  mail are modelled. \<^verbatim>\<open>override_provider\<close> and the setters of clients and clocks serve the tests. The web
  front end is another program.
\<close>

end
